(* ===== verification/Prelude.thy ===== *)
theory Prelude
  imports Main "HOL-Library.Word" "HOL-Library.Product_Lexorder"
begin

text \<open>
  What every component of the development shares: the machine-integer types of the C sources,
  the error numbers, the little-endian byte layouts that the wire formats are built from, the
  interface of a three-way comparison function, and the generic list lemmas.

  Conventions of the translation.  A C struct is a \<^theory_text>\<open>record\<close> whose fields carry a
  short prefix naming the struct, an enum is a \<^theory_text>\<open>datatype\<close>, an unsigned integer is a
  word of its width, a signed one an \<open>int\<close> with the range conditions written out.  A pointer to
  a state structure is the record itself, returned updated; where NULL is a meaningful argument
  (no signature, no payload) it is \<open>None\<close>.  A function that returns 0, a count or a negative
  errno returns \<open>Inl\<close> of the errno or \<open>Inr\<close> of the value.
\<close>

unbundle bit_operations_syntax

section \<open>Types of the C sources\<close>

type_synonym u8 = "8 word"
type_synonym u16 = "16 word"
type_synonym u32 = "32 word"
type_synonym u64 = "64 word"
type_synonym bytes = "8 word list"

datatype errno =
    EINVAL | ENOSPC | EMSGSIZE | EBADMSG | ENOTSUP | ENOENT | EACCES | EIO | ENOMEM | EBUSY
  | EALREADY | ECANCELED | ENOMSG | EAGAIN | EPERM | EHOSTUNREACH | ESTALE | ENOBUFS | ETIMEDOUT
  | ENOTCONN | ENODEV

type_synonym 'a result = "errno + 'a"

named_theorems wire_simps \<open>unfolding of byte layouts\<close>
named_theorems codec_rt \<open>round trips of little-endian fields\<close>

definition INT64_MAX :: int where
  "INT64_MAX = 2 ^ 63 - 1"

definition i64_range :: "int \<Rightarrow> bool" where
  "i64_range x \<longleftrightarrow> - (2 ^ 63) \<le> x \<and> x \<le> INT64_MAX"

definition UINT32_MAX :: u32 where
  "UINT32_MAX = 0xFFFFFFFF"

definition MESHTASTIC_NODE_BROADCAST :: u32 where
  "MESHTASTIC_NODE_BROADCAST = 0xFFFFFFFF"

lemma UINT32_MAX_max: "UINT32_MAX = - 1"
  by (simp add: UINT32_MAX_def)

lemma less_succ_u32: "(x :: u32) \<noteq> UINT32_MAX \<Longrightarrow> x < x + 1"
  unfolding UINT32_MAX_def by unat_arith simp

section \<open>Three-way comparison functions\<close>

text \<open>
  The C code orders stamps and keys through functions that return a negative, zero or positive
  number.  The laws below are what the clients (the merge rule, the sorted table) rely on.
\<close>

locale three_way =
  fixes cmp :: "'a \<Rightarrow> 'a \<Rightarrow> int"
    and lt :: "'a \<Rightarrow> 'a \<Rightarrow> bool"
  assumes cmp_zero: "cmp a b = 0 \<longleftrightarrow> a = b"
    and cmp_neg: "cmp a b < 0 \<longleftrightarrow> lt a b"
    and cmp_pos: "cmp a b > 0 \<longleftrightarrow> lt b a"
    and lt_trans: "lt a b \<Longrightarrow> lt b c \<Longrightarrow> lt a c"
begin

lemma cmp_refl: "cmp a a = 0"
  by (simp add: cmp_zero)

lemma cmp_flip: "cmp a b > 0 \<longleftrightarrow> cmp b a < 0"
  by (simp add: cmp_pos cmp_neg)

lemma cmp_trans: "cmp a b > 0 \<Longrightarrow> cmp b c > 0 \<Longrightarrow> cmp a c > 0"
  using lt_trans by (auto simp: cmp_pos)

lemma cmp_total: "a \<noteq> b \<Longrightarrow> cmp a b > 0 \<or> cmp b a > 0"
  using cmp_zero[of a b] cmp_flip[of a b] cmp_flip[of b a] by linarith

lemma cmp_asym: "cmp a b > 0 \<Longrightarrow> \<not> cmp b a > 0"
  by (metis cmp_flip not_less_iff_gr_or_eq)

lemma lt_irrefl: "\<not> lt a a"
  using cmp_neg[of a a] by (simp add: cmp_refl)

end

section \<open>Little-endian fields\<close>

text \<open>The byte at index \<open>i\<close> is the word shifted right by \<open>8 * i\<close>, truncated; reading folds the
  bytes back from the most significant end.\<close>

definition le_bytes :: "'a::len word \<Rightarrow> nat \<Rightarrow> bytes" where
  "le_bytes v n = map (\<lambda>i. ucast (drop_bit (8 * i) v)) [0..<n]"

fun le_word :: "bytes \<Rightarrow> 'a::len word" where
  "le_word [] = 0"
| "le_word (b # bs) = ucast b OR push_bit 8 (le_word bs)"

lemma length_le_bytes [simp]: "length (le_bytes v n) = n"
  by (simp add: le_bytes_def)

lemma le_bytes_Suc: "le_bytes v (Suc n) = ucast v # le_bytes (drop_bit 8 v) n"
proof -
  have "[0..<Suc n] = 0 # map Suc [0..<n]" by (simp add: upt_conv_Cons map_Suc_upt)
  then show ?thesis by (simp add: le_bytes_def o_def drop_bit_drop_bit add.commute)
qed

lemma le_word_le_bytes: "le_word (le_bytes v n) = take_bit (8 * n) v"
proof (induction n arbitrary: v)
  case 0
  show ?case by (simp add: le_bytes_def)
next
  case (Suc n)
  have "ucast (ucast v :: u8) OR push_bit 8 (take_bit (8 * n) (drop_bit 8 v)) = take_bit (8 + 8 * n) v"
    by (rule bit_word_eqI) (auto simp: bit_simps)
  then show ?case by (simp add: le_bytes_Suc Suc)
qed

text \<open>A fixed-width field of a wire format: what encoders and decoders need of it.\<close>

locale byte_field =
  fixes enc :: "'a \<Rightarrow> bytes"
    and dec :: "bytes \<Rightarrow> 'a"
    and width :: nat
  assumes enc_length: "length (enc x) = width"
    and dec_enc: "dec (enc x) = x"
begin

lemma enc_inj: "enc x = enc y \<longleftrightarrow> x = y"
  by (metis dec_enc)

lemma enc_split: "enc x @ r = enc y @ s \<longleftrightarrow> x = y \<and> r = s"
  by (metis append_eq_append_conv dec_enc enc_length)

lemma dec_take: "dec (take width (enc x @ r)) = x"
  by (simp add: enc_length dec_enc)

lemma drop_enc: "drop width (enc x @ r) = r"
  by (simp add: enc_length)

lemma dec_at: "length p = k \<Longrightarrow> dec (take width (drop k (p @ enc x @ r))) = x"
  by (simp add: enc_length dec_enc)

end

interpretation f8: byte_field "\<lambda>w::u8. [w]" hd 1
  by unfold_locales auto

interpretation f16: byte_field "\<lambda>w::u16. le_bytes w 2" le_word 2
  by unfold_locales (simp_all add: le_word_le_bytes take_bit_word_eq_self)

interpretation f32: byte_field "\<lambda>w::u32. le_bytes w 4" le_word 4
  by unfold_locales (simp_all add: le_word_le_bytes take_bit_word_eq_self)

interpretation f64: byte_field "\<lambda>w::u64. le_bytes w 8" le_word 8
  by unfold_locales (simp_all add: le_word_le_bytes take_bit_word_eq_self)

lemmas field_split = f16.enc_split f32.enc_split f64.enc_split f16.enc_inj f32.enc_inj f64.enc_inj

lemma sint_of_int_i64:
  assumes "i64_range a"
  shows "sint (of_int a :: u64) = a"
  using assms
  by (simp add: sint_sbintrunc' signed_take_bit_int_eq_self i64_range_def INT64_MAX_def)

lemma of_int_i64_inj:
  "i64_range a \<Longrightarrow> i64_range b \<Longrightarrow> (of_int a :: u64) = of_int b \<longleftrightarrow> a = b"
  by (metis sint_of_int_i64)

lemma ucast_u16_u32 [simp]: "(ucast (ucast (s::u16) :: u32) :: u16) = s"
  by (rule bit_word_eqI) (auto simp: bit_simps)

lemma ucast_u16_u32_le [simp]: "(ucast (s::u16) :: u32) \<le> 0xFFFF"
  using unsigned_less[of s, where 'a = nat] by (simp add: word_le_nat_alt unsigned_ucast_eq take_bit_eq_mod)

end
