(* ===== verification/Hlc.thy ===== *)
theory Hlc
  imports Prelude
begin

text \<open>
  The hybrid logical clock of \<^verbatim>\<open>src/src/meshtastic_hlc.c\<close>, which versions every value of the
  cluster document.  The physical component is an \<open>int\<close> (the C type is \<open>int64_t\<close>, whose
  overflow is undefined; range conditions are stated with \<^const>\<open>i64_range\<close>), the counter and
  the node number are 32-bit words.  The wall clock (\<^verbatim>\<open>meshtastic_clock_now_epoch_ms\<close>) is the
  argument \<open>now_ms\<close>, 0 when the node has never been told the time.

  Shown: the comparison is a total order (an interpretation of \<open>three_way\<close>, and a
  \<open>linorder\<close> instance so that the library's facts apply to stamps), both events move the clock
  strictly forward, a stamp minted after an observation is newer than what was observed, a
  seeded clock cannot be dragged past the drift window, and the stamps a node mints are
  strictly increasing over any run.
\<close>

section \<open>The clock and its operations\<close>

definition MESHTASTIC_HLC_MAX_DRIFT_MS :: int where
  "MESHTASTIC_HLC_MAX_DRIFT_MS = 5 * 60 * 1000"

record meshtastic_hlc =
  hlc_physical_ms :: int
  hlc_counter :: u32

record meshtastic_hlc_stamp =
  st_physical_ms :: int
  st_counter :: u32
  st_node_id :: u32

definition bump_counter :: "int \<Rightarrow> u32 \<Rightarrow> int \<times> u32" where
  "bump_counter physical_ms from =
     (if from = UINT32_MAX then (physical_ms + 1, 0) else (physical_ms, from + 1))"

definition meshtastic_hlc_local_at ::
  "meshtastic_hlc \<Rightarrow> u32 \<Rightarrow> int \<Rightarrow> meshtastic_hlc \<times> meshtastic_hlc_stamp" where
  "meshtastic_hlc_local_at hlc node_id now_ms0 =
     (let now_ms = (if now_ms0 < 0 then 0 else now_ms0);
          prev = hlc_physical_ms hlc;
          phys = max prev now_ms;
          (phys', ctr') = (if phys = prev then bump_counter phys (hlc_counter hlc) else (phys, 0));
          hlc' = hlc\<lparr>hlc_physical_ms := phys', hlc_counter := ctr'\<rparr>
      in (hlc', \<lparr>st_physical_ms = phys', st_counter = ctr', st_node_id = node_id\<rparr>))"

text \<open>The choice between our own clock, the remote stamp and the wall clock inside an
  observation (the branch cascade at the end of \<^verbatim>\<open>meshtastic_hlc_observe_at\<close>); each clock is a
  pair of milliseconds and counter.\<close>

definition observe_step :: "int \<times> u32 \<Rightarrow> int \<times> u32 \<Rightarrow> int \<Rightarrow> int \<times> u32" where
  "observe_step own rem now_ms =
     (let l = max (fst own) (max (fst rem) now_ms)
      in if l = fst own \<and> l = fst rem then bump_counter l (max (snd own) (snd rem))
         else if l = fst own then bump_counter l (snd own)
         else if l = fst rem then bump_counter l (snd rem)
         else (l, 0))"

definition meshtastic_hlc_observe_at ::
  "meshtastic_hlc \<Rightarrow> meshtastic_hlc_stamp \<Rightarrow> int \<Rightarrow> meshtastic_hlc \<times> bool" where
  "meshtastic_hlc_observe_at hlc remote now_ms0 =
     (let now_ms = (if now_ms0 < 0 then 0 else now_ms0);
          clamped = (now_ms > 0 \<and> st_physical_ms remote > now_ms + MESHTASTIC_HLC_MAX_DRIFT_MS);
          remote_ms = (if clamped then now_ms else st_physical_ms remote);
          (l, ctr) = observe_step (hlc_physical_ms hlc, hlc_counter hlc)
                       (remote_ms, st_counter remote) now_ms
      in (hlc\<lparr>hlc_physical_ms := l, hlc_counter := ctr\<rparr>, clamped))"

definition meshtastic_hlc_compare :: "meshtastic_hlc_stamp \<Rightarrow> meshtastic_hlc_stamp \<Rightarrow> int" where
  "meshtastic_hlc_compare a b =
     (if st_physical_ms a \<noteq> st_physical_ms b
      then (if st_physical_ms a > st_physical_ms b then 1 else - 1)
      else if st_counter a \<noteq> st_counter b
      then (if st_counter a > st_counter b then 1 else - 1)
      else if st_node_id a \<noteq> st_node_id b
      then (if st_node_id a > st_node_id b then 1 else - 1)
      else 0)"

definition meshtastic_hlc_newer :: "meshtastic_hlc_stamp \<Rightarrow> meshtastic_hlc_stamp \<Rightarrow> bool" where
  "meshtastic_hlc_newer a b \<longleftrightarrow> meshtastic_hlc_compare a b > 0"

definition meshtastic_hlc_stamp_is_unset :: "meshtastic_hlc_stamp \<Rightarrow> bool" where
  "meshtastic_hlc_stamp_is_unset s \<longleftrightarrow>
     st_physical_ms s = 0 \<and> st_counter s = 0 \<and> st_node_id s = 0"

definition unset_stamp :: meshtastic_hlc_stamp where
  "unset_stamp = \<lparr>st_physical_ms = 0, st_counter = 0, st_node_id = 0\<rparr>"

definition meshtastic_hlc_local ::
  "meshtastic_hlc \<Rightarrow> u32 \<Rightarrow> (unit \<Rightarrow> int) \<Rightarrow> meshtastic_hlc \<times> meshtastic_hlc_stamp" where
  "meshtastic_hlc_local hlc node_id clock_now_epoch_ms =
     meshtastic_hlc_local_at hlc node_id (clock_now_epoch_ms ())"

definition meshtastic_hlc_observe ::
  "meshtastic_hlc \<Rightarrow> meshtastic_hlc_stamp \<Rightarrow> (unit \<Rightarrow> int) \<Rightarrow> meshtastic_hlc \<times> bool" where
  "meshtastic_hlc_observe hlc remote clock_now_epoch_ms =
     meshtastic_hlc_observe_at hlc remote (clock_now_epoch_ms ())"

section \<open>Stamps are linearly ordered\<close>

instantiation meshtastic_hlc_stamp_ext :: (linorder) linorder
begin

definition less_eq_meshtastic_hlc_stamp_ext ::
  "'a meshtastic_hlc_stamp_scheme \<Rightarrow> 'a meshtastic_hlc_stamp_scheme \<Rightarrow> bool" where
  "less_eq_meshtastic_hlc_stamp_ext a b \<longleftrightarrow>
     (st_physical_ms a, st_counter a, st_node_id a, meshtastic_hlc_stamp.more a)
       \<le> (st_physical_ms b, st_counter b, st_node_id b, meshtastic_hlc_stamp.more b)"

definition less_meshtastic_hlc_stamp_ext ::
  "'a meshtastic_hlc_stamp_scheme \<Rightarrow> 'a meshtastic_hlc_stamp_scheme \<Rightarrow> bool" where
  "less_meshtastic_hlc_stamp_ext a b \<longleftrightarrow>
     (st_physical_ms a, st_counter a, st_node_id a, meshtastic_hlc_stamp.more a)
       < (st_physical_ms b, st_counter b, st_node_id b, meshtastic_hlc_stamp.more b)"

instance
  by standard
    (auto simp: less_eq_meshtastic_hlc_stamp_ext_def less_meshtastic_hlc_stamp_ext_def
       intro: meshtastic_hlc_stamp.equality)

end

lemma stamp_less_iff:
  fixes a b :: meshtastic_hlc_stamp
  shows "a < b \<longleftrightarrow> (st_physical_ms a, st_counter a, st_node_id a)
                   < (st_physical_ms b, st_counter b, st_node_id b)"
  by (auto simp: less_meshtastic_hlc_stamp_ext_def)

interpretation hlc_order: three_way meshtastic_hlc_compare "(<)"
proof unfold_locales
  fix a b c :: meshtastic_hlc_stamp
  show "meshtastic_hlc_compare a b = 0 \<longleftrightarrow> a = b"
    by (auto simp: meshtastic_hlc_compare_def intro: meshtastic_hlc_stamp.equality)
  show "meshtastic_hlc_compare a b < 0 \<longleftrightarrow> a < b"
    by (auto simp: meshtastic_hlc_compare_def stamp_less_iff)
  show "meshtastic_hlc_compare a b > 0 \<longleftrightarrow> b < a"
    by (auto simp: meshtastic_hlc_compare_def stamp_less_iff)
  show "a < b \<Longrightarrow> b < c \<Longrightarrow> a < c" by (rule less_trans)
qed

lemma newer_iff_less [simp]: "meshtastic_hlc_newer a b \<longleftrightarrow> b < a"
  by (simp add: meshtastic_hlc_newer_def hlc_order.cmp_pos)

lemma is_unset_iff: "meshtastic_hlc_stamp_is_unset s \<longleftrightarrow> s = unset_stamp"
  by (auto simp: meshtastic_hlc_stamp_is_unset_def unset_stamp_def
      intro: meshtastic_hlc_stamp.equality)

section \<open>The clock only moves forward\<close>

definition hlc_pair :: "meshtastic_hlc \<Rightarrow> int \<times> u32" where
  "hlc_pair h = (hlc_physical_ms h, hlc_counter h)"

definition st_pair :: "meshtastic_hlc_stamp \<Rightarrow> int \<times> u32" where
  "st_pair s = (st_physical_ms s, st_counter s)"

lemmas pair_defs = hlc_pair_def st_pair_def

lemma bump_counter_less: "c \<le> from \<Longrightarrow> (p, c) < bump_counter p from"
  by (auto simp: bump_counter_def intro: le_less_trans less_succ_u32)

lemma bump_counter_physical:
  "p \<le> fst (bump_counter p from) \<and> fst (bump_counter p from) \<le> p + 1"
  by (simp add: bump_counter_def)

lemma bump_counter_gap:
  "from \<noteq> UINT32_MAX \<Longrightarrow> fst (bump_counter p from) = p"
  by (simp add: bump_counter_def)

lemma local_at_advances: "hlc_pair h < hlc_pair (fst (meshtastic_hlc_local_at h n now))"
  using bump_counter_less[of "hlc_counter h" "hlc_counter h" "hlc_physical_ms h"]
  by (auto simp: pair_defs meshtastic_hlc_local_at_def Let_def max_def split: prod.splits if_splits)

lemma local_at_stamp:
  "st_pair (snd (meshtastic_hlc_local_at h n now)) = hlc_pair (fst (meshtastic_hlc_local_at h n now))"
  "st_node_id (snd (meshtastic_hlc_local_at h n now)) = n"
  by (auto simp: pair_defs meshtastic_hlc_local_at_def Let_def split: prod.splits)

lemma observe_step_above: "max (fst own) (max (fst rem) now) \<le> fst (observe_step own rem now)"
  using bump_counter_physical by (auto simp: observe_step_def Let_def max_def)

lemma observe_step_below:
  "fst (observe_step own rem now) \<le> max (fst own) (max (fst rem) now) + 1"
  using bump_counter_physical by (simp add: observe_step_def Let_def)

lemma observe_step_own: "own < observe_step own rem now"
proof (cases "fst own = max (fst own) (max (fst rem) now)")
  case True
  then show ?thesis
    by (cases own) (auto simp: observe_step_def Let_def intro: bump_counter_less)
next
  case False
  then have "fst own < fst (observe_step own rem now)"
    using observe_step_above[of own rem now] by linarith
  then show ?thesis by (simp add: less_prod_def)
qed

lemma observe_step_rem: "rem < observe_step own rem now"
proof (cases "fst rem = max (fst own) (max (fst rem) now)")
  case True
  then show ?thesis
    by (cases rem) (auto simp: observe_step_def Let_def intro: bump_counter_less)
next
  case False
  then have "fst rem < fst (observe_step own rem now)"
    using observe_step_above[of own rem now] by linarith
  then show ?thesis by (simp add: less_prod_def)
qed

lemma observe_at_step:
  "hlc_pair (fst (meshtastic_hlc_observe_at h r now))
     = observe_step (hlc_pair h)
         (if snd (meshtastic_hlc_observe_at h r now) then max 0 now else st_physical_ms r, st_counter r)
         (max 0 now)"
  by (simp add: pair_defs meshtastic_hlc_observe_at_def Let_def split_def max_def)

lemma observe_at_advances: "hlc_pair h < hlc_pair (fst (meshtastic_hlc_observe_at h r now))"
  unfolding observe_at_step by (rule observe_step_own)

lemma observe_at_beyond_remote:
  assumes "\<not> snd (meshtastic_hlc_observe_at h r now)"
  shows "st_pair r < hlc_pair (fst (meshtastic_hlc_observe_at h r now))"
  unfolding observe_at_step st_pair_def using assms by (simp only: if_False observe_step_rem)

lemma observe_at_bound:
  assumes "0 < now"
  shows "hlc_physical_ms (fst (meshtastic_hlc_observe_at h r now))
           \<le> max (hlc_physical_ms h) (now + MESHTASTIC_HLC_MAX_DRIFT_MS) + 1"
proof -
  let ?rms = "if snd (meshtastic_hlc_observe_at h r now) then max 0 now else st_physical_ms r"
  have "?rms \<le> now + MESHTASTIC_HLC_MAX_DRIFT_MS"
    using assms by (auto simp: meshtastic_hlc_observe_at_def Let_def split_def
        MESHTASTIC_HLC_MAX_DRIFT_MS_def)
  moreover have "fst (hlc_pair (fst (meshtastic_hlc_observe_at h r now)))
      \<le> max (hlc_physical_ms h) (max ?rms (max 0 now)) + 1"
    unfolding observe_at_step using observe_step_below[of "hlc_pair h" "(?rms, st_counter r)"]
    by (simp add: hlc_pair_def)
  ultimately show ?thesis
    using assms by (simp add: hlc_pair_def MESHTASTIC_HLC_MAX_DRIFT_MS_def)
qed

lemma local_at_bound:
  "hlc_physical_ms (fst (meshtastic_hlc_local_at h n now))
     \<le> max (hlc_physical_ms h) (max 0 now) + 1"
  by (auto simp: meshtastic_hlc_local_at_def Let_def max_def bump_counter_def
      split: prod.splits if_splits)

section \<open>Runs of one node\<close>

datatype hlc_event = Local_Write int | Observe_Remote meshtastic_hlc_stamp int

fun hlc_run :: "u32 \<Rightarrow> meshtastic_hlc \<Rightarrow> hlc_event list
                  \<Rightarrow> meshtastic_hlc \<times> meshtastic_hlc_stamp list" where
  "hlc_run n h [] = (h, [])"
| "hlc_run n h (Local_Write now # es) =
     (let (h', s) = meshtastic_hlc_local_at h n now; (h'', ss) = hlc_run n h' es
      in (h'', s # ss))"
| "hlc_run n h (Observe_Remote r now # es) =
     (let (h', clamped) = meshtastic_hlc_observe_at h r now in hlc_run n h' es)"

lemma st_pair_less_imp_less: "st_pair a < st_pair b \<Longrightarrow> a < b"
  by (auto simp: stamp_less_iff pair_defs)

lemma hlc_run_stamps_beyond:
  "s \<in> set (snd (hlc_run n h es)) \<Longrightarrow> hlc_pair h < st_pair s"
proof (induction n h es rule: hlc_run.induct)
  case (2 n h now es)
  then show ?case
    using local_at_advances[of h n now] local_at_stamp(1)[of h n now]
    by (auto simp: Let_def split: prod.splits dest: less_trans)
next
  case (3 n h r now es)
  then show ?case
    using observe_at_advances[of h r now]
    by (auto simp: Let_def split: prod.splits dest: less_trans)
qed simp

lemma hlc_run_sorted: "sorted_wrt (<) (snd (hlc_run n h es))"
proof (induction n h es rule: hlc_run.induct)
  case (2 n h now es)
  let ?h = "fst (meshtastic_hlc_local_at h n now)" and ?s = "snd (meshtastic_hlc_local_at h n now)"
  have "?s < t" if "t \<in> set (snd (hlc_run n ?h es))" for t
    using hlc_run_stamps_beyond[OF that] local_at_stamp(1)[of h n now]
    by (intro st_pair_less_imp_less) simp
  with 2 show ?case by (auto simp: Let_def split: prod.splits)
qed (auto simp: Let_def split: prod.splits)

section \<open>Properties\<close>



definition hlc_sample_remote :: meshtastic_hlc_stamp where
  "hlc_sample_remote = \<lparr>st_physical_ms = 5000, st_counter = 7, st_node_id = 2\<rparr>"

definition hlc_sample_clock :: meshtastic_hlc where
  "hlc_sample_clock = \<lparr>hlc_physical_ms = 4000, hlc_counter = 3\<rparr>"


text \<open>C26. The drift guard: with a seeded wall clock, no remote stamp moves the physical
  component beyond the drift window; at most one extra millisecond is spent, by a counter
  that saturates.\<close>

theorem hlc_drift_bounded:
  assumes "0 < now"
  shows "hlc_physical_ms (fst (meshtastic_hlc_observe_at h r now))
           \<le> max (hlc_physical_ms h) (now + MESHTASTIC_HLC_MAX_DRIFT_MS) + 1"
  using assms by (rule observe_at_bound)

theorem hlc_drift_bounded_witness:
  "(0 :: int) < 1000 \<and>
   hlc_physical_ms (fst (meshtastic_hlc_observe_at hlc_sample_clock
     \<lparr>st_physical_ms = 10 ^ 15, st_counter = 0, st_node_id = 9\<rparr> 1000)) \<le> 301001"
  using hlc_drift_bounded[of 1000 hlc_sample_clock
      "\<lparr>st_physical_ms = 10 ^ 15, st_counter = 0, st_node_id = 9\<rparr>"]
  by (simp add: hlc_sample_clock_def MESHTASTIC_HLC_MAX_DRIFT_MS_def)

text \<open>A write minted by a node whose clock state is not negative is never the all-zero
  \<^emph>\<open>unset\<close> stamp, even on a node that has never been told the time: the first unseeded write
  is stamped with counter 1.\<close>

theorem hlc_minted_never_unset:
  assumes "(0, 0) \<le> hlc_pair h"
  shows "\<not> meshtastic_hlc_stamp_is_unset (snd (meshtastic_hlc_local_at h n now))"
proof -
  have "(0, 0) < st_pair (snd (meshtastic_hlc_local_at h n now))"
    using le_less_trans[OF assms local_at_advances] by (simp add: local_at_stamp)
  then show ?thesis by (auto simp: meshtastic_hlc_stamp_is_unset_def st_pair_def)
qed

theorem hlc_minted_never_unset_witness:
  "(0, 0) \<le> hlc_pair \<lparr>hlc_physical_ms = 0, hlc_counter = 0\<rparr> \<and>
   \<not> meshtastic_hlc_stamp_is_unset
       (snd (meshtastic_hlc_local_at \<lparr>hlc_physical_ms = 0, hlc_counter = 0\<rparr> 0 0))"
  using hlc_minted_never_unset[of "\<lparr>hlc_physical_ms = 0, hlc_counter = 0\<rparr>" 0 0]
  by (simp add: hlc_pair_def)

text \<open>
  The range of the physical component is not protected on an unseeded node: the drift guard is
  off while the wall clock reads 0, so one stamp at the top of the \<open>int64_t\<close> range with a
  saturated counter makes \<^const>\<open>bump_counter\<close> step past it.
\<close>

lemma hlc_unseeded_overflow:
  "let r = \<lparr>st_physical_ms = INT64_MAX, st_counter = UINT32_MAX, st_node_id = 9\<rparr>;
       h = \<lparr>hlc_physical_ms = 0, hlc_counter = 0\<rparr>;
       h' = fst (meshtastic_hlc_observe_at h r 0)
   in i64_range (st_physical_ms r) \<and> \<not> i64_range (hlc_physical_ms h')"
  by code_simp

lemma hlc_seeded_in_range:
  assumes "i64_range (hlc_physical_ms h)" "hlc_physical_ms h < INT64_MAX"
    and "0 < now" "now + MESHTASTIC_HLC_MAX_DRIFT_MS < INT64_MAX"
  shows "i64_range (hlc_physical_ms (fst (meshtastic_hlc_observe_at h r now)))"
  using observe_at_bound[OF assms(3), of h r] observe_at_advances[of h r now] assms
  by (auto simp: i64_range_def hlc_pair_def)

end
