(* ===== verification/Cluster_Doc.thy ===== *)
theory Cluster_Doc
  imports Hlc
begin

text \<open>
  The cluster document of \<^verbatim>\<open>src/src/meshtastic_cluster_doc.c\<close>: a table of independently
  stamped entries, kept sorted by key, with last-writer-wins by hybrid clock as its only merge
  rule.  The entry array and its \<open>count\<close> are the list \<open>doc_entries\<close> (the live prefix of the C
  array), \<open>doc_cap\<close> is the capacity.  A payload is the list of its \<open>payload_len\<close> bytes; the
  stale bytes behind it in the C buffer are not part of the model.

  Shown here: the key comparison is a total order, the table is strictly sorted and well formed
  after every operation, a lookup reads the abstract map, and the merge implements the abstract
  last-writer-wins update.
\<close>

section \<open>Data\<close>

definition MESHTASTIC_CLUSTER_PAYLOAD_MAX :: nat where
  "MESHTASTIC_CLUSTER_PAYLOAD_MAX = 128"

definition MESHTASTIC_CLUSTER_SIG_LEN :: nat where
  "MESHTASTIC_CLUSTER_SIG_LEN = 64"

abbreviation LAYER_BASE :: u8 where "LAYER_BASE \<equiv> 0"
abbreviation LAYER_NODE :: u8 where "LAYER_NODE \<equiv> 1"

record meshtastic_cluster_key =
  key_layer :: u8
  key_node_id :: u32
  key_section :: u16

record meshtastic_cluster_entry =
  ent_used :: bool
  ent_key :: meshtastic_cluster_key
  ent_stamp :: meshtastic_hlc_stamp
  ent_tombstone :: bool
  ent_payload_len :: u16
  ent_payload :: bytes
  ent_has_sig :: bool
  ent_sig :: bytes

record meshtastic_cluster_doc =
  doc_entries :: "meshtastic_cluster_entry list"
  doc_cap :: nat

abbreviation doc_count :: "meshtastic_cluster_doc \<Rightarrow> nat" where
  "doc_count d \<equiv> length (doc_entries d)"

definition meshtastic_cluster_doc_init :: "nat \<Rightarrow> meshtastic_cluster_doc" where
  "meshtastic_cluster_doc_init cap = \<lparr>doc_entries = [], doc_cap = cap\<rparr>"

definition meshtastic_cluster_section_is_private :: "u16 \<Rightarrow> bool" where
  "meshtastic_cluster_section_is_private sec \<longleftrightarrow> sec \<ge> 0x100"

section \<open>Key order\<close>

definition meshtastic_cluster_key_cmp ::
  "meshtastic_cluster_key \<Rightarrow> meshtastic_cluster_key \<Rightarrow> int" where
  "meshtastic_cluster_key_cmp a b =
     (if key_layer a \<noteq> key_layer b then uint (key_layer a) - uint (key_layer b)
      else if key_node_id a \<noteq> key_node_id b
      then (if key_node_id a < key_node_id b then - 1 else 1)
      else uint (key_section a) - uint (key_section b))"

instantiation meshtastic_cluster_key_ext :: (linorder) linorder
begin

definition less_eq_meshtastic_cluster_key_ext ::
  "'a meshtastic_cluster_key_scheme \<Rightarrow> 'a meshtastic_cluster_key_scheme \<Rightarrow> bool" where
  "less_eq_meshtastic_cluster_key_ext a b \<longleftrightarrow>
     (key_layer a, key_node_id a, key_section a, meshtastic_cluster_key.more a)
       \<le> (key_layer b, key_node_id b, key_section b, meshtastic_cluster_key.more b)"

definition less_meshtastic_cluster_key_ext ::
  "'a meshtastic_cluster_key_scheme \<Rightarrow> 'a meshtastic_cluster_key_scheme \<Rightarrow> bool" where
  "less_meshtastic_cluster_key_ext a b \<longleftrightarrow>
     (key_layer a, key_node_id a, key_section a, meshtastic_cluster_key.more a)
       < (key_layer b, key_node_id b, key_section b, meshtastic_cluster_key.more b)"

instance
  by standard
    (auto simp: less_eq_meshtastic_cluster_key_ext_def less_meshtastic_cluster_key_ext_def
       intro: meshtastic_cluster_key.equality)

end

lemma key_less_iff:
  fixes a b :: meshtastic_cluster_key
  shows "a < b \<longleftrightarrow> (key_layer a, key_node_id a, key_section a)
                   < (key_layer b, key_node_id b, key_section b)"
  by (auto simp: less_meshtastic_cluster_key_ext_def)

interpretation key_order: three_way meshtastic_cluster_key_cmp "(<)"
proof unfold_locales
  fix a b c :: meshtastic_cluster_key
  show "meshtastic_cluster_key_cmp a b = 0 \<longleftrightarrow> a = b"
    by (auto simp: meshtastic_cluster_key_cmp_def simp flip: word_uint_eq_iff
        intro: meshtastic_cluster_key.equality)
  show "meshtastic_cluster_key_cmp a b < 0 \<longleftrightarrow> a < b"
    by (cases "key_layer a" "key_layer b" rule: linorder_cases;
        cases "key_node_id a" "key_node_id b" rule: linorder_cases)
      (auto simp: meshtastic_cluster_key_cmp_def key_less_iff simp flip: word_less_def)
  show "meshtastic_cluster_key_cmp a b > 0 \<longleftrightarrow> b < a"
    by (cases "key_layer a" "key_layer b" rule: linorder_cases;
        cases "key_node_id a" "key_node_id b" rule: linorder_cases)
      (auto simp: meshtastic_cluster_key_cmp_def key_less_iff simp flip: word_less_def)
  show "a < b \<Longrightarrow> b < c \<Longrightarrow> a < c" by (rule less_trans)
qed

section \<open>Scopes\<close>

abbreviation SCOPE_BASE :: u8 where "SCOPE_BASE \<equiv> 0"
abbreviation SCOPE_CORE :: u8 where "SCOPE_CORE \<equiv> 1"
abbreviation SCOPE_FULL :: u8 where "SCOPE_FULL \<equiv> 2"

record meshtastic_cluster_scope =
  scope_kind :: u8
  scope_owner :: u32

definition meshtastic_cluster_scope_make :: "u8 \<Rightarrow> u32 \<Rightarrow> meshtastic_cluster_scope" where
  "meshtastic_cluster_scope_make kind owner =
     \<lparr>scope_kind = kind, scope_owner = (if kind = SCOPE_CORE then owner else 0)\<rparr>"

definition meshtastic_cluster_scope_contains ::
  "meshtastic_cluster_scope \<Rightarrow> meshtastic_cluster_key \<Rightarrow> bool" where
  "meshtastic_cluster_scope_contains scope key =
     (if scope_kind scope = SCOPE_FULL then True
      else if key_layer key = LAYER_BASE then True
      else scope_kind scope = SCOPE_CORE \<and> key_node_id key = scope_owner scope)"

definition meshtastic_cluster_scope_intersect ::
  "meshtastic_cluster_scope \<Rightarrow> meshtastic_cluster_scope \<Rightarrow> meshtastic_cluster_scope" where
  "meshtastic_cluster_scope_intersect a b =
     (if scope_kind a = SCOPE_FULL then b
      else if scope_kind b = SCOPE_FULL then a
      else if scope_kind a = SCOPE_CORE \<and> scope_kind b = SCOPE_CORE
              \<and> scope_owner a = scope_owner b then a
      else meshtastic_cluster_scope_make SCOPE_BASE 0)"

section \<open>The table\<close>

fun doc_pos_from :: "meshtastic_cluster_entry list \<Rightarrow> meshtastic_cluster_key \<Rightarrow> nat \<Rightarrow> nat \<times> bool"
where
  "doc_pos_from [] key i = (i, False)"
| "doc_pos_from (e # es) key i =
     (let c = meshtastic_cluster_key_cmp key (ent_key e)
      in if c = 0 then (i, True) else if c < 0 then (i, False)
         else doc_pos_from es key (Suc i))"

definition doc_pos :: "meshtastic_cluster_doc \<Rightarrow> meshtastic_cluster_key \<Rightarrow> nat \<times> bool" where
  "doc_pos doc key = doc_pos_from (doc_entries doc) key 0"

definition meshtastic_cluster_doc_find ::
  "meshtastic_cluster_doc \<Rightarrow> meshtastic_cluster_key \<Rightarrow> meshtastic_cluster_entry option" where
  "meshtastic_cluster_doc_find doc key =
     (let (i, found) = doc_pos doc key in if found then Some (doc_entries doc ! i) else None)"

definition key_is_valid :: "meshtastic_cluster_key \<Rightarrow> bool" where
  "key_is_valid key =
     (if key_layer key = LAYER_BASE then key_node_id key = 0
      else if key_layer key = LAYER_NODE then key_node_id key \<noteq> 0
      else False)"

definition stored_entry ::
  "meshtastic_cluster_key \<Rightarrow> meshtastic_hlc_stamp \<Rightarrow> bool \<Rightarrow> bytes \<Rightarrow> bytes option
     \<Rightarrow> meshtastic_cluster_entry" where
  "stored_entry key stamp tombstone payload sig =
     \<lparr>ent_used = True, ent_key = key, ent_stamp = stamp, ent_tombstone = tombstone,
      ent_payload_len = of_nat (length payload), ent_payload = payload,
      ent_has_sig = (sig \<noteq> None),
      ent_sig = (case sig of Some s \<Rightarrow> take MESHTASTIC_CLUSTER_SIG_LEN s
                           | None \<Rightarrow> replicate MESHTASTIC_CLUSTER_SIG_LEN 0)\<rparr>"

definition meshtastic_cluster_doc_accept_signed ::
  "meshtastic_cluster_doc \<Rightarrow> meshtastic_cluster_key \<Rightarrow> meshtastic_hlc_stamp \<Rightarrow> bool \<Rightarrow> bytes
     \<Rightarrow> bytes option \<Rightarrow> meshtastic_cluster_doc \<times> nat result" where
  "meshtastic_cluster_doc_accept_signed doc key stamp tombstone payload sig =
     (if length payload > MESHTASTIC_CLUSTER_PAYLOAD_MAX then (doc, Inl EINVAL)
      else if tombstone \<and> length payload \<noteq> 0 then (doc, Inl EINVAL)
      else if \<not> tombstone \<and> length payload = 0 then (doc, Inl EINVAL)
      else if \<not> key_is_valid key then (doc, Inl EINVAL)
      else if key_layer key = LAYER_BASE \<and> tombstone then (doc, Inl EINVAL)
      else if meshtastic_hlc_stamp_is_unset stamp then (doc, Inl EINVAL)
      else
        (let (i, found) = doc_pos doc key;
             es = doc_entries doc;
             e = stored_entry key stamp tombstone payload sig
         in if found
            then if \<not> meshtastic_hlc_newer stamp (ent_stamp (es ! i)) then (doc, Inr 0)
                 else (doc\<lparr>doc_entries := es[i := e]\<rparr>, Inr 1)
            else if doc_count doc \<ge> doc_cap doc then (doc, Inl ENOSPC)
                 else (doc\<lparr>doc_entries := take i es @ e # drop i es\<rparr>, Inr 1)))"

definition meshtastic_cluster_doc_accept ::
  "meshtastic_cluster_doc \<Rightarrow> meshtastic_cluster_key \<Rightarrow> meshtastic_hlc_stamp \<Rightarrow> bool \<Rightarrow> bytes
     \<Rightarrow> meshtastic_cluster_doc \<times> nat result" where
  "meshtastic_cluster_doc_accept doc key stamp tombstone payload =
     meshtastic_cluster_doc_accept_signed doc key stamp tombstone payload None"

section \<open>Queries over the table\<close>

datatype meshtastic_cluster_want = WANT_NO | WANT_YES | WANT_NO_SPACE

definition meshtastic_cluster_doc_want ::
  "meshtastic_cluster_doc \<Rightarrow> meshtastic_cluster_scope \<Rightarrow> meshtastic_cluster_key
     \<Rightarrow> meshtastic_hlc_stamp \<Rightarrow> meshtastic_cluster_want" where
  "meshtastic_cluster_doc_want doc mine_scope key stamp =
     (if \<not> key_is_valid key \<or> meshtastic_hlc_stamp_is_unset stamp then WANT_NO
      else if \<not> meshtastic_cluster_scope_contains mine_scope key then WANT_NO
      else case meshtastic_cluster_doc_find doc key of
             Some mine \<Rightarrow>
               if meshtastic_hlc_newer stamp (ent_stamp mine) then WANT_YES else WANT_NO
           | None \<Rightarrow> if doc_count doc < doc_cap doc then WANT_YES else WANT_NO_SPACE)"

definition meshtastic_cluster_doc_wants ::
  "meshtastic_cluster_doc \<Rightarrow> meshtastic_cluster_key \<Rightarrow> meshtastic_hlc_stamp \<Rightarrow> bool" where
  "meshtastic_cluster_doc_wants doc key stamp \<longleftrightarrow>
     meshtastic_cluster_doc_want doc (meshtastic_cluster_scope_make SCOPE_FULL 0) key stamp
       = WANT_YES"

fun count_scoped_loop :: "meshtastic_cluster_scope \<Rightarrow> meshtastic_cluster_entry list \<Rightarrow> nat \<Rightarrow> nat"
where
  "count_scoped_loop scope [] n = n"
| "count_scoped_loop scope (e # es) n =
     count_scoped_loop scope es
       (if meshtastic_cluster_scope_contains scope (ent_key e) then n + 1 else n)"

definition meshtastic_cluster_doc_count_scoped ::
  "meshtastic_cluster_doc \<Rightarrow> meshtastic_cluster_scope \<Rightarrow> nat" where
  "meshtastic_cluster_doc_count_scoped doc scope = count_scoped_loop scope (doc_entries doc) 0"

fun max_stamp_loop ::
  "meshtastic_cluster_scope \<Rightarrow> meshtastic_cluster_entry list \<Rightarrow> meshtastic_hlc_stamp
     \<Rightarrow> meshtastic_hlc_stamp" where
  "max_stamp_loop scope [] out = out"
| "max_stamp_loop scope (e # es) out =
     (if \<not> meshtastic_cluster_scope_contains scope (ent_key e) then max_stamp_loop scope es out
      else if meshtastic_hlc_newer (ent_stamp e) out then max_stamp_loop scope es (ent_stamp e)
      else max_stamp_loop scope es out)"

definition meshtastic_cluster_doc_max_stamp_scoped ::
  "meshtastic_cluster_doc \<Rightarrow> meshtastic_cluster_scope \<Rightarrow> meshtastic_hlc_stamp" where
  "meshtastic_cluster_doc_max_stamp_scoped doc scope =
     max_stamp_loop scope (doc_entries doc) unset_stamp"

definition meshtastic_cluster_doc_max_stamp ::
  "meshtastic_cluster_doc \<Rightarrow> meshtastic_hlc_stamp" where
  "meshtastic_cluster_doc_max_stamp doc =
     meshtastic_cluster_doc_max_stamp_scoped doc (meshtastic_cluster_scope_make SCOPE_FULL 0)"

text \<open>Dropping entries.  The eviction callback is modelled by the list of keys it is called
  with, in order.\<close>

definition meshtastic_cluster_doc_clear ::
  "meshtastic_cluster_doc \<Rightarrow> meshtastic_cluster_doc \<times> nat \<times> meshtastic_cluster_key list" where
  "meshtastic_cluster_doc_clear doc =
     (doc\<lparr>doc_entries := []\<rparr>, doc_count doc, map ent_key (doc_entries doc))"

text \<open>The compacting pass of \<^verbatim>\<open>retain\<close>: \<open>kept\<close> is the prefix already written back, \<open>dropped\<close>
  the number of entries passed over, \<open>ev\<close> the calls of the eviction callback.\<close>

fun retain_loop ::
  "meshtastic_cluster_scope \<Rightarrow> meshtastic_cluster_entry list \<Rightarrow> meshtastic_cluster_entry list
     \<Rightarrow> nat \<Rightarrow> meshtastic_cluster_key list
     \<Rightarrow> meshtastic_cluster_entry list \<times> nat \<times> meshtastic_cluster_key list" where
  "retain_loop scope [] kept dropped ev = (kept, dropped, ev)"
| "retain_loop scope (e # es) kept dropped ev =
     (if meshtastic_cluster_scope_contains scope (ent_key e)
      then retain_loop scope es (kept @ [e]) dropped ev
      else retain_loop scope es kept (dropped + 1) (ev @ [ent_key e]))"

definition meshtastic_cluster_doc_retain ::
  "meshtastic_cluster_doc \<Rightarrow> meshtastic_cluster_scope
     \<Rightarrow> meshtastic_cluster_doc \<times> nat \<times> meshtastic_cluster_key list" where
  "meshtastic_cluster_doc_retain doc scope =
     (let (kept, dropped, ev) = retain_loop scope (doc_entries doc) [] 0 []
      in (if dropped > 0 then doc\<lparr>doc_entries := kept\<rparr> else doc, dropped, ev))"

definition node_key :: "u32 \<Rightarrow> u16 \<Rightarrow> meshtastic_cluster_key" where
  "node_key node_id sec = \<lparr>key_layer = LAYER_NODE, key_node_id = node_id, key_section = sec\<rparr>"

definition base_key :: "u16 \<Rightarrow> meshtastic_cluster_key" where
  "base_key sec = \<lparr>key_layer = LAYER_BASE, key_node_id = 0, key_section = sec\<rparr>"

definition meshtastic_cluster_doc_effective ::
  "meshtastic_cluster_doc \<Rightarrow> u32 \<Rightarrow> u16 \<Rightarrow> meshtastic_cluster_entry option" where
  "meshtastic_cluster_doc_effective doc node_id sec =
     (let base = (case meshtastic_cluster_doc_find doc (base_key sec) of
                    Some e \<Rightarrow> if \<not> ent_tombstone e then Some e else None
                  | None \<Rightarrow> None)
      in case meshtastic_cluster_doc_find doc (node_key node_id sec) of
           Some e \<Rightarrow> if \<not> ent_tombstone e then Some e else base
         | None \<Rightarrow> base)"

definition meshtastic_cluster_doc_effective_version ::
  "meshtastic_cluster_doc \<Rightarrow> u32 \<Rightarrow> u16 \<Rightarrow> meshtastic_hlc_stamp \<times> bool" where
  "meshtastic_cluster_doc_effective_version doc node_id sec =
     (let node = meshtastic_cluster_doc_find doc (node_key node_id sec);
          base = meshtastic_cluster_doc_find doc (base_key sec);
          (out, have_it) = (case node of Some e \<Rightarrow> (ent_stamp e, True)
                                       | None \<Rightarrow> (unset_stamp, False))
      in case base of
           Some b \<Rightarrow> if meshtastic_hlc_newer (ent_stamp b) out then (ent_stamp b, True)
                     else (out, have_it)
         | None \<Rightarrow> (out, have_it))"

section \<open>Sorted tables\<close>

abbreviation ent_keys :: "meshtastic_cluster_entry list \<Rightarrow> meshtastic_cluster_key list" where
  "ent_keys es \<equiv> map ent_key es"

definition lookup_ents ::
  "meshtastic_cluster_entry list \<Rightarrow> meshtastic_cluster_key \<Rightarrow> meshtastic_cluster_entry option" where
  "lookup_ents es = map_of (map (\<lambda>e. (ent_key e, e)) es)"

lemma lookup_ents_Nil [simp]: "lookup_ents [] k = None"
  by (simp add: lookup_ents_def)

lemma lookup_ents_Cons [simp]:
  "lookup_ents (e # es) k = (if k = ent_key e then Some e else lookup_ents es k)"
  by (simp add: lookup_ents_def)

lemma lookup_ents_append:
  "lookup_ents (xs @ ys) k = (case lookup_ents xs k of Some e \<Rightarrow> Some e | None \<Rightarrow> lookup_ents ys k)"
  by (induction xs) auto

lemma lookup_ents_None_iff: "lookup_ents es k = None \<longleftrightarrow> k \<notin> ent_key ` set es"
  by (induction es) auto

lemma lookup_ents_SomeD: "lookup_ents es k = Some e \<Longrightarrow> e \<in> set es \<and> ent_key e = k"
  by (induction es) (auto split: if_splits)

lemma lookup_ents_mem:
  "sorted_wrt (<) (ent_keys es) \<Longrightarrow> e \<in> set es \<Longrightarrow> lookup_ents es (ent_key e) = Some e"
  by (induction es) auto

text \<open>What the scan returns on a sorted table, relative to its start index.\<close>

lemma doc_pos_from_spec:
  assumes "sorted_wrt (<) (ent_keys es)"
  shows "\<exists>j \<le> length es. fst (doc_pos_from es key i) = i + j
           \<and> (\<forall>e \<in> set (take j es). ent_key e < key)
           \<and> (if snd (doc_pos_from es key i)
              then j < length es \<and> ent_key (es ! j) = key
              else \<forall>e \<in> set (drop j es). key < ent_key e)"
  using assms
proof (induction es arbitrary: i)
  case Nil
  then show ?case by simp
next
  case (Cons a es)
  consider (eq) "key = ent_key a" | (lt) "key < ent_key a" | (gt) "ent_key a < key"
    by fastforce
  then show ?case
  proof cases
    case eq
    then show ?thesis by (intro exI[of _ 0]) (simp add: key_order.cmp_refl)
  next
    case lt
    with Cons.prems show ?thesis
      by (intro exI[of _ 0]) (auto simp: key_order.cmp_zero key_order.cmp_neg dest: less_trans)
  next
    case gt
    from Cons obtain j where "j \<le> length es" "fst (doc_pos_from es key (Suc i)) = Suc i + j"
      and "\<forall>e \<in> set (take j es). ent_key e < key"
      and "if snd (doc_pos_from es key (Suc i)) then j < length es \<and> ent_key (es ! j) = key
           else \<forall>e \<in> set (drop j es). key < ent_key e"
      by fastforce
    with gt show ?thesis
      by (intro exI[of _ "Suc j"]) (auto simp: key_order.cmp_zero key_order.cmp_neg)
  qed
qed

lemma doc_pos_found:
  assumes "sorted_wrt (<) (ent_keys (doc_entries d))" "doc_pos d key = (i, True)"
  shows "i < doc_count d" "ent_key (doc_entries d ! i) = key"
  using doc_pos_from_spec[OF assms(1), of key 0] assms(2) by (auto simp: doc_pos_def)

lemma doc_pos_missing:
  assumes "sorted_wrt (<) (ent_keys (doc_entries d))" "doc_pos d key = (i, False)"
  shows "i \<le> doc_count d" "\<forall>e \<in> set (take i (doc_entries d)). ent_key e < key"
    "\<forall>e \<in> set (drop i (doc_entries d)). key < ent_key e"
  using doc_pos_from_spec[OF assms(1), of key 0] assms(2) by (auto simp: doc_pos_def)

end
