(* ===== verification/Cluster_Merge.thy ===== *)
theory Cluster_Merge
  imports Cluster_Doc
begin

text \<open>
  The well-formedness invariant of the cluster document and the merge rule.  The table of
  \<^verbatim>\<open>meshtastic_cluster_doc.c\<close> is read as a map from keys to entries; every operation that
  writes it keeps the invariant, and a signed write is the last-writer-wins update of that map.
\<close>

section \<open>Well-formed documents\<close>

definition write_ok :: "meshtastic_cluster_key \<Rightarrow> meshtastic_hlc_stamp \<Rightarrow> bool \<Rightarrow> bytes \<Rightarrow> bool" where
  "write_ok key stamp tombstone payload \<longleftrightarrow>
     key_is_valid key \<and> stamp \<noteq> unset_stamp \<and> length payload \<le> MESHTASTIC_CLUSTER_PAYLOAD_MAX
     \<and> (tombstone \<longleftrightarrow> payload = []) \<and> \<not> (key_layer key = LAYER_BASE \<and> tombstone)"

definition entry_ok :: "meshtastic_cluster_entry \<Rightarrow> bool" where
  "entry_ok e \<longleftrightarrow>
     ent_used e \<and> write_ok (ent_key e) (ent_stamp e) (ent_tombstone e) (ent_payload e)
     \<and> ent_payload_len e = of_nat (length (ent_payload e))
     \<and> length (ent_sig e) = MESHTASTIC_CLUSTER_SIG_LEN
     \<and> (\<not> ent_has_sig e \<longrightarrow> ent_sig e = replicate MESHTASTIC_CLUSTER_SIG_LEN 0)"

definition doc_inv :: "meshtastic_cluster_doc \<Rightarrow> bool" where
  "doc_inv d \<longleftrightarrow> doc_count d \<le> doc_cap d \<and> sorted_wrt (<) (ent_keys (doc_entries d))
     \<and> (\<forall>e \<in> set (doc_entries d). entry_ok e)"

definition sig_ok :: "bytes option \<Rightarrow> bool" where
  "sig_ok sig \<longleftrightarrow> (case sig of None \<Rightarrow> True | Some s \<Rightarrow> length s = MESHTASTIC_CLUSTER_SIG_LEN)"

lemma doc_inv_sorted: "doc_inv d \<Longrightarrow> sorted_wrt (<) (ent_keys (doc_entries d))"
  by (simp add: doc_inv_def)

lemma stored_entry_simps [simp]:
  "ent_key (stored_entry k st t p sig) = k" "ent_stamp (stored_entry k st t p sig) = st"
  "ent_tombstone (stored_entry k st t p sig) = t" "ent_payload (stored_entry k st t p sig) = p"
  by (simp_all add: stored_entry_def)

lemma stored_entry_ok:
  "write_ok k st t p \<Longrightarrow> sig_ok sig \<Longrightarrow> entry_ok (stored_entry k st t p sig)"
  by (auto simp: entry_ok_def stored_entry_def sig_ok_def split: option.splits)

lemma doc_init_inv: "doc_inv (meshtastic_cluster_doc_init cap)"
  by (simp add: doc_inv_def meshtastic_cluster_doc_init_def)

section \<open>Lookups read the abstract map\<close>

lemma doc_pos_lookup:
  assumes "sorted_wrt (<) (ent_keys (doc_entries d))" "doc_pos d key = (i, found)"
  shows "lookup_ents (doc_entries d) key = (if found then Some (doc_entries d ! i) else None)"
proof (cases found)
  case True
  with doc_pos_found[OF assms(1), of key i] assms(2)
  have "i < doc_count d" and k: "ent_key (doc_entries d ! i) = key" by auto
  then have "doc_entries d ! i \<in> set (doc_entries d)" by simp
  from lookup_ents_mem[OF assms(1) this] k True show ?thesis by simp
next
  case False
  with doc_pos_missing[OF assms(1), of key i] assms(2)
  have "\<forall>e \<in> set (take i (doc_entries d)). ent_key e < key"
    "\<forall>e \<in> set (drop i (doc_entries d)). key < ent_key e" by auto
  then have "key \<notin> ent_key ` set (take i (doc_entries d) @ drop i (doc_entries d))"
    by (auto simp del: append_take_drop_id)
  with False show ?thesis by (simp add: lookup_ents_None_iff)
qed

lemma find_eq_lookup:
  "doc_inv d \<Longrightarrow> meshtastic_cluster_doc_find d k = lookup_ents (doc_entries d) k"
  using doc_pos_lookup[OF doc_inv_sorted]
  by (auto simp: meshtastic_cluster_doc_find_def split: prod.splits)

section \<open>The merge rule\<close>

text \<open>The abstract update: the newer stamp wins, ties and older writes are ignored.\<close>

definition lww_upd ::
  "(meshtastic_cluster_key \<Rightarrow> meshtastic_cluster_entry option) \<Rightarrow> meshtastic_cluster_entry
     \<Rightarrow> (meshtastic_cluster_key \<Rightarrow> meshtastic_cluster_entry option)" where
  "lww_upd m e =
     (case m (ent_key e) of
        Some old \<Rightarrow> if ent_stamp old < ent_stamp e then m(ent_key e \<mapsto> e) else m
      | None \<Rightarrow> m(ent_key e \<mapsto> e))"

lemma accept_signed_ok:
  assumes "write_ok key stamp tombstone payload"
  shows "meshtastic_cluster_doc_accept_signed d key stamp tombstone payload sig =
     (let (i, found) = doc_pos d key;
          es = doc_entries d;
          e = stored_entry key stamp tombstone payload sig
      in if found
         then if \<not> meshtastic_hlc_newer stamp (ent_stamp (es ! i)) then (d, Inr 0)
              else (d\<lparr>doc_entries := es[i := e]\<rparr>, Inr 1)
         else if doc_count d \<ge> doc_cap d then (d, Inl ENOSPC)
              else (d\<lparr>doc_entries := take i es @ e # drop i es\<rparr>, Inr 1))"
  using assms
  by (auto simp: meshtastic_cluster_doc_accept_signed_def write_ok_def is_unset_iff simp del: newer_iff_less)

lemma accept_signed_bad:
  assumes "\<not> write_ok key stamp tombstone payload"
  shows "meshtastic_cluster_doc_accept_signed d key stamp tombstone payload sig = (d, Inl EINVAL)"
  using assms
  by (auto simp: meshtastic_cluster_doc_accept_signed_def write_ok_def is_unset_iff
      simp del: newer_iff_less)

lemma sorted_insert_mid:
  assumes "sorted_wrt (<) (ent_keys es)" "\<forall>e \<in> set (take i es). ent_key e < ent_key x"
    and "\<forall>e \<in> set (drop i es). ent_key x < ent_key e"
  shows "sorted_wrt (<) (ent_keys (take i es @ x # drop i es))"
proof -
  have "sorted_wrt (<) (ent_keys (take i es @ drop i es))" using assms(1) by simp
  then show ?thesis using assms(2,3)
    by (auto simp: sorted_wrt_append simp del: append_take_drop_id dest: less_trans)
qed

lemma sorted_update_same_key:
  assumes "ent_key x = ent_key (es ! i)" "i < length es"
  shows "ent_keys (es[i := x]) = ent_keys es"
  using assms by (simp add: map_update list_update_same_conv)

text \<open>The four outcomes of a well-formed write, with what each does to the table.\<close>

lemma accept_outcome:
  fixes d sig stamp tombstone payload and key :: meshtastic_cluster_key
  defines "e \<equiv> stored_entry key stamp tombstone payload sig"
  assumes inv: "doc_inv d" and ok: "write_ok key stamp tombstone payload"
  obtains
    (stale) old where "lookup_ents (doc_entries d) key = Some old" "\<not> ent_stamp old < stamp"
      "meshtastic_cluster_doc_accept_signed d key stamp tombstone payload sig = (d, Inr 0)"
  | (replaced) old i where "lookup_ents (doc_entries d) key = Some old" "ent_stamp old < stamp"
      "i < doc_count d" "ent_key (doc_entries d ! i) = key"
      "meshtastic_cluster_doc_accept_signed d key stamp tombstone payload sig
         = (d\<lparr>doc_entries := (doc_entries d)[i := e]\<rparr>, Inr 1)"
  | (full) "lookup_ents (doc_entries d) key = None" "doc_cap d \<le> doc_count d"
      "meshtastic_cluster_doc_accept_signed d key stamp tombstone payload sig = (d, Inl ENOSPC)"
  | (inserted) i where "lookup_ents (doc_entries d) key = None" "doc_count d < doc_cap d"
      "i \<le> doc_count d" "\<forall>x \<in> set (take i (doc_entries d)). ent_key x < key"
      "\<forall>x \<in> set (drop i (doc_entries d)). key < ent_key x"
      "meshtastic_cluster_doc_accept_signed d key stamp tombstone payload sig
         = (d\<lparr>doc_entries := take i (doc_entries d) @ e # drop i (doc_entries d)\<rparr>, Inr 1)"
proof -
  obtain i found where pos: "doc_pos d key = (i, found)" by fastforce
  note look = doc_pos_lookup[OF doc_inv_sorted[OF inv] pos]
  show thesis
  proof (cases found)
    case True
    with pos doc_pos_found[OF doc_inv_sorted[OF inv], of key i]
    have at: "i < doc_count d" "ent_key (doc_entries d ! i) = key" by auto
    from look True have hit: "lookup_ents (doc_entries d) key = Some (doc_entries d ! i)" by simp
    show thesis
    proof (cases "ent_stamp (doc_entries d ! i) < stamp")
      case newer: True
      show thesis
        by (rule replaced[OF hit newer at]) (use pos True newer in \<open>simp add: accept_signed_ok[OF ok] e_def\<close>)
    next
      case older: False
      show thesis
        by (rule stale[OF hit older]) (use pos True older in \<open>simp add: accept_signed_ok[OF ok] e_def\<close>)
    qed
  next
    case False
    with pos doc_pos_missing[OF doc_inv_sorted[OF inv], of key i]
    have at: "i \<le> doc_count d" "\<forall>x \<in> set (take i (doc_entries d)). ent_key x < key"
      "\<forall>x \<in> set (drop i (doc_entries d)). key < ent_key x" by auto
    from look False have miss: "lookup_ents (doc_entries d) key = None" by simp
    show thesis
    proof (cases "doc_count d < doc_cap d")
      case room: True
      show thesis
        by (rule inserted[OF miss room at]) (use pos False room in \<open>simp add: accept_signed_ok[OF ok] e_def Let_def\<close>)
    next
      case noroom: False
      show thesis
        by (rule full[OF miss]) (use pos False noroom in \<open>simp_all add: accept_signed_ok[OF ok] e_def\<close>)
    qed
  qed
qed

lemma accept_signed_inv:
  assumes inv: "doc_inv d" and sig: "sig_ok sig"
  shows "doc_inv (fst (meshtastic_cluster_doc_accept_signed d key stamp tombstone payload sig))"
proof (cases "write_ok key stamp tombstone payload")
  case False
  with inv show ?thesis by (simp add: accept_signed_bad)
next
  case ok: True
  let ?e = "stored_entry key stamp tombstone payload sig"
  from inv ok show ?thesis
  proof (cases rule: accept_outcome[where sig = sig])
    case (replaced old i)
    have "entry_ok x" if "x \<in> set ((doc_entries d)[i := ?e])" for x
      using that set_update_subset_insert[of "doc_entries d" i ?e] inv stored_entry_ok[OF ok sig]
      by (auto simp: doc_inv_def)
    with replaced inv show ?thesis
      by (simp add: doc_inv_def sorted_update_same_key)
  next
    case (inserted i)
    have "entry_ok x" if "x \<in> set (take i (doc_entries d) @ ?e # drop i (doc_entries d))" for x
      using that inv stored_entry_ok[OF ok sig]
      by (auto simp: doc_inv_def dest: in_set_takeD in_set_dropD)
    with inserted inv show ?thesis
      using sorted_insert_mid[of "doc_entries d" i ?e] by (simp add: doc_inv_def)
  qed (use inv in simp_all)
qed

lemma lookup_ents_update:
  assumes "sorted_wrt (<) (ent_keys es)" "i < length es" "ent_key x = ent_key (es ! i)"
  shows "lookup_ents (es[i := x]) = (lookup_ents es)(ent_key x \<mapsto> x)"
  using assms
proof (induction es arbitrary: i)
  case (Cons a es)
  show ?case
  proof (cases i)
    case 0
    with Cons.prems show ?thesis by (simp add: fun_eq_iff)
  next
    case (Suc j)
    with Cons.prems have j: "j < length es" and x: "ent_key x = ent_key (es ! j)" by auto
    from Cons.prems(1) nth_mem[OF j] x have "ent_key a < ent_key x" by auto
    then have "ent_key a \<noteq> ent_key x" by simp
    with Suc Cons.prems(1) Cons.IH[OF _ j x] show ?thesis by (auto simp: fun_eq_iff)
  qed
qed simp

lemma lookup_ents_insert:
  assumes "\<forall>e \<in> set (take i es). ent_key e < ent_key x"
  shows "lookup_ents (take i es @ x # drop i es) = (lookup_ents es)(ent_key x \<mapsto> x)"
proof
  fix k
  have "lookup_ents es k = lookup_ents (take i es @ drop i es) k" by simp
  moreover have "lookup_ents (take i es) (ent_key x) = None"
    using assms by (auto simp: lookup_ents_None_iff)
  ultimately show "lookup_ents (take i es @ x # drop i es) k = ((lookup_ents es)(ent_key x \<mapsto> x)) k"
    by (auto simp: lookup_ents_append simp del: append_take_drop_id split: option.splits)
qed

lemma accept_signed_refines:
  assumes inv: "doc_inv d" and ok: "write_ok key stamp tombstone payload"
    and room: "lookup_ents (doc_entries d) key \<noteq> None \<or> doc_count d < doc_cap d"
  shows "lookup_ents (doc_entries
           (fst (meshtastic_cluster_doc_accept_signed d key stamp tombstone payload sig)))
         = lww_upd (lookup_ents (doc_entries d)) (stored_entry key stamp tombstone payload sig)"
  using inv ok
proof (cases rule: accept_outcome[where sig = sig])
  case (replaced old i)
  with inv show ?thesis
    by (simp add: lww_upd_def lookup_ents_update doc_inv_sorted)
next
  case (inserted i)
  then show ?thesis
    using lookup_ents_insert[of i "doc_entries d" "stored_entry key stamp tombstone payload sig"]
    by (simp add: lww_upd_def)
qed (use room in \<open>auto simp: lww_upd_def\<close>)

section \<open>Dropping rows\<close>

lemma retain_loop_spec:
  "retain_loop scope es kept dropped ev =
     (let out = filter (\<lambda>e. \<not> meshtastic_cluster_scope_contains scope (ent_key e)) es
      in (kept @ filter (\<lambda>e. meshtastic_cluster_scope_contains scope (ent_key e)) es,
          dropped + length out, ev @ map ent_key out))"
  by (induction es arbitrary: kept dropped ev) (auto simp: Let_def)

lemma filter_all_if_none: "filter (\<lambda>x. \<not> P x) xs = [] \<Longrightarrow> filter P xs = xs"
  by (induction xs) (auto split: if_splits)

lemma retain_spec:
  "meshtastic_cluster_doc_retain d scope =
     (let out = filter (\<lambda>e. \<not> meshtastic_cluster_scope_contains scope (ent_key e)) (doc_entries d)
      in (d\<lparr>doc_entries := filter (\<lambda>e. meshtastic_cluster_scope_contains scope (ent_key e))
             (doc_entries d)\<rparr>, length out, map ent_key out))"
proof (cases "filter (\<lambda>e. \<not> meshtastic_cluster_scope_contains scope (ent_key e)) (doc_entries d) = []")
  case True
  with filter_all_if_none[OF True] show ?thesis
    by (simp add: meshtastic_cluster_doc_retain_def retain_loop_spec Let_def)
qed (simp add: meshtastic_cluster_doc_retain_def retain_loop_spec Let_def)

lemma retain_inv: "doc_inv d \<Longrightarrow> doc_inv (fst (meshtastic_cluster_doc_retain d scope))"
proof -
  assume inv: "doc_inv d"
  let ?P = "\<lambda>e. meshtastic_cluster_scope_contains scope (ent_key e)"
  have "sorted_wrt (<) (ent_keys (filter ?P (doc_entries d)))"
    using doc_inv_sorted[OF inv] by (simp add: sorted_wrt_map sorted_wrt_filter)
  moreover have "length (filter ?P (doc_entries d)) \<le> doc_cap d"
    by (rule order_trans[OF length_filter_le]) (use inv in \<open>simp add: doc_inv_def\<close>)
  ultimately show ?thesis using inv by (auto simp: retain_spec Let_def doc_inv_def)
qed

lemma clear_inv: "doc_inv (fst (meshtastic_cluster_doc_clear d))"
  by (simp add: meshtastic_cluster_doc_clear_def doc_inv_def)

lemma lookup_ents_filter:
  "lookup_ents (filter (\<lambda>e. P (ent_key e)) es) k = (if P k then lookup_ents es k else None)"
  by (induction es) auto

lemma retain_find:
  assumes "doc_inv d"
  shows "meshtastic_cluster_doc_find (fst (meshtastic_cluster_doc_retain d scope)) k =
     (if meshtastic_cluster_scope_contains scope k then meshtastic_cluster_doc_find d k else None)"
  using find_eq_lookup[OF retain_inv[OF assms, of scope]] find_eq_lookup[OF assms]
  by (simp add: retain_spec Let_def lookup_ents_filter)

lemma count_scoped_filter:
  "count_scoped_loop scope es n
     = n + length (filter (\<lambda>e. meshtastic_cluster_scope_contains scope (ent_key e)) es)"
  by (induction es arbitrary: n) auto

lemma scope_intersect_contains:
  "meshtastic_cluster_scope_contains (meshtastic_cluster_scope_intersect a b) key \<longleftrightarrow>
     meshtastic_cluster_scope_contains a key \<and> meshtastic_cluster_scope_contains b key"
  by (auto simp: meshtastic_cluster_scope_contains_def meshtastic_cluster_scope_intersect_def
      meshtastic_cluster_scope_make_def)

section \<open>Effective values\<close>

lemma find_entry_ok: "doc_inv d \<Longrightarrow> meshtastic_cluster_doc_find d k = Some e \<Longrightarrow> entry_ok e \<and> ent_key e = k"
  using lookup_ents_SomeD[of "doc_entries d" k e] by (auto simp: find_eq_lookup doc_inv_def)

lemma max_stamp_loop_ge:
  "out \<le> max_stamp_loop scope es out"
  "e \<in> set es \<Longrightarrow> meshtastic_cluster_scope_contains scope (ent_key e)
     \<Longrightarrow> ent_stamp e \<le> max_stamp_loop scope es out"
proof -
  show ge: "out \<le> max_stamp_loop scope es out" for es out
    by (induction es arbitrary: out) (auto dest: less_imp_le intro: order_trans)
  show "e \<in> set es \<Longrightarrow> meshtastic_cluster_scope_contains scope (ent_key e)
     \<Longrightarrow> ent_stamp e \<le> max_stamp_loop scope es out"
  proof (induction es arbitrary: out)
    case (Cons a es)
    then show ?case using ge[of "ent_stamp a" es] ge[of out es] by (auto simp: not_less)
  qed simp
qed

lemma max_stamp_loop_attained:
  "max_stamp_loop scope es out = out
   \<or> (\<exists>e \<in> set es. meshtastic_cluster_scope_contains scope (ent_key e)
        \<and> ent_stamp e = max_stamp_loop scope es out)"
proof (induction es arbitrary: out)
  case (Cons a es)
  from Cons.IH[of out] Cons.IH[of "ent_stamp a"] show ?case by auto
qed simp

lemma contains_make [simp]:
  "meshtastic_cluster_scope_contains (meshtastic_cluster_scope_make SCOPE_CORE me) (node_key me sec)"
  "meshtastic_cluster_scope_contains scope (base_key sec)"
  by (auto simp: meshtastic_cluster_scope_contains_def meshtastic_cluster_scope_make_def
      node_key_def base_key_def)

definition positive_stamps :: "meshtastic_cluster_doc \<Rightarrow> bool" where
  "positive_stamps d \<longleftrightarrow> (\<forall>e \<in> set (doc_entries d). unset_stamp < ent_stamp e)"

definition stamp_of :: "meshtastic_cluster_entry option \<Rightarrow> meshtastic_hlc_stamp" where
  "stamp_of r = (case r of None \<Rightarrow> unset_stamp | Some e \<Rightarrow> ent_stamp e)"

lemma find_positive:
  assumes "doc_inv d" "positive_stamps d"
  shows "unset_stamp \<le> stamp_of (meshtastic_cluster_doc_find d k)"
  using assms lookup_ents_SomeD[of "doc_entries d" k]
  by (auto simp: stamp_of_def positive_stamps_def find_eq_lookup less_imp_le split: option.splits)

lemma effective_version_max:
  assumes "doc_inv d" "positive_stamps d"
  shows "fst (meshtastic_cluster_doc_effective_version d n sec) =
    max (stamp_of (meshtastic_cluster_doc_find d (node_key n sec)))
        (stamp_of (meshtastic_cluster_doc_find d (base_key sec)))"
  using find_positive[OF assms, of "node_key n sec"] find_positive[OF assms, of "base_key sec"]
  by (auto simp: meshtastic_cluster_doc_effective_version_def stamp_of_def Let_def max_def not_less
      not_le split: option.splits)

lemma accept_signed_find:
  fixes d sig key stamp tombstone payload
  assumes "doc_inv d" "sig_ok sig"
  defines "res \<equiv> meshtastic_cluster_doc_accept_signed d key stamp tombstone payload sig"
  shows "snd res =
      (if \<not> write_ok key stamp tombstone payload then Inl EINVAL
       else case meshtastic_cluster_doc_find d key of
              Some old \<Rightarrow> if ent_stamp old < stamp then Inr 1 else Inr 0
            | None \<Rightarrow> if doc_count d < doc_cap d then Inr 1 else Inl ENOSPC)"
    and "meshtastic_cluster_doc_find (fst res) =
      (if snd res = Inr 1
       then (meshtastic_cluster_doc_find d)(key \<mapsto> stored_entry key stamp tombstone payload sig)
       else meshtastic_cluster_doc_find d)"
proof -
  have look: "meshtastic_cluster_doc_find d = lookup_ents (doc_entries d)"
    "meshtastic_cluster_doc_find (fst res) = lookup_ents (doc_entries (fst res))"
    using find_eq_lookup[OF assms(1)] find_eq_lookup[OF accept_signed_inv[OF assms(1,2)]]
    by (auto simp: res_def)
  have "snd res = (if \<not> write_ok key stamp tombstone payload then Inl EINVAL
       else case lookup_ents (doc_entries d) key of
              Some old \<Rightarrow> if ent_stamp old < stamp then Inr 1 else Inr 0
            | None \<Rightarrow> if doc_count d < doc_cap d then Inr 1 else Inl ENOSPC)
    \<and> lookup_ents (doc_entries (fst res)) = (if snd res = Inr 1
       then (lookup_ents (doc_entries d))(key \<mapsto> stored_entry key stamp tombstone payload sig)
       else lookup_ents (doc_entries d))"
  proof (cases "write_ok key stamp tombstone payload")
    case ok: True
    from assms(1) ok show ?thesis
    proof (cases rule: accept_outcome[where sig = sig])
      case (replaced old i)
      with ok assms(1) show ?thesis by (simp add: res_def lookup_ents_update doc_inv_sorted)
    next
      case (inserted i)
      with ok lookup_ents_insert[of i "doc_entries d" "stored_entry key stamp tombstone payload sig"]
      show ?thesis by (simp add: res_def)
    qed (use ok in \<open>auto simp: res_def\<close>)
  qed (simp add: res_def accept_signed_bad)
  then show "snd res =
      (if \<not> write_ok key stamp tombstone payload then Inl EINVAL
       else case meshtastic_cluster_doc_find d key of
              Some old \<Rightarrow> if ent_stamp old < stamp then Inr 1 else Inr 0
            | None \<Rightarrow> if doc_count d < doc_cap d then Inr 1 else Inl ENOSPC)"
    and "meshtastic_cluster_doc_find (fst res) = (if snd res = Inr 1
       then (meshtastic_cluster_doc_find d)(key \<mapsto> stored_entry key stamp tombstone payload sig)
       else meshtastic_cluster_doc_find d)"
    unfolding look by blast+
qed

lemma accept_signed_positive:
  assumes "positive_stamps d" "unset_stamp < stamp"
  shows "positive_stamps (fst (meshtastic_cluster_doc_accept_signed d key stamp t p sig))"
proof -
  have "\<forall>e \<in> set ((doc_entries d)[i := stored_entry key stamp t p sig]). unset_stamp < ent_stamp e" for i
    using assms set_update_subset_insert[of "doc_entries d" i "stored_entry key stamp t p sig"]
    by (auto simp: positive_stamps_def)
  with assms show ?thesis
    by (auto simp: meshtastic_cluster_doc_accept_signed_def positive_stamps_def Let_def
        dest: in_set_takeD in_set_dropD split: prod.splits)
qed

lemma find_stamp_mono:
  assumes "doc_inv d" "sig_ok sig" "positive_stamps d" "unset_stamp < stamp"
  shows "stamp_of (meshtastic_cluster_doc_find d k) \<le> stamp_of (meshtastic_cluster_doc_find
           (fst (meshtastic_cluster_doc_accept_signed d key stamp t p sig)) k)"
  using accept_signed_find[OF assms(1,2), of key stamp t p] assms(4)
  by (auto simp: stamp_of_def less_imp_le split: option.splits if_splits)

section \<open>Example documents\<close>

definition ex_stamp :: "int \<Rightarrow> meshtastic_hlc_stamp" where
  "ex_stamp ms = \<lparr>st_physical_ms = ms, st_counter = 0, st_node_id = 7\<rparr>"

definition ex_doc :: meshtastic_cluster_doc where
  "ex_doc =
     (let d0 = meshtastic_cluster_doc_init 3;
          d1 = fst (meshtastic_cluster_doc_accept d0 (base_key 5) (ex_stamp 100) False [1, 2]);
          d2 = fst (meshtastic_cluster_doc_accept d1 (node_key 9 5) (ex_stamp 200) False [3])
      in fst (meshtastic_cluster_doc_accept d2 (node_key 8 5) (ex_stamp 150) False [4]))"

lemma ex_doc_inv: "doc_inv ex_doc" "positive_stamps ex_doc"
  by code_simp+

section \<open>Properties\<close>

text \<open>C3. A signed write is a last-writer-wins update of the map the document stands for.  The
  status tells which branch was taken: refused as malformed, stored (1), ignored because the row
  held is at least as new (0), or refused because a new key finds the table full; the lookups
  afterwards are the old ones with the key bound to the new row exactly when the status is 1.\<close>

theorem cluster_accept_lww:
  assumes "doc_inv d" "sig_ok sig"
  shows "snd (meshtastic_cluster_doc_accept_signed d key stamp tombstone payload sig) =
      (if \<not> write_ok key stamp tombstone payload then Inl EINVAL
       else case meshtastic_cluster_doc_find d key of
              Some old \<Rightarrow> if ent_stamp old < stamp then Inr 1 else Inr 0
            | None \<Rightarrow> if doc_count d < doc_cap d then Inr 1 else Inl ENOSPC)
    \<and> meshtastic_cluster_doc_find
        (fst (meshtastic_cluster_doc_accept_signed d key stamp tombstone payload sig)) =
      (if snd (meshtastic_cluster_doc_accept_signed d key stamp tombstone payload sig) = Inr 1
       then (meshtastic_cluster_doc_find d)(key \<mapsto> stored_entry key stamp tombstone payload sig)
       else meshtastic_cluster_doc_find d)"
  using accept_signed_find[OF assms] by blast

theorem cluster_accept_lww_witness:
  "snd (meshtastic_cluster_doc_accept_signed ex_doc (node_key 8 5) (ex_stamp 151) True [] None) = Inr 1
   \<and> meshtastic_cluster_doc_find (fst (meshtastic_cluster_doc_accept_signed ex_doc (node_key 8 5)
        (ex_stamp 151) True [] None)) (base_key 5) = meshtastic_cluster_doc_find ex_doc (base_key 5)"
proof -
  have s: "sig_ok None" by (simp add: sig_ok_def)
  have "snd (meshtastic_cluster_doc_accept_signed ex_doc (node_key 8 5) (ex_stamp 151) True [] None) = Inr 1"
    by code_simp
  moreover have "base_key 5 \<noteq> node_key 8 5" by code_simp
  ultimately show ?thesis
    using cluster_accept_lww[OF ex_doc_inv(1) s, of "node_key 8 5" "ex_stamp 151" True "[]"] by simp
qed

text \<open>C27. Every operation that writes the document keeps it well formed: strictly sorted by key,
  within capacity, each row valid with a payload exactly when it is not a tombstone.\<close>

theorem cluster_doc_invariant:
  assumes "doc_inv d" "sig_ok sig"
  shows "doc_inv (meshtastic_cluster_doc_init cap)
    \<and> doc_inv (fst (meshtastic_cluster_doc_accept_signed d key stamp tombstone payload sig))
    \<and> doc_inv (fst (meshtastic_cluster_doc_accept d key stamp tombstone payload))
    \<and> doc_inv (fst (meshtastic_cluster_doc_retain d scope))
    \<and> doc_inv (fst (meshtastic_cluster_doc_clear d))"
  using assms accept_signed_inv[of d None]
  by (simp add: doc_init_inv accept_signed_inv retain_inv clear_inv meshtastic_cluster_doc_accept_def sig_ok_def)

theorem cluster_doc_invariant_witness:
  "doc_inv ex_doc
   \<and> doc_inv (fst (meshtastic_cluster_doc_accept ex_doc (base_key 5) (ex_stamp 300) False [9]))"
  using ex_doc_inv(1) cluster_doc_invariant[OF ex_doc_inv(1), of None] by (simp add: sig_ok_def)

text \<open>C28. The want test predicts the merge: for a well-formed row inside the node's scope it says
  yes exactly when accepting the row would store it, reports missing space exactly when accepting
  would fail for space, and otherwise the row would change nothing.\<close>

theorem cluster_want_predicts_accept:
  assumes "doc_inv d" "sig_ok sig" "write_ok key stamp tombstone payload"
    and "meshtastic_cluster_scope_contains scope key"
  shows "snd (meshtastic_cluster_doc_accept_signed d key stamp tombstone payload sig) =
    (case meshtastic_cluster_doc_want d scope key stamp of
       WANT_YES \<Rightarrow> Inr 1 | WANT_NO \<Rightarrow> Inr 0 | WANT_NO_SPACE \<Rightarrow> Inl ENOSPC)"
  using accept_signed_find(1)[OF assms(1,2), of key stamp tombstone payload] assms(3,4)
  by (auto simp: meshtastic_cluster_doc_want_def is_unset_iff write_ok_def split: option.splits)

theorem cluster_want_predicts_accept_witness:
  "meshtastic_cluster_doc_want ex_doc (meshtastic_cluster_scope_make SCOPE_FULL 0) (node_key 6 5)
     (ex_stamp 1) = WANT_NO_SPACE
   \<and> snd (meshtastic_cluster_doc_accept ex_doc (node_key 6 5) (ex_stamp 1) False [1]) = Inl ENOSPC"
proof -
  have w: "meshtastic_cluster_doc_want ex_doc (meshtastic_cluster_scope_make SCOPE_FULL 0)
      (node_key 6 5) (ex_stamp 1) = WANT_NO_SPACE" by code_simp
  have "write_ok (node_key 6 5) (ex_stamp 1) False [1]"
    "meshtastic_cluster_scope_contains (meshtastic_cluster_scope_make SCOPE_FULL 0) (node_key 6 5)"
    "sig_ok None" by code_simp+
  from cluster_want_predicts_accept[OF ex_doc_inv(1) this(3,1,2)] w show ?thesis
    by (simp add: meshtastic_cluster_doc_accept_def)
qed

text \<open>C29. Narrowing a full node to its own rows never changes its configuration: after retaining
  the scope of node \<open>me\<close>, the effective value and effective version of every section at \<open>me\<close> are
  what they were.\<close>

theorem cluster_retain_keeps_effective:
  assumes "doc_inv d"
  shows "meshtastic_cluster_doc_effective
        (fst (meshtastic_cluster_doc_retain d (meshtastic_cluster_scope_make SCOPE_CORE me))) me sec
      = meshtastic_cluster_doc_effective d me sec
    \<and> meshtastic_cluster_doc_effective_version
        (fst (meshtastic_cluster_doc_retain d (meshtastic_cluster_scope_make SCOPE_CORE me))) me sec
      = meshtastic_cluster_doc_effective_version d me sec"
  by (simp add: meshtastic_cluster_doc_effective_def
      meshtastic_cluster_doc_effective_version_def retain_find[OF assms])

theorem cluster_retain_keeps_effective_witness:
  "meshtastic_cluster_doc_effective
     (fst (meshtastic_cluster_doc_retain ex_doc (meshtastic_cluster_scope_make SCOPE_CORE 9))) 9 5
   = meshtastic_cluster_doc_effective ex_doc 9 5"
  using cluster_retain_keeps_effective[OF ex_doc_inv(1)] by blast

text \<open>The version a section is running at never goes backwards: accepting any row with a
  stamp after the zero stamp leaves the effective version of every node and section at least what
  it was, and it is an upper bound of the stamp of the value in effect.\<close>

theorem cluster_effective_version_monotone:
  assumes "doc_inv d" "positive_stamps d" "sig_ok sig" "unset_stamp < stamp"
  shows "fst (meshtastic_cluster_doc_effective_version d n sec)
      \<le> fst (meshtastic_cluster_doc_effective_version
          (fst (meshtastic_cluster_doc_accept_signed d key stamp tombstone payload sig)) n sec)
    \<and> (\<forall>e. meshtastic_cluster_doc_effective d n sec = Some e \<longrightarrow>
          ent_stamp e \<le> fst (meshtastic_cluster_doc_effective_version d n sec))"
proof -
  note mono = find_stamp_mono[OF assms(1,3,2,4), of _ key tombstone payload]
  have "fst (meshtastic_cluster_doc_effective_version d n sec)
      \<le> fst (meshtastic_cluster_doc_effective_version
          (fst (meshtastic_cluster_doc_accept_signed d key stamp tombstone payload sig)) n sec)"
    unfolding effective_version_max[OF assms(1,2)]
      effective_version_max[OF accept_signed_inv[OF assms(1,3)] accept_signed_positive[OF assms(2,4)]]
    by (intro max.mono mono)
  moreover have "ent_stamp e \<le> fst (meshtastic_cluster_doc_effective_version d n sec)"
    if "meshtastic_cluster_doc_effective d n sec = Some e" for e
    using that unfolding effective_version_max[OF assms(1,2)]
    by (auto simp: meshtastic_cluster_doc_effective_def Let_def stamp_of_def le_max_iff_disj
        split: option.splits if_splits)
  ultimately show ?thesis by blast
qed

theorem cluster_effective_version_monotone_witness:
  "fst (meshtastic_cluster_doc_effective_version ex_doc 9 5)
     \<le> fst (meshtastic_cluster_doc_effective_version
         (fst (meshtastic_cluster_doc_accept ex_doc (node_key 9 5) (ex_stamp 300) True [])) 9 5)"
proof -
  have "sig_ok None" "unset_stamp < ex_stamp 300" by code_simp+
  from cluster_effective_version_monotone[OF ex_doc_inv this] show ?thesis
    by (simp add: meshtastic_cluster_doc_accept_def)
qed

text \<open>A row whose stamp lies before the zero stamp is accepted and supplies the value in effect,
  but the version query does not see it.\<close>

lemma negative_stamp_hidden:
  defines "d \<equiv> fst (meshtastic_cluster_doc_accept (meshtastic_cluster_doc_init 3) (base_key 5)
                      (ex_stamp (- 1)) False [1])"
  shows "meshtastic_cluster_doc_effective d 9 5 \<noteq> None
    \<and> \<not> snd (meshtastic_cluster_doc_effective_version d 9 5)"
  unfolding d_def by code_simp

end
