(* ===== verification/Cluster_Sync.thy ===== *)
theory Cluster_Sync
  imports Cluster_Merge
begin

text \<open>
  Replication of the cluster document.  A locale states what the replication argument needs of a
  store (last-writer-wins lookup after a write, and that the lookups determine the store) and
  derives order independence, idempotence and symmetric merging from it.  The document table of
  \<^verbatim>\<open>meshtastic_cluster_doc.c\<close> is its instance; the pull protocol is the one the want test
  \<^verbatim>\<open>meshtastic_cluster_doc_want\<close> drives.
\<close>

section \<open>The contract of a replicated store\<close>

locale lww_store =
  fixes inv :: "'s \<Rightarrow> bool"
    and good :: "'e \<Rightarrow> bool"
    and look :: "'s \<Rightarrow> 'k \<Rightarrow> 'e option"
    and put :: "'s \<Rightarrow> 'e \<Rightarrow> 's"
    and key :: "'e \<Rightarrow> 'k"
    and ver :: "'e \<Rightarrow> 'v::linorder"
  assumes put_inv: "inv s \<Longrightarrow> good e \<Longrightarrow> inv (put s e)"
    and look_put: "inv s \<Longrightarrow> good e \<Longrightarrow>
      look (put s e) =
        (if \<exists>old. look s (key e) = Some old \<and> ver e \<le> ver old then look s
         else (look s)(key e \<mapsto> e))"
    and look_key: "inv s \<Longrightarrow> look s k = Some e \<Longrightarrow> key e = k"
    and look_ext: "inv s \<Longrightarrow> inv t \<Longrightarrow> look s = look t \<Longrightarrow> s = t"
begin

definition stored :: "'s \<Rightarrow> 'e set" where
  "stored s = {e. look s (key e) = Some e}"

definition wins :: "'e set \<Rightarrow> 'e \<Rightarrow> bool" where
  "wins E e \<longleftrightarrow> e \<in> E \<and> (\<forall>x \<in> E. key x = key e \<longrightarrow> ver x \<le> ver e)"

definition versioned :: "'e set \<Rightarrow> bool" where
  "versioned E \<longleftrightarrow> (\<forall>x \<in> E. \<forall>y \<in> E. key x = key y \<and> ver x = ver y \<longrightarrow> x = y)"

lemma versioned_mono: "versioned F \<Longrightarrow> E \<subseteq> F \<Longrightarrow> versioned E"
  unfolding versioned_def by blast

lemma look_stored: "inv s \<Longrightarrow> look s k = Some e \<longleftrightarrow> e \<in> stored s \<and> key e = k"
  using look_key by (auto simp: stored_def)

lemma stored_unique: "x \<in> stored s \<Longrightarrow> y \<in> stored s \<Longrightarrow> key x = key y \<Longrightarrow> x = y"
  by (auto simp: stored_def)

lemma wins_stored: "inv s \<Longrightarrow> e \<in> stored s \<Longrightarrow> wins (stored s) e"
  unfolding wins_def using stored_unique by blast

lemma stored_ext: "inv s \<Longrightarrow> inv t \<Longrightarrow> stored s = stored t \<Longrightarrow> s = t"
proof (rule look_ext)
  assume "inv s" "inv t" "stored s = stored t"
  then have "look s k = Some e \<longleftrightarrow> look t k = Some e" for k e by (simp add: look_stored)
  then show "look s = look t" by (metis ext option.exhaust)
qed

lemma stored_put:
  assumes "inv s" "good e" "versioned (insert e (stored s))"
  shows "stored (put s e) = {x. wins (insert e (stored s)) x}"
proof (cases "\<exists>old. look s (key e) = Some old \<and> ver e \<le> ver old")
  case True
  then obtain old where old: "look s (key e) = Some old" "ver e \<le> ver old" by blast
  with assms(1) have mem: "old \<in> stored s" "key old = key e" by (auto simp: look_stored)
  have same: "stored (put s e) = stored s"
    using look_put[OF assms(1,2)] True unfolding stored_def by simp
  have "wins (insert e (stored s)) x" if "x \<in> stored s" for x
    using that wins_stored[OF assms(1) that] stored_unique[OF that mem(1)] old(2) mem(2)
    by (auto simp: wins_def)
  moreover have "x \<in> stored s" if w: "wins (insert e (stored s)) x" for x
  proof (cases "x = e")
    case True
    with w mem have "ver old \<le> ver e" by (auto simp: wins_def)
    with old(2) have "ver old = ver e" by simp
    with assms(3) mem have "old = e" by (auto simp: versioned_def)
    with mem(1) True show ?thesis by simp
  qed (use w in \<open>auto simp: wins_def\<close>)
  ultimately show ?thesis unfolding same by blast
next
  case False
  have upd: "look (put s e) = (look s)(key e \<mapsto> e)"
    using look_put[OF assms(1,2)] False by (simp only: if_False)
  have "x \<in> stored (put s e) \<longleftrightarrow> wins (insert e (stored s)) x" for x
  proof (cases "key x = key e")
    case True
    show ?thesis
    proof
      assume "x \<in> stored (put s e)"
      with True upd have "x = e" by (auto simp: stored_def)
      with False show "wins (insert e (stored s)) x"
        by (force simp: wins_def stored_def)
    next
      assume "wins (insert e (stored s)) x"
      with True False have "x = e" by (auto simp: wins_def stored_def)
      with upd show "x \<in> stored (put s e)" by (auto simp: stored_def)
    qed
  next
    case False': False
    with upd have "x \<in> stored (put s e) \<longleftrightarrow> x \<in> stored s"
      by (auto simp: stored_def)
    with False' assms(1) show ?thesis
      using wins_stored by (auto simp: wins_def)
  qed
  then show ?thesis by blast
qed

lemma wins_wins:
  "finite E \<Longrightarrow> wins ({x. wins E x} \<union> F) e \<longleftrightarrow> wins (E \<union> F) e"
proof -
  assume fin: "finite E"
  have dom: "\<exists>y. wins E y \<and> key y = key x \<and> ver x \<le> ver y" if "x \<in> E" for x
  proof -
    let ?V = "ver ` {y \<in> E. key y = key x}"
    have "finite ?V" "?V \<noteq> {}" using fin that by auto
    then have "Max ?V \<in> ?V" by (rule Max_in)
    then obtain y where "y \<in> E" "key y = key x" "ver y = Max ?V" by auto
    moreover have "ver z \<le> Max ?V" if "z \<in> E" "key z = key x" for z
      using \<open>finite ?V\<close> that by (intro Max_ge) auto
    ultimately show ?thesis using that unfolding wins_def by (intro exI[of _ y]) auto
  qed
  show ?thesis
  proof
    assume "wins ({x. wins E x} \<union> F) e"
    moreover have "ver x \<le> ver e"
      if w: "wins ({x. wins E x} \<union> F) e" and x: "x \<in> E" "key x = key e" for x
    proof -
      obtain y where y: "wins E y" "key y = key x" "ver x \<le> ver y" using dom[OF x(1)] by blast
      with w x(2) have "ver y \<le> ver e" by (simp add: wins_def)
      with y(3) show ?thesis by (rule order_trans)
    qed
    ultimately show "wins (E \<union> F) e" unfolding wins_def by blast
  next
    assume "wins (E \<union> F) e"
    then show "wins ({x. wins E x} \<union> F) e" unfolding wins_def by auto
  qed
qed

definition put_all :: "'s \<Rightarrow> 'e list \<Rightarrow> 's" where
  "put_all s es = foldl put s es"

lemma put_all_inv: "inv s \<Longrightarrow> \<forall>e \<in> set es. good e \<Longrightarrow> inv (put_all s es)"
  unfolding put_all_def by (induction es arbitrary: s) (auto simp: put_inv)

theorem stored_put_all:
  assumes "inv s" "finite (stored s)" "\<forall>e \<in> set es. good e" "versioned (set es \<union> stored s)"
  shows "stored (put_all s es) = {x. wins (set es \<union> stored s) x}"
  using assms
proof (induction es arbitrary: s)
  case Nil
  then show ?case using wins_stored by (auto simp: put_all_def wins_def)
next
  case (Cons e es)
  have vs: "versioned (insert e (stored s))"
    using Cons.prems(4) by (rule versioned_mono) auto
  have st: "stored (put s e) = {x. wins (insert e (stored s)) x}"
    using Cons.prems vs by (intro stored_put) auto
  have sub: "{x. wins (insert e (stored s)) x} \<subseteq> insert e (stored s)"
    by (auto simp: wins_def)
  have "stored (put_all (put s e) es) = {x. wins (set es \<union> stored (put s e)) x}"
  proof (rule Cons.IH)
    show "inv (put s e)" using Cons.prems by (simp add: put_inv)
    show "finite (stored (put s e))"
      unfolding st using sub Cons.prems(2) by (meson finite_insert finite_subset)
    show "\<forall>x \<in> set es. good x" using Cons.prems by simp
    show "versioned (set es \<union> stored (put s e))"
      unfolding st using Cons.prems(4) by (rule versioned_mono) (use sub in auto)
  qed
  also have "\<dots> = {x. wins (set (e # es) \<union> stored s) x}"
    unfolding st using wins_wins[of "insert e (stored s)" "set es"] Cons.prems(2)
    by (simp add: Un_commute)
  finally show ?case by (simp add: put_all_def)
qed

theorem converge:
  assumes "inv s" "inv t" "finite (stored s)" "finite (stored t)"
    and "\<forall>e \<in> set es. good e" "\<forall>e \<in> set fs. good e"
    and "set es \<union> stored s = set fs \<union> stored t" "versioned (set es \<union> stored s)"
  shows "put_all s es = put_all t fs"
  using assms by (intro stored_ext) (auto simp: put_all_inv stored_put_all)

text \<open>Only the rows newer than what the receiver holds have to be sent.\<close>

definition news :: "'s \<Rightarrow> 'e \<Rightarrow> bool" where
  "news s e \<longleftrightarrow> (case look s (key e) of None \<Rightarrow> True | Some old \<Rightarrow> ver old < ver e)"

lemma wins_news:
  assumes "inv s" "versioned (E \<union> stored s)"
  shows "wins ({x \<in> E. news s x} \<union> stored s) e \<longleftrightarrow> wins (E \<union> stored s) e"
proof -
  have dom: "\<exists>y \<in> stored s. key y = key x \<and> ver x \<le> ver y" if "\<not> news s x" for x
    using that assms(1) by (auto simp: news_def look_stored not_less split: option.splits)
  have in_st: "x \<in> stored s"
    if x: "x \<in> E" "\<not> news s x" "\<forall>y \<in> E \<union> stored s. key y = key x \<longrightarrow> ver y \<le> ver x" for x
  proof -
    obtain y where "y \<in> stored s" "key y = key x" "ver x \<le> ver y" using dom x(2) by blast
    with x assms(2) show ?thesis unfolding versioned_def by (metis UnI1 UnI2 order_antisym)
  qed
  show ?thesis
  proof
    assume w: "wins ({x \<in> E. news s x} \<union> stored s) e"
    have "ver x \<le> ver e" if "x \<in> E" "key x = key e" for x
    proof (cases "news s x")
      case True with w that show ?thesis by (auto simp: wins_def)
    next
      case False
      with dom obtain y where "y \<in> stored s" "key y = key x" "ver x \<le> ver y" by blast
      with w that show ?thesis by (auto simp: wins_def intro: order_trans)
    qed
    with w show "wins (E \<union> stored s) e" by (auto simp: wins_def)
  next
    assume w: "wins (E \<union> stored s) e"
    with in_st have "e \<in> {x \<in> E. news s x} \<union> stored s" by (auto simp: wins_def)
    with w show "wins ({x \<in> E. news s x} \<union> stored s) e" by (auto simp: wins_def)
  qed
qed

theorem pull_news:
  assumes "inv s" "finite (stored s)" "\<forall>e \<in> set es. good e" "versioned (set es \<union> stored s)"
  shows "put_all s (filter (news s) es) = put_all s es"
proof (rule stored_ext)
  show "inv (put_all s (filter (news s) es))" "inv (put_all s es)"
    using assms by (auto intro: put_all_inv)
  have "versioned (set (filter (news s) es) \<union> stored s)"
    using assms(4) by (rule versioned_mono) auto
  then show "stored (put_all s (filter (news s) es)) = stored (put_all s es)"
    using assms wins_news[OF assms(1,4)] by (simp add: stored_put_all)
qed

end

section \<open>The document table as a replicated store\<close>

text \<open>Replaying a stored row at another node is a signed accept of its fields.\<close>

definition accept_entry :: "meshtastic_cluster_doc \<Rightarrow> meshtastic_cluster_entry \<Rightarrow> meshtastic_cluster_doc" where
  "accept_entry d e =
     fst (meshtastic_cluster_doc_accept_signed d (ent_key e) (ent_stamp e) (ent_tombstone e)
            (ent_payload e) (if ent_has_sig e then Some (ent_sig e) else None))"

definition replay :: "meshtastic_cluster_doc \<Rightarrow> meshtastic_cluster_entry list \<Rightarrow> meshtastic_cluster_doc" where
  "replay d es = foldl accept_entry d es"

definition pull :: "meshtastic_cluster_doc \<Rightarrow> meshtastic_cluster_doc \<Rightarrow> meshtastic_cluster_doc" where
  "pull d from =
     replay d (filter (\<lambda>e. meshtastic_cluster_doc_wants d (ent_key e) (ent_stamp e)) (doc_entries from))"

definition unique_stamps :: "meshtastic_cluster_entry set \<Rightarrow> bool" where
  "unique_stamps E \<longleftrightarrow>
     (\<forall>x \<in> E. \<forall>y \<in> E. ent_key x = ent_key y \<and> ent_stamp x = ent_stamp y \<longrightarrow> x = y)"

definition doc_in :: "meshtastic_cluster_key set \<Rightarrow> nat \<Rightarrow> meshtastic_cluster_doc \<Rightarrow> bool" where
  "doc_in K c d \<longleftrightarrow> doc_inv d \<and> doc_cap d = c \<and> finite K \<and> card K \<le> c
     \<and> ent_key ` set (doc_entries d) \<subseteq> K"

lemma stored_entry_of_entry:
  assumes "entry_ok e"
  shows "stored_entry (ent_key e) (ent_stamp e) (ent_tombstone e) (ent_payload e)
           (if ent_has_sig e then Some (ent_sig e) else None) = e"
  using assms
  by (intro meshtastic_cluster_entry.equality) (auto simp: stored_entry_def entry_ok_def)

lemma entry_ok_write:
  "entry_ok e \<Longrightarrow> write_ok (ent_key e) (ent_stamp e) (ent_tombstone e) (ent_payload e)"
  "entry_ok e \<Longrightarrow> sig_ok (if ent_has_sig e then Some (ent_sig e) else None)"
  by (auto simp: entry_ok_def sig_ok_def)

lemma doc_count_keys: "doc_inv d \<Longrightarrow> card (ent_key ` set (doc_entries d)) = doc_count d"
  using distinct_card[of "ent_keys (doc_entries d)"]
  by (simp add: doc_inv_def strict_sorted_iff)

lemma doc_in_room:
  assumes "doc_in K c d" "k \<in> K" "lookup_ents (doc_entries d) k = None"
  shows "doc_count d < doc_cap d"
proof -
  from assms have "ent_key ` set (doc_entries d) \<subset> K"
    by (auto simp: doc_in_def lookup_ents_None_iff)
  with assms(1) have "card (ent_key ` set (doc_entries d)) < card K"
    by (intro psubset_card_mono) (auto simp: doc_in_def)
  with assms(1) doc_count_keys[of d] show ?thesis by (auto simp: doc_in_def)
qed

lemma accept_signed_cap [simp]:
  "doc_cap (fst (meshtastic_cluster_doc_accept_signed d k st t p sig)) = doc_cap d"
  by (auto simp: meshtastic_cluster_doc_accept_signed_def Let_def split: prod.splits)

lemma lookup_ents_dom: "ent_key ` set es = dom (lookup_ents es)"
  by (auto simp: dom_def lookup_ents_None_iff simp flip: not_None_eq)

lemma accept_entry_lookup:
  assumes "doc_in K c d" "entry_ok e" "ent_key e \<in> K"
  shows "lookup_ents (doc_entries (accept_entry d e)) = lww_upd (lookup_ents (doc_entries d)) e"
proof -
  have "lookup_ents (doc_entries d) (ent_key e) \<noteq> None \<or> doc_count d < doc_cap d"
    using doc_in_room[OF assms(1,3)] by blast
  with assms accept_signed_refines[OF _ entry_ok_write(1)[OF assms(2)]] show ?thesis
    by (simp add: accept_entry_def doc_in_def stored_entry_of_entry[OF assms(2)])
qed

lemma accept_entry_in:
  assumes "doc_in K c d" "entry_ok e" "ent_key e \<in> K"
  shows "doc_in K c (accept_entry d e)"
proof -
  have "doc_inv (accept_entry d e)" "doc_cap (accept_entry d e) = c"
    using assms entry_ok_write(2)[OF assms(2)] accept_signed_inv
    by (auto simp: accept_entry_def doc_in_def)
  moreover have "ent_key ` set (doc_entries (accept_entry d e)) \<subseteq> K"
    using assms unfolding lookup_ents_dom accept_entry_lookup[OF assms]
    by (auto simp: doc_in_def lookup_ents_dom lww_upd_def split: option.splits if_splits)
  ultimately show ?thesis using assms(1) by (simp add: doc_in_def)
qed

lemma ents_ext:
  assumes "sorted_wrt (<) (ent_keys xs)" "sorted_wrt (<) (ent_keys ys)"
    and "lookup_ents xs = lookup_ents ys"
  shows "xs = ys"
proof -
  have mem: "e \<in> set es \<longleftrightarrow> lookup_ents es (ent_key e) = Some e"
    if "sorted_wrt (<) (ent_keys es)" for e es
    using lookup_ents_mem[OF that, of e] lookup_ents_SomeD[of es "ent_key e" e] by blast
  have same: "set xs = set ys" using mem[OF assms(1)] mem[OF assms(2)] assms(3) by auto
  have "ent_keys xs = ent_keys ys"
    using strict_sorted_equal[OF assms(1,2)] same by simp
  moreover have "inj_on ent_key (set xs \<union> set ys)"
    using assms(1) same by (simp add: strict_sorted_iff distinct_map)
  ultimately show ?thesis by (rule map_inj_on)
qed

interpretation sync: lww_store "doc_in K c" "\<lambda>e. entry_ok e \<and> ent_key e \<in> K"
  "\<lambda>d. lookup_ents (doc_entries d)" accept_entry ent_key ent_stamp for K c
proof unfold_locales
  fix s t and e :: meshtastic_cluster_entry and k :: meshtastic_cluster_key
  assume s: "doc_in K c s"
  show "entry_ok e \<and> ent_key e \<in> K \<Longrightarrow> doc_in K c (accept_entry s e)"
    using s by (simp add: accept_entry_in)
  show "lookup_ents (doc_entries (accept_entry s e)) =
      (if \<exists>old. lookup_ents (doc_entries s) (ent_key e) = Some old \<and> ent_stamp e \<le> ent_stamp old
       then lookup_ents (doc_entries s) else (lookup_ents (doc_entries s))(ent_key e \<mapsto> e))"
    if "entry_ok e \<and> ent_key e \<in> K"
    using that by (auto simp: accept_entry_lookup[OF s] lww_upd_def not_less split: option.splits)
  show "lookup_ents (doc_entries s) k = Some e \<Longrightarrow> ent_key e = k"
    using lookup_ents_SomeD by blast
  show "s = t" if "doc_in K c t" "lookup_ents (doc_entries s) = lookup_ents (doc_entries t)"
    using s that ents_ext[of "doc_entries s" "doc_entries t"]
    by (intro meshtastic_cluster_doc.equality) (auto simp: doc_in_def doc_inv_def)
qed

section \<open>Replication of documents\<close>

lemma replay_put_all: "replay d es = sync.put_all d es"
  by (simp add: replay_def sync.put_all_def)

lemma stored_doc: "doc_inv d \<Longrightarrow> sync.stored d = set (doc_entries d)"
  using lookup_ents_mem[OF doc_inv_sorted] lookup_ents_SomeD
  by (auto simp: sync.stored_def)

lemma unique_stamps_versioned: "unique_stamps E = sync.versioned E"
  by (simp add: unique_stamps_def sync.versioned_def)

lemma doc_in_keys:
  assumes "doc_inv d" "doc_entries d = es" "set es \<subseteq> E" "finite E" "card (ent_key ` E) \<le> doc_cap d"
  shows "doc_in (ent_key ` E) (doc_cap d) d"
  using assms by (auto simp: doc_in_def)

lemma doc_inv_entry_ok: "doc_inv d \<Longrightarrow> e \<in> set (doc_entries d) \<Longrightarrow> entry_ok e"
  by (simp add: doc_inv_def)

lemma wants_news:
  assumes "doc_in K c d" "entry_ok e" "ent_key e \<in> K"
  shows "meshtastic_cluster_doc_wants d (ent_key e) (ent_stamp e) = sync.news d e"
proof -
  have "doc_inv d" using assms(1) by (simp add: doc_in_def)
  moreover have "key_is_valid (ent_key e)" "ent_stamp e \<noteq> unset_stamp"
    using entry_ok_write(1)[OF assms(2)] by (auto simp: write_ok_def)
  ultimately show ?thesis
    using doc_in_room[OF assms(1,3)]
    by (auto simp: meshtastic_cluster_doc_wants_def meshtastic_cluster_doc_want_def is_unset_iff
        find_eq_lookup sync.news_def meshtastic_cluster_scope_contains_def
        meshtastic_cluster_scope_make_def split: option.splits)
qed

lemma pull_is_replay:
  assumes a: "doc_in K c a" and b: "doc_in K c b"
    and vs: "unique_stamps (set (doc_entries b) \<union> set (doc_entries a))"
  shows "pull a b = replay a (doc_entries b)"
proof -
  have ok: "\<forall>e \<in> set (doc_entries b). entry_ok e \<and> ent_key e \<in> K"
    using b doc_inv_entry_ok by (auto simp: doc_in_def)
  have "filter (\<lambda>e. meshtastic_cluster_doc_wants a (ent_key e) (ent_stamp e)) (doc_entries b)
      = filter (sync.news a) (doc_entries b)"
    using wants_news[OF a] ok by (intro filter_cong) auto
  then show ?thesis
    using sync.pull_news[OF a, of "doc_entries b"] ok a vs
    by (simp add: pull_def replay_put_all unique_stamps_versioned stored_doc doc_in_def)
qed

lemma replay_winners:
  assumes "doc_in K c d" "\<forall>e \<in> set es. entry_ok e \<and> ent_key e \<in> K"
    and "unique_stamps (set es \<union> set (doc_entries d))"
  shows "doc_in K c (replay d es)"
    and "set (doc_entries (replay d es)) =
      {e \<in> set es \<union> set (doc_entries d).
         \<forall>x \<in> set es \<union> set (doc_entries d). ent_key x = ent_key e \<longrightarrow> ent_stamp x \<le> ent_stamp e}"
proof -
  show in_K: "doc_in K c (replay d es)"
    using sync.put_all_inv[OF assms(1,2)] by (simp add: replay_put_all)
  have "doc_inv d" "doc_inv (replay d es)" using assms(1) in_K by (auto simp: doc_in_def)
  then show "set (doc_entries (replay d es)) = {e \<in> set es \<union> set (doc_entries d).
         \<forall>x \<in> set es \<union> set (doc_entries d). ent_key x = ent_key e \<longrightarrow> ent_stamp x \<le> ent_stamp e}"
    using sync.stored_put_all[OF assms(1) _ assms(2)] assms(3)
    by (simp add: stored_doc replay_put_all unique_stamps_versioned sync.wins_def)
qed

text \<open>A second replica that shares a key with \<^const>\<open>ex_doc\<close> and holds a newer row for it.\<close>

definition ex_peer :: meshtastic_cluster_doc where
  "ex_peer =
     (let d0 = meshtastic_cluster_doc_init 3;
          d1 = fst (meshtastic_cluster_doc_accept d0 (base_key 5) (ex_stamp 120) False [7])
      in fst (meshtastic_cluster_doc_accept d1 (node_key 9 5) (ex_stamp 180) False [8]))"

text \<open>C1. Convergence of the replicated document.  Two nodes that start from well-formed documents
  of the same capacity and apply writes so that both have seen the same set of rows end with
  identical tables, whatever the order and multiplicity of delivery.  Rows of one key carry
  distinct stamps, and the table has room for the keys involved.\<close>

theorem cluster_converges:
  assumes "doc_inv s" "doc_inv t" "doc_cap s = doc_cap t"
    and "\<forall>e \<in> set es \<union> set fs. entry_ok e"
    and "set es \<union> set (doc_entries s) = set fs \<union> set (doc_entries t)"
    and "unique_stamps (set es \<union> set (doc_entries s))"
    and "card (ent_key ` (set es \<union> set (doc_entries s))) \<le> doc_cap s"
  shows "replay s es = replay t fs"
proof -
  let ?E = "set es \<union> set (doc_entries s)"
  let ?K = "ent_key ` ?E"
  have s: "doc_in ?K (doc_cap s) s" using assms by (intro doc_in_keys) auto
  have t: "doc_in ?K (doc_cap s) t"
    using assms doc_in_keys[of t "doc_entries t" ?E] by simp
  have "\<forall>e \<in> set fs. ent_key e \<in> ?K" unfolding assms(5) by auto
  with assms s t show ?thesis
    unfolding replay_put_all
    by (intro sync.converge[OF s t]) (auto simp: stored_doc unique_stamps_versioned)
qed

theorem cluster_converges_witness:
  "replay ex_doc (doc_entries ex_peer @ doc_entries ex_peer)
     = replay (meshtastic_cluster_doc_init 3) (rev (doc_entries ex_peer) @ doc_entries ex_doc)"
proof -
  have "doc_inv (meshtastic_cluster_doc_init 3)" "doc_cap ex_doc = doc_cap (meshtastic_cluster_doc_init 3)"
    "\<forall>e \<in> set (doc_entries ex_peer @ doc_entries ex_peer)
       \<union> set (rev (doc_entries ex_peer) @ doc_entries ex_doc). entry_ok e"
    "set (doc_entries ex_peer @ doc_entries ex_peer) \<union> set (doc_entries ex_doc)
       = set (rev (doc_entries ex_peer) @ doc_entries ex_doc)
         \<union> set (doc_entries (meshtastic_cluster_doc_init 3))"
    "unique_stamps (set (doc_entries ex_peer @ doc_entries ex_peer) \<union> set (doc_entries ex_doc))"
    "card (ent_key ` (set (doc_entries ex_peer @ doc_entries ex_peer) \<union> set (doc_entries ex_doc)))
       \<le> doc_cap ex_doc"
    by code_simp+
  from cluster_converges[OF ex_doc_inv(1) this] show ?thesis .
qed

text \<open>C2. One pull in each direction synchronises two replicas: each node requests exactly the
  rows the want test asks for, and afterwards both hold the same table, which has for every key
  known to either side the row with the greatest stamp.\<close>

theorem cluster_pull_syncs:
  assumes "doc_inv a" "doc_inv b" "doc_cap a = doc_cap b"
    and "unique_stamps (set (doc_entries a) \<union> set (doc_entries b))"
    and "card (ent_key ` (set (doc_entries a) \<union> set (doc_entries b))) \<le> doc_cap a"
  shows "pull a b = pull b a
    \<and> set (doc_entries (pull a b)) =
      {e \<in> set (doc_entries a) \<union> set (doc_entries b).
         \<forall>x \<in> set (doc_entries a) \<union> set (doc_entries b).
            ent_key x = ent_key e \<longrightarrow> ent_stamp x \<le> ent_stamp e}"
proof -
  let ?E = "set (doc_entries a) \<union> set (doc_entries b)"
  let ?K = "ent_key ` ?E" and ?c = "doc_cap a"
  have a: "doc_in ?K ?c a" using assms by (intro doc_in_keys) auto
  have b: "doc_in ?K ?c b" using assms doc_in_keys[of b "doc_entries b" ?E] by simp
  have ab: "pull a b = replay a (doc_entries b)"
    using pull_is_replay[OF a b] assms(4) by (simp add: Un_commute)
  have ba: "pull b a = replay b (doc_entries a)"
    using pull_is_replay[OF b a] assms(4) by simp
  have ok: "\<forall>e \<in> set (doc_entries a). entry_ok e \<and> ent_key e \<in> ?K"
    "\<forall>e \<in> set (doc_entries b). entry_ok e \<and> ent_key e \<in> ?K"
    using assms(1,2) doc_inv_entry_ok by auto
  have "sync.put_all a (doc_entries b) = sync.put_all b (doc_entries a)"
    using assms by (intro sync.converge[OF a b _ _ ok(2) ok(1)])
      (auto simp: stored_doc unique_stamps_versioned Un_commute)
  then have "pull a b = pull b a" by (simp add: ab ba replay_put_all)
  moreover have "set (doc_entries (pull a b)) = {e \<in> ?E.
         \<forall>x \<in> ?E. ent_key x = ent_key e \<longrightarrow> ent_stamp x \<le> ent_stamp e}"
    using replay_winners(2)[OF a ok(2)] assms(4) by (simp add: ab Un_commute)
  ultimately show ?thesis by blast
qed

theorem cluster_pull_syncs_witness:
  "ex_doc \<noteq> ex_peer \<and> pull ex_doc ex_peer = pull ex_peer ex_doc"
proof -
  have "doc_inv ex_peer" "doc_cap ex_doc = doc_cap ex_peer"
    "unique_stamps (set (doc_entries ex_doc) \<union> set (doc_entries ex_peer))"
    "card (ent_key ` (set (doc_entries ex_doc) \<union> set (doc_entries ex_peer))) \<le> doc_cap ex_doc"
    by code_simp+
  note sync = cluster_pull_syncs[OF ex_doc_inv(1) this]
  have "ex_doc \<noteq> ex_peer" by code_simp
  with sync show ?thesis by blast
qed

end
