(* ===== verification/Cluster_Sign.thy ===== *)
theory Cluster_Sign
  imports Cluster_Merge
begin

text \<open>
  What is hashed and what is signed.  The digest rows, the byte string an author signs and the
  signature policy of \<^verbatim>\<open>meshtastic_cluster_doc.c\<close>, the signature gate of
  \<^verbatim>\<open>meshtastic_cluster.c\<close>, and the packet signing buffer of \<^verbatim>\<open>meshtastic_xeddsa.c\<close> that shares the
  key.  The CRC, the key store and the verifier are parameters.
\<close>

section \<open>Digest rows\<close>

definition row_bytes :: "meshtastic_cluster_entry \<Rightarrow> bytes" where
  "row_bytes e =
     [key_layer (ent_key e)] @ le_bytes (key_node_id (ent_key e)) 4
     @ [ucast (key_section (ent_key e) AND 0xFF), ucast (drop_bit 8 (key_section (ent_key e)))]
     @ le_bytes (of_int (st_physical_ms (ent_stamp e)) :: u64) 8
     @ le_bytes (st_counter (ent_stamp e)) 4
     @ le_bytes (st_node_id (ent_stamp e)) 4
     @ [if ent_tombstone e then 1 else 0]"

fun hash_loop ::
  "(u32 \<Rightarrow> bytes \<Rightarrow> u32) \<Rightarrow> meshtastic_cluster_scope \<Rightarrow> meshtastic_cluster_entry list \<Rightarrow> u32 \<Rightarrow> u32"
where
  "hash_loop crc32 scope [] crc = crc"
| "hash_loop crc32 scope (e # es) crc =
     (if \<not> meshtastic_cluster_scope_contains scope (ent_key e) then hash_loop crc32 scope es crc
      else hash_loop crc32 scope es (crc32 crc (row_bytes e)))"

definition meshtastic_cluster_doc_hash_scoped ::
  "(u32 \<Rightarrow> bytes \<Rightarrow> u32) \<Rightarrow> meshtastic_cluster_doc \<Rightarrow> meshtastic_cluster_scope \<Rightarrow> u32" where
  "meshtastic_cluster_doc_hash_scoped crc32 doc scope = hash_loop crc32 scope (doc_entries doc) 0"

definition meshtastic_cluster_doc_hash ::
  "(u32 \<Rightarrow> bytes \<Rightarrow> u32) \<Rightarrow> meshtastic_cluster_doc \<Rightarrow> u32" where
  "meshtastic_cluster_doc_hash crc32 doc =
     meshtastic_cluster_doc_hash_scoped crc32 doc (meshtastic_cluster_scope_make SCOPE_FULL 0)"

section \<open>The signed bytes\<close>

definition put_le :: "u64 \<Rightarrow> nat \<Rightarrow> bytes" where
  "put_le v n = map (\<lambda>i. ucast (drop_bit (8 * i) v)) [0..<n]"

text \<open>The string literal \<^verbatim>\<open>zephyrtastic/cluster-entry/v1\<close> with its terminating zero.\<close>

definition SIGBUF_PREFIX :: bytes where
  "SIGBUF_PREFIX =
     [0x7A, 0x65, 0x70, 0x68, 0x79, 0x72, 0x74, 0x61, 0x73, 0x74, 0x69, 0x63, 0x2F, 0x63, 0x6C,
      0x75, 0x73, 0x74, 0x65, 0x72, 0x2D, 0x65, 0x6E, 0x74, 0x72, 0x79, 0x2F, 0x76, 0x31, 0x00]"

definition SIGBUF_PREFIX_LEN :: nat where
  "SIGBUF_PREFIX_LEN = 30"

definition SIGBUF_MAX :: nat where
  "SIGBUF_MAX = SIGBUF_PREFIX_LEN + 26 + MESHTASTIC_CLUSTER_PAYLOAD_MAX"

definition meshtastic_cluster_signing_buffer ::
  "nat \<Rightarrow> meshtastic_cluster_key \<Rightarrow> meshtastic_hlc_stamp \<Rightarrow> bool \<Rightarrow> bytes \<Rightarrow> bytes" where
  "meshtastic_cluster_signing_buffer cap key stamp tombstone payload =
     (if length payload > MESHTASTIC_CLUSTER_PAYLOAD_MAX
         \<or> SIGBUF_PREFIX_LEN + 26 + length payload > cap then []
      else SIGBUF_PREFIX
           @ put_le (ucast (key_layer key)) 1
           @ put_le (ucast (key_node_id key)) 4
           @ put_le (ucast (key_section key)) 2
           @ put_le (of_int (st_physical_ms stamp)) 8
           @ put_le (ucast (st_counter stamp)) 4
           @ put_le (ucast (st_node_id stamp)) 4
           @ put_le (if tombstone then 1 else 0) 1
           @ put_le (of_nat (length payload)) 2
           @ payload)"

section \<open>The signature policy\<close>

datatype meshtastic_cluster_sig_verdict =
  SIG_ACCEPT_VERIFIED | SIG_ACCEPT_UNSIGNED | SIG_ACCEPT_UNCHECKED | SIG_REFUSE_UNSIGNED
  | SIG_REFUSE_MALFORMED | SIG_REFUSE_NO_KEY | SIG_REFUSE_BAD

definition meshtastic_cluster_sig_policy ::
  "nat \<Rightarrow> bool \<Rightarrow> bool \<Rightarrow> bool \<Rightarrow> bool \<Rightarrow> bool \<Rightarrow> meshtastic_cluster_sig_verdict" where
  "meshtastic_cluster_sig_policy sig_len require_signed author_is_self can_verify have_key verifies =
     (if sig_len = 0
      then (if require_signed \<and> \<not> author_is_self then SIG_REFUSE_UNSIGNED else SIG_ACCEPT_UNSIGNED)
      else if sig_len \<noteq> MESHTASTIC_CLUSTER_SIG_LEN then SIG_REFUSE_MALFORMED
      else if \<not> can_verify then SIG_ACCEPT_UNCHECKED
      else if \<not> have_key then SIG_REFUSE_NO_KEY
      else if verifies then SIG_ACCEPT_VERIFIED else SIG_REFUSE_BAD)"

definition meshtastic_cluster_sig_accepts :: "meshtastic_cluster_sig_verdict \<Rightarrow> bool" where
  "meshtastic_cluster_sig_accepts v \<longleftrightarrow>
     v = SIG_ACCEPT_VERIFIED \<or> v = SIG_ACCEPT_UNSIGNED \<or> v = SIG_ACCEPT_UNCHECKED"

text \<open>The gate on a reassembled entry.  The environment is the build's two options, this node's
  id, the key lookups (own key and node database) and the verifier; the result is the verdict and,
  for an accepted entry, the signature to store.\<close>

record sig_env =
  se_xeddsa :: bool
  se_required :: bool
  se_self :: u32
  se_own_pub :: "bytes option"
  se_pubkey :: "u32 \<Rightarrow> bytes option"
  se_verify :: "bytes \<Rightarrow> bytes \<Rightarrow> bytes \<Rightarrow> bool"

definition entry_signature_ok ::
  "'z sig_env_scheme \<Rightarrow> meshtastic_cluster_key \<Rightarrow> meshtastic_hlc_stamp \<Rightarrow> bool \<Rightarrow> bytes \<Rightarrow> bytes
     \<Rightarrow> meshtastic_cluster_sig_verdict \<times> bytes option" where
  "entry_signature_ok env key stamp tombstone author_sig payload =
     (let self = (st_node_id stamp = se_self env);
          pub = (if se_xeddsa env \<and> length author_sig = MESHTASTIC_CLUSTER_SIG_LEN
                 then (if self then se_own_pub env else se_pubkey env (st_node_id stamp))
                 else None);
          verifies = (case pub of
                        None \<Rightarrow> False
                      | Some pk \<Rightarrow>
                          (let buf = meshtastic_cluster_signing_buffer SIGBUF_MAX key stamp tombstone payload
                           in buf \<noteq> [] \<and> se_verify env pk buf author_sig));
          v = meshtastic_cluster_sig_policy (length author_sig) (se_required env) self
                (se_xeddsa env) (pub \<noteq> None) verifies
      in (v, if meshtastic_cluster_sig_accepts v \<and> length author_sig = MESHTASTIC_CLUSTER_SIG_LEN
             then Some author_sig else None))"

section \<open>The packet signing buffer\<close>

record meshtastic_Data =
  data_portnum :: u32
  data_payload :: bytes
  data_want_response :: bool
  data_request_id :: u32
  data_reply_id :: u32
  data_emoji :: u32
  data_has_bitfield :: bool
  data_bitfield :: u32

definition MESHTASTIC_MAX_PAYLOAD_LEN :: nat where
  "MESHTASTIC_MAX_PAYLOAD_LEN = 233"

definition XEDDSA_SIGNING_VERSION :: u8 where
  "XEDDSA_SIGNING_VERSION = 0x01"

definition XEDDSA_SIGBUF_HEADER_LEN :: nat where
  "XEDDSA_SIGBUF_HEADER_LEN = 1 + 8 * 4 + 1"

definition meshtastic_xeddsa_build_signing_buffer ::
  "nat \<Rightarrow> u32 \<Rightarrow> u32 \<Rightarrow> u32 \<Rightarrow> meshtastic_Data \<Rightarrow> bytes" where
  "meshtastic_xeddsa_build_signing_buffer buf_size from_node packet_id to_node data =
     (if XEDDSA_SIGBUF_HEADER_LEN + length (data_payload data) > buf_size
         \<or> length (data_payload data) > MESHTASTIC_MAX_PAYLOAD_LEN then []
      else [XEDDSA_SIGNING_VERSION]
           @ le_bytes from_node 4 @ le_bytes packet_id 4 @ le_bytes to_node 4
           @ le_bytes (data_portnum data) 4 @ le_bytes (data_request_id data) 4
           @ le_bytes (data_reply_id data) 4 @ le_bytes (data_emoji data) 4
           @ le_bytes (if data_has_bitfield data then data_bitfield data else 0) 4
           @ [(if data_want_response data then 0x01 else 0)
              OR (if data_has_bitfield data then 0x02 else 0)]
           @ data_payload data)"

section \<open>Fields of the signed string\<close>

lemma put_le_le_bytes: "put_le v n = le_bytes v n"
  by (simp add: put_le_def le_bytes_def)

lemma le_bytes_ucast: "8 * n \<le> LENGTH('b) \<Longrightarrow> le_bytes (ucast (w::'a::len word) :: 'b::len word) n = le_bytes w n"
  unfolding le_bytes_def by (intro map_cong refl bit_word_eqI) (auto simp: bit_simps)

lemma le_bytes_1: "le_bytes w (Suc 0) = [ucast w]"
  by (simp add: le_bytes_def)

lemma length_SIGBUF_PREFIX [simp]: "length SIGBUF_PREFIX = SIGBUF_PREFIX_LEN"
  by (simp add: SIGBUF_PREFIX_def SIGBUF_PREFIX_LEN_def)

definition signed_fields ::
  "meshtastic_cluster_key \<Rightarrow> meshtastic_hlc_stamp \<Rightarrow> bool \<Rightarrow> bytes \<Rightarrow> bytes" where
  "signed_fields key stamp tombstone payload =
     [key_layer key] @ le_bytes (key_node_id key) 4 @ le_bytes (key_section key) 2
     @ le_bytes (of_int (st_physical_ms stamp) :: u64) 8 @ le_bytes (st_counter stamp) 4
     @ le_bytes (st_node_id stamp) 4 @ [if tombstone then 1 else 0]
     @ le_bytes (of_nat (length payload) :: u16) 2 @ payload"

lemma signing_buffer_fields:
  "meshtastic_cluster_signing_buffer cap key stamp tombstone payload =
     (if length payload > MESHTASTIC_CLUSTER_PAYLOAD_MAX
         \<or> SIGBUF_PREFIX_LEN + 26 + length payload > cap then []
      else SIGBUF_PREFIX @ signed_fields key stamp tombstone payload)"
proof -
  have len: "le_bytes (of_nat n :: u64) 2 = le_bytes (of_nat n :: u16) 2" for n
    unfolding le_bytes_def by (intro map_cong refl bit_word_eqI) (auto simp: bit_simps)
  have byte: "ucast (ucast w :: u64) = w" for w :: u8
    by (rule bit_word_eqI) (auto simp: bit_simps)
  show ?thesis
    by (simp add: meshtastic_cluster_signing_buffer_def signed_fields_def put_le_le_bytes
        le_bytes_ucast le_bytes_1 len byte)
qed

lemma flag_byte_eq: "(if a then 1 else 0 :: u8) = (if b then 1 else 0) \<longleftrightarrow> a = b"
  by simp

lemma signed_fields_inj:
  assumes "i64_range (st_physical_ms s1)" "i64_range (st_physical_ms s2)"
  shows "signed_fields k1 s1 t1 p1 = signed_fields k2 s2 t2 p2 \<longleftrightarrow>
     k1 = k2 \<and> s1 = s2 \<and> t1 = t2 \<and> p1 = p2"
proof
  assume "signed_fields k1 s1 t1 p1 = signed_fields k2 s2 t2 p2"
  then have "key_layer k1 = key_layer k2" "key_node_id k1 = key_node_id k2"
    "key_section k1 = key_section k2" "st_physical_ms s1 = st_physical_ms s2"
    "st_counter s1 = st_counter s2" "st_node_id s1 = st_node_id s2" "t1 = t2" "p1 = p2"
    by (auto simp: signed_fields_def field_split of_int_i64_inj[OF assms] split: if_splits)
  then show "k1 = k2 \<and> s1 = s2 \<and> t1 = t2 \<and> p1 = p2" by simp
qed simp

lemma hash_loop_filter:
  "hash_loop crc32 scope es crc =
     foldl (\<lambda>c e. crc32 c (row_bytes e)) crc
       (filter (\<lambda>e. meshtastic_cluster_scope_contains scope (ent_key e)) es)"
  by (induction es arbitrary: crc) auto

lemma row_bytes_inj:
  assumes "i64_range (st_physical_ms (ent_stamp a))" "i64_range (st_physical_ms (ent_stamp b))"
    and "row_bytes a = row_bytes b"
  shows "ent_key a = ent_key b \<and> ent_stamp a = ent_stamp b \<and> ent_tombstone a = ent_tombstone b"
proof -
  have sec: "[ucast (s AND 0xFF), ucast (drop_bit 8 s)] = le_bytes s 2" for s :: u16
  proof -
    have "ucast (s AND mask 8) = (ucast s :: u8)" by (rule bit_word_eqI) (auto simp: bit_simps)
    then have "ucast (s AND 0xFF) = (ucast s :: u8)" by (simp add: mask_eq_exp_minus_1)
    then show ?thesis by (simp add: le_bytes_def upt_rec numeral_2_eq_2)
  qed
  from assms(3) have "key_layer (ent_key a) = key_layer (ent_key b)"
    "key_node_id (ent_key a) = key_node_id (ent_key b)"
    "key_section (ent_key a) = key_section (ent_key b)"
    "st_physical_ms (ent_stamp a) = st_physical_ms (ent_stamp b)"
    "st_counter (ent_stamp a) = st_counter (ent_stamp b)"
    "st_node_id (ent_stamp a) = st_node_id (ent_stamp b)" "ent_tombstone a = ent_tombstone b"
    unfolding row_bytes_def sec
    by (auto simp: field_split of_int_i64_inj[OF assms(1,2)] split: if_splits)
  then show ?thesis by simp
qed

lemma xeddsa_flags_eq:
  "((if w1 then 0x01 else 0) OR (if h1 then 0x02 else 0) :: u8)
     = (if w2 then 0x01 else 0) OR (if h2 then 0x02 else 0) \<longleftrightarrow> w1 = w2 \<and> h1 = h2"
  by (cases w1; cases h1; cases w2; cases h2) simp_all

lemma signing_buffer_hd:
  "meshtastic_cluster_signing_buffer cap k s t p \<noteq> [] \<Longrightarrow>
     hd (meshtastic_cluster_signing_buffer cap k s t p) = 0x7A"
  by (auto simp: signing_buffer_fields SIGBUF_PREFIX_def split: if_splits)

section \<open>Properties\<close>

text \<open>C4. The bytes an author signs determine the entry: two entries with the same signing buffer
  agree in key, stamp (author included), tombstone flag and payload, so a signature cannot be moved
  to another entry.\<close>

theorem signing_buffer_injective:
  assumes "meshtastic_cluster_signing_buffer cap k1 s1 t1 p1 = meshtastic_cluster_signing_buffer cap k2 s2 t2 p2"
    and "meshtastic_cluster_signing_buffer cap k1 s1 t1 p1 \<noteq> []"
    and "i64_range (st_physical_ms s1)" "i64_range (st_physical_ms s2)"
  shows "k1 = k2 \<and> s1 = s2 \<and> t1 = t2 \<and> p1 = p2"
proof -
  have "signed_fields k1 s1 t1 p1 = signed_fields k2 s2 t2 p2"
    using assms(1,2) by (auto simp: signing_buffer_fields split: if_splits)
  then show ?thesis by (simp add: signed_fields_inj[OF assms(3,4)])
qed

theorem signing_buffer_injective_witness:
  "meshtastic_cluster_signing_buffer SIGBUF_MAX (base_key 5) (ex_stamp 1) False [7]
     \<noteq> meshtastic_cluster_signing_buffer SIGBUF_MAX (node_key 9 5) (ex_stamp 1) False [7]"
proof -
  have "meshtastic_cluster_signing_buffer SIGBUF_MAX (base_key 5) (ex_stamp 1) False [7] \<noteq> []"
    "i64_range (st_physical_ms (ex_stamp 1))" "base_key 5 \<noteq> node_key 9 5" by code_simp+
  with signing_buffer_injective[of SIGBUF_MAX "base_key 5" "ex_stamp 1" False "[7]" "node_key 9 5"
      "ex_stamp 1" False "[7]"]
  show ?thesis by blast
qed

text \<open>C5. Domain separation: the bytes signed for a cluster entry are never the bytes signed for a
  mesh packet, although both are signed with the same identity key.\<close>

theorem signatures_domain_separated:
  assumes "meshtastic_cluster_signing_buffer cap key stamp tombstone payload \<noteq> []"
  shows "meshtastic_cluster_signing_buffer cap key stamp tombstone payload
    \<noteq> meshtastic_xeddsa_build_signing_buffer buf_size from_node packet_id to_node data"
  using signing_buffer_hd[OF assms] assms
  by (auto simp: meshtastic_xeddsa_build_signing_buffer_def XEDDSA_SIGNING_VERSION_def split: if_splits)

theorem signatures_domain_separated_witness:
  "meshtastic_cluster_signing_buffer SIGBUF_MAX (base_key 5) (ex_stamp 1) False [7]
     \<noteq> meshtastic_xeddsa_build_signing_buffer 267 1 2 3
         \<lparr>data_portnum = 1, data_payload = [1], data_want_response = False, data_request_id = 0,
          data_reply_id = 0, data_emoji = 0, data_has_bitfield = False, data_bitfield = 0\<rparr>"
proof -
  have "meshtastic_cluster_signing_buffer SIGBUF_MAX (base_key 5) (ex_stamp 1) False [7] \<noteq> []"
    by code_simp
  from signatures_domain_separated[OF this] show ?thesis .
qed

text \<open>A packet signature covers the whole envelope: packets with the same signed bytes have the
  same sender, id, destination, port, request and reply ids, emoji, response flag, payload, and the
  same bitfield, present or absent alike.\<close>

theorem xeddsa_buffer_covers_envelope:
  assumes "meshtastic_xeddsa_build_signing_buffer n f1 i1 d1 x = meshtastic_xeddsa_build_signing_buffer n f2 i2 d2 y"
    and "meshtastic_xeddsa_build_signing_buffer n f1 i1 d1 x \<noteq> []"
  shows "f1 = f2 \<and> i1 = i2 \<and> d1 = d2 \<and> data_portnum x = data_portnum y
    \<and> data_request_id x = data_request_id y \<and> data_reply_id x = data_reply_id y
    \<and> data_emoji x = data_emoji y \<and> data_want_response x = data_want_response y
    \<and> data_payload x = data_payload y \<and> data_has_bitfield x = data_has_bitfield y
    \<and> (data_has_bitfield x \<longrightarrow> data_bitfield x = data_bitfield y)"
  using assms
  by (simp add: meshtastic_xeddsa_build_signing_buffer_def field_split xeddsa_flags_eq split: if_splits)

theorem xeddsa_buffer_covers_envelope_witness:
  "meshtastic_xeddsa_build_signing_buffer 267 1 2 3
     \<lparr>data_portnum = 1, data_payload = [1], data_want_response = False, data_request_id = 0,
      data_reply_id = 0, data_emoji = 0, data_has_bitfield = False, data_bitfield = 0\<rparr>
   \<noteq> meshtastic_xeddsa_build_signing_buffer 267 1 2 3
     \<lparr>data_portnum = 1, data_payload = [1], data_want_response = False, data_request_id = 0,
      data_reply_id = 0, data_emoji = 0, data_has_bitfield = True, data_bitfield = 0\<rparr>"
proof -
  let ?d = "\<lambda>b. \<lparr>data_portnum = 1, data_payload = [1], data_want_response = False, data_request_id = 0,
      data_reply_id = 0, data_emoji = 0, data_has_bitfield = b, data_bitfield = 0\<rparr>"
  have "meshtastic_xeddsa_build_signing_buffer 267 1 2 3 (?d False) \<noteq> []" by code_simp
  with xeddsa_buffer_covers_envelope[of 267 1 2 3 "?d False" 1 2 3 "?d True"] show ?thesis by auto
qed


definition ex_sig_env :: sig_env where
  "ex_sig_env = \<lparr>se_xeddsa = True, se_required = True, se_self = 1, se_own_pub = None,
     se_pubkey = (\<lambda>n. if n = 7 then Some [9] else None),
     se_verify = (\<lambda>pk m s. pk = [9] \<and> hd s = of_nat (length m))\<rparr>"


text \<open>Digests compare like with like: a node that narrowed its table to scope \<open>a\<close> computes over
  scope \<open>b\<close> the digest and the row count a node with the full table computes over the intersection
  of the two.\<close>

theorem digest_of_narrowed:
  "meshtastic_cluster_doc_hash_scoped crc32 (fst (meshtastic_cluster_doc_retain d a)) b
     = meshtastic_cluster_doc_hash_scoped crc32 d (meshtastic_cluster_scope_intersect a b)
   \<and> meshtastic_cluster_doc_count_scoped (fst (meshtastic_cluster_doc_retain d a)) b
     = meshtastic_cluster_doc_count_scoped d (meshtastic_cluster_scope_intersect a b)"
  by (simp add: meshtastic_cluster_doc_hash_scoped_def meshtastic_cluster_doc_count_scoped_def
      hash_loop_filter count_scoped_filter retain_spec Let_def scope_intersect_contains conj_commute)

end
