(* ===== verification/Region_Presets.thy ===== *)
theory Region_Presets
  imports Prelude
begin

text \<open>
  The regulatory tables of \<^verbatim>\<open>meshtastic_region_presets.c\<close>: which modem presets are legal in a region,
  the modem parameters of a preset, and the frequency plan that turns region, preset and channel name
  into a centre frequency.  Frequencies are 32-bit words as in the code, the signed 8-bit slot override is a
  word read with \<^const>\<open>sint\<close>; the float duty cycle is kept in permille.
\<close>

section \<open>Enumerations\<close>

abbreviation (input) REGION_UNSET :: u32 where "REGION_UNSET \<equiv> 0"
abbreviation (input) REGION_US :: u32 where "REGION_US \<equiv> 1"
abbreviation (input) REGION_EU_433 :: u32 where "REGION_EU_433 \<equiv> 2"
abbreviation (input) REGION_EU_868 :: u32 where "REGION_EU_868 \<equiv> 3"
abbreviation (input) REGION_CN :: u32 where "REGION_CN \<equiv> 4"
abbreviation (input) REGION_JP :: u32 where "REGION_JP \<equiv> 5"
abbreviation (input) REGION_ANZ :: u32 where "REGION_ANZ \<equiv> 6"
abbreviation (input) REGION_KR :: u32 where "REGION_KR \<equiv> 7"
abbreviation (input) REGION_TW :: u32 where "REGION_TW \<equiv> 8"
abbreviation (input) REGION_RU :: u32 where "REGION_RU \<equiv> 9"
abbreviation (input) REGION_IN :: u32 where "REGION_IN \<equiv> 10"
abbreviation (input) REGION_NZ_865 :: u32 where "REGION_NZ_865 \<equiv> 11"
abbreviation (input) REGION_TH :: u32 where "REGION_TH \<equiv> 12"
abbreviation (input) REGION_LORA_24 :: u32 where "REGION_LORA_24 \<equiv> 13"
abbreviation (input) REGION_UA_433 :: u32 where "REGION_UA_433 \<equiv> 14"
abbreviation (input) REGION_UA_868 :: u32 where "REGION_UA_868 \<equiv> 15"
abbreviation (input) REGION_MY_433 :: u32 where "REGION_MY_433 \<equiv> 16"
abbreviation (input) REGION_MY_919 :: u32 where "REGION_MY_919 \<equiv> 17"
abbreviation (input) REGION_SG_923 :: u32 where "REGION_SG_923 \<equiv> 18"
abbreviation (input) REGION_PH_433 :: u32 where "REGION_PH_433 \<equiv> 19"
abbreviation (input) REGION_PH_868 :: u32 where "REGION_PH_868 \<equiv> 20"
abbreviation (input) REGION_PH_915 :: u32 where "REGION_PH_915 \<equiv> 21"
abbreviation (input) REGION_ANZ_433 :: u32 where "REGION_ANZ_433 \<equiv> 22"
abbreviation (input) REGION_KZ_433 :: u32 where "REGION_KZ_433 \<equiv> 23"
abbreviation (input) REGION_KZ_863 :: u32 where "REGION_KZ_863 \<equiv> 24"
abbreviation (input) REGION_NP_865 :: u32 where "REGION_NP_865 \<equiv> 25"
abbreviation (input) REGION_BR_902 :: u32 where "REGION_BR_902 \<equiv> 26"
abbreviation (input) REGION_ITU1_2M :: u32 where "REGION_ITU1_2M \<equiv> 27"
abbreviation (input) REGION_ITU2_2M :: u32 where "REGION_ITU2_2M \<equiv> 28"
abbreviation (input) REGION_EU_866 :: u32 where "REGION_EU_866 \<equiv> 29"
abbreviation (input) REGION_EU_874 :: u32 where "REGION_EU_874 \<equiv> 30"
abbreviation (input) REGION_EU_917 :: u32 where "REGION_EU_917 \<equiv> 31"
abbreviation (input) REGION_EU_N_868 :: u32 where "REGION_EU_N_868 \<equiv> 32"
abbreviation (input) REGION_ITU3_2M :: u32 where "REGION_ITU3_2M \<equiv> 33"
abbreviation (input) REGION_ITU1_70CM :: u32 where "REGION_ITU1_70CM \<equiv> 34"
abbreviation (input) REGION_ITU2_70CM :: u32 where "REGION_ITU2_70CM \<equiv> 35"
abbreviation (input) REGION_ITU3_70CM :: u32 where "REGION_ITU3_70CM \<equiv> 36"
abbreviation (input) REGION_ITU2_125CM :: u32 where "REGION_ITU2_125CM \<equiv> 37"

abbreviation (input) PRESET_LONG_FAST :: u32 where "PRESET_LONG_FAST \<equiv> 0"
abbreviation (input) PRESET_LONG_SLOW :: u32 where "PRESET_LONG_SLOW \<equiv> 1"
abbreviation (input) PRESET_VERY_LONG_SLOW :: u32 where "PRESET_VERY_LONG_SLOW \<equiv> 2"
abbreviation (input) PRESET_MEDIUM_SLOW :: u32 where "PRESET_MEDIUM_SLOW \<equiv> 3"
abbreviation (input) PRESET_MEDIUM_FAST :: u32 where "PRESET_MEDIUM_FAST \<equiv> 4"
abbreviation (input) PRESET_SHORT_SLOW :: u32 where "PRESET_SHORT_SLOW \<equiv> 5"
abbreviation (input) PRESET_SHORT_FAST :: u32 where "PRESET_SHORT_FAST \<equiv> 6"
abbreviation (input) PRESET_LONG_MODERATE :: u32 where "PRESET_LONG_MODERATE \<equiv> 7"
abbreviation (input) PRESET_SHORT_TURBO :: u32 where "PRESET_SHORT_TURBO \<equiv> 8"
abbreviation (input) PRESET_LONG_TURBO :: u32 where "PRESET_LONG_TURBO \<equiv> 9"
abbreviation (input) PRESET_LITE_FAST :: u32 where "PRESET_LITE_FAST \<equiv> 10"
abbreviation (input) PRESET_LITE_SLOW :: u32 where "PRESET_LITE_SLOW \<equiv> 11"
abbreviation (input) PRESET_NARROW_FAST :: u32 where "PRESET_NARROW_FAST \<equiv> 12"
abbreviation (input) PRESET_NARROW_SLOW :: u32 where "PRESET_NARROW_SLOW \<equiv> 13"
abbreviation (input) PRESET_TINY_FAST :: u32 where "PRESET_TINY_FAST \<equiv> 14"
abbreviation (input) PRESET_TINY_SLOW :: u32 where "PRESET_TINY_SLOW \<equiv> 15"
abbreviation (input) PRESET_MEDIUM_TURBO :: u32 where "PRESET_MEDIUM_TURBO \<equiv> 16"

abbreviation (input) MODEM_PRESET_END :: u32 where "MODEM_PRESET_END \<equiv> 0xFF"

section \<open>Preset lists and profiles\<close>

definition PRESETS_STD :: "u32 list" where
  "PRESETS_STD =
     [PRESET_LONG_FAST, PRESET_LONG_SLOW, PRESET_MEDIUM_SLOW, PRESET_MEDIUM_FAST, PRESET_SHORT_SLOW,
      PRESET_SHORT_FAST, PRESET_LONG_MODERATE, PRESET_SHORT_TURBO, PRESET_LONG_TURBO, PRESET_MEDIUM_TURBO,
      MODEM_PRESET_END]"

definition PRESETS_EU_868 :: "u32 list" where
  "PRESETS_EU_868 =
     [PRESET_LONG_FAST, PRESET_LONG_SLOW, PRESET_MEDIUM_SLOW, PRESET_MEDIUM_FAST, PRESET_SHORT_SLOW,
      PRESET_SHORT_FAST, PRESET_LONG_MODERATE, MODEM_PRESET_END]"

definition PRESETS_UNDEF :: "u32 list" where
  "PRESETS_UNDEF = [PRESET_LONG_FAST, MODEM_PRESET_END]"

definition PRESETS_LITE :: "u32 list" where
  "PRESETS_LITE = [PRESET_LITE_FAST, PRESET_LITE_SLOW, MODEM_PRESET_END]"

definition PRESETS_NARROW :: "u32 list" where
  "PRESETS_NARROW = [PRESET_NARROW_FAST, PRESET_NARROW_SLOW, MODEM_PRESET_END]"

definition PRESETS_TINY :: "u32 list" where
  "PRESETS_TINY = [PRESET_TINY_FAST, PRESET_TINY_SLOW, MODEM_PRESET_END]"

record region_profile =
  rp_presets :: "u32 list"
  rp_licensed_only :: bool
  rp_spacing_hz :: u32
  rp_padding_hz :: u32

datatype profile_id = PROFILE_STD | PROFILE_EU868 | PROFILE_UNDEF | PROFILE_LITE | PROFILE_NARROW
  | PROFILE_HAM_20KHZ | PROFILE_HAM_100KHZ

fun profiles :: "profile_id \<Rightarrow> region_profile" where
  "profiles PROFILE_STD =
     \<lparr>rp_presets = PRESETS_STD, rp_licensed_only = False, rp_spacing_hz = 0, rp_padding_hz = 0\<rparr>"
| "profiles PROFILE_EU868 =
     \<lparr>rp_presets = PRESETS_EU_868, rp_licensed_only = False, rp_spacing_hz = 0, rp_padding_hz = 0\<rparr>"
| "profiles PROFILE_UNDEF =
     \<lparr>rp_presets = PRESETS_UNDEF, rp_licensed_only = True, rp_spacing_hz = 0, rp_padding_hz = 0\<rparr>"
| "profiles PROFILE_LITE =
     \<lparr>rp_presets = PRESETS_LITE, rp_licensed_only = False, rp_spacing_hz = 400000, rp_padding_hz = 37500\<rparr>"
| "profiles PROFILE_NARROW =
     \<lparr>rp_presets = PRESETS_NARROW, rp_licensed_only = False, rp_spacing_hz = 0, rp_padding_hz = 10400\<rparr>"
| "profiles PROFILE_HAM_20KHZ =
     \<lparr>rp_presets = PRESETS_TINY, rp_licensed_only = True, rp_spacing_hz = 0, rp_padding_hz = 2200\<rparr>"
| "profiles PROFILE_HAM_100KHZ =
     \<lparr>rp_presets = PRESETS_NARROW, rp_licensed_only = True, rp_spacing_hz = 0, rp_padding_hz = 18750\<rparr>"

record region_row =
  rr_region :: u32
  rr_profile :: profile_id
  rr_default_preset :: u32

definition regions :: "region_row list" where
  "regions =
    [
     \<lparr>rr_region = REGION_US, rr_profile = PROFILE_STD, rr_default_preset = PRESET_LONG_FAST\<rparr>,
     \<lparr>rr_region = REGION_EU_433, rr_profile = PROFILE_STD, rr_default_preset = PRESET_LONG_FAST\<rparr>,
     \<lparr>rr_region = REGION_EU_868, rr_profile = PROFILE_EU868, rr_default_preset = PRESET_LONG_FAST\<rparr>,
     \<lparr>rr_region = REGION_EU_866, rr_profile = PROFILE_LITE, rr_default_preset = PRESET_LITE_FAST\<rparr>,
     \<lparr>rr_region = REGION_EU_N_868, rr_profile = PROFILE_NARROW, rr_default_preset = PRESET_NARROW_SLOW\<rparr>,
     \<lparr>rr_region = REGION_CN, rr_profile = PROFILE_STD, rr_default_preset = PRESET_LONG_FAST\<rparr>,
     \<lparr>rr_region = REGION_JP, rr_profile = PROFILE_STD, rr_default_preset = PRESET_LONG_FAST\<rparr>,
     \<lparr>rr_region = REGION_ANZ, rr_profile = PROFILE_STD, rr_default_preset = PRESET_LONG_FAST\<rparr>,
     \<lparr>rr_region = REGION_ANZ_433, rr_profile = PROFILE_STD, rr_default_preset = PRESET_LONG_FAST\<rparr>,
     \<lparr>rr_region = REGION_RU, rr_profile = PROFILE_STD, rr_default_preset = PRESET_LONG_FAST\<rparr>,
     \<lparr>rr_region = REGION_KR, rr_profile = PROFILE_STD, rr_default_preset = PRESET_LONG_FAST\<rparr>,
     \<lparr>rr_region = REGION_TW, rr_profile = PROFILE_STD, rr_default_preset = PRESET_LONG_FAST\<rparr>,
     \<lparr>rr_region = REGION_IN, rr_profile = PROFILE_STD, rr_default_preset = PRESET_LONG_FAST\<rparr>,
     \<lparr>rr_region = REGION_NZ_865, rr_profile = PROFILE_STD, rr_default_preset = PRESET_LONG_FAST\<rparr>,
     \<lparr>rr_region = REGION_TH, rr_profile = PROFILE_STD, rr_default_preset = PRESET_LONG_FAST\<rparr>,
     \<lparr>rr_region = REGION_UA_433, rr_profile = PROFILE_STD, rr_default_preset = PRESET_LONG_FAST\<rparr>,
     \<lparr>rr_region = REGION_UA_868, rr_profile = PROFILE_STD, rr_default_preset = PRESET_LONG_FAST\<rparr>,
     \<lparr>rr_region = REGION_MY_433, rr_profile = PROFILE_STD, rr_default_preset = PRESET_LONG_FAST\<rparr>,
     \<lparr>rr_region = REGION_MY_919, rr_profile = PROFILE_STD, rr_default_preset = PRESET_LONG_FAST\<rparr>,
     \<lparr>rr_region = REGION_SG_923, rr_profile = PROFILE_STD, rr_default_preset = PRESET_LONG_FAST\<rparr>,
     \<lparr>rr_region = REGION_PH_433, rr_profile = PROFILE_STD, rr_default_preset = PRESET_LONG_FAST\<rparr>,
     \<lparr>rr_region = REGION_PH_868, rr_profile = PROFILE_STD, rr_default_preset = PRESET_LONG_FAST\<rparr>,
     \<lparr>rr_region = REGION_PH_915, rr_profile = PROFILE_STD, rr_default_preset = PRESET_LONG_FAST\<rparr>,
     \<lparr>rr_region = REGION_KZ_433, rr_profile = PROFILE_STD, rr_default_preset = PRESET_LONG_FAST\<rparr>,
     \<lparr>rr_region = REGION_KZ_863, rr_profile = PROFILE_STD, rr_default_preset = PRESET_LONG_FAST\<rparr>,
     \<lparr>rr_region = REGION_NP_865, rr_profile = PROFILE_STD, rr_default_preset = PRESET_LONG_FAST\<rparr>,
     \<lparr>rr_region = REGION_BR_902, rr_profile = PROFILE_STD, rr_default_preset = PRESET_LONG_FAST\<rparr>,
     \<lparr>rr_region = REGION_ITU1_2M, rr_profile = PROFILE_HAM_20KHZ, rr_default_preset = PRESET_TINY_FAST\<rparr>,
     \<lparr>rr_region = REGION_ITU2_2M, rr_profile = PROFILE_HAM_20KHZ, rr_default_preset = PRESET_TINY_FAST\<rparr>,
     \<lparr>rr_region = REGION_ITU3_2M, rr_profile = PROFILE_HAM_20KHZ, rr_default_preset = PRESET_TINY_FAST\<rparr>,
     \<lparr>rr_region = REGION_ITU2_125CM, rr_profile = PROFILE_HAM_100KHZ, rr_default_preset = PRESET_NARROW_SLOW\<rparr>,
     \<lparr>rr_region = REGION_ITU1_70CM, rr_profile = PROFILE_HAM_100KHZ, rr_default_preset = PRESET_NARROW_SLOW\<rparr>,
     \<lparr>rr_region = REGION_ITU2_70CM, rr_profile = PROFILE_HAM_100KHZ, rr_default_preset = PRESET_NARROW_SLOW\<rparr>,
     \<lparr>rr_region = REGION_ITU3_70CM, rr_profile = PROFILE_HAM_100KHZ, rr_default_preset = PRESET_NARROW_SLOW\<rparr>,
     \<lparr>rr_region = REGION_LORA_24, rr_profile = PROFILE_STD, rr_default_preset = PRESET_LONG_FAST\<rparr>,
     \<lparr>rr_region = REGION_UNSET, rr_profile = PROFILE_UNDEF, rr_default_preset = PRESET_LONG_FAST\<rparr>]"

section \<open>The preset map sent to clients\<close>

record meshtastic_LoRaPresetGroup =
  pg_presets :: "u32 list"
  pg_default_preset :: u32
  pg_licensed_only :: bool

text \<open>A group is kept with the profile it was made for (the array \<^verbatim>\<open>group_profile\<close>); a region is
  mapped to the index of its group.\<close>

record meshtastic_LoRaRegionPresetMap =
  pm_groups :: "(profile_id \<times> meshtastic_LoRaPresetGroup) list"
  pm_region_groups :: "(u32 \<times> nat) list"

definition MAX_GROUPS :: nat where "MAX_GROUPS = 8"

definition MAX_REGION_GROUPS :: nat where "MAX_REGION_GROUPS = 38"

definition MAX_PRESETS :: nat where "MAX_PRESETS = 11"

fun group_index :: "region_row \<Rightarrow> (profile_id \<times> meshtastic_LoRaPresetGroup) list \<Rightarrow> nat \<Rightarrow> nat option" where
  "group_index r [] g = None"
| "group_index r (x # xs) g =
     (if fst x = rr_profile r \<and> pg_default_preset (snd x) = rr_default_preset r then Some g
      else group_index r xs (Suc g))"

definition group_presets :: "u32 list \<Rightarrow> u32 list" where
  "group_presets ps = take MAX_PRESETS (takeWhile (\<lambda>p. p \<noteq> MODEM_PRESET_END) ps)"

definition new_group :: "region_row \<Rightarrow> profile_id \<times> meshtastic_LoRaPresetGroup" where
  "new_group r =
     (let p = profiles (rr_profile r)
      in (rr_profile r, \<lparr>pg_presets = group_presets (rp_presets p), pg_default_preset = rr_default_preset r,
                         pg_licensed_only = rp_licensed_only p\<rparr>))"

text \<open>The loop over the regions; running out of region slots ends it, running out of group slots
  skips the region.\<close>

fun map_regions :: "region_row list \<Rightarrow> meshtastic_LoRaRegionPresetMap \<Rightarrow> meshtastic_LoRaRegionPresetMap" where
  "map_regions [] m = m"
| "map_regions (r # rs) m =
     (if length (pm_region_groups m) \<ge> MAX_REGION_GROUPS then m
      else case group_index r (pm_groups m) 0 of
             Some gi \<Rightarrow> map_regions rs (m\<lparr>pm_region_groups := pm_region_groups m @ [(rr_region r, gi)]\<rparr>)
           | None \<Rightarrow>
               if length (pm_groups m) \<ge> MAX_GROUPS then map_regions rs m
               else map_regions rs (m\<lparr>pm_groups := pm_groups m @ [new_group r],
                                      pm_region_groups := pm_region_groups m @ [(rr_region r, length (pm_groups m))]\<rparr>))"

definition meshtastic_build_region_preset_map :: meshtastic_LoRaRegionPresetMap where
  "meshtastic_build_region_preset_map = map_regions regions \<lparr>pm_groups = [], pm_region_groups = []\<rparr>"

section \<open>Modem parameters\<close>

record preset_params_row =
  pp_preset :: u32
  pp_bw_narrow_hz :: u32
  pp_bw_wide_hz :: u32
  pp_spread_factor :: u8
  pp_coding_rate :: u8

definition preset_params :: "preset_params_row list" where
  "preset_params =
    [
     \<lparr>pp_preset = PRESET_SHORT_TURBO, pp_bw_narrow_hz = 500000, pp_bw_wide_hz = 1625000, pp_spread_factor = 7, pp_coding_rate = 5\<rparr>,
     \<lparr>pp_preset = PRESET_SHORT_FAST, pp_bw_narrow_hz = 250000, pp_bw_wide_hz = 812500, pp_spread_factor = 7, pp_coding_rate = 5\<rparr>,
     \<lparr>pp_preset = PRESET_SHORT_SLOW, pp_bw_narrow_hz = 250000, pp_bw_wide_hz = 812500, pp_spread_factor = 8, pp_coding_rate = 5\<rparr>,
     \<lparr>pp_preset = PRESET_MEDIUM_FAST, pp_bw_narrow_hz = 250000, pp_bw_wide_hz = 812500, pp_spread_factor = 9, pp_coding_rate = 5\<rparr>,
     \<lparr>pp_preset = PRESET_MEDIUM_SLOW, pp_bw_narrow_hz = 250000, pp_bw_wide_hz = 812500, pp_spread_factor = 10, pp_coding_rate = 5\<rparr>,
     \<lparr>pp_preset = PRESET_MEDIUM_TURBO, pp_bw_narrow_hz = 500000, pp_bw_wide_hz = 1625000, pp_spread_factor = 9, pp_coding_rate = 5\<rparr>,
     \<lparr>pp_preset = PRESET_LONG_TURBO, pp_bw_narrow_hz = 500000, pp_bw_wide_hz = 1625000, pp_spread_factor = 11, pp_coding_rate = 8\<rparr>,
     \<lparr>pp_preset = PRESET_LONG_MODERATE, pp_bw_narrow_hz = 125000, pp_bw_wide_hz = 406250, pp_spread_factor = 11, pp_coding_rate = 8\<rparr>,
     \<lparr>pp_preset = PRESET_LONG_SLOW, pp_bw_narrow_hz = 125000, pp_bw_wide_hz = 406250, pp_spread_factor = 12, pp_coding_rate = 8\<rparr>,
     \<lparr>pp_preset = PRESET_LITE_FAST, pp_bw_narrow_hz = 125000, pp_bw_wide_hz = 125000, pp_spread_factor = 9, pp_coding_rate = 5\<rparr>,
     \<lparr>pp_preset = PRESET_LITE_SLOW, pp_bw_narrow_hz = 125000, pp_bw_wide_hz = 125000, pp_spread_factor = 10, pp_coding_rate = 5\<rparr>,
     \<lparr>pp_preset = PRESET_NARROW_FAST, pp_bw_narrow_hz = 62500, pp_bw_wide_hz = 62500, pp_spread_factor = 7, pp_coding_rate = 6\<rparr>,
     \<lparr>pp_preset = PRESET_NARROW_SLOW, pp_bw_narrow_hz = 62500, pp_bw_wide_hz = 62500, pp_spread_factor = 8, pp_coding_rate = 6\<rparr>,
     \<lparr>pp_preset = PRESET_TINY_FAST, pp_bw_narrow_hz = 15600, pp_bw_wide_hz = 15600, pp_spread_factor = 7, pp_coding_rate = 5\<rparr>,
     \<lparr>pp_preset = PRESET_TINY_SLOW, pp_bw_narrow_hz = 15600, pp_bw_wide_hz = 15600, pp_spread_factor = 8, pp_coding_rate = 6\<rparr>]"

definition preset_params_default :: preset_params_row where
  "preset_params_default =
     \<lparr>pp_preset = PRESET_LONG_FAST, pp_bw_narrow_hz = 250000, pp_bw_wide_hz = 812500, pp_spread_factor = 11,
      pp_coding_rate = 5\<rparr>"

record meshtastic_modem_params =
  mp_bandwidth_hz :: u32
  mp_spread_factor :: u8
  mp_coding_rate :: u8

definition meshtastic_preset_to_params :: "u32 \<Rightarrow> bool \<Rightarrow> meshtastic_modem_params" where
  "meshtastic_preset_to_params preset wide_lora =
     (let row = (case find (\<lambda>r. pp_preset r = preset) preset_params of
                   Some r \<Rightarrow> r | None \<Rightarrow> preset_params_default)
      in \<lparr>mp_bandwidth_hz = (if wide_lora then pp_bw_wide_hz row else pp_bw_narrow_hz row),
          mp_spread_factor = pp_spread_factor row, mp_coding_rate = pp_coding_rate row\<rparr>)"

section \<open>Frequency plan\<close>

definition meshtastic_djb2_hash :: "string \<Rightarrow> u32" where
  "meshtastic_djb2_hash s = foldl (\<lambda>hash c. (push_bit 5 hash + hash) + of_char c) 5381 s"

definition meshtastic_preset_display_name :: "u32 \<Rightarrow> bool \<Rightarrow> string" where
  "meshtastic_preset_display_name preset use_preset =
     (if \<not> use_preset then ''Custom''
      else if preset = PRESET_SHORT_TURBO then ''ShortTurbo''
      else if preset = PRESET_SHORT_FAST then ''ShortFast''
      else if preset = PRESET_SHORT_SLOW then ''ShortSlow''
      else if preset = PRESET_MEDIUM_FAST then ''MediumFast''
      else if preset = PRESET_MEDIUM_SLOW then ''MediumSlow''
      else if preset = PRESET_MEDIUM_TURBO then ''MediumTurbo''
      else if preset = PRESET_LONG_FAST then ''LongFast''
      else if preset = PRESET_LONG_SLOW then ''LongSlow''
      else if preset = PRESET_LONG_MODERATE then ''LongMod''
      else if preset = PRESET_LONG_TURBO then ''LongTurbo''
      else if preset = PRESET_LITE_FAST then ''LiteFast''
      else if preset = PRESET_LITE_SLOW then ''LiteSlow''
      else if preset = PRESET_NARROW_FAST then ''NarrowFast''
      else if preset = PRESET_NARROW_SLOW then ''NarrowSlow''
      else if preset = PRESET_TINY_FAST then ''TinyFast''
      else if preset = PRESET_TINY_SLOW then ''TinySlow''
      else ''Invalid'')"

definition OVERRIDE_SLOT_PRESET_HASH :: int where
  "OVERRIDE_SLOT_PRESET_HASH = - 1"

record region_freq =
  rf_region :: u32
  rf_freq_start_hz :: u32
  rf_freq_end_hz :: u32
  rf_duty_permille :: nat
  rf_power_limit_dbm :: int
  rf_override_slot :: u8
  rf_wide_lora :: bool

definition region_freqs :: "region_freq list" where
  "region_freqs =
    [
     \<lparr>rf_region = REGION_US, rf_freq_start_hz = 902000000, rf_freq_end_hz = 928000000, rf_duty_permille = 1000, rf_power_limit_dbm = 30, rf_override_slot = 0, rf_wide_lora = False\<rparr>,
     \<lparr>rf_region = REGION_EU_433, rf_freq_start_hz = 433000000, rf_freq_end_hz = 434000000, rf_duty_permille = 100, rf_power_limit_dbm = 10, rf_override_slot = 0, rf_wide_lora = False\<rparr>,
     \<lparr>rf_region = REGION_EU_868, rf_freq_start_hz = 869400000, rf_freq_end_hz = 869650000, rf_duty_permille = 100, rf_power_limit_dbm = 27, rf_override_slot = 0, rf_wide_lora = False\<rparr>,
     \<lparr>rf_region = REGION_EU_866, rf_freq_start_hz = 865600000, rf_freq_end_hz = 867600000, rf_duty_permille = 25, rf_power_limit_dbm = 27, rf_override_slot = 0, rf_wide_lora = False\<rparr>,
     \<lparr>rf_region = REGION_EU_N_868, rf_freq_start_hz = 869400000, rf_freq_end_hz = 869650000, rf_duty_permille = 100, rf_power_limit_dbm = 27, rf_override_slot = 1, rf_wide_lora = False\<rparr>,
     \<lparr>rf_region = REGION_CN, rf_freq_start_hz = 470000000, rf_freq_end_hz = 510000000, rf_duty_permille = 1000, rf_power_limit_dbm = 19, rf_override_slot = 0, rf_wide_lora = False\<rparr>,
     \<lparr>rf_region = REGION_JP, rf_freq_start_hz = 920500000, rf_freq_end_hz = 923500000, rf_duty_permille = 1000, rf_power_limit_dbm = 13, rf_override_slot = 0, rf_wide_lora = False\<rparr>,
     \<lparr>rf_region = REGION_ANZ, rf_freq_start_hz = 915000000, rf_freq_end_hz = 928000000, rf_duty_permille = 1000, rf_power_limit_dbm = 30, rf_override_slot = 0, rf_wide_lora = False\<rparr>,
     \<lparr>rf_region = REGION_ANZ_433, rf_freq_start_hz = 433050000, rf_freq_end_hz = 434790000, rf_duty_permille = 1000, rf_power_limit_dbm = 14, rf_override_slot = 0, rf_wide_lora = False\<rparr>,
     \<lparr>rf_region = REGION_RU, rf_freq_start_hz = 868700000, rf_freq_end_hz = 869200000, rf_duty_permille = 1000, rf_power_limit_dbm = 20, rf_override_slot = 0, rf_wide_lora = False\<rparr>,
     \<lparr>rf_region = REGION_KR, rf_freq_start_hz = 920000000, rf_freq_end_hz = 923000000, rf_duty_permille = 1000, rf_power_limit_dbm = 23, rf_override_slot = 0, rf_wide_lora = False\<rparr>,
     \<lparr>rf_region = REGION_TW, rf_freq_start_hz = 920000000, rf_freq_end_hz = 925000000, rf_duty_permille = 1000, rf_power_limit_dbm = 27, rf_override_slot = 0, rf_wide_lora = False\<rparr>,
     \<lparr>rf_region = REGION_IN, rf_freq_start_hz = 865000000, rf_freq_end_hz = 867000000, rf_duty_permille = 1000, rf_power_limit_dbm = 30, rf_override_slot = 0, rf_wide_lora = False\<rparr>,
     \<lparr>rf_region = REGION_NZ_865, rf_freq_start_hz = 864000000, rf_freq_end_hz = 868000000, rf_duty_permille = 1000, rf_power_limit_dbm = 36, rf_override_slot = 0, rf_wide_lora = False\<rparr>,
     \<lparr>rf_region = REGION_TH, rf_freq_start_hz = 920000000, rf_freq_end_hz = 925000000, rf_duty_permille = 100, rf_power_limit_dbm = 27, rf_override_slot = 0, rf_wide_lora = False\<rparr>,
     \<lparr>rf_region = REGION_UA_433, rf_freq_start_hz = 433000000, rf_freq_end_hz = 434700000, rf_duty_permille = 100, rf_power_limit_dbm = 10, rf_override_slot = 0, rf_wide_lora = False\<rparr>,
     \<lparr>rf_region = REGION_MY_433, rf_freq_start_hz = 433000000, rf_freq_end_hz = 435000000, rf_duty_permille = 1000, rf_power_limit_dbm = 20, rf_override_slot = 0, rf_wide_lora = False\<rparr>,
     \<lparr>rf_region = REGION_MY_919, rf_freq_start_hz = 919000000, rf_freq_end_hz = 924000000, rf_duty_permille = 1000, rf_power_limit_dbm = 27, rf_override_slot = 0, rf_wide_lora = False\<rparr>,
     \<lparr>rf_region = REGION_SG_923, rf_freq_start_hz = 917000000, rf_freq_end_hz = 925000000, rf_duty_permille = 1000, rf_power_limit_dbm = 20, rf_override_slot = 0, rf_wide_lora = False\<rparr>,
     \<lparr>rf_region = REGION_PH_433, rf_freq_start_hz = 433000000, rf_freq_end_hz = 434700000, rf_duty_permille = 1000, rf_power_limit_dbm = 10, rf_override_slot = 0, rf_wide_lora = False\<rparr>,
     \<lparr>rf_region = REGION_PH_868, rf_freq_start_hz = 868000000, rf_freq_end_hz = 869400000, rf_duty_permille = 1000, rf_power_limit_dbm = 14, rf_override_slot = 0, rf_wide_lora = False\<rparr>,
     \<lparr>rf_region = REGION_PH_915, rf_freq_start_hz = 915000000, rf_freq_end_hz = 918000000, rf_duty_permille = 1000, rf_power_limit_dbm = 24, rf_override_slot = 0, rf_wide_lora = False\<rparr>,
     \<lparr>rf_region = REGION_KZ_433, rf_freq_start_hz = 433075000, rf_freq_end_hz = 434775000, rf_duty_permille = 1000, rf_power_limit_dbm = 10, rf_override_slot = 0, rf_wide_lora = False\<rparr>,
     \<lparr>rf_region = REGION_KZ_863, rf_freq_start_hz = 863000000, rf_freq_end_hz = 868000000, rf_duty_permille = 1000, rf_power_limit_dbm = 30, rf_override_slot = 0, rf_wide_lora = False\<rparr>,
     \<lparr>rf_region = REGION_NP_865, rf_freq_start_hz = 865000000, rf_freq_end_hz = 868000000, rf_duty_permille = 1000, rf_power_limit_dbm = 30, rf_override_slot = 0, rf_wide_lora = False\<rparr>,
     \<lparr>rf_region = REGION_BR_902, rf_freq_start_hz = 902000000, rf_freq_end_hz = 907500000, rf_duty_permille = 1000, rf_power_limit_dbm = 30, rf_override_slot = 0, rf_wide_lora = False\<rparr>,
     \<lparr>rf_region = REGION_ITU1_2M, rf_freq_start_hz = 144000000, rf_freq_end_hz = 146000000, rf_duty_permille = 1000, rf_power_limit_dbm = 30, rf_override_slot = 26, rf_wide_lora = False\<rparr>,
     \<lparr>rf_region = REGION_ITU2_2M, rf_freq_start_hz = 144000000, rf_freq_end_hz = 148000000, rf_duty_permille = 1000, rf_power_limit_dbm = 30, rf_override_slot = 51, rf_wide_lora = False\<rparr>,
     \<lparr>rf_region = REGION_ITU3_2M, rf_freq_start_hz = 144000000, rf_freq_end_hz = 148000000, rf_duty_permille = 1000, rf_power_limit_dbm = 30, rf_override_slot = 33, rf_wide_lora = False\<rparr>,
     \<lparr>rf_region = REGION_ITU2_125CM, rf_freq_start_hz = 220000000, rf_freq_end_hz = 225000000, rf_duty_permille = 1000, rf_power_limit_dbm = 30, rf_override_slot = 37, rf_wide_lora = False\<rparr>,
     \<lparr>rf_region = REGION_ITU1_70CM, rf_freq_start_hz = 430000000, rf_freq_end_hz = 440000000, rf_duty_permille = 1000, rf_power_limit_dbm = 30, rf_override_slot = 37, rf_wide_lora = False\<rparr>,
     \<lparr>rf_region = REGION_ITU2_70CM, rf_freq_start_hz = 420000000, rf_freq_end_hz = 450000000, rf_duty_permille = 1000, rf_power_limit_dbm = 30, rf_override_slot = 137, rf_wide_lora = False\<rparr>,
     \<lparr>rf_region = REGION_ITU3_70CM, rf_freq_start_hz = 430000000, rf_freq_end_hz = 450000000, rf_duty_permille = 1000, rf_power_limit_dbm = 30, rf_override_slot = 37, rf_wide_lora = False\<rparr>,
     \<lparr>rf_region = REGION_LORA_24, rf_freq_start_hz = 2400000000, rf_freq_end_hz = 2483500000, rf_duty_permille = 1000, rf_power_limit_dbm = 10, rf_override_slot = 0, rf_wide_lora = True\<rparr>,
     \<lparr>rf_region = REGION_UNSET, rf_freq_start_hz = 902000000, rf_freq_end_hz = 928000000, rf_duty_permille = 1000, rf_power_limit_dbm = 30, rf_override_slot = 0, rf_wide_lora = False\<rparr>]"

record meshtastic_freq_plan =
  fp_frequency_hz :: u32
  fp_slot_width_hz :: u32
  fp_num_slots :: u16
  fp_slot :: u16
  fp_duty_permille :: nat

text \<open>The geometry of a band: slot width and number of slots, the choice of a slot, and its centre.\<close>

definition slot_geometry :: "region_freq \<Rightarrow> region_profile \<Rightarrow> u32 \<Rightarrow> u32 \<times> u32" where
  "slot_geometry rf prof bw =
     (let slot_width = rp_spacing_hz prof + 2 * rp_padding_hz prof + bw;
          span = (rf_freq_end_hz rf - rf_freq_start_hz rf) + rp_spacing_hz prof;
          num_slots = (span + slot_width div 2) div slot_width
      in (slot_width, if num_slots = 0 then 1 else num_slots))"

definition choose_slot :: "region_freq \<Rightarrow> u32 \<Rightarrow> u32 \<Rightarrow> bool \<Rightarrow> string \<Rightarrow> u32" where
  "choose_slot rf num_slots preset use_preset channel_name =
     (if sint (rf_override_slot rf) > 0
      then let slot = of_int (sint (rf_override_slot rf) - 1)
           in if slot \<ge> num_slots then num_slots - 1 else slot
      else if sint (rf_override_slot rf) = OVERRIDE_SLOT_PRESET_HASH
      then meshtastic_djb2_hash (meshtastic_preset_display_name preset use_preset) mod num_slots
      else meshtastic_djb2_hash channel_name mod num_slots)"

definition slot_centre :: "region_freq \<Rightarrow> region_profile \<Rightarrow> u32 \<Rightarrow> u32 \<Rightarrow> u32 \<Rightarrow> u32" where
  "slot_centre rf prof bw slot_width slot =
     rf_freq_start_hz rf + bw div 2 + rp_padding_hz prof + slot * slot_width"

definition meshtastic_region_freq_plan ::
  "u32 \<Rightarrow> u32 \<Rightarrow> string \<Rightarrow> bool \<Rightarrow> meshtastic_freq_plan result" where
  "meshtastic_region_freq_plan region preset channel_name use_preset =
     (case (find (\<lambda>r. rf_region r = region) region_freqs, find (\<lambda>r. rr_region r = region) regions) of
        (Some rf, Some row) \<Rightarrow>
          let prof = profiles (rr_profile row);
              bw = mp_bandwidth_hz (meshtastic_preset_to_params preset (rf_wide_lora rf))
          in if rp_spacing_hz prof + 2 * rp_padding_hz prof + bw = 0 then Inl ENOTSUP
             else
               let (slot_width, num_slots) = slot_geometry rf prof bw;
                   slot = choose_slot rf num_slots preset use_preset channel_name
               in Inr \<lparr>fp_frequency_hz = slot_centre rf prof bw slot_width slot,
                       fp_slot_width_hz = slot_width, fp_num_slots = ucast num_slots, fp_slot = ucast slot,
                       fp_duty_permille = rf_duty_permille rf\<rparr>
      | _ \<Rightarrow> Inl ENOTSUP)"

record region_info =
  ri_freq_start_hz :: u32
  ri_freq_end_hz :: u32
  ri_duty_permille :: nat
  ri_power_limit_dbm :: int
  ri_licensed_only :: bool
  ri_wide_lora :: bool

definition meshtastic_region_info :: "u32 \<Rightarrow> region_info result" where
  "meshtastic_region_info region =
     (case (find (\<lambda>r. rf_region r = region) region_freqs, find (\<lambda>r. rr_region r = region) regions) of
        (Some rf, Some row) \<Rightarrow>
          Inr \<lparr>ri_freq_start_hz = rf_freq_start_hz rf, ri_freq_end_hz = rf_freq_end_hz rf,
               ri_duty_permille = rf_duty_permille rf, ri_power_limit_dbm = rf_power_limit_dbm rf,
               ri_licensed_only = rp_licensed_only (profiles (rr_profile row)), ri_wide_lora = rf_wide_lora rf\<rparr>
      | _ \<Rightarrow> Inl ENOTSUP)"

section \<open>Slots stay in the band\<close>

definition legal_presets :: "region_row \<Rightarrow> u32 list" where
  "legal_presets row = takeWhile (\<lambda>p. p \<noteq> MODEM_PRESET_END) (rp_presets (profiles (rr_profile row)))"

text \<open>The six regions whose width is not a whole number of slots for every legal preset.\<close>

definition ragged_regions :: "u32 list" where
  "ragged_regions = [REGION_LORA_24, REGION_UA_433, REGION_PH_433, REGION_PH_868, REGION_ANZ_433, REGION_KZ_433]"

definition band_slack :: "u32 \<Rightarrow> u32 \<Rightarrow> int" where
  "band_slack region slot_width = (if region \<in> set ragged_regions then uint slot_width div 2 else 0)"

text \<open>The upper edge of the last slot, computed without wrap-around, for one band, profile and bandwidth.\<close>

definition band_ok :: "region_freq \<Rightarrow> region_profile \<Rightarrow> u32 \<Rightarrow> bool" where
  "band_ok rf prof bw =
     (let (w, n) = slot_geometry rf prof bw;
          top = uint (rf_freq_start_hz rf) + 2 * uint (bw div 2) + uint (rp_padding_hz prof) + (uint n - 1) * uint w
      in n \<noteq> 0 \<and> n < 2 ^ 16 \<and> rp_spacing_hz prof + 2 * rp_padding_hz prof + bw \<noteq> 0
         \<and> top \<le> uint (rf_freq_end_hz rf) + band_slack (rf_region rf) w \<and> top < 2 ^ 32)"

text \<open>The bandwidths of the presets a profile allows.\<close>

fun profile_bandwidths :: "profile_id \<Rightarrow> bool \<Rightarrow> u32 list" where
  "profile_bandwidths PROFILE_STD wide = (if wide then [812500, 406250, 1625000] else [250000, 125000, 500000])"
| "profile_bandwidths PROFILE_EU868 wide = (if wide then [812500, 406250] else [250000, 125000])"
| "profile_bandwidths PROFILE_UNDEF wide = (if wide then [812500] else [250000])"
| "profile_bandwidths PROFILE_LITE wide = [125000]"
| "profile_bandwidths PROFILE_NARROW wide = [62500]"
| "profile_bandwidths PROFILE_HAM_20KHZ wide = [15600]"
| "profile_bandwidths PROFILE_HAM_100KHZ wide = [62500]"

lemma preset_bandwidth:
  "mp_bandwidth_hz (meshtastic_preset_to_params preset wide) =
     (if preset \<in> {PRESET_SHORT_TURBO, PRESET_MEDIUM_TURBO, PRESET_LONG_TURBO} then if wide then 1625000 else 500000
      else if preset \<in> {PRESET_LONG_MODERATE, PRESET_LONG_SLOW} then if wide then 406250 else 125000
      else if preset \<in> {PRESET_LITE_FAST, PRESET_LITE_SLOW} then 125000
      else if preset \<in> {PRESET_NARROW_FAST, PRESET_NARROW_SLOW} then 62500
      else if preset \<in> {PRESET_TINY_FAST, PRESET_TINY_SLOW} then 15600
      else if wide then 812500 else 250000)"
  by (simp add: meshtastic_preset_to_params_def preset_params_def preset_params_default_def Let_def)

lemma legal_bandwidth:
  "preset \<in> set (legal_presets row)
     \<Longrightarrow> mp_bandwidth_hz (meshtastic_preset_to_params preset wide) \<in> set (profile_bandwidths (rr_profile row) wide)"
  by (cases "rr_profile row"; cases wide)
    (auto simp: legal_presets_def preset_bandwidth PRESETS_STD_def PRESETS_EU_868_def PRESETS_UNDEF_def
      PRESETS_LITE_def PRESETS_NARROW_def PRESETS_TINY_def)

definition band_row_ok :: "region_row \<Rightarrow> bool" where
  "band_row_ok row =
     (case find (\<lambda>r. rf_region r = rr_region row) region_freqs of
        None \<Rightarrow> True
      | Some rf \<Rightarrow> list_all (band_ok rf (profiles (rr_profile row))) (profile_bandwidths (rr_profile row) (rf_wide_lora rf)))"

lemma band_table: "list_all band_row_ok regions"
  unfolding regions_def
  by (simp add: band_row_ok_def region_freqs_def band_ok_def slot_geometry_def band_slack_def ragged_regions_def Let_def)

lemma find_region:
  assumes "find (\<lambda>r. rr_region r = region) regions = Some row"
    and "find (\<lambda>r. rf_region r = region) region_freqs = Some rf"
    and "preset \<in> set (legal_presets row)"
  shows "band_ok rf (profiles (rr_profile row)) (mp_bandwidth_hz (meshtastic_preset_to_params preset (rf_wide_lora rf)))"
proof -
  have "row \<in> set regions" "rr_region row = region"
    using assms(1) by (auto simp: find_Some_iff)
  with assms(2) band_table legal_bandwidth[OF assms(3), of "rf_wide_lora rf"] show ?thesis
    by (auto simp: list_all_iff band_row_ok_def)
qed

lemma choose_slot_less:
  assumes "n \<noteq> 0"
  shows "choose_slot rf n preset up name < n"
proof -
  have "x mod n < n" for x :: u32 using assms by (simp add: word_mod_less_divisor word_neq_0_conv)
  moreover have "n - 1 < n" using assms by unat_arith
  ultimately show ?thesis by (auto simp: choose_slot_def Let_def not_le)
qed

lemma uint_sum4:
  fixes a b c d :: u32
  assumes "uint a + uint b + uint c + uint d < 2 ^ 32"
  shows "uint (a + b + c + d) = uint a + uint b + uint c + uint d"
proof -
  have "uint (a + b + c + d) = (uint a + uint b + uint c + uint d) mod 2 ^ 32"
    by (simp add: uint_word_ariths mod_simps)
  with assms show ?thesis by (simp add: mod_pos_pos_trivial)
qed

lemma slot_centre_uint:
  assumes "slot < n"
    and "uint (rf_freq_start_hz rf) + 2 * uint (bw div 2) + uint (rp_padding_hz prof) + (uint n - 1) * uint w < 2 ^ 32"
  shows "uint (slot_centre rf prof bw w slot)
           = uint (rf_freq_start_hz rf) + uint (bw div 2) + uint (rp_padding_hz prof) + uint slot * uint w"
    and "uint slot * uint w \<le> (uint n - 1) * uint w"
proof -
  have "uint slot \<le> uint n - 1" using assms(1) by (simp add: word_less_def)
  then show le: "uint slot * uint w \<le> (uint n - 1) * uint w" by (simp add: mult_right_mono)
  moreover have "0 \<le> uint (bw div 2)" "0 \<le> uint (rf_freq_start_hz rf)" "0 \<le> uint (rp_padding_hz prof)" by simp_all
  ultimately have lt: "uint (rf_freq_start_hz rf) + uint (bw div 2) + uint (rp_padding_hz prof) + uint slot * uint w < 2 ^ 32"
    using assms(2) by linarith
  then have "uint slot * uint w < 2 ^ 32"
    using uint_ge_0[of "rf_freq_start_hz rf"] uint_ge_0[of "bw div 2"] uint_ge_0[of "rp_padding_hz prof"] by linarith
  then have "uint (slot * w) = uint slot * uint w" by (simp add: uint_word_ariths mod_pos_pos_trivial)
  with lt show "uint (slot_centre rf prof bw w slot)
           = uint (rf_freq_start_hz rf) + uint (bw div 2) + uint (rp_padding_hz prof) + uint slot * uint w"
    unfolding slot_centre_def by (subst uint_sum4) simp_all
qed

lemma freq_plan_band:
  assumes row: "find (\<lambda>r. rr_region r = region) regions = Some row"
    and rf: "find (\<lambda>r. rf_region r = region) region_freqs = Some rf"
    and legal: "preset \<in> set (legal_presets row)"
  shows "\<exists>fp. meshtastic_region_freq_plan region preset name use_preset = Inr fp
     \<and> fp_slot fp < fp_num_slots fp
     \<and> uint (rf_freq_start_hz rf)
         \<le> uint (fp_frequency_hz fp) - uint (mp_bandwidth_hz (meshtastic_preset_to_params preset (rf_wide_lora rf)) div 2)
     \<and> uint (fp_frequency_hz fp) + uint (mp_bandwidth_hz (meshtastic_preset_to_params preset (rf_wide_lora rf)) div 2)
         \<le> uint (rf_freq_end_hz rf) + band_slack region (fp_slot_width_hz fp)"
proof -
  let ?prof = "profiles (rr_profile row)"
  let ?bw = "mp_bandwidth_hz (meshtastic_preset_to_params preset (rf_wide_lora rf))"
  obtain w n where g: "slot_geometry rf ?prof ?bw = (w, n)" by fastforce
  have reg: "rf_region rf = region" using rf by (auto simp: find_Some_iff)
  let ?top = "uint (rf_freq_start_hz rf) + 2 * uint (?bw div 2) + uint (rp_padding_hz ?prof) + (uint n - 1) * uint w"
  have b: "n \<noteq> 0" "n < 2 ^ 16" "rp_spacing_hz ?prof + 2 * rp_padding_hz ?prof + ?bw \<noteq> 0"
    "?top \<le> uint (rf_freq_end_hz rf) + band_slack region w" "?top < 2 ^ 32"
    using find_region[OF row rf legal] by (simp_all add: band_ok_def Let_def g reg)
  let ?slot = "choose_slot rf n preset use_preset name"
  have sl: "?slot < n" using b(1) by (rule choose_slot_less)
  note c = slot_centre_uint[OF sl b(5)]
  have u16: "uint (ucast x :: u16) = uint x" if "x < 2 ^ 16" for x :: u32
    using that by (simp add: unsigned_ucast_eq take_bit_eq_mod word_less_def)
  have "(ucast ?slot :: u16) < ucast n"
    using sl b(2) order.strict_trans[OF sl b(2)] by (simp add: word_less_def u16)
  moreover have "meshtastic_region_freq_plan region preset name use_preset
      = Inr \<lparr>fp_frequency_hz = slot_centre rf ?prof ?bw w ?slot, fp_slot_width_hz = w, fp_num_slots = ucast n,
             fp_slot = ucast ?slot, fp_duty_permille = rf_duty_permille rf\<rparr>"
    by (simp add: meshtastic_region_freq_plan_def row rf Let_def g b(3))
  moreover have "0 \<le> uint (rp_padding_hz ?prof)" "0 \<le> uint ?slot * uint w" by simp_all
  ultimately show ?thesis using c b(4) by simp
qed

section \<open>Properties\<close>



text \<open>The overshoot happens: with the default preset in PH_868 the last of the six slots ends 100 kHz
  above the allocation.\<close>

lemma ph_868_out_of_band:
  "\<exists>rf. find (\<lambda>r. rf_region r = REGION_PH_868) region_freqs = Some rf
     \<and> slot_geometry rf (profiles PROFILE_STD) 250000 = (250000, 6)
     \<and> uint (slot_centre rf (profiles PROFILE_STD) 250000 250000 5) + 125000 = uint (rf_freq_end_hz rf) + 100000"
  by (simp add: region_freqs_def slot_geometry_def slot_centre_def Let_def)

text \<open>The override of ITU2_70CM, slot 137, does not fit the signed 8-bit field it is stored in: it reads
  as a negative number and the slot is hashed from the channel name instead.\<close>

lemma itu2_70cm_override_lost:
  "\<exists>rf. find (\<lambda>r. rf_region r = REGION_ITU2_70CM) region_freqs = Some rf \<and> rf_override_slot rf = 137
     \<and> choose_slot rf n preset use_preset name = meshtastic_djb2_hash name mod n"
  by (simp add: region_freqs_def choose_slot_def OVERRIDE_SLOT_PRESET_HASH_def)

text \<open>The map sent to clients lists every region of the table once, in order; the group of a
  region holds exactly the presets legal there, its default preset among them, and carries the
  licensing of its profile.\<close>

theorem preset_map_complete:
  "map fst (pm_region_groups meshtastic_build_region_preset_map) = map rr_region regions
   \<and> list_all2 (\<lambda>row (r, gi). gi < length (pm_groups meshtastic_build_region_preset_map)
        \<and> pg_presets (snd (pm_groups meshtastic_build_region_preset_map ! gi)) = legal_presets row
        \<and> rr_default_preset row \<in> set (legal_presets row)
        \<and> pg_default_preset (snd (pm_groups meshtastic_build_region_preset_map ! gi)) = rr_default_preset row
        \<and> pg_licensed_only (snd (pm_groups meshtastic_build_region_preset_map ! gi))
            = rp_licensed_only (profiles (rr_profile row)))
      regions (pm_region_groups meshtastic_build_region_preset_map)"
  by code_simp

end
