(* ===== verification/Tx_Power.thy ===== *)
theory Tx_Power
  imports Region_Presets
begin

text \<open>
  Transmit power, \<^verbatim>\<open>meshtastic_tx_power.c\<close>: the radiated power an operator may use, and the drive
  level programmed into the transceiver so that drive plus front-end gain stays at or below it.  The
  \<^verbatim>\<open>int8_t\<close> figures are integers; the saturation the code writes out is kept.
\<close>

section \<open>The resolved power\<close>

text \<open>The Kconfig values the code reads.\<close>

record tx_power_cfg =
  txc_default_region :: u32
  txc_tx_power :: int
  txc_radio_min :: int
  txc_radio_max :: int

definition TX_POWER_SANE_MIN :: int where "TX_POWER_SANE_MIN = - 30"

definition TX_POWER_SANE_MAX :: int where "TX_POWER_SANE_MAX = 40"

definition region_power_limit :: "u32 \<Rightarrow> int" where
  "region_power_limit region =
     (case meshtastic_region_info region of
        Inl _ \<Rightarrow> 0
      | Inr info \<Rightarrow>
          let limit = ri_power_limit_dbm info
          in if limit < TX_POWER_SANE_MIN \<or> limit > TX_POWER_SANE_MAX then 0 else limit)"

definition meshtastic_tx_power_resolve :: "tx_power_cfg \<Rightarrow> int \<Rightarrow> u32 \<Rightarrow> bool \<Rightarrow> int" where
  "meshtastic_tx_power_resolve cfg configured region licensed =
     (let region = (if region = REGION_UNSET then txc_default_region cfg else region);
          limit = region_power_limit region;
          configured = (if configured < TX_POWER_SANE_MIN \<or> configured > TX_POWER_SANE_MAX then 0 else configured);
          configured = (if configured = 0 \<or> limit > 0 \<and> configured > limit \<and> \<not> licensed then limit else configured)
      in if configured = 0 then txc_tx_power cfg else configured)"

section \<open>Front-end gain\<close>

definition clamp_i8 :: "int \<Rightarrow> int" where
  "clamp_i8 x = max (- 128) (min 127 x)"

fun gain_loop :: "u8 list \<Rightarrow> nat \<Rightarrow> nat \<Rightarrow> int \<Rightarrow> int" where
  "gain_loop [] i n desired = desired"
| "gain_loop (g # gs) i n desired =
     (let reachable = int i + uint g
      in if reachable > desired \<or> i = n - 1 \<and> reachable \<le> desired then clamp_i8 (desired - uint g)
         else gain_loop gs (Suc i) n desired)"

definition meshtastic_fem_gain_convert :: "u8 list \<Rightarrow> int \<Rightarrow> int" where
  "meshtastic_fem_gain_convert gain desired =
     (if gain = [] then desired
      else let n = min (length gain) 127 in gain_loop (take n gain) 0 n desired)"

definition fem_gain_gc1109 :: "u8 list" where
  "fem_gain_gc1109 = [11, 11, 11, 11, 11, 11, 11, 11, 11, 11, 11, 11, 11, 11, 11, 11, 10, 10, 9, 9, 8, 7]"

definition fem_gain_kct8103l :: "u8 list" where
  "fem_gain_kct8103l = [13, 13, 13, 13, 13, 13, 13, 13, 13, 13, 13, 13, 13, 13, 12, 12, 11, 11, 10, 9, 8, 7]"

text \<open>The board's conversion hook: the identity without a front end, its gain table with one.\<close>

definition meshtastic_radio_fem_tx_power_conversion :: "u8 list option \<Rightarrow> int \<Rightarrow> int" where
  "meshtastic_radio_fem_tx_power_conversion fem radiated_dbm =
     (case fem of None \<Rightarrow> radiated_dbm | Some gain \<Rightarrow> meshtastic_fem_gain_convert gain radiated_dbm)"

definition meshtastic_tx_power_chip_drive :: "tx_power_cfg \<Rightarrow> u8 list option \<Rightarrow> int \<Rightarrow> bool \<Rightarrow> int" where
  "meshtastic_tx_power_chip_drive cfg fem radiated_dbm licensed =
     (let drive = (if licensed then radiated_dbm else meshtastic_radio_fem_tx_power_conversion fem radiated_dbm)
      in max (txc_radio_min cfg) (min (txc_radio_max cfg) drive))"

section \<open>The conversion never overshoots\<close>

lemma power_limits: "list_all (\<lambda>rf. 0 < rf_power_limit_dbm rf \<and> rf_power_limit_dbm rf \<le> 40) region_freqs"
  by (simp add: region_freqs_def)

lemma region_power_limit_eq:
  assumes "meshtastic_region_info region = Inr info"
  shows "region_power_limit region = ri_power_limit_dbm info" "0 < ri_power_limit_dbm info"
proof -
  obtain rf where "find (\<lambda>r. rf_region r = region) region_freqs = Some rf" "ri_power_limit_dbm info = rf_power_limit_dbm rf"
    using assms by (auto simp: meshtastic_region_info_def split: option.splits)
  moreover then have "rf \<in> set region_freqs" by (auto simp: find_Some_iff)
  ultimately have "0 < ri_power_limit_dbm info \<and> ri_power_limit_dbm info \<le> 40"
    using power_limits by (auto simp: list_all_iff)
  then show "region_power_limit region = ri_power_limit_dbm info" "0 < ri_power_limit_dbm info"
    by (simp_all add: region_power_limit_def assms Let_def TX_POWER_SANE_MIN_def TX_POWER_SANE_MAX_def)
qed

text \<open>What the loop returns: the request minus the gain of the first level that overshoots it, or of
  the last level.\<close>

lemma gain_loop_spec:
  assumes "gs \<noteq> []" "n = i + length gs"
  shows "\<exists>j < length gs. gain_loop gs i n desired = clamp_i8 (desired - uint (gs ! j))
     \<and> (\<forall>k < j. int (i + k) + uint (gs ! k) \<le> desired)
     \<and> (int (i + j) + uint (gs ! j) > desired \<or> j = length gs - 1)"
  using assms
proof (induction gs arbitrary: i)
  case (Cons g gs)
  show ?case
  proof (cases "int i + uint g > desired \<or> i = n - 1")
    case True
    then show ?thesis using Cons.prems by (intro exI[of _ 0]) (auto simp: Let_def)
  next
    case False
    with Cons.prems have ne: "gs \<noteq> []" by auto
    obtain j where j: "j < length gs" "gain_loop gs (Suc i) n desired = clamp_i8 (desired - uint (gs ! j))"
      "\<forall>k < j. int (Suc i + k) + uint (gs ! k) \<le> desired"
      "int (Suc i + j) + uint (gs ! j) > desired \<or> j = length gs - 1"
      using Cons.IH[OF ne, of "Suc i"] Cons.prems by auto
    from j False have "\<forall>k < Suc j. int (i + k) + uint ((g # gs) ! k) \<le> desired"
      by (auto simp: less_Suc_eq_0_disj)
    with j False ne show ?thesis by (intro exI[of _ "Suc j"]) (auto simp: Let_def)
  qed
qed simp

lemma gain_convert_safe:
  assumes gain: "gain \<noteq> []" "length gain \<le> 127"
    and hw: "\<And>l. l < length gain \<Longrightarrow> hw l \<le> uint (gain ! l)" "\<And>l. length gain \<le> l \<Longrightarrow> hw l \<le> uint (last gain)"
    and l: "int l \<le> meshtastic_fem_gain_convert gain desired"
  shows "int l + hw l \<le> desired"
proof -
  obtain j where j: "j < length gain" "meshtastic_fem_gain_convert gain desired = clamp_i8 (desired - uint (gain ! j))"
    "\<forall>k < j. int k + uint (gain ! k) \<le> desired" "int j + uint (gain ! j) > desired \<or> j = length gain - 1"
    using gain_loop_spec[of gain "length gain" 0 desired] gain by (auto simp: meshtastic_fem_gain_convert_def Let_def)
  have d: "int l \<le> desired - uint (gain ! j)" using l by (simp add: j(2) clamp_i8_def)
  consider "l < j" | "l \<ge> j" "j = length gain - 1" using d j(4) by linarith
  then show ?thesis
  proof cases
    case 1
    then have "int l + uint (gain ! l) \<le> desired" using j(3) by simp
    moreover have "hw l \<le> uint (gain ! l)" using 1 j(1) by (intro hw(1)) simp
    ultimately show ?thesis by simp
  next
    case 2
    have "hw l \<le> uint (gain ! j)"
    proof (cases "l < length gain")
      case True
      with 2 have "l = j" by simp
      with hw(1)[OF True] show ?thesis by simp
    next
      case False
      with hw(2)[of l] 2 gain show ?thesis by (simp add: last_conv_nth)
    qed
    with d show ?thesis by simp
  qed
qed

section \<open>Properties\<close>



end
