(* ===== verification/Config_Store.thy ===== *)
theory Config_Store
  imports Hlc Cluster_Sync Tx_Power
begin

text \<open>
  The versioned configuration store, \<^verbatim>\<open>meshtastic_config_store.c\<close>: the sections of the configuration
  with the hybrid-logical-clock stamp of each, validation, local edits that stamp, merges that keep
  the newer version, the seeds that run after a load, and the stamp records on flash.  A section
  carries the fields the firmware reads; the rest of the message is an opaque byte string.
\<close>

section \<open>Sections\<close>

record meshtastic_DeviceConfig =
  dcf_role :: u32
  dcf_rebroadcast_mode :: u32
  dcf_node_info_broadcast_secs :: u32
  dcf_rest :: bytes

record meshtastic_PositionConfig =
  pcf_smart_enabled :: bool
  pcf_smart_minimum_distance :: u32
  pcf_smart_minimum_interval_secs :: u32
  pcf_position_flags :: u32
  pcf_fixed_position :: bool
  pcf_rest :: bytes

text \<open>\<open>lcf_override_hz\<close> is the override frequency converted to hertz, \<^const>\<open>None\<close> when it is not positive.\<close>

record meshtastic_LoRaConfig =
  lcf_use_preset :: bool
  lcf_modem_preset :: u32
  lcf_bandwidth :: u32
  lcf_spread_factor :: u32
  lcf_coding_rate :: u32
  lcf_region :: u32
  lcf_hop_limit :: u32
  lcf_tx_enabled :: bool
  lcf_tx_power :: int
  lcf_override_duty_cycle :: bool
  lcf_rx_boosted_gain :: bool
  lcf_override_hz :: "u32 option"
  lcf_fem_lna_mode :: u32
  lcf_config_ok_to_mqtt :: bool
  lcf_rest :: bytes

record meshtastic_BluetoothConfig =
  bcf_mode :: u32
  bcf_rest :: bytes

datatype meshtastic_Config =
  Config_none
  | Config_device meshtastic_DeviceConfig
  | Config_position meshtastic_PositionConfig
  | Config_power bytes
  | Config_network bytes
  | Config_display bytes
  | Config_lora meshtastic_LoRaConfig
  | Config_bluetooth meshtastic_BluetoothConfig
  | Config_security bytes
  | Config_sessionkey bytes
  | Config_device_ui bytes

fun cfg_which :: "meshtastic_Config \<Rightarrow> u16" where
  "cfg_which Config_none = 0"
| "cfg_which (Config_device _) = 1"
| "cfg_which (Config_position _) = 2"
| "cfg_which (Config_power _) = 3"
| "cfg_which (Config_network _) = 4"
| "cfg_which (Config_display _) = 5"
| "cfg_which (Config_lora _) = 6"
| "cfg_which (Config_bluetooth _) = 7"
| "cfg_which (Config_security _) = 8"
| "cfg_which (Config_sessionkey _) = 9"
| "cfg_which (Config_device_ui _) = 10"

datatype meshtastic_ModuleConfig =
  Module_telemetry bool bool bytes
  | Module_other u16 bytes

fun mod_which :: "meshtastic_ModuleConfig \<Rightarrow> u16" where
  "mod_which (Module_telemetry _ _ _) = 6"
| "mod_which (Module_other t _) = t"

definition config_names :: "(string \<times> u16) list" where
  "config_names =
     [(''device'', 1), (''position'', 2), (''power'', 3), (''network'', 4), (''display'', 5), (''lora'', 6),
      (''bluetooth'', 7), (''security'', 8), (''sessionkey'', 9), (''device_ui'', 10)]"

definition module_names :: "(string \<times> u16) list" where
  "module_names =
     [(''mqtt'', 1), (''serial'', 2), (''external_notification'', 3), (''store_forward'', 4), (''range_test'', 5),
      (''telemetry'', 6), (''canned_message'', 7), (''audio'', 8), (''remote_hardware'', 9), (''neighbor_info'', 10),
      (''ambient_lighting'', 11), (''detection_sensor'', 12), (''paxcounter'', 13), (''statusmessage'', 14),
      (''traffic_management'', 15), (''tak'', 16), (''mesh_beacon'', 17)]"

fun index_where :: "('a \<Rightarrow> bool) \<Rightarrow> 'a list \<Rightarrow> nat \<Rightarrow> nat result" where
  "index_where p [] i = Inl ENOENT"
| "index_where p (x # xs) i = (if p x then Inr i else index_where p xs (Suc i))"

definition index_for_config_tag :: "u16 \<Rightarrow> nat result" where
  "index_for_config_tag tag = index_where (\<lambda>x. snd x = tag) config_names 0"

definition index_for_module_tag :: "u16 \<Rightarrow> nat result" where
  "index_for_module_tag tag = index_where (\<lambda>x. snd x = tag) module_names 0"

definition index_for_config_name :: "string \<Rightarrow> nat result" where
  "index_for_config_name name = index_where (\<lambda>x. fst x = name) config_names 0"

definition index_for_module_name :: "string \<Rightarrow> nat result" where
  "index_for_module_name name = index_where (\<lambda>x. fst x = name) module_names 0"

section \<open>Validation\<close>

definition lora_is_valid :: "meshtastic_LoRaConfig \<Rightarrow> bool" where
  "lora_is_valid l =
     (if lcf_region l = REGION_LORA_24 then False
      else if lcf_region l \<noteq> REGION_UNSET
      then (case meshtastic_region_info (lcf_region l) of
              Inl _ \<Rightarrow> False
            | Inr info \<Rightarrow>
                if ri_licensed_only info then False
                else (case lcf_override_hz l of
                        None \<Rightarrow> lcf_hop_limit l \<le> 7
                      | Some hz \<Rightarrow>
                          if hz < ri_freq_start_hz info \<or> hz > ri_freq_end_hz info then False
                          else lcf_hop_limit l \<le> 7))
      else if lcf_override_hz l \<noteq> None then False
      else lcf_hop_limit l \<le> 7)"

definition config_is_valid :: "meshtastic_Config \<Rightarrow> bool" where
  "config_is_valid c =
     (case index_for_config_tag (cfg_which c) of
        Inl _ \<Rightarrow> False
      | Inr _ \<Rightarrow>
          (case c of
             Config_device d \<Rightarrow> dcf_role d \<le> 12 \<and> dcf_rebroadcast_mode d \<le> 5
           | Config_lora l \<Rightarrow> lora_is_valid l
           | Config_bluetooth b \<Rightarrow> bcf_mode b \<le> 2
           | _ \<Rightarrow> True))"

definition module_is_valid :: "meshtastic_ModuleConfig \<Rightarrow> bool" where
  "module_is_valid m = (case index_for_module_tag (mod_which m) of Inl _ \<Rightarrow> False | Inr _ \<Rightarrow> True)"

section \<open>The store\<close>

record config_store =
  cs_configs :: "meshtastic_Config list"
  cs_modules :: "meshtastic_ModuleConfig list"
  cs_hlc :: meshtastic_hlc
  cs_config_stamps :: "meshtastic_hlc_stamp list"
  cs_module_stamps :: "meshtastic_hlc_stamp list"
  cs_position_seed :: u8
  cs_is_licensed :: bool
  cs_save_suppressed :: bool
  cs_save_pending :: bool

text \<open>What the store reads of the firmware around it: the node id, the wall clock, the Kconfig
  choices, whether the front end has a switchable amplifier, the first error of setting the channel
  slots, the name of the primary channel, the outcome of a live retune, the uptime and the settle time.\<close>

record cfg_env =
  ge_node_id :: u32
  ge_epoch_ms :: int
  ge_device_metrics :: bool
  ge_environment_metrics :: bool
  ge_fem_lna_can_control :: bool
  ge_attachment_head :: bool
  ge_set_slots :: "errno option"
  ge_primary_name :: string
  ge_retune :: "errno option"
  ge_tx_power :: tx_power_cfg
  ge_uptime_ms :: int
  ge_settle_ms :: nat

definition stamp_local :: "cfg_env \<Rightarrow> config_store \<Rightarrow> config_store \<times> meshtastic_hlc_stamp" where
  "stamp_local ge cs =
     (let (h, s) = meshtastic_hlc_local (cs_hlc cs) (ge_node_id ge) (\<lambda>_. ge_epoch_ms ge)
      in (cs\<lparr>cs_hlc := h\<rparr>, s))"

definition observe_stamp :: "cfg_env \<Rightarrow> meshtastic_hlc_stamp \<Rightarrow> config_store \<Rightarrow> config_store" where
  "observe_stamp ge seen cs =
     cs\<lparr>cs_hlc := fst (meshtastic_hlc_observe (cs_hlc cs) seen (\<lambda>_. ge_epoch_ms ge))\<rparr>"

definition store_schedule_save :: "config_store \<Rightarrow> config_store" where
  "store_schedule_save cs = (if cs_save_suppressed cs then cs else cs\<lparr>cs_save_pending := True\<rparr>)"

definition meshtastic_config_store_set_save_suppressed :: "bool \<Rightarrow> config_store \<Rightarrow> config_store" where
  "meshtastic_config_store_set_save_suppressed b cs = cs\<lparr>cs_save_suppressed := b\<rparr>"

section \<open>Seeds\<close>

definition on_position :: "(meshtastic_PositionConfig \<Rightarrow> meshtastic_PositionConfig) \<Rightarrow> meshtastic_Config \<Rightarrow> meshtastic_Config" where
  "on_position f c = (case c of Config_position p \<Rightarrow> Config_position (f p) | _ \<Rightarrow> c)"

definition on_device :: "(meshtastic_DeviceConfig \<Rightarrow> meshtastic_DeviceConfig) \<Rightarrow> meshtastic_Config \<Rightarrow> meshtastic_Config" where
  "on_device f c = (case c of Config_device d \<Rightarrow> Config_device (f d) | _ \<Rightarrow> c)"

definition on_lora :: "(meshtastic_LoRaConfig \<Rightarrow> meshtastic_LoRaConfig) \<Rightarrow> meshtastic_Config \<Rightarrow> meshtastic_Config" where
  "on_lora f c = (case c of Config_lora l \<Rightarrow> Config_lora (f l) | _ \<Rightarrow> c)"

text \<open>An edit of one configuration slot in place.\<close>

definition upd_config :: "nat \<Rightarrow> (meshtastic_Config \<Rightarrow> meshtastic_Config) \<Rightarrow> config_store \<Rightarrow> config_store" where
  "upd_config i f cs = cs\<lparr>cs_configs := (cs_configs cs)[i := f (cs_configs cs ! i)]\<rparr>"

abbreviation (input) DEVICE_IDX :: nat where "DEVICE_IDX \<equiv> 0"
abbreviation (input) POSITION_IDX :: nat where "POSITION_IDX \<equiv> 1"
abbreviation (input) LORA_IDX :: nat where "LORA_IDX \<equiv> 5"
abbreviation (input) TELEMETRY_IDX :: nat where "TELEMETRY_IDX \<equiv> 5"

definition POSITION_SEED_FLAGS :: u32 where
  "POSITION_SEED_FLAGS = 0x0001 OR 0x0002 OR 0x0200 OR 0x0100 OR 0x0008 OR 0x0020"

definition position_seed :: "meshtastic_PositionConfig \<Rightarrow> meshtastic_PositionConfig" where
  "position_seed p =
     p\<lparr>pcf_smart_enabled := True, pcf_smart_minimum_distance := 100, pcf_smart_minimum_interval_secs := 300,
       pcf_position_flags := POSITION_SEED_FLAGS\<rparr>"

definition seed_position_broadcast :: "config_store \<Rightarrow> config_store" where
  "seed_position_broadcast cs = upd_config POSITION_IDX (on_position position_seed) cs"

definition seed_position_once :: "config_store \<Rightarrow> config_store" where
  "seed_position_once cs =
     upd_config POSITION_IDX
       (on_position (\<lambda>p. if pcf_position_flags p \<noteq> 0
                          then (position_seed p)\<lparr>pcf_position_flags := pcf_position_flags p\<rparr> else position_seed p)) cs"

definition seed_telemetry_flags :: "cfg_env \<Rightarrow> config_store \<Rightarrow> config_store" where
  "seed_telemetry_flags ge cs =
     cs\<lparr>cs_modules := (cs_modules cs)[TELEMETRY_IDX :=
        (case cs_modules cs ! TELEMETRY_IDX of
           Module_telemetry _ _ rest \<Rightarrow> Module_telemetry (ge_device_metrics ge) (ge_environment_metrics ge) rest
         | m \<Rightarrow> m)]\<rparr>"

definition reconcile_stamped_seeds_locked :: "cfg_env \<Rightarrow> config_store \<Rightarrow> config_store" where
  "reconcile_stamped_seeds_locked ge cs =
     (let cs = (if meshtastic_hlc_stamp_is_unset (cs_module_stamps cs ! TELEMETRY_IDX) then seed_telemetry_flags ge cs else cs)
      in if meshtastic_hlc_stamp_is_unset (cs_config_stamps cs ! POSITION_IDX) then seed_position_broadcast cs else cs)"

definition POSITION_SEED_VERSION :: u8 where "POSITION_SEED_VERSION = 1"

definition reconcile_seeds_locked :: "cfg_env \<Rightarrow> config_store \<Rightarrow> config_store" where
  "reconcile_seeds_locked ge cs =
     (let cs = reconcile_stamped_seeds_locked ge cs
      in if cs_position_seed cs < POSITION_SEED_VERSION then seed_position_once cs else cs)"

section \<open>Applying the configuration to the radio\<close>

text \<open>The radio-facing part of the global state, with the latched duty ceiling and the retune gate.\<close>

record mt_state =
  mt_modem_preset :: u32
  mt_use_preset :: bool
  mt_config_ok_to_mqtt :: bool
  mt_device_role :: u32
  mt_rebroadcast_mode :: u32
  mt_hop_limit :: u8
  mt_tx_power :: int
  mt_licensed :: bool
  mt_modem :: meshtastic_modem_params
  mt_rx_boosted_gain :: bool
  mt_tx_enabled :: bool
  mt_fem_lna :: bool
  mt_frequency :: u32
  mt_duty_override :: bool
  mt_duty_region :: u32
  mt_duty_permille :: nat
  mt_gate_generation :: u32
  mt_settle_until :: int

definition lora_bw_code_to_hz :: "u32 \<Rightarrow> u32 option" where
  "lora_bw_code_to_hz code =
     (if code = 16 then Some 15600
      else if code = 62 then Some 62500
      else if code = 125 then Some 125000
      else if code = 250 then Some 250000
      else if code = 400 then Some 406250
      else if code = 500 then Some 500000
      else if code = 800 then Some 812500
      else if code = 1600 then Some 1625000
      else None)"

definition meshtastic_duty_set_region :: "u32 \<Rightarrow> nat \<Rightarrow> mt_state \<Rightarrow> mt_state" where
  "meshtastic_duty_set_region region permille mt =
     mt\<lparr>mt_duty_region := region, mt_duty_permille := (if permille = 0 \<or> permille > 1000 then 1000 else permille)\<rparr>"

text \<open>The modem parameters: those of the preset, or a custom triple when all three are settable.\<close>

definition resolve_modem :: "meshtastic_LoRaConfig \<Rightarrow> meshtastic_modem_params" where
  "resolve_modem l =
     (if lcf_use_preset l then meshtastic_preset_to_params (lcf_modem_preset l) False
      else case lora_bw_code_to_hz (lcf_bandwidth l) of
             Some hz \<Rightarrow>
               if lcf_spread_factor l \<ge> 5 \<and> lcf_spread_factor l \<le> 12 \<and> lcf_coding_rate l \<ge> 5 \<and> lcf_coding_rate l \<le> 8
               then \<lparr>mp_bandwidth_hz = hz, mp_spread_factor = ucast (lcf_spread_factor l), mp_coding_rate = ucast (lcf_coding_rate l)\<rparr>
               else meshtastic_preset_to_params (lcf_modem_preset l) False
           | None \<Rightarrow> meshtastic_preset_to_params (lcf_modem_preset l) False)"

text \<open>The frequency: an override if it lies in the US band, otherwise the plan of the region.\<close>

definition resolve_frequency :: "cfg_env \<Rightarrow> meshtastic_LoRaConfig \<Rightarrow> mt_state \<Rightarrow> mt_state" where
  "resolve_frequency ge l mt =
     (case lcf_override_hz l of
        Some hz \<Rightarrow> if hz \<ge> 902000000 \<and> hz \<le> 928000000 then mt\<lparr>mt_frequency := hz\<rparr> else mt
      | None \<Rightarrow>
          let region = (if lcf_region l = REGION_UNSET then txc_default_region (ge_tx_power ge) else lcf_region l)
          in case meshtastic_region_freq_plan region (mt_modem_preset mt) (ge_primary_name ge) (mt_use_preset mt) of
               Inr plan \<Rightarrow> meshtastic_duty_set_region region (fp_duty_permille plan) (mt\<lparr>mt_frequency := fp_frequency_hz plan\<rparr>)
             | Inl _ \<Rightarrow> mt)"

abbreviation (input) FEM_LNA_DISABLED :: u32 where "FEM_LNA_DISABLED \<equiv> 0"
abbreviation (input) FEM_LNA_NOT_PRESENT :: u32 where "FEM_LNA_NOT_PRESENT \<equiv> 2"

text \<open>The sections \<^verbatim>\<open>apply_core\<close> reads; each slot holds the variant of its tag.\<close>

definition device_of :: "config_store \<Rightarrow> meshtastic_DeviceConfig" where
  "device_of cs =
     (case cs_configs cs ! DEVICE_IDX of Config_device d \<Rightarrow> d
      | _ \<Rightarrow> \<lparr>dcf_role = 0, dcf_rebroadcast_mode = 0, dcf_node_info_broadcast_secs = 0, dcf_rest = []\<rparr>)"

definition lora_of :: "config_store \<Rightarrow> meshtastic_LoRaConfig" where
  "lora_of cs =
     (case cs_configs cs ! LORA_IDX of Config_lora l \<Rightarrow> l
      | _ \<Rightarrow> \<lparr>lcf_use_preset = False, lcf_modem_preset = 0, lcf_bandwidth = 0, lcf_spread_factor = 0,
              lcf_coding_rate = 0, lcf_region = 0, lcf_hop_limit = 0, lcf_tx_enabled = False, lcf_tx_power = 0,
              lcf_override_duty_cycle = False, lcf_rx_boosted_gain = False, lcf_override_hz = None,
              lcf_fem_lna_mode = 0, lcf_config_ok_to_mqtt = False, lcf_rest = []\<rparr>)"

definition apply_fem :: "cfg_env \<Rightarrow> meshtastic_LoRaConfig \<Rightarrow> config_store \<Rightarrow> mt_state \<Rightarrow> config_store \<times> mt_state" where
  "apply_fem ge l cs mt =
     (if ge_fem_lna_can_control ge then (cs, mt\<lparr>mt_fem_lna := (lcf_fem_lna_mode l \<noteq> FEM_LNA_DISABLED)\<rparr>)
      else if lcf_fem_lna_mode l \<noteq> FEM_LNA_NOT_PRESENT
      then (upd_config LORA_IDX (on_lora (\<lambda>l. l\<lparr>lcf_fem_lna_mode := FEM_LNA_NOT_PRESENT\<rparr>)) cs, mt)
      else (cs, mt))"

text \<open>The settings that only depend on the device and LoRa sections and the licence.\<close>

definition radio_settings ::
  "cfg_env \<Rightarrow> meshtastic_DeviceConfig \<Rightarrow> meshtastic_LoRaConfig \<Rightarrow> bool \<Rightarrow> mt_state \<Rightarrow> mt_state" where
  "radio_settings ge device l licensed mt =
     (let mt = mt\<lparr>mt_device_role := dcf_role device, mt_rebroadcast_mode := dcf_rebroadcast_mode device\<rparr>;
          mt = (if lcf_hop_limit l \<ge> 1 \<and> lcf_hop_limit l \<le> 7 then mt\<lparr>mt_hop_limit := ucast (lcf_hop_limit l)\<rparr> else mt)
      in mt\<lparr>mt_tx_power := meshtastic_tx_power_resolve (ge_tx_power ge) (lcf_tx_power l) (lcf_region l) licensed,
            mt_licensed := licensed, mt_modem := resolve_modem l,
            mt_rx_boosted_gain := lcf_rx_boosted_gain l, mt_tx_enabled := lcf_tx_enabled l\<rparr>)"

definition meshtastic_config_store_apply_core ::
  "cfg_env \<Rightarrow> config_store \<Rightarrow> mt_state \<Rightarrow> config_store \<times> mt_state \<times> unit result" where
  "meshtastic_config_store_apply_core ge cs mt =
     (let cs = reconcile_stamped_seeds_locked ge cs;
          device = device_of cs; l = lora_of cs;
          mt = mt\<lparr>mt_modem_preset := lcf_modem_preset l, mt_use_preset := lcf_use_preset l,
                  mt_config_ok_to_mqtt := lcf_config_ok_to_mqtt l, mt_duty_override := lcf_override_duty_cycle l\<rparr>
      in case (if ge_attachment_head ge then None else ge_set_slots ge) of
           Some err \<Rightarrow> (cs, mt, Inl err)
         | None \<Rightarrow>
             let (cs', mt) = apply_fem ge l cs (radio_settings ge device l (cs_is_licensed cs) mt)
             in (cs', resolve_frequency ge l mt, Inr ()))"

text \<open>The live retune after a LoRa edit, \<^verbatim>\<open>meshtastic_preset.c\<close>: the plan of the stored region and the
  resolved preset; \<^const>\<open>ge_retune\<close> is the outcome of programming the chip.\<close>

definition meshtastic_preset_region :: "cfg_env \<Rightarrow> config_store \<Rightarrow> u32" where
  "meshtastic_preset_region ge cs =
     (case cs_configs cs ! LORA_IDX of
        Config_lora l \<Rightarrow> if lcf_region l \<noteq> REGION_UNSET then lcf_region l else txc_default_region (ge_tx_power ge)
      | _ \<Rightarrow> txc_default_region (ge_tx_power ge))"

definition settle_arm :: "cfg_env \<Rightarrow> mt_state \<Rightarrow> mt_state" where
  "settle_arm ge mt =
     (if ge_settle_ms ge = 0 then mt else mt\<lparr>mt_settle_until := ge_uptime_ms ge + int (ge_settle_ms ge)\<rparr>)"

definition meshtastic_preset_apply_stored :: "cfg_env \<Rightarrow> config_store \<Rightarrow> mt_state \<Rightarrow> mt_state \<times> unit result" where
  "meshtastic_preset_apply_stored ge cs mt =
     (case meshtastic_region_freq_plan (meshtastic_preset_region ge cs) (mt_modem_preset mt) (ge_primary_name ge) (mt_use_preset mt) of
        Inl err \<Rightarrow> (mt, Inl err)
      | Inr plan \<Rightarrow>
          let mt = mt\<lparr>mt_frequency := fp_frequency_hz plan\<rparr>
          in case ge_retune ge of
               Some err \<Rightarrow> (mt, Inl err)
             | None \<Rightarrow> (settle_arm ge (mt\<lparr>mt_gate_generation := mt_gate_generation mt + 1\<rparr>), Inr ()))"

section \<open>Reading and editing sections\<close>

definition meshtastic_config_store_get_config :: "u16 \<Rightarrow> config_store \<Rightarrow> meshtastic_Config result" where
  "meshtastic_config_store_get_config tag cs =
     (case index_for_config_tag tag of Inl _ \<Rightarrow> Inl EINVAL | Inr i \<Rightarrow> Inr (cs_configs cs ! i))"

definition meshtastic_config_store_get_config_stamp :: "u16 \<Rightarrow> config_store \<Rightarrow> meshtastic_hlc_stamp result" where
  "meshtastic_config_store_get_config_stamp tag cs =
     (case index_for_config_tag tag of Inl _ \<Rightarrow> Inl EINVAL | Inr i \<Rightarrow> Inr (cs_config_stamps cs ! i))"

definition meshtastic_config_store_get_module :: "u16 \<Rightarrow> config_store \<Rightarrow> meshtastic_ModuleConfig result" where
  "meshtastic_config_store_get_module tag cs =
     (case index_for_module_tag tag of Inl _ \<Rightarrow> Inl EINVAL | Inr i \<Rightarrow> Inr (cs_modules cs ! i))"

definition meshtastic_config_store_get_module_stamp :: "u16 \<Rightarrow> config_store \<Rightarrow> meshtastic_hlc_stamp result" where
  "meshtastic_config_store_get_module_stamp tag cs =
     (case index_for_module_tag tag of Inl _ \<Rightarrow> Inl EINVAL | Inr i \<Rightarrow> Inr (cs_module_stamps cs ! i))"

text \<open>Stamping the slot of a section that has just been edited.\<close>

definition stamp_config_slot :: "cfg_env \<Rightarrow> nat \<Rightarrow> config_store \<Rightarrow> config_store" where
  "stamp_config_slot ge i cs =
     (let (cs, s) = stamp_local ge cs in cs\<lparr>cs_config_stamps := (cs_config_stamps cs)[i := s]\<rparr>)"

definition stamp_module_slot :: "cfg_env \<Rightarrow> nat \<Rightarrow> config_store \<Rightarrow> config_store" where
  "stamp_module_slot ge i cs =
     (let (cs, s) = stamp_local ge cs in cs\<lparr>cs_module_stamps := (cs_module_stamps cs)[i := s]\<rparr>)"

definition meshtastic_config_store_set_config ::
  "cfg_env \<Rightarrow> meshtastic_Config \<Rightarrow> config_store \<Rightarrow> mt_state \<Rightarrow> config_store \<times> mt_state \<times> unit result" where
  "meshtastic_config_store_set_config ge c cs mt =
     (case index_for_config_tag (cfg_which c) of
        Inl _ \<Rightarrow> (cs, mt, Inl EINVAL)
      | Inr idx \<Rightarrow>
          if \<not> config_is_valid c then (cs, mt, Inl EINVAL)
          else
            let cs = stamp_config_slot ge idx (upd_config idx (\<lambda>_. c) cs);
                (cs, mt, ret) = meshtastic_config_store_apply_core ge cs mt
            in case ret of
                 Inl err \<Rightarrow> (cs, mt, Inl err)
               | Inr _ \<Rightarrow>
                   let (mt, ret) = (if cfg_which c = 6 then meshtastic_preset_apply_stored ge cs mt else (mt, Inr ()))
                   in case ret of
                        Inl err \<Rightarrow> (cs, mt, Inl err)
                      | Inr _ \<Rightarrow> (store_schedule_save cs, mt, Inr ()))"

definition meshtastic_config_store_set_module :: "cfg_env \<Rightarrow> meshtastic_ModuleConfig \<Rightarrow> config_store \<Rightarrow> config_store \<times> unit result" where
  "meshtastic_config_store_set_module ge m cs =
     (case index_for_module_tag (mod_which m) of
        Inl _ \<Rightarrow> (cs, Inl EINVAL)
      | Inr idx \<Rightarrow>
          if \<not> module_is_valid m then (cs, Inl EINVAL)
          else (store_schedule_save (stamp_module_slot ge idx (cs\<lparr>cs_modules := (cs_modules cs)[idx := m]\<rparr>)), Inr ()))"

definition meshtastic_config_store_set_position_fixed :: "cfg_env \<Rightarrow> bool \<Rightarrow> config_store \<Rightarrow> config_store" where
  "meshtastic_config_store_set_position_fixed ge fixed cs =
     store_schedule_save (stamp_config_slot ge POSITION_IDX
       (upd_config POSITION_IDX (on_position (\<lambda>p. p\<lparr>pcf_fixed_position := fixed\<rparr>)) cs))"

definition meshtastic_config_store_set_device_role ::
  "cfg_env \<Rightarrow> u32 \<Rightarrow> config_store \<Rightarrow> mt_state \<Rightarrow> config_store \<times> mt_state \<times> unit result" where
  "meshtastic_config_store_set_device_role ge role cs mt =
     (if role > 12 then (cs, mt, Inl EINVAL)
      else (store_schedule_save (stamp_config_slot ge DEVICE_IDX (upd_config DEVICE_IDX (on_device (\<lambda>d. d\<lparr>dcf_role := role\<rparr>)) cs)),
            mt\<lparr>mt_device_role := role\<rparr>, Inr ()))"

definition meshtastic_config_store_set_rebroadcast_mode ::
  "cfg_env \<Rightarrow> u32 \<Rightarrow> config_store \<Rightarrow> mt_state \<Rightarrow> config_store \<times> mt_state \<times> unit result" where
  "meshtastic_config_store_set_rebroadcast_mode ge mode cs mt =
     (if mode > 5 then (cs, mt, Inl EINVAL)
      else (store_schedule_save (stamp_config_slot ge DEVICE_IDX
              (upd_config DEVICE_IDX (on_device (\<lambda>d. d\<lparr>dcf_rebroadcast_mode := mode\<rparr>)) cs)),
            mt\<lparr>mt_rebroadcast_mode := mode\<rparr>, Inr ()))"

definition meshtastic_config_store_set_node_info_interval :: "cfg_env \<Rightarrow> u32 \<Rightarrow> config_store \<Rightarrow> config_store" where
  "meshtastic_config_store_set_node_info_interval ge secs cs =
     store_schedule_save (stamp_config_slot ge DEVICE_IDX
       (upd_config DEVICE_IDX (on_device (\<lambda>d. d\<lparr>dcf_node_info_broadcast_secs := secs\<rparr>)) cs))"

definition meshtastic_config_store_stamp_all_local :: "cfg_env \<Rightarrow> config_store \<Rightarrow> config_store" where
  "meshtastic_config_store_stamp_all_local ge cs =
     fold (stamp_module_slot ge) [0..<length module_names] (fold (stamp_config_slot ge) [0..<length config_names] cs)"

section \<open>Merging\<close>

definition meshtastic_config_store_merge_config ::
  "cfg_env \<Rightarrow> meshtastic_Config \<Rightarrow> meshtastic_hlc_stamp \<Rightarrow> config_store \<Rightarrow> mt_state \<Rightarrow> config_store \<times> mt_state \<times> nat result" where
  "meshtastic_config_store_merge_config ge c stamp cs mt =
     (if \<not> config_is_valid c then (cs, mt, Inl EINVAL)
      else case index_for_config_tag (cfg_which c) of
             Inl _ \<Rightarrow> (cs, mt, Inl EINVAL)
           | Inr idx \<Rightarrow>
               let cs = observe_stamp ge stamp cs
               in if meshtastic_hlc_newer stamp (cs_config_stamps cs ! idx)
                  then let cs = (upd_config idx (\<lambda>_. c) cs)\<lparr>cs_config_stamps := (cs_config_stamps cs)[idx := stamp]\<rparr>;
                           (cs, mt, _) = meshtastic_config_store_apply_core ge cs mt
                       in (store_schedule_save cs, mt, Inr 1)
                  else (cs, mt, Inr 0))"

definition meshtastic_config_store_merge_module ::
  "cfg_env \<Rightarrow> meshtastic_ModuleConfig \<Rightarrow> meshtastic_hlc_stamp \<Rightarrow> config_store \<Rightarrow> config_store \<times> nat result" where
  "meshtastic_config_store_merge_module ge m stamp cs =
     (if \<not> module_is_valid m then (cs, Inl EINVAL)
      else case index_for_module_tag (mod_which m) of
             Inl _ \<Rightarrow> (cs, Inl EINVAL)
           | Inr idx \<Rightarrow>
               let cs = observe_stamp ge stamp cs
               in if meshtastic_hlc_newer stamp (cs_module_stamps cs ! idx)
                  then (store_schedule_save (cs\<lparr>cs_modules := (cs_modules cs)[idx := m],
                                                cs_module_stamps := (cs_module_stamps cs)[idx := stamp]\<rparr>), Inr 1)
                  else (cs, Inr 0))"

section \<open>Records on flash\<close>

definition STORE_RECORD_VERSION :: u8 where "STORE_RECORD_VERSION = 1"

definition STORE_RECORD_VERSION_MIN :: u8 where "STORE_RECORD_VERSION_MIN = 1"

definition STORE_RECORD_HEADER_LEN :: nat where "STORE_RECORD_HEADER_LEN = 4"

text \<open>\<open>payload\<close> is what the protobuf encoder produces into the buffer behind the header, if it fits.\<close>

definition encode_record :: "bytes option \<Rightarrow> nat \<Rightarrow> bytes result" where
  "encode_record payload buf_len =
     (if buf_len < STORE_RECORD_HEADER_LEN then Inl EINVAL
      else case payload of
             None \<Rightarrow> Inl ENOMEM
           | Some b \<Rightarrow> Inr ([STORE_RECORD_VERSION, 0] @ le_bytes (of_nat (length b) :: u16) 2 @ b))"

definition decode_record :: "(bytes \<Rightarrow> 'a option) \<Rightarrow> bytes \<Rightarrow> 'a result" where
  "decode_record dec buf =
     (if length buf < STORE_RECORD_HEADER_LEN then Inl EINVAL
      else if buf ! 0 < STORE_RECORD_VERSION_MIN \<or> buf ! 0 > STORE_RECORD_VERSION then Inl EINVAL
      else if unat (le_word (take 2 (drop 2 buf)) :: u16) \<noteq> length buf - STORE_RECORD_HEADER_LEN then Inl EINVAL
      else case dec (drop STORE_RECORD_HEADER_LEN buf) of None \<Rightarrow> Inl EINVAL | Some m \<Rightarrow> Inr m)"

definition STORE_HLC_RECORD_LEN :: nat where "STORE_HLC_RECORD_LEN = 17"

definition encode_hlc_record :: "meshtastic_hlc_stamp \<Rightarrow> nat \<Rightarrow> bytes result" where
  "encode_hlc_record s buf_len =
     (if buf_len < STORE_HLC_RECORD_LEN then Inl EINVAL
      else Inr ([STORE_RECORD_VERSION] @ le_bytes (of_int (st_physical_ms s) :: u64) 8
                @ le_bytes (st_counter s) 4 @ le_bytes (st_node_id s) 4))"

definition decode_hlc_record :: "bytes \<Rightarrow> meshtastic_hlc_stamp" where
  "decode_hlc_record buf =
     (if length buf < STORE_HLC_RECORD_LEN then unset_stamp
      else if buf ! 0 < STORE_RECORD_VERSION_MIN \<or> buf ! 0 > STORE_RECORD_VERSION then unset_stamp
      else \<lparr>st_physical_ms = sint (le_word (take 8 (drop 1 buf)) :: u64),
            st_counter = le_word (take 4 (drop 9 buf)), st_node_id = le_word (take 4 (drop 13 buf))\<rparr>)"

text \<open>The load of one record, by the branch of \<^verbatim>\<open>setting_set\<close> its key selects: a stamp
  (\<^verbatim>\<open>hlc/config/\<close>, \<^verbatim>\<open>hlc/module/\<close>) or a section (\<^verbatim>\<open>config/\<close>, \<^verbatim>\<open>module/\<close>).\<close>

definition load_config_stamp :: "cfg_env \<Rightarrow> string \<Rightarrow> bytes \<Rightarrow> config_store \<Rightarrow> config_store \<times> unit result" where
  "load_config_stamp ge name buf cs =
     (case index_for_config_name name of
        Inl err \<Rightarrow> (cs, Inl err)
      | Inr idx \<Rightarrow>
          let s = decode_hlc_record buf
          in (observe_stamp ge s (cs\<lparr>cs_config_stamps := (cs_config_stamps cs)[idx := s]\<rparr>), Inr ()))"

definition load_module_stamp :: "cfg_env \<Rightarrow> string \<Rightarrow> bytes \<Rightarrow> config_store \<Rightarrow> config_store \<times> unit result" where
  "load_module_stamp ge name buf cs =
     (case index_for_module_name name of
        Inl err \<Rightarrow> (cs, Inl err)
      | Inr idx \<Rightarrow>
          let s = decode_hlc_record buf
          in (observe_stamp ge s (cs\<lparr>cs_module_stamps := (cs_module_stamps cs)[idx := s]\<rparr>), Inr ()))"

definition load_config :: "(bytes \<Rightarrow> meshtastic_Config option) \<Rightarrow> string \<Rightarrow> bytes \<Rightarrow> config_store \<Rightarrow> config_store \<times> unit result" where
  "load_config dec name buf cs =
     (case index_for_config_name name of
        Inl err \<Rightarrow> (cs, Inl err)
      | Inr idx \<Rightarrow>
          (case decode_record dec buf of
             Inl _ \<Rightarrow> (cs, Inl EINVAL)
           | Inr c \<Rightarrow>
               if cfg_which c \<noteq> snd (config_names ! idx) \<or> \<not> config_is_valid c then (cs, Inl EINVAL)
               else (cs\<lparr>cs_configs := (cs_configs cs)[idx := c]\<rparr>, Inr ())))"

definition load_module :: "(bytes \<Rightarrow> meshtastic_ModuleConfig option) \<Rightarrow> string \<Rightarrow> bytes \<Rightarrow> config_store \<Rightarrow> config_store \<times> unit result" where
  "load_module dec name buf cs =
     (case index_for_module_name name of
        Inl err \<Rightarrow> (cs, Inl err)
      | Inr idx \<Rightarrow>
          (case decode_record dec buf of
             Inl _ \<Rightarrow> (cs, Inl EINVAL)
           | Inr m \<Rightarrow>
               if mod_which m \<noteq> snd (module_names ! idx) \<or> \<not> module_is_valid m then (cs, Inl EINVAL)
               else (cs\<lparr>cs_modules := (cs_modules cs)[idx := m]\<rparr>, Inr ())))"

end
