(* ===== verification/Cluster_Types.thy ===== *)
theory Cluster_Types
  imports Cluster_Sign Config_Store
begin

text \<open>
  The data of the cluster module \<^verbatim>\<open>meshtastic_cluster.c\<close>: the decoded protobuf messages of
  \<^verbatim>\<open>cluster.proto\<close>, the environment a handler reads (node id, clocks, build options, node database,
  admin list, protobuf decoders, verifier), the module state with its statistics, and the conversions
  and ingest gates that use them.  Decoding and encoding of protobuf bytes is a parameter; absent
  submessages are \<^const>\<open>None\<close>.
\<close>

section \<open>Messages\<close>

record zephyrtastic_ClusterKey =
  pk_layer :: u32
  pk_node_id :: u32
  pk_section :: u32

record zephyrtastic_HlcStamp =
  ps_physical_ms :: int
  ps_counter :: u32
  ps_node_id :: u32

record zephyrtastic_KeyStamp =
  ks_key :: "zephyrtastic_ClusterKey option"
  ks_stamp :: "zephyrtastic_HlcStamp option"

record zephyrtastic_ClusterDigest =
  dg_doc_hash :: u32
  dg_entry_count :: u32
  dg_max_stamp :: zephyrtastic_HlcStamp
  dg_scope :: u32
  dg_base_hash :: u32
  dg_base_count :: u32

record zephyrtastic_ClusterVector =
  vc_entries :: "zephyrtastic_KeyStamp list"
  vc_offset :: u32
  vc_total :: u32

record zephyrtastic_ClusterEntry =
  ce_key :: "zephyrtastic_ClusterKey option"
  ce_stamp :: "zephyrtastic_HlcStamp option"
  ce_tombstone :: bool
  ce_payload :: bytes
  ce_payload_total :: u32
  ce_frag_offset :: u32
  ce_author_sig :: bytes

datatype zephyrtastic_ClusterMessage =
  Msg_Digest zephyrtastic_ClusterDigest
  | Msg_Vector_Req u32
  | Msg_Vector zephyrtastic_ClusterVector
  | Msg_Entry_Req "zephyrtastic_ClusterKey list"
  | Msg_Entry zephyrtastic_ClusterEntry
  | Msg_Other

record zephyrtastic_ClassIntent =
  ci_class_id :: u32
  ci_version :: u32
  ci_hash_prefix :: bytes
  ci_flags :: u32

abbreviation PB_LAYER_BASE :: u32 where "PB_LAYER_BASE \<equiv> 0"
abbreviation PB_LAYER_NODE :: u32 where "PB_LAYER_NODE \<equiv> 1"
abbreviation PB_SCOPE_UNSPECIFIED :: u32 where "PB_SCOPE_UNSPECIFIED \<equiv> 0"
abbreviation PB_SCOPE_FULL :: u32 where "PB_SCOPE_FULL \<equiv> 1"
abbreviation PB_SCOPE_CORE :: u32 where "PB_SCOPE_CORE \<equiv> 2"

definition MESHTASTIC_CLUSTER_FRAG_MAX :: nat where
  "MESHTASTIC_CLUSTER_FRAG_MAX = 88"

definition CLUSTER_VECTOR_ROWS :: nat where
  "CLUSTER_VECTOR_ROWS = 4"

definition CLUSTER_PULL_KEYS :: nat where
  "CLUSTER_PULL_KEYS = 6"

definition CLUSTER_PUSH_BURST :: nat where
  "CLUSTER_PUSH_BURST = 3"

definition CLUSTER_PUSH_QUEUE :: nat where
  "CLUSTER_PUSH_QUEUE = 4"

definition CLUSTER_SERVE_BURST :: nat where
  "CLUSTER_SERVE_BURST = 3"

definition CLUSTER_FRUITLESS_THRESHOLD :: nat where
  "CLUSTER_FRUITLESS_THRESHOLD = 3"

definition CLUSTER_FRUITLESS_MAX_SHIFT :: nat where
  "CLUSTER_FRUITLESS_MAX_SHIFT = 5"

definition Config_lora_tag :: u16 where
  "Config_lora_tag = 6"

definition CLUSTER_SECTION_FW :: u16 where
  "CLUSTER_SECTION_FW = 0x100"

section \<open>Environment\<close>

text \<open>One handler call reads the clocks once; the fields named \<open>cfg\<close> are the Kconfig values.\<close>

record cluster_env = sig_env +
  ev_uptime_ms :: int
  ev_epoch_ms :: int
  ev_now_sec :: u32
  ev_rand32 :: u32
  ev_tx_pending :: bool
  ev_trusted :: "u32 \<Rightarrow> bool"
  ev_node_known :: "u32 \<Rightarrow> bool"
  ev_decode_config :: "bytes \<Rightarrow> meshtastic_Config option"
  ev_decode_intent :: "bytes \<Rightarrow> zephyrtastic_ClassIntent list option"
  ev_crc32 :: "u32 \<Rightarrow> bytes \<Rightarrow> u32"
  ev_sign :: "bytes \<Rightarrow> bytes option"
  cfg_sign :: bool
  cfg_push_interval_ms :: int
  cfg_serve_interval_ms :: int
  cfg_digest_period_sec :: int
  cfg_sync_timeout_sec :: int
  cfg_frag_timeout_sec :: int
  cfg_pull_delay_ms :: u32
  cfg_tx_gap_ms :: int
  cfg_backstop_periods :: nat
  cfg_peers :: nat

section \<open>State\<close>

record meshtastic_cluster_stats =
  digest_tx :: u32
  digest_rx_match :: u32
  digest_rx_mismatch :: u32
  digest_rx_incomparable :: u32
  rx_wrong_channel :: u32
  rx_undecodable :: u32
  rx_not_implemented :: u32
  stat_pull_started :: u32
  pull_timed_out :: u32
  stat_pull_fruitless :: u32
  pull_empty :: u32
  pull_held :: u32
  vector_tx :: u32
  vector_rx :: u32
  entry_tx :: u32
  entry_rx_applied :: u32
  entry_rx_stale :: u32
  entry_rx_refused :: u32
  entry_rx_no_space :: u32
  entry_rx_out_of_scope :: u32
  want_no_space :: u32
  entries_evicted :: u32
  scope_demotions :: u32
  backstop_walks :: u32
  entry_rx_future :: u32
  frag_rx :: u32
  frag_assembled :: u32
  frag_out_of_order :: u32
  frag_displaced :: u32
  frag_timed_out :: u32
  rx_unsolicited :: u32
  tx_busy :: u32
  push_tx :: u32
  push_suppressed :: u32
  sig_signed :: u32
  sig_sign_failed :: u32
  sig_verified :: u32
  sig_unsigned :: u32
  sig_refused_bad :: u32
  sig_refused_no_key :: u32
  sig_refused_malformed :: u32
  sig_refused_unsigned :: u32
  sections_applied :: u32
  sections_kept_local :: u32
  sections_held :: u32

datatype cluster_pull_state = PULL_IDLE | PULL_SEND_VECTOR_REQ | PULL_AWAIT_VECTOR | PULL_SEND_ENTRY_REQ

datatype cluster_pull_reason = PULL_REASON_DIGEST | PULL_REASON_SHELL | PULL_REASON_BACKSTOP

record meshtastic_cluster_peer =
  peer_node_id :: u32
  peer_heard_uptime_sec :: u32
  peer_doc_hash :: u32
  peer_entry_count :: u16
  peer_scope :: u8
  peer_agreed :: bool
  peer_comparable :: bool

record cluster_asm =
  asm_active :: bool
  asm_from :: u32
  asm_key :: meshtastic_cluster_key
  asm_stamp :: meshtastic_hlc_stamp
  asm_tombstone :: bool
  asm_total :: nat
  asm_have :: nat
  asm_deadline_ms :: int
  asm_buf :: bytes

text \<open>What a handler asks of the rest of the firmware, in order: flash writes and deletes, the
  reconciler, the transmit worker (after a delay in milliseconds), an immediate digest, and a
  refusal warning with the number of warnings suppressed before it.\<close>

datatype cluster_act =
  Act_Persist meshtastic_cluster_entry
  | Act_Forget meshtastic_cluster_key
  | Act_Persist_Scope u8
  | Act_Forget_Scope
  | Act_Forget_Subtree
  | Act_Reconcile
  | Act_Tx int
  | Act_Digest_Now
  | Act_Warn u32

record cluster =
  cl_doc :: meshtastic_cluster_doc
  cl_scope_kind :: u8
  cl_scope_pinned :: bool
  cl_backstop_peer :: u32
  cl_backstop_countdown :: nat
  cl_hlc :: meshtastic_hlc
  cl_stats :: meshtastic_cluster_stats
  cl_peers :: "meshtastic_cluster_peer list"
  cl_pull_state :: cluster_pull_state
  cl_pull_reason :: cluster_pull_reason
  cl_pull_peer :: u32
  cl_pull_deadline_ms :: int
  cl_pull_keys :: "meshtastic_cluster_key list"
  cl_vec_dest :: u32
  cl_vec_offset :: nat
  cl_vec_emitted :: nat
  cl_vec_scope_kind :: u8
  cl_ent_dest :: u32
  cl_ent_keys :: "meshtastic_cluster_key list"
  cl_ent_next :: nat
  cl_ent_frag_off :: u16
  cl_push_keys :: "meshtastic_cluster_key list"
  cl_push_head :: nat
  cl_push_count :: nat
  cl_push_frag_off :: u16
  cl_asm_rx :: cluster_asm
  cl_serve_tokens :: nat
  cl_serve_refill_ms :: int
  cl_push_tokens :: nat
  cl_push_refill_ms :: int
  cl_pull_hold_until_ms :: int
  cl_pull_last_applied :: u32
  cl_pull_asked_entries :: bool
  cl_pull_fruitless :: nat
  cl_refuse_log_next_ms :: int
  cl_refuse_since_log :: u32
  cl_acts :: "cluster_act list"

definition bump :: "((u32 \<Rightarrow> u32) \<Rightarrow> meshtastic_cluster_stats \<Rightarrow> meshtastic_cluster_stats) \<Rightarrow> cluster \<Rightarrow> cluster" where
  "bump upd st = st\<lparr>cl_stats := upd (\<lambda>n. n + 1) (cl_stats st)\<rparr>"

definition act :: "cluster_act \<Rightarrow> cluster \<Rightarrow> cluster" where
  "act a st = st\<lparr>cl_acts := cl_acts st @ [a]\<rparr>"

section \<open>Conversions\<close>

definition stamp_to_pb :: "meshtastic_hlc_stamp \<Rightarrow> zephyrtastic_HlcStamp" where
  "stamp_to_pb s = \<lparr>ps_physical_ms = st_physical_ms s, ps_counter = st_counter s, ps_node_id = st_node_id s\<rparr>"

definition stamp_from_pb :: "zephyrtastic_HlcStamp \<Rightarrow> meshtastic_hlc_stamp" where
  "stamp_from_pb p = \<lparr>st_physical_ms = ps_physical_ms p, st_counter = ps_counter p, st_node_id = ps_node_id p\<rparr>"

definition key_to_pb :: "meshtastic_cluster_key \<Rightarrow> zephyrtastic_ClusterKey" where
  "key_to_pb k =
     \<lparr>pk_layer = (if key_layer k = LAYER_BASE then PB_LAYER_BASE else PB_LAYER_NODE),
      pk_node_id = key_node_id k, pk_section = ucast (key_section k)\<rparr>"

definition key_from_pb :: "zephyrtastic_ClusterKey \<Rightarrow> meshtastic_cluster_key" where
  "key_from_pb p =
     \<lparr>key_layer = (if pk_layer p = PB_LAYER_BASE then LAYER_BASE else LAYER_NODE),
      key_node_id = pk_node_id p,
      key_section = (if pk_section p \<le> 0xFFFF then ucast (pk_section p) else 0)\<rparr>"

definition scope_from_pb :: "u32 \<Rightarrow> u32 \<Rightarrow> meshtastic_cluster_scope \<times> bool" where
  "scope_from_pb pb from =
     (if pb = PB_SCOPE_CORE then (meshtastic_cluster_scope_make SCOPE_CORE from, True)
      else if pb = PB_SCOPE_FULL then (meshtastic_cluster_scope_make SCOPE_FULL 0, True)
      else (meshtastic_cluster_scope_make SCOPE_FULL 0, False))"

definition scope_to_pb :: "meshtastic_cluster_scope \<Rightarrow> u32" where
  "scope_to_pb scope = (if scope_kind scope = SCOPE_CORE then PB_SCOPE_CORE else PB_SCOPE_FULL)"

definition scope_eq :: "meshtastic_cluster_scope \<Rightarrow> meshtastic_cluster_scope \<Rightarrow> bool" where
  "scope_eq a b \<longleftrightarrow> scope_kind a = scope_kind b \<and> scope_owner a = scope_owner b"

definition base_scope :: meshtastic_cluster_scope where
  "base_scope = meshtastic_cluster_scope_make SCOPE_BASE 0"

definition my_scope_locked :: "cluster_env \<Rightarrow> cluster \<Rightarrow> meshtastic_cluster_scope" where
  "my_scope_locked ev st =
     (if cl_scope_kind st = SCOPE_CORE \<and> se_self ev = 0 then meshtastic_cluster_scope_make SCOPE_FULL 0
      else meshtastic_cluster_scope_make (cl_scope_kind st) (se_self ev))"

section \<open>Ingest gates\<close>

definition shareable_sections :: "u16 list" where
  "shareable_sections = [1, 2, 3, 5, Config_lora_tag, 7, CLUSTER_SECTION_FW]"

definition section_shareable :: "u16 \<Rightarrow> bool" where
  "section_shareable sec \<longleftrightarrow> sec \<in> set shareable_sections"

definition FLEET_INTENT_FLAGS_KNOWN :: u32 where
  "FLEET_INTENT_FLAGS_KNOWN = 0x3"

definition intent_row_ok :: "zephyrtastic_ClassIntent \<Rightarrow> bool" where
  "intent_row_ok r \<longleftrightarrow>
     \<not> (ci_class_id r > 255 \<or> ci_version r = 0)
     \<and> \<not> (length (ci_hash_prefix r) \<noteq> 0 \<and> length (ci_hash_prefix r) \<noteq> 4)
     \<and> \<not> (ci_flags r AND NOT FLEET_INTENT_FLAGS_KNOWN \<noteq> 0)"

definition private_payload_is_valid :: "cluster_env \<Rightarrow> u16 \<Rightarrow> bytes \<Rightarrow> bool" where
  "private_payload_is_valid ev sec payload =
     (if sec \<noteq> CLUSTER_SECTION_FW then False
      else case ev_decode_intent ev payload of
             None \<Rightarrow> False
           | Some rows \<Rightarrow> rows \<noteq> [] \<and> list_all intent_row_ok rows)"

definition payload_is_its_section :: "cluster_env \<Rightarrow> u16 \<Rightarrow> bytes \<Rightarrow> bool \<Rightarrow> bool" where
  "payload_is_its_section ev sec payload tombstone =
     (if tombstone then length payload = 0
      else if meshtastic_cluster_section_is_private sec then private_payload_is_valid ev sec payload
      else map_option cfg_which (ev_decode_config ev payload) = Some sec)"

definition stamp_within_horizon :: "cluster_env \<Rightarrow> meshtastic_hlc_stamp \<Rightarrow> bool" where
  "stamp_within_horizon ev stamp =
     (if ev_epoch_ms ev \<le> 0 then True
      else st_physical_ms stamp \<le> ev_epoch_ms ev + MESHTASTIC_HLC_MAX_DRIFT_MS)"

definition refuse_entry :: "cluster_env \<Rightarrow> cluster \<Rightarrow> cluster" where
  "refuse_entry ev st =
     (let st = bump entry_rx_refused_update st
      in if ev_uptime_ms ev \<ge> cl_refuse_log_next_ms st
         then act (Act_Warn (cl_refuse_since_log st))
                (st\<lparr>cl_refuse_since_log := 0, cl_refuse_log_next_ms := ev_uptime_ms ev + 60 * 1000\<rparr>)
         else st\<lparr>cl_refuse_since_log := cl_refuse_since_log st + 1\<rparr>)"

definition author_is_master :: "cluster_env \<Rightarrow> u32 \<Rightarrow> bool" where
  "author_is_master ev node_id = ev_trusted ev node_id"

definition entry_authorized :: "cluster_env \<Rightarrow> meshtastic_cluster_key \<Rightarrow> meshtastic_hlc_stamp \<Rightarrow> bool" where
  "entry_authorized ev key stamp =
     (let author = st_node_id stamp
      in if author = se_self ev then True
         else if key_layer key = LAYER_NODE \<and> author = key_node_id key then True
         else author_is_master ev author)"

definition node_owner_is_known :: "cluster_env \<Rightarrow> u32 \<Rightarrow> bool" where
  "node_owner_is_known ev node_id =
     (if node_id = se_self ev then True
      else if ev_node_known ev node_id then True
      else se_pubkey ev node_id \<noteq> None)"

section \<open>Fragment arithmetic\<close>

text \<open>The cursor is returned with the length, since a cursor past the end is reset.\<close>

definition meshtastic_cluster_frag_take :: "u16 \<Rightarrow> u16 \<Rightarrow> u16 \<Rightarrow> u16 \<times> u16" where
  "meshtastic_cluster_frag_take payload_len off cap =
     (let off = (if off > payload_len then 0 else off);
          remain = payload_len - off
      in (if remain < cap then remain else cap, off))"

definition meshtastic_cluster_frag_fits :: "u32 \<Rightarrow> u32 \<Rightarrow> u32 \<Rightarrow> u32 \<Rightarrow> u32 \<Rightarrow> bool \<times> u32" where
  "meshtastic_cluster_frag_fits tot off len payload_max frag_max =
     (let tot = (if tot = 0 then len else tot)
      in (tot \<le> payload_max \<and> len \<le> frag_max
          \<and> (ucast off :: u64) + ucast len \<le> ucast tot, tot))"

lemma key_pb_roundtrip:
  "key_layer k = LAYER_BASE \<or> key_layer k = LAYER_NODE \<Longrightarrow> key_from_pb (key_to_pb k) = k"
  by (intro meshtastic_cluster_key.equality) (auto simp: key_from_pb_def key_to_pb_def)

lemma stamp_pb_roundtrip [simp]: "stamp_from_pb (stamp_to_pb s) = s"
  by (simp add: stamp_from_pb_def stamp_to_pb_def)

lemma valid_key_layer: "key_is_valid k \<Longrightarrow> key_layer k = LAYER_BASE \<or> key_layer k = LAYER_NODE"
  by (auto simp: key_is_valid_def split: if_splits)

end
