(* ===== verification/Cluster_Tx.thy ===== *)
theory Cluster_Tx
  imports Cluster_Types
begin

text \<open>
  The transmit half of \<^verbatim>\<open>meshtastic_cluster.c\<close>: resets, the push queue and its token bucket, entry
  fragmentation, the choice of the next frame, the transmit worker, the declared scope and its
  narrowing, the digest, and the start of an anti-entropy walk.  Frames handed to the radio are
  results; the state carries everything else.
\<close>

section \<open>Resets\<close>

definition pull_reset_locked :: "cluster \<Rightarrow> cluster" where
  "pull_reset_locked st =
     st\<lparr>cl_pull_state := PULL_IDLE, cl_pull_peer := 0, cl_pull_keys := [], cl_pull_deadline_ms := 0\<rparr>"

definition frag_reset_locked :: "cluster \<Rightarrow> cluster" where
  "frag_reset_locked st =
     st\<lparr>cl_ent_frag_off := 0, cl_push_frag_off := 0,
        cl_asm_rx := (cl_asm_rx st)\<lparr>asm_active := False\<rparr>\<rparr>"

section \<open>Push on change\<close>

definition may_push_locked :: "cluster_env \<Rightarrow> cluster \<Rightarrow> cluster \<times> bool" where
  "may_push_locked ev st =
     (if cfg_push_interval_ms ev = 0 then (st, True)
      else
        let elapsed = ev_uptime_ms ev - cl_push_refill_ms st;
            st = (if elapsed \<ge> cfg_push_interval_ms ev
                  then let gained = nat (elapsed div cfg_push_interval_ms ev) mod 2 ^ 32
                       in st\<lparr>cl_push_tokens := min ((cl_push_tokens st + gained) mod 2 ^ 32) CLUSTER_PUSH_BURST,
                             cl_push_refill_ms := cl_push_refill_ms st + int gained * cfg_push_interval_ms ev\<rparr>
                  else st)
        in (st, cl_push_tokens st > 0))"

definition push_queue :: "cluster \<Rightarrow> meshtastic_cluster_key list" where
  "push_queue st =
     map (\<lambda>i. cl_push_keys st ! ((cl_push_head st + i) mod CLUSTER_PUSH_QUEUE)) [0..<cl_push_count st]"

definition push_enqueue_locked :: "cluster_env \<Rightarrow> meshtastic_cluster_key \<Rightarrow> cluster \<Rightarrow> cluster" where
  "push_enqueue_locked ev key st =
     (if list_ex (\<lambda>k. meshtastic_cluster_key_cmp k key = 0) (push_queue st)
      then bump push_suppressed_update st
      else if cl_push_count st \<ge> CLUSTER_PUSH_QUEUE then bump push_suppressed_update st
      else
        let (st, ok) = may_push_locked ev st
        in if \<not> ok then bump push_suppressed_update st
           else
             let st = (if cl_push_tokens st > 0 then st\<lparr>cl_push_tokens := cl_push_tokens st - 1\<rparr> else st);
                 idx = (cl_push_head st + cl_push_count st) mod CLUSTER_PUSH_QUEUE
             in st\<lparr>cl_push_keys := (cl_push_keys st)[idx := key], cl_push_count := cl_push_count st + 1\<rparr>)"

section \<open>Entry fragmentation, send side\<close>

definition entry_to_pb_frag :: "meshtastic_cluster_entry \<Rightarrow> u16 \<Rightarrow> zephyrtastic_ClusterEntry \<times> u16 \<times> u16" where
  "entry_to_pb_frag e off =
     (let (n, off) = meshtastic_cluster_frag_take (ent_payload_len e) off (of_nat MESHTASTIC_CLUSTER_FRAG_MAX)
      in (\<lparr>ce_key = Some (key_to_pb (ent_key e)),
           ce_stamp = Some (stamp_to_pb (ent_stamp e)),
           ce_tombstone = ent_tombstone e,
           ce_payload = take (unat n) (drop (unat off) (ent_payload e)),
           ce_payload_total = ucast (ent_payload_len e),
           ce_frag_offset = ucast off,
           ce_author_sig = (if ent_has_sig e \<and> unat off + unat n \<ge> unat (ent_payload_len e)
                            then ent_sig e else [])\<rparr>,
          off, off + n))"

definition ent_advance_locked :: "cluster \<Rightarrow> cluster" where
  "ent_advance_locked st =
     (let st = st\<lparr>cl_ent_frag_off := 0, cl_ent_next := cl_ent_next st + 1\<rparr>
      in if cl_ent_next st \<ge> length (cl_ent_keys st) then st\<lparr>cl_ent_dest := 0\<rparr> else st)"

definition push_advance_locked :: "cluster \<Rightarrow> cluster" where
  "push_advance_locked st =
     st\<lparr>cl_push_frag_off := 0, cl_push_head := (cl_push_head st + 1) mod CLUSTER_PUSH_QUEUE,
        cl_push_count := cl_push_count st - 1\<rparr>"

lemma ent_advance_simps [simp]:
  "cl_ent_next (ent_advance_locked st) = Suc (cl_ent_next st)"
  "cl_ent_keys (ent_advance_locked st) = cl_ent_keys st"
  by (simp_all add: ent_advance_locked_def Let_def)

lemma push_advance_count [simp]: "cl_push_count (push_advance_locked st) = cl_push_count st - 1"
  by (simp add: push_advance_locked_def)

section \<open>The next frame\<close>

text \<open>Step 1, the entries a peer asked for; keys that are gone are skipped.\<close>

function tx_entry_step :: "cluster \<Rightarrow> cluster \<times> (u32 \<times> zephyrtastic_ClusterMessage) option" where
  "tx_entry_step st =
     (if cl_ent_dest st \<noteq> 0 \<and> cl_ent_next st < length (cl_ent_keys st)
      then case meshtastic_cluster_doc_find (cl_doc st) (cl_ent_keys st ! cl_ent_next st) of
             None \<Rightarrow> tx_entry_step (ent_advance_locked st)
           | Some e \<Rightarrow>
               let (pb, off, nxt) = entry_to_pb_frag e (cl_ent_frag_off st);
                   st1 = st\<lparr>cl_ent_frag_off := off\<rparr>;
                   st2 = (if nxt \<ge> ent_payload_len e then ent_advance_locked st1
                          else st1\<lparr>cl_ent_frag_off := nxt\<rparr>)
               in (bump entry_tx_update st2, Some (cl_ent_dest st, Msg_Entry pb))
      else (st\<lparr>cl_ent_dest := 0\<rparr>, None))"
  by auto
termination
  by (relation "measure (\<lambda>st. length (cl_ent_keys st) - cl_ent_next st)") auto

declare tx_entry_step.simps [simp del]

text \<open>Step 2, the rows of the stamp vector: up to \<^const>\<open>CLUSTER_VECTOR_ROWS\<close> rows inside the
  requester's scope, from the table index \<open>off\<close> on.\<close>

fun vec_walk ::
  "meshtastic_cluster_scope \<Rightarrow> meshtastic_cluster_entry list \<Rightarrow> nat \<Rightarrow> zephyrtastic_KeyStamp list
     \<Rightarrow> zephyrtastic_KeyStamp list \<times> nat" where
  "vec_walk want [] off rows = (rows, off)"
| "vec_walk want (e # es) off rows =
     (if length rows < CLUSTER_VECTOR_ROWS
      then if \<not> meshtastic_cluster_scope_contains want (ent_key e) then vec_walk want es (off + 1) rows
           else vec_walk want es (off + 1)
                  (rows @ [\<lparr>ks_key = Some (key_to_pb (ent_key e)), ks_stamp = Some (stamp_to_pb (ent_stamp e))\<rparr>])
      else (rows, off))"

definition tx_vector_step :: "cluster \<Rightarrow> cluster \<times> (u32 \<times> zephyrtastic_ClusterMessage)" where
  "tx_vector_step st =
     (let dest = cl_vec_dest st;
          want = meshtastic_cluster_scope_make (cl_vec_scope_kind st) dest;
          (rows, off) = vec_walk want (drop (cl_vec_offset st) (doc_entries (cl_doc st))) (cl_vec_offset st) [];
          v = \<lparr>vc_entries = rows, vc_offset = of_nat (cl_vec_emitted st),
               vc_total = of_nat (meshtastic_cluster_doc_count_scoped (cl_doc st) want)\<rparr>;
          st = st\<lparr>cl_vec_offset := off, cl_vec_emitted := cl_vec_emitted st + length rows\<rparr>;
          st = (if cl_vec_offset st \<ge> doc_count (cl_doc st) then st\<lparr>cl_vec_dest := 0\<rparr> else st)
      in (bump vector_tx_update st, (dest, Msg_Vector v)))"

text \<open>Step 5, our own changes, broadcast once each.\<close>

function tx_push_step :: "cluster \<Rightarrow> cluster \<times> (u32 \<times> zephyrtastic_ClusterMessage) option" where
  "tx_push_step st =
     (if cl_push_count st > 0
      then case meshtastic_cluster_doc_find (cl_doc st) (cl_push_keys st ! cl_push_head st) of
             None \<Rightarrow> tx_push_step (push_advance_locked st)
           | Some e \<Rightarrow>
               let (pb, off, nxt) = entry_to_pb_frag e (cl_push_frag_off st);
                   st1 = st\<lparr>cl_push_frag_off := off\<rparr>;
                   st2 = (if nxt \<ge> ent_payload_len e then push_advance_locked st1
                          else st1\<lparr>cl_push_frag_off := nxt\<rparr>)
               in (bump push_tx_update st2, Some (MESHTASTIC_NODE_BROADCAST, Msg_Entry pb))
      else (st, None))"
  by auto
termination
  by (relation "measure cl_push_count") auto

declare tx_push_step.simps [simp del]

definition tx_next_locked :: "cluster_env \<Rightarrow> cluster \<Rightarrow> cluster \<times> (u32 \<times> zephyrtastic_ClusterMessage) option" where
  "tx_next_locked ev st =
     (let (st, out) = tx_entry_step st
      in case out of
           Some m \<Rightarrow> (st, Some m)
         | None \<Rightarrow>
             if cl_vec_dest st \<noteq> 0 then (let (st, m) = tx_vector_step st in (st, Some m))
             else if cl_pull_state st = PULL_SEND_ENTRY_REQ
             then (let dest = cl_pull_peer st;
                       keys = map key_to_pb (cl_pull_keys st);
                       st = st\<lparr>cl_pull_asked_entries := True,
                               cl_pull_last_applied := entry_rx_applied (cl_stats st)\<rparr>
                   in (pull_reset_locked st, Some (dest, Msg_Entry_Req keys)))
             else if cl_pull_state st = PULL_SEND_VECTOR_REQ
             then (st\<lparr>cl_pull_state := PULL_AWAIT_VECTOR\<rparr>,
                   Some (cl_pull_peer st, Msg_Vector_Req (scope_to_pb (my_scope_locked ev st))))
             else tx_push_step st)"

text \<open>The worker: \<open>ch_ok\<close> tells whether the cluster channel resolves.  The results are the frame
  to send and the delay after which the worker runs again, if it is rescheduled.\<close>

definition tx_work_fn ::
  "cluster_env \<Rightarrow> bool \<Rightarrow> cluster \<Rightarrow> cluster \<times> (u32 \<times> zephyrtastic_ClusterMessage) option \<times> int option" where
  "tx_work_fn ev ch_ok st =
     (if \<not> ch_ok
      then (frag_reset_locked ((pull_reset_locked st)\<lparr>cl_vec_dest := 0, cl_ent_dest := 0\<rparr>), None, None)
      else
        let st = (if cl_pull_state st = PULL_AWAIT_VECTOR \<and> ev_uptime_ms ev > cl_pull_deadline_ms st
                  then pull_reset_locked (bump pull_timed_out_update st) else st);
            (st, out) = tx_next_locked ev st
        in case out of
             Some m \<Rightarrow> (st, Some m, Some (cfg_tx_gap_ms ev))
           | None \<Rightarrow>
               (st, None,
                if cl_pull_state st = PULL_AWAIT_VECTOR
                then Some (min 1000 (max 100 (cl_pull_deadline_ms st - ev_uptime_ms ev)))
                else None))"

section \<open>The declared scope\<close>

definition scope_set_locked :: "cluster_env \<Rightarrow> u8 \<Rightarrow> bool \<Rightarrow> cluster \<Rightarrow> cluster" where
  "scope_set_locked ev kind pinned st =
     (let st = st\<lparr>cl_scope_kind := kind, cl_scope_pinned := pinned\<rparr>;
          (doc, dropped, evicted) = meshtastic_cluster_doc_retain (cl_doc st) (my_scope_locked ev st);
          st = st\<lparr>cl_doc := doc, cl_acts := cl_acts st @ map Act_Forget evicted,
                  cl_stats := (cl_stats st)\<lparr>entries_evicted := entries_evicted (cl_stats st) + of_nat dropped\<rparr>\<rparr>
      in if dropped > 0
         then frag_reset_locked ((pull_reset_locked st)\<lparr>cl_vec_dest := 0, cl_ent_dest := 0,
                cl_ent_keys := [], cl_ent_next := 0\<rparr>)
         else st)"

definition demote_locked :: "cluster_env \<Rightarrow> cluster \<Rightarrow> cluster" where
  "demote_locked ev st =
     (if cl_scope_pinned st \<or> cl_scope_kind st = SCOPE_CORE then st
      else act Act_Digest_Now (act (Act_Persist_Scope SCOPE_CORE)
             (bump scope_demotions_update (scope_set_locked ev SCOPE_CORE False st))))"

section \<open>Starting a walk\<close>

definition pull_judge :: "cluster \<Rightarrow> cluster" where
  "pull_judge st =
     (if cl_pull_asked_entries st
      then let st = st\<lparr>cl_pull_asked_entries := False\<rparr>
           in if entry_rx_applied (cl_stats st) = cl_pull_last_applied st
              then bump stat_pull_fruitless_update
                     (st\<lparr>cl_pull_fruitless := (if cl_pull_fruitless st < 255 then cl_pull_fruitless st + 1
                                               else cl_pull_fruitless st)\<rparr>)
              else st\<lparr>cl_pull_fruitless := 0\<rparr>
      else st)"

definition pull_start_locked ::
  "cluster_env \<Rightarrow> u32 \<Rightarrow> u32 \<Rightarrow> cluster_pull_reason \<Rightarrow> cluster \<Rightarrow> cluster \<times> bool" where
  "pull_start_locked ev peer delay_ms reason st =
     (if cl_pull_state st \<noteq> PULL_IDLE \<or> peer = 0 \<or> peer = se_self ev then (st, False)
      else
        let st = pull_judge st;
            limited = (reason \<noteq> PULL_REASON_BACKSTOP \<and> cl_pull_fruitless st \<ge> CLUSTER_FRUITLESS_THRESHOLD);
            shift = min (cl_pull_fruitless st - CLUSTER_FRUITLESS_THRESHOLD) CLUSTER_FRUITLESS_MAX_SHIFT
        in if limited \<and> ev_uptime_ms ev < cl_pull_hold_until_ms st
           then (bump pull_held_update st, False)
           else
             let st = (if limited
                       then st\<lparr>cl_pull_hold_until_ms :=
                              ev_uptime_ms ev + cfg_digest_period_sec ev * 1000 * 2 ^ shift\<rparr>
                       else st)
             in (bump stat_pull_started_update
                   (st\<lparr>cl_pull_state := PULL_SEND_VECTOR_REQ, cl_pull_reason := reason, cl_pull_peer := peer,
                      cl_pull_keys := [],
                      cl_pull_deadline_ms := ev_uptime_ms ev + uint delay_ms + cfg_sync_timeout_sec ev * 1000\<rparr>),
                 True))"

section \<open>Digests\<close>

definition digest_period_ms :: "cluster_env \<Rightarrow> u32" where
  "digest_period_ms ev =
     (let base = word_of_int (cfg_digest_period_sec ev) * 1000 :: u32;
          jitter = base div 8
      in base - jitter div 2 + (ev_rand32 ev mod (jitter + 1)))"

definition build_digest :: "cluster_env \<Rightarrow> cluster \<Rightarrow> zephyrtastic_ClusterDigest" where
  "build_digest ev st =
     (let mine = my_scope_locked ev st
      in \<lparr>dg_doc_hash = meshtastic_cluster_doc_hash_scoped (ev_crc32 ev) (cl_doc st) mine,
          dg_entry_count = of_nat (meshtastic_cluster_doc_count_scoped (cl_doc st) mine),
          dg_max_stamp = stamp_to_pb (meshtastic_cluster_doc_max_stamp_scoped (cl_doc st) mine),
          dg_scope = scope_to_pb mine,
          dg_base_hash = meshtastic_cluster_doc_hash_scoped (ev_crc32 ev) (cl_doc st) base_scope,
          dg_base_count = of_nat (meshtastic_cluster_doc_count_scoped (cl_doc st) base_scope)\<rparr>)"

definition backstop_tick :: "cluster_env \<Rightarrow> cluster \<Rightarrow> cluster" where
  "backstop_tick ev st =
     (if cfg_backstop_periods ev = 0 then st
      else if cl_scope_kind st \<noteq> SCOPE_CORE then st\<lparr>cl_backstop_countdown := 0\<rparr>
      else if cl_backstop_countdown st > 0
      then st\<lparr>cl_backstop_countdown := cl_backstop_countdown st - 1\<rparr>
      else
        let st = st\<lparr>cl_backstop_countdown := cfg_backstop_periods ev\<rparr>;
            peer = cl_backstop_peer st
        in if peer = 0 then st
           else let (st, fire) = pull_start_locked ev peer 0 PULL_REASON_BACKSTOP st
                in if fire then act (Act_Tx 0) (bump backstop_walks_update st) else st)"

text \<open>\<open>sent\<close> is the outcome of handing the frame to the radio.\<close>

definition digest_work_fn ::
  "cluster_env \<Rightarrow> bool \<Rightarrow> bool \<Rightarrow> cluster \<Rightarrow> cluster \<times> zephyrtastic_ClusterMessage option \<times> u32" where
  "digest_work_fn ev ch_ok sent st =
     (if \<not> ch_ok then (st, None, digest_period_ms ev)
      else (backstop_tick ev (if sent then bump digest_tx_update st else st),
            Some (Msg_Digest (build_digest ev st)), digest_period_ms ev))"

end
