(* ===== verification/Cluster_Rx.thy ===== *)
theory Cluster_Rx
  imports Cluster_Tx
begin

text \<open>
  The receive half of \<^verbatim>\<open>meshtastic_cluster.c\<close>: digest comparison and the table of peers, the
  requests a node serves, the vector it walks, fragment reassembly, entry ingest, packet dispatch,
  and the local writers (promote, publish, pin, unpin), scope selection and reset.
\<close>

abbreviation hlc_observe :: "cluster_env \<Rightarrow> meshtastic_hlc_stamp \<Rightarrow> cluster \<Rightarrow> cluster" where
  "hlc_observe ev s st \<equiv> st\<lparr>cl_hlc := fst (meshtastic_hlc_observe (cl_hlc st) s (\<lambda>_. ev_epoch_ms ev))\<rparr>"

section \<open>Digests\<close>

record digest_verdict =
  dv_comparable :: bool
  dv_match :: bool
  dv_ours :: u32
  dv_theirs :: u32

definition digest_compare_locked ::
  "cluster_env \<Rightarrow> u32 \<Rightarrow> zephyrtastic_ClusterDigest \<Rightarrow> meshtastic_hlc_stamp \<Rightarrow> cluster
     \<Rightarrow> cluster \<times> digest_verdict" where
  "digest_compare_locked ev from d theirs st =
     (let (peer, has_base_leg) = scope_from_pb (dg_scope d) from;
          mine = my_scope_locked ev st;
          inter = meshtastic_cluster_scope_intersect mine peer;
          st = (if scope_kind peer = SCOPE_FULL \<and> from \<noteq> se_self ev then st\<lparr>cl_backstop_peer := from\<rparr> else st)
      in if scope_eq inter peer
         then let ours = meshtastic_cluster_doc_hash_scoped (ev_crc32 ev) (cl_doc st) peer
              in (st, \<lparr>dv_comparable = True,
                       dv_match = (ours = dg_doc_hash d
                         \<and> of_nat (meshtastic_cluster_doc_count_scoped (cl_doc st) peer) = dg_entry_count d
                         \<and> meshtastic_hlc_compare (meshtastic_cluster_doc_max_stamp_scoped (cl_doc st) peer) theirs = 0),
                       dv_ours = ours, dv_theirs = dg_doc_hash d\<rparr>)
         else if \<not> has_base_leg
         then (st, \<lparr>dv_comparable = False, dv_match = False, dv_ours = 0, dv_theirs = 0\<rparr>)
         else let ours = meshtastic_cluster_doc_hash_scoped (ev_crc32 ev) (cl_doc st) base_scope
              in (st, \<lparr>dv_comparable = True,
                       dv_match = (ours = dg_base_hash d
                         \<and> of_nat (meshtastic_cluster_doc_count_scoped (cl_doc st) base_scope) = dg_base_count d),
                       dv_ours = ours, dv_theirs = dg_base_hash d\<rparr>))"

fun peer_index :: "meshtastic_cluster_peer list \<Rightarrow> u32 \<Rightarrow> nat \<Rightarrow> nat option" where
  "peer_index [] from i = None"
| "peer_index (p # ps) from i = (if peer_node_id p = from then Some i else peer_index ps from (Suc i))"

fun peer_oldest :: "meshtastic_cluster_peer list \<Rightarrow> u32 \<Rightarrow> nat \<Rightarrow> nat option \<Rightarrow> nat option" where
  "peer_oldest [] oldest i slot = slot"
| "peer_oldest (p # ps) oldest i slot =
     (if peer_heard_uptime_sec p \<le> oldest then peer_oldest ps (peer_heard_uptime_sec p) (Suc i) (Some i)
      else peer_oldest ps oldest (Suc i) slot)"

definition peer_note_locked ::
  "cluster_env \<Rightarrow> u32 \<Rightarrow> zephyrtastic_ClusterDigest \<Rightarrow> bool \<Rightarrow> bool \<Rightarrow> u32 \<Rightarrow> cluster \<Rightarrow> cluster" where
  "peer_note_locked ev from d comparable agreed their_hash st =
     (if from = 0 \<or> from = se_self ev then st
      else
        let p = \<lparr>peer_node_id = from, peer_heard_uptime_sec = ev_now_sec ev, peer_doc_hash = their_hash,
                 peer_entry_count = ucast (dg_entry_count d), peer_scope = ucast (dg_scope d),
                 peer_agreed = agreed, peer_comparable = comparable\<rparr>
        in case peer_index (cl_peers st) from 0 of
             Some i \<Rightarrow> st\<lparr>cl_peers := (cl_peers st)[i := p]\<rparr>
           | None \<Rightarrow>
               if length (cl_peers st) < cfg_peers ev then st\<lparr>cl_peers := cl_peers st @ [p]\<rparr>
               else case peer_oldest (cl_peers st) UINT32_MAX 0 None of
                      Some i \<Rightarrow> st\<lparr>cl_peers := (cl_peers st)[i := p]\<rparr>
                    | None \<Rightarrow> st)"

record meshtastic_cluster_fleet =
  fl_known :: nat
  fl_agreed :: nat
  fl_diverged :: nat
  fl_incomparable :: nat
  fl_stale :: nat

definition fleet_window_sec :: "cluster_env \<Rightarrow> u32" where
  "fleet_window_sec ev = min (3 * word_of_int (cfg_digest_period_sec ev)) 3600"

fun fleet_count ::
  "u32 \<Rightarrow> u32 \<Rightarrow> meshtastic_cluster_peer list \<Rightarrow> meshtastic_cluster_fleet \<Rightarrow> meshtastic_cluster_fleet" where
  "fleet_count now window [] f = f"
| "fleet_count now window (p # ps) f =
     (let age = (if now > peer_heard_uptime_sec p then now - peer_heard_uptime_sec p else 0)
      in fleet_count now window ps
           (if age > window then f\<lparr>fl_stale := fl_stale f + 1\<rparr>
            else if \<not> peer_comparable p then f\<lparr>fl_incomparable := fl_incomparable f + 1\<rparr>
            else if peer_agreed p then f\<lparr>fl_agreed := fl_agreed f + 1\<rparr>
            else f\<lparr>fl_diverged := fl_diverged f + 1\<rparr>))"

definition meshtastic_cluster_fleet_converged ::
  "cluster_env \<Rightarrow> cluster \<Rightarrow> bool \<times> meshtastic_cluster_fleet" where
  "meshtastic_cluster_fleet_converged ev st =
     (let f = fleet_count (ev_now_sec ev) (fleet_window_sec ev) (cl_peers st)
                \<lparr>fl_known = length (cl_peers st), fl_agreed = 0, fl_diverged = 0, fl_incomparable = 0, fl_stale = 0\<rparr>
      in (fl_known f > 0 \<and> fl_agreed f = fl_known f, f))"

definition meshtastic_cluster_peer_get :: "cluster \<Rightarrow> nat \<Rightarrow> meshtastic_cluster_peer option" where
  "meshtastic_cluster_peer_get st idx = (if idx < length (cl_peers st) then Some (cl_peers st ! idx) else None)"

definition on_digest :: "cluster_env \<Rightarrow> u32 \<Rightarrow> zephyrtastic_ClusterDigest \<Rightarrow> cluster \<Rightarrow> cluster" where
  "on_digest ev from d st =
     (let theirs = stamp_from_pb (dg_max_stamp d);
          st = hlc_observe ev theirs st;
          (st, v) = digest_compare_locked ev from d theirs st;
          st = peer_note_locked ev from d (dv_comparable v) (dv_comparable v \<and> dv_match v) (dv_theirs v) st
      in if \<not> dv_comparable v then bump digest_rx_incomparable_update st
         else if dv_match v then bump digest_rx_match_update st
         else
           let delay = ev_rand32 ev mod (cfg_pull_delay_ms ev + 1);
               (st, pulling) = pull_start_locked ev from delay PULL_REASON_DIGEST
                                 (bump digest_rx_mismatch_update st)
           in if pulling \<and> \<not> ev_tx_pending ev then act (Act_Tx (uint delay)) st else st)"

section \<open>Serving requests\<close>

definition may_serve_locked :: "cluster_env \<Rightarrow> cluster \<Rightarrow> cluster \<times> bool" where
  "may_serve_locked ev st =
     (if cfg_serve_interval_ms ev = 0 then (st, True)
      else
        let elapsed = ev_uptime_ms ev - cl_serve_refill_ms st;
            st = (if elapsed \<ge> cfg_serve_interval_ms ev
                  then let gained = nat (elapsed div cfg_serve_interval_ms ev) mod 2 ^ 32
                       in st\<lparr>cl_serve_tokens := min ((cl_serve_tokens st + gained) mod 2 ^ 32) CLUSTER_SERVE_BURST,
                             cl_serve_refill_ms := cl_serve_refill_ms st + int gained * cfg_serve_interval_ms ev\<rparr>
                  else st)
        in if cl_serve_tokens st = 0 then (bump tx_busy_update st, False) else (st, True))"

definition serve_started_locked :: "cluster \<Rightarrow> cluster" where
  "serve_started_locked st =
     (if cl_serve_tokens st > 0 then st\<lparr>cl_serve_tokens := cl_serve_tokens st - 1\<rparr> else st)"

definition on_vector_req :: "cluster_env \<Rightarrow> u32 \<Rightarrow> u32 \<Rightarrow> cluster \<Rightarrow> cluster" where
  "on_vector_req ev from scope st =
     (if cl_vec_dest st \<noteq> 0 then bump tx_busy_update st
      else
        let (st, ok) = may_serve_locked ev st
        in if \<not> ok then st
           else act (Act_Tx 0) (serve_started_locked
                  (st\<lparr>cl_vec_scope_kind := scope_kind (fst (scope_from_pb scope from)),
                     cl_vec_dest := from, cl_vec_offset := 0, cl_vec_emitted := 0\<rparr>)))"

definition on_entry_req :: "cluster_env \<Rightarrow> u32 \<Rightarrow> zephyrtastic_ClusterKey list \<Rightarrow> cluster \<Rightarrow> cluster" where
  "on_entry_req ev from keys st =
     (let (st, serve) = (if cl_ent_dest st = 0 then may_serve_locked ev st else (st, False))
      in if serve
         then let st = serve_started_locked st;
                  ks = map key_from_pb (take CLUSTER_PULL_KEYS keys);
                  st = st\<lparr>cl_ent_dest := from, cl_ent_keys := ks, cl_ent_next := 0, cl_ent_frag_off := 0\<rparr>
              in if ks = [] then st\<lparr>cl_ent_dest := 0\<rparr> else act (Act_Tx 0) st
         else if cl_ent_dest st \<noteq> 0 then bump tx_busy_update st else st)"

section \<open>The stamp vector\<close>

text \<open>The rows of one chunk, diffed in turn; the flag collects whether a wanted row finds no room.\<close>

fun vector_rows ::
  "cluster_env \<Rightarrow> meshtastic_cluster_scope \<Rightarrow> zephyrtastic_KeyStamp list \<Rightarrow> cluster \<Rightarrow> bool \<Rightarrow> cluster \<times> bool"
where
  "vector_rows ev mine [] st no_space = (st, no_space)"
| "vector_rows ev mine (row # rows) st no_space =
     (if \<not> length (cl_pull_keys st) < CLUSTER_PULL_KEYS then (st, no_space)
      else case (ks_key row, ks_stamp row) of
             (Some pk, Some ps) \<Rightarrow>
               let key = key_from_pb pk; stamp = stamp_from_pb ps
               in if \<not> section_shareable (key_section key) \<or> \<not> stamp_within_horizon ev stamp
                  then vector_rows ev mine rows st no_space
                  else
                    let st = hlc_observe ev stamp st
                    in (case meshtastic_cluster_doc_want (cl_doc st) mine key stamp of
                          WANT_YES \<Rightarrow> vector_rows ev mine rows (st\<lparr>cl_pull_keys := cl_pull_keys st @ [key]\<rparr>) no_space
                        | WANT_NO_SPACE \<Rightarrow> vector_rows ev mine rows (bump want_no_space_update st) True
                        | WANT_NO \<Rightarrow> vector_rows ev mine rows st no_space)
           | _ \<Rightarrow> vector_rows ev mine rows st no_space)"

definition on_vector :: "cluster_env \<Rightarrow> u32 \<Rightarrow> zephyrtastic_ClusterVector \<Rightarrow> cluster \<Rightarrow> cluster" where
  "on_vector ev from v st =
     (if cl_pull_state st \<noteq> PULL_AWAIT_VECTOR \<or> from \<noteq> cl_pull_peer st
      then (if from \<noteq> cl_pull_peer st then bump rx_unsolicited_update st else st)
      else
        let mine = my_scope_locked ev st;
            (st, no_space) = vector_rows ev mine (vc_entries v) (bump vector_rx_update st) False
        in if no_space then pull_reset_locked ((demote_locked ev st)\<lparr>cl_pull_keys := []\<rparr>)
           else
             let last = (vc_total v = 0 \<or> vc_offset v + of_nat (length (vc_entries v)) \<ge> vc_total v)
             in if length (cl_pull_keys st) \<ge> CLUSTER_PULL_KEYS \<or> last
                then if cl_pull_keys st \<noteq> []
                     then act (Act_Tx 0) (st\<lparr>cl_pull_state := PULL_SEND_ENTRY_REQ\<rparr>)
                     else
                       let st = bump pull_empty_update st;
                           st = (if cl_pull_reason st = PULL_REASON_DIGEST
                                 then bump stat_pull_fruitless_update
                                        (st\<lparr>cl_pull_fruitless := (if cl_pull_fruitless st < 255
                                              then cl_pull_fruitless st + 1 else cl_pull_fruitless st)\<rparr>)
                                 else st)
                       in pull_reset_locked st
                else st)"

section \<open>Reassembly\<close>

text \<open>The stages of \<^verbatim>\<open>reassemble_entry\<close> under the lock: the deadline of the slot, whether the
  fragment belongs to the entry in it, opening the slot for a first fragment, and storing the
  fragment at the offset expected.\<close>

definition asm_expire :: "cluster_env \<Rightarrow> cluster \<Rightarrow> cluster" where
  "asm_expire ev st =
     (if asm_active (cl_asm_rx st) \<and> ev_uptime_ms ev > asm_deadline_ms (cl_asm_rx st)
      then bump frag_timed_out_update (st\<lparr>cl_asm_rx := (cl_asm_rx st)\<lparr>asm_active := False\<rparr>\<rparr>)
      else st)"

definition asm_matches ::
  "cluster_asm \<Rightarrow> u32 \<Rightarrow> meshtastic_cluster_key \<Rightarrow> meshtastic_hlc_stamp \<Rightarrow> bool \<Rightarrow> nat \<Rightarrow> bool" where
  "asm_matches a from key stamp tombstone tot \<longleftrightarrow>
     asm_active a \<and> asm_from a = from \<and> meshtastic_cluster_key_cmp (asm_key a) key = 0
     \<and> meshtastic_hlc_compare (asm_stamp a) stamp = 0 \<and> asm_tombstone a = tombstone \<and> asm_total a = tot"

definition asm_open ::
  "u32 \<Rightarrow> meshtastic_cluster_key \<Rightarrow> meshtastic_hlc_stamp \<Rightarrow> bool \<Rightarrow> nat \<Rightarrow> cluster \<Rightarrow> cluster" where
  "asm_open from key stamp tombstone tot st =
     (let st = (if asm_active (cl_asm_rx st) then bump frag_displaced_update st else st)
      in st\<lparr>cl_asm_rx := (cl_asm_rx st)\<lparr>asm_active := True, asm_from := from, asm_key := key,
             asm_stamp := stamp, asm_tombstone := tombstone, asm_total := tot, asm_have := 0\<rparr>\<rparr>)"

definition asm_take :: "cluster_env \<Rightarrow> nat \<Rightarrow> bytes \<Rightarrow> nat \<Rightarrow> cluster \<Rightarrow> cluster \<times> bytes option" where
  "asm_take ev off payload tot st =
     (let a = cl_asm_rx st
      in if off \<noteq> asm_have a then (bump frag_out_of_order_update st, None)
         else
           let a = a\<lparr>asm_buf := take off (asm_buf a) @ payload @ drop (off + length payload) (asm_buf a),
                     asm_have := off + length payload,
                     asm_deadline_ms := ev_uptime_ms ev + cfg_frag_timeout_sec ev * 1000\<rparr>
           in if asm_have a < tot then (bump frag_rx_update (st\<lparr>cl_asm_rx := a\<rparr>), None)
              else (bump frag_assembled_update (st\<lparr>cl_asm_rx := a\<lparr>asm_active := False\<rparr>\<rparr>),
                    Some (take tot (asm_buf a))))"

text \<open>The result is the whole payload when the fragment completes one.\<close>

definition reassemble_entry ::
  "cluster_env \<Rightarrow> u32 \<Rightarrow> zephyrtastic_ClusterEntry \<Rightarrow> meshtastic_cluster_key \<Rightarrow> meshtastic_hlc_stamp \<Rightarrow> cluster
     \<Rightarrow> cluster \<times> bytes option" where
  "reassemble_entry ev from e key stamp st =
     (let (fits, wide_total) = meshtastic_cluster_frag_fits (ce_payload_total e) (ce_frag_offset e)
            (of_nat (length (ce_payload e))) (of_nat MESHTASTIC_CLUSTER_PAYLOAD_MAX) (of_nat MESHTASTIC_CLUSTER_FRAG_MAX);
          tot = unat wide_total; off = unat (ce_frag_offset e)
      in if \<not> fits then (refuse_entry ev st, None)
         else if off = 0 \<and> length (ce_payload e) = tot then (st, Some (ce_payload e))
         else
           let st = asm_expire ev st
           in if asm_matches (cl_asm_rx st) from key stamp (ce_tombstone e) tot
              then asm_take ev off (ce_payload e) tot st
              else if off \<noteq> 0 then (bump frag_out_of_order_update st, None)
              else asm_take ev off (ce_payload e) tot (asm_open from key stamp (ce_tombstone e) tot st))"

section \<open>Entry ingest\<close>

definition sig_account :: "cluster_env \<Rightarrow> meshtastic_cluster_sig_verdict \<Rightarrow> cluster \<Rightarrow> cluster" where
  "sig_account ev v st =
     (case v of
        SIG_ACCEPT_VERIFIED \<Rightarrow> bump sig_verified_update st
      | SIG_ACCEPT_UNSIGNED \<Rightarrow> bump sig_unsigned_update st
      | SIG_ACCEPT_UNCHECKED \<Rightarrow> st
      | SIG_REFUSE_UNSIGNED \<Rightarrow> refuse_entry ev (bump sig_refused_unsigned_update st)
      | SIG_REFUSE_MALFORMED \<Rightarrow> refuse_entry ev (bump sig_refused_malformed_update st)
      | SIG_REFUSE_NO_KEY \<Rightarrow> refuse_entry ev (bump sig_refused_no_key_update st)
      | SIG_REFUSE_BAD \<Rightarrow> refuse_entry ev (bump sig_refused_bad_update st))"

text \<open>The merge at the end of \<^verbatim>\<open>on_entry\<close>, once every gate has passed.\<close>

definition entry_merge ::
  "cluster_env \<Rightarrow> meshtastic_cluster_key \<Rightarrow> meshtastic_hlc_stamp \<Rightarrow> bool \<Rightarrow> bytes \<Rightarrow> bytes option \<Rightarrow> cluster \<Rightarrow> cluster" where
  "entry_merge ev key stamp tombstone payload sig st =
     (let st = hlc_observe ev stamp st;
          (doc, ret) = meshtastic_cluster_doc_accept_signed (cl_doc st) key stamp tombstone payload sig;
          st = st\<lparr>cl_doc := doc\<rparr>
      in case ret of
           Inr n \<Rightarrow>
             if n = 1
             then act Act_Reconcile
                    (bump entry_rx_applied_update
                      (st\<lparr>cl_acts := cl_acts st @ (case meshtastic_cluster_doc_find doc key of
                                                    Some e \<Rightarrow> [Act_Persist e] | None \<Rightarrow> []),
                         cl_pull_fruitless := 0, cl_pull_hold_until_ms := 0\<rparr>))
             else bump entry_rx_stale_update st
         | Inl err \<Rightarrow>
             if err = ENOSPC then bump entry_rx_no_space_update st else bump rx_undecodable_update st)"

definition on_entry :: "cluster_env \<Rightarrow> u32 \<Rightarrow> zephyrtastic_ClusterEntry \<Rightarrow> cluster \<Rightarrow> cluster" where
  "on_entry ev from e st =
     (case (ce_key e, ce_stamp e) of
        (Some pk, Some ps) \<Rightarrow>
          let key = key_from_pb pk; stamp = stamp_from_pb ps
          in if \<not> section_shareable (key_section key) then refuse_entry ev st
             else if \<not> meshtastic_cluster_scope_contains (my_scope_locked ev st) key
             then bump entry_rx_out_of_scope_update st
             else if \<not> entry_authorized ev key stamp then refuse_entry ev st
             else if \<not> stamp_within_horizon ev stamp then refuse_entry ev (bump entry_rx_future_update st)
             else if key_layer key = LAYER_NODE \<and> \<not> node_owner_is_known ev (key_node_id key)
             then refuse_entry ev st
             else
               let (st, whole) = reassemble_entry ev from e key stamp st
               in (case whole of
                     None \<Rightarrow> st
                   | Some payload \<Rightarrow>
                       if \<not> payload_is_its_section ev (key_section key) payload (ce_tombstone e)
                       then refuse_entry ev st
                       else
                         let (v, sig) = entry_signature_ok ev key stamp (ce_tombstone e) (ce_author_sig e) payload;
                             st = sig_account ev v st
                         in if \<not> meshtastic_cluster_sig_accepts v then st
                            else entry_merge ev key stamp (ce_tombstone e) payload sig st)
      | _ \<Rightarrow> bump rx_undecodable_update st)"

section \<open>Packet dispatch\<close>

text \<open>\<open>ch\<close> is the index of the cluster channel, if it resolves; \<open>decoded\<close> the message, if the
  payload decodes.\<close>

definition cluster_on_packet ::
  "cluster_env \<Rightarrow> nat option \<Rightarrow> u32 \<Rightarrow> nat \<Rightarrow> bool \<Rightarrow> zephyrtastic_ClusterMessage option \<Rightarrow> cluster \<Rightarrow> cluster" where
  "cluster_on_packet ev ch from channel_index pki_encrypted decoded st =
     (if (if \<not> pki_encrypted then ch = None \<or> channel_index \<noteq> the ch else ch = None)
      then bump rx_wrong_channel_update st
      else case decoded of
             None \<Rightarrow> bump rx_undecodable_update st
           | Some (Msg_Digest d) \<Rightarrow> on_digest ev from d st
           | Some (Msg_Vector_Req scope) \<Rightarrow> on_vector_req ev from scope st
           | Some (Msg_Vector v) \<Rightarrow> on_vector ev from v st
           | Some (Msg_Entry_Req keys) \<Rightarrow> on_entry_req ev from keys st
           | Some (Msg_Entry e) \<Rightarrow> on_entry ev from e st
           | Some Msg_Other \<Rightarrow> bump rx_not_implemented_update st)"

end
