(* ===== verification/Cluster_Local.thy ===== *)
theory Cluster_Local
  imports Cluster_Rx
begin

text \<open>
  Local writes to the cluster document (\<^verbatim>\<open>meshtastic_cluster.c\<close>): the shared writer, promote,
  publish, pin and unpin, an operator's pull, scope selection and reset, and the reconciler that
  carries the effective sections into the configuration store.  The signing thread is a parameter.
\<close>

section \<open>The shared writer\<close>

definition sign_entry_locked ::
  "cluster_env \<Rightarrow> meshtastic_cluster_key \<Rightarrow> meshtastic_hlc_stamp \<Rightarrow> bool \<Rightarrow> bytes \<Rightarrow> cluster \<Rightarrow> cluster \<times> bytes option" where
  "sign_entry_locked ev key stamp tombstone payload st =
     (let buf = meshtastic_cluster_signing_buffer SIGBUF_MAX key stamp tombstone payload
      in case (if buf = [] then None else ev_sign ev buf) of
           None \<Rightarrow> (bump sig_sign_failed_update st, None)
         | Some sig \<Rightarrow> (bump sig_signed_update st, Some sig))"

definition push_kick :: "cluster_env \<Rightarrow> cluster \<Rightarrow> cluster" where
  "push_kick ev st = (if \<not> ev_tx_pending ev then act (Act_Tx 0) st else st)"

text \<open>One attempt to store, the stamp and signature of a new version, storing with one retry after
  narrowing, and the whole writer; the stamp minted is part of the result.\<close>

definition doc_try ::
  "meshtastic_cluster_key \<Rightarrow> meshtastic_hlc_stamp \<Rightarrow> bool \<Rightarrow> bytes \<Rightarrow> bytes option \<Rightarrow> cluster \<Rightarrow> cluster \<times> nat result" where
  "doc_try key stamp tombstone payload sig st =
     (let (doc, ret) = meshtastic_cluster_doc_accept_signed (cl_doc st) key stamp tombstone payload sig
      in (st\<lparr>cl_doc := doc\<rparr>, ret))"

definition mint_and_sign ::
  "cluster_env \<Rightarrow> meshtastic_cluster_key \<Rightarrow> meshtastic_hlc_stamp \<Rightarrow> bool \<Rightarrow> bytes \<Rightarrow> cluster
     \<Rightarrow> cluster \<times> meshtastic_hlc_stamp \<times> bytes option" where
  "mint_and_sign ev key store_stamp tombstone payload st =
     (let st = hlc_observe ev store_stamp st;
          (h, minted) = meshtastic_hlc_local (cl_hlc st) (se_self ev) (\<lambda>_. ev_epoch_ms ev);
          st = st\<lparr>cl_hlc := h\<rparr>;
          (st, sig) = (if cfg_sign ev then sign_entry_locked ev key minted tombstone payload st else (st, None))
      in (st, minted, sig))"

definition doc_store ::
  "cluster_env \<Rightarrow> meshtastic_cluster_key \<Rightarrow> meshtastic_hlc_stamp \<Rightarrow> bool \<Rightarrow> bytes \<Rightarrow> bytes option \<Rightarrow> cluster
     \<Rightarrow> cluster \<times> nat result" where
  "doc_store ev key minted tombstone payload sig st =
     (let (st, ret) = doc_try key minted tombstone payload sig st
      in if ret = Inl ENOSPC then doc_try key minted tombstone payload sig (demote_locked ev st)
         else (st, ret))"

definition doc_write_local ::
  "cluster_env \<Rightarrow> meshtastic_cluster_key \<Rightarrow> meshtastic_hlc_stamp \<Rightarrow> bool \<Rightarrow> bytes \<Rightarrow> cluster
     \<Rightarrow> cluster \<times> meshtastic_hlc_stamp \<times> unit result" where
  "doc_write_local ev key store_stamp tombstone payload st =
     (let (st, minted, sig) = mint_and_sign ev key store_stamp tombstone payload st;
          (st, ret) = doc_store ev key minted tombstone payload sig st
      in case ret of
           Inl err \<Rightarrow> (st, minted, Inl err)
         | Inr n \<Rightarrow>
             if n = 1
             then let st = st\<lparr>cl_acts := cl_acts st @ (case meshtastic_cluster_doc_find (cl_doc st) key of
                                                        Some e \<Rightarrow> [Act_Persist e] | None \<Rightarrow> [])\<rparr>
                  in (push_kick ev (act Act_Reconcile (push_enqueue_locked ev key st)), minted, Inr ())
             else (st, minted, Inl EINVAL))"

section \<open>Writers\<close>

text \<open>What the writers read of the rest of the firmware: the managed flag, the configuration store, and
  the protobuf encoder of a section.\<close>

record store_env =
  sv_managed :: bool
  sv_store :: config_store
  sv_encode :: "meshtastic_Config \<Rightarrow> bytes option"

definition local_writes_allowed :: "store_env \<Rightarrow> bool" where
  "local_writes_allowed sv \<longleftrightarrow> \<not> sv_managed sv"

definition section_snapshot :: "store_env \<Rightarrow> u16 \<Rightarrow> (bytes \<times> meshtastic_hlc_stamp) result" where
  "section_snapshot sv sec =
     (case meshtastic_config_store_get_config sec (sv_store sv) of
        Inl _ \<Rightarrow> Inl ENOENT
      | Inr c \<Rightarrow>
          if cfg_which c \<noteq> sec then Inl ENOENT
          else case meshtastic_config_store_get_config_stamp sec (sv_store sv) of
                 Inl _ \<Rightarrow> Inl ENOENT
               | Inr s \<Rightarrow> (case sv_encode sv c of None \<Rightarrow> Inl EINVAL | Some b \<Rightarrow> Inr (b, s)))"

definition store_came_from :: "meshtastic_cluster_key \<Rightarrow> meshtastic_hlc_stamp \<Rightarrow> cluster \<Rightarrow> bool" where
  "store_came_from key store_stamp st =
     (case meshtastic_cluster_doc_find (cl_doc st) key of
        None \<Rightarrow> False
      | Some e \<Rightarrow> \<not> ent_tombstone e \<and> meshtastic_hlc_compare store_stamp (ent_stamp e) = 0)"

definition write_result :: "cluster \<times> meshtastic_hlc_stamp \<times> unit result \<Rightarrow> cluster \<times> unit result" where
  "write_result r = (fst r, snd (snd r))"

definition meshtastic_cluster_promote :: "cluster_env \<Rightarrow> store_env \<Rightarrow> u16 \<Rightarrow> cluster \<Rightarrow> cluster \<times> unit result" where
  "meshtastic_cluster_promote ev sv sec st =
     (if \<not> section_shareable sec \<or> \<not> local_writes_allowed sv then (st, Inl EPERM)
      else if sec = Config_lora_tag then (st, Inl EPERM)
      else case section_snapshot sv sec of
             Inl err \<Rightarrow> (st, Inl err)
           | Inr (payload, store_stamp) \<Rightarrow>
               if store_came_from (base_key sec) store_stamp st then (st, Inl EALREADY)
               else write_result (doc_write_local ev (base_key sec) store_stamp False payload st))"

definition meshtastic_cluster_publish ::
  "cluster_env \<Rightarrow> store_env \<Rightarrow> u16 \<Rightarrow> u8 \<Rightarrow> u32 \<Rightarrow> bytes \<Rightarrow> cluster \<Rightarrow> cluster \<times> unit result" where
  "meshtastic_cluster_publish ev sv sec layer node_id payload st =
     (let key = \<lparr>key_layer = layer, key_node_id = (if layer = LAYER_BASE then 0 else node_id), key_section = sec\<rparr>;
          tombstone = (length payload = 0)
      in if \<not> meshtastic_cluster_section_is_private sec \<or> \<not> section_shareable sec \<or> \<not> local_writes_allowed sv
         then (st, Inl EPERM)
         else if length payload > MESHTASTIC_CLUSTER_PAYLOAD_MAX then (st, Inl EMSGSIZE)
         else if \<not> payload_is_its_section ev sec payload tombstone then (st, Inl EINVAL)
         else write_result (doc_write_local ev key unset_stamp tombstone payload st))"

definition meshtastic_cluster_pin :: "cluster_env \<Rightarrow> store_env \<Rightarrow> u16 \<Rightarrow> cluster \<Rightarrow> cluster \<times> unit result" where
  "meshtastic_cluster_pin ev sv sec st =
     (let key = node_key (se_self ev) sec
      in if \<not> section_shareable sec \<or> \<not> local_writes_allowed sv then (st, Inl EPERM)
         else if sec = Config_lora_tag then (st, Inl EPERM)
         else if se_self ev = 0 then (st, Inl EINVAL)
         else case section_snapshot sv sec of
                Inl err \<Rightarrow> (st, Inl err)
              | Inr (payload, store_stamp) \<Rightarrow>
                  if store_came_from key store_stamp st then (st, Inl EALREADY)
                  else write_result (doc_write_local ev key store_stamp False payload st))"

definition meshtastic_cluster_unpin :: "cluster_env \<Rightarrow> store_env \<Rightarrow> u16 \<Rightarrow> cluster \<Rightarrow> cluster \<times> unit result" where
  "meshtastic_cluster_unpin ev sv sec st =
     (let key = node_key (se_self ev) sec
      in if \<not> local_writes_allowed sv then (st, Inl EPERM)
         else if se_self ev = 0 then (st, Inl EINVAL)
         else case meshtastic_cluster_doc_find (cl_doc st) key of
                None \<Rightarrow> (st, Inl ENOENT)
              | Some e \<Rightarrow>
                  if ent_tombstone e then (st, Inl EALREADY)
                  else
                    let store_stamp = (case meshtastic_config_store_get_config_stamp sec (sv_store sv) of Inr s \<Rightarrow> s | Inl _ \<Rightarrow> unset_stamp)
                    in write_result (doc_write_local ev key store_stamp True [] st))"

definition meshtastic_cluster_effective_copy :: "cluster \<Rightarrow> u32 \<Rightarrow> u16 \<Rightarrow> meshtastic_cluster_entry option" where
  "meshtastic_cluster_effective_copy st node_id sec = meshtastic_cluster_doc_effective (cl_doc st) node_id sec"

definition meshtastic_cluster_pull :: "cluster_env \<Rightarrow> bool \<Rightarrow> u32 \<Rightarrow> cluster \<Rightarrow> cluster \<times> unit result" where
  "meshtastic_cluster_pull ev ch_ok node_id st =
     (if node_id = 0 \<or> node_id = se_self ev then (st, Inl EINVAL)
      else if \<not> ch_ok then (st, Inl ENOTCONN)
      else let (st, started) = pull_start_locked ev node_id 0 PULL_REASON_SHELL st
           in if started then (act (Act_Tx 0) st, Inr ()) else (st, Inl EBUSY))"

datatype cluster_scope_choice = CHOICE_AUTO | CHOICE_FULL | CHOICE_CORE

definition meshtastic_cluster_scope_select ::
  "cluster_env \<Rightarrow> cluster_scope_choice \<Rightarrow> cluster \<Rightarrow> cluster \<times> unit result" where
  "meshtastic_cluster_scope_select ev choice st =
     (let kind = (if choice = CHOICE_CORE then SCOPE_CORE else SCOPE_FULL);
          pinned = (choice \<noteq> CHOICE_AUTO)
      in if cl_scope_kind st = kind \<and> cl_scope_pinned st = pinned then (st, Inl EALREADY)
         else
           let st = scope_set_locked ev kind pinned st;
               st = act (if choice = CHOICE_AUTO then Act_Forget_Scope else Act_Persist_Scope kind) st
           in (act Act_Digest_Now st, Inr ()))"

text \<open>The compiled scope: \<open>core\<close> and \<open>full\<close> are the two Kconfig choices, neither is AUTO.\<close>

definition compiled_scope :: "bool \<Rightarrow> bool \<Rightarrow> u8 \<times> bool" where
  "compiled_scope core full = (if core then (SCOPE_CORE, True) else (SCOPE_FULL, full))"

definition meshtastic_cluster_reset :: "bool \<Rightarrow> bool \<Rightarrow> cluster \<Rightarrow> cluster \<times> nat" where
  "meshtastic_cluster_reset core full st =
     (let (doc, dropped, evicted) = meshtastic_cluster_doc_clear (cl_doc st);
          (kind, pinned) = compiled_scope core full;
          st = st\<lparr>cl_doc := doc,
                  cl_acts := cl_acts st @ map Act_Forget evicted @ [Act_Forget_Subtree, Act_Forget_Scope],
                  cl_scope_kind := kind, cl_scope_pinned := pinned,
                  cl_stats := (cl_stats st)\<lparr>scope_demotions := 0, entries_evicted := 0\<rparr>,
                  cl_peers := []\<rparr>;
          st = (pull_reset_locked st)\<lparr>cl_vec_dest := 0, cl_ent_dest := 0, cl_ent_keys := [], cl_ent_next := 0,
                  cl_push_count := 0, cl_push_head := 0\<rparr>
      in (frag_reset_locked st, dropped))"

section \<open>The reconciler\<close>

text \<open>The reconciler runs on the node, the configuration store and the radio state the store drives.\<close>

type_synonym recon = "cluster \<times> config_store \<times> mt_state"

definition section_is_doc_derived :: "u16 \<Rightarrow> meshtastic_hlc_stamp \<Rightarrow> config_store \<Rightarrow> bool" where
  "section_is_doc_derived sec doc_stamp cs =
     (case meshtastic_config_store_get_config_stamp sec cs of
        Inl _ \<Rightarrow> False
      | Inr s \<Rightarrow> meshtastic_hlc_compare s doc_stamp = 0)"

text \<open>The effective value and version of a section, when the document has an opinion about it.\<close>

definition doc_opinion :: "cluster_env \<Rightarrow> u16 \<Rightarrow> cluster \<Rightarrow> (bytes \<times> meshtastic_hlc_stamp) option" where
  "doc_opinion ev sec st =
     (case meshtastic_cluster_doc_effective (cl_doc st) (se_self ev) sec of
        None \<Rightarrow> None
      | Some e \<Rightarrow>
          (case meshtastic_cluster_doc_effective_version (cl_doc st) (se_self ev) sec of
             (version, True) \<Rightarrow> Some (ent_payload e, version)
           | (version, False) \<Rightarrow> None))"

definition reconcile_section :: "cluster_env \<Rightarrow> cfg_env \<Rightarrow> u16 \<Rightarrow> recon \<Rightarrow> recon" where
  "reconcile_section ev ge sec r =
     (let (st, cs, mt) = r
      in case doc_opinion ev sec st of
           None \<Rightarrow> (st, cs, mt)
         | Some (payload, version) \<Rightarrow>
             if section_is_doc_derived sec version cs then (st, cs, mt)
             else if sec = Config_lora_tag then (bump sections_held_update st, cs, mt)
             else
               (case ev_decode_config ev payload of
                  None \<Rightarrow> (st, cs, mt)
                | Some cfg \<Rightarrow>
                    if cfg_which cfg \<noteq> sec then (st, cs, mt)
                    else
                      let (cs, mt, ret) = meshtastic_config_store_merge_config ge cfg version cs mt
                      in (if ret = Inr 1 then bump sections_applied_update st
                          else if ret = Inr 0 then bump sections_kept_local_update st else st, cs, mt)))"

definition reconcile_work_fn :: "cluster_env \<Rightarrow> cfg_env \<Rightarrow> recon \<Rightarrow> recon" where
  "reconcile_work_fn ev ge r =
     fold (reconcile_section ev ge) (filter (\<lambda>sec. \<not> meshtastic_cluster_section_is_private sec) shareable_sections) r"

end
