(* ===== verification/Cluster_Node.thy ===== *)
theory Cluster_Node
  imports Cluster_Local
begin

text \<open>
  Invariants and properties of the cluster module: a well-formedness invariant kept by every
  handler, the steps of a node as a relation with reachability, what a node may transmit, what it
  takes in, and how its budgets and walks are bounded.
\<close>

section \<open>The node invariant\<close>

definition rows_shareable :: "meshtastic_cluster_doc \<Rightarrow> bool" where
  "rows_shareable d \<longleftrightarrow> (\<forall>e \<in> set (doc_entries d). section_shareable (key_section (ent_key e)))"

definition asm_ok :: "cluster_asm \<Rightarrow> bool" where
  "asm_ok a \<longleftrightarrow> length (asm_buf a) = MESHTASTIC_CLUSTER_PAYLOAD_MAX
     \<and> asm_have a \<le> asm_total a \<and> asm_total a \<le> MESHTASTIC_CLUSTER_PAYLOAD_MAX"

definition node_inv :: "cluster \<Rightarrow> bool" where
  "node_inv st \<longleftrightarrow>
     doc_inv (cl_doc st) \<and> rows_shareable (cl_doc st)
     \<and> length (cl_push_keys st) = CLUSTER_PUSH_QUEUE \<and> cl_push_head st < CLUSTER_PUSH_QUEUE
     \<and> cl_push_count st \<le> CLUSTER_PUSH_QUEUE
     \<and> cl_push_tokens st \<le> CLUSTER_PUSH_BURST \<and> cl_serve_tokens st \<le> CLUSTER_SERVE_BURST
     \<and> asm_ok (cl_asm_rx st)
     \<and> length (cl_pull_keys st) \<le> CLUSTER_PULL_KEYS \<and> length (cl_ent_keys st) \<le> CLUSTER_PULL_KEYS
     \<and> (\<forall>k \<in> set (cl_pull_keys st). section_shareable (key_section k))"

lemma node_inv_bump [simp]: "node_inv (bump u st) = node_inv st"
  by (simp add: node_inv_def bump_def)

lemma node_inv_act [simp]: "node_inv (act a st) = node_inv st"
  by (simp add: node_inv_def act_def)

lemma node_inv_upd [simp]:
  "node_inv (st\<lparr>cl_scope_kind := a\<rparr>) = node_inv st" "node_inv (st\<lparr>cl_scope_pinned := b\<rparr>) = node_inv st"
  "node_inv (st\<lparr>cl_hlc := h\<rparr>) = node_inv st" "node_inv (st\<lparr>cl_stats := s\<rparr>) = node_inv st"
  "node_inv (st\<lparr>cl_peers := p\<rparr>) = node_inv st" "node_inv (st\<lparr>cl_backstop_peer := bp\<rparr>) = node_inv st"
  "node_inv (st\<lparr>cl_backstop_countdown := bc\<rparr>) = node_inv st"
  "node_inv (st\<lparr>cl_pull_state := ps\<rparr>) = node_inv st" "node_inv (st\<lparr>cl_pull_fruitless := pf\<rparr>) = node_inv st"
  "node_inv (st\<lparr>cl_pull_asked_entries := pa\<rparr>) = node_inv st"
  "node_inv (st\<lparr>cl_pull_last_applied := pl\<rparr>) = node_inv st"
  "node_inv (st\<lparr>cl_pull_hold_until_ms := ph\<rparr>) = node_inv st"
  "node_inv (st\<lparr>cl_vec_dest := vd\<rparr>) = node_inv st" "node_inv (st\<lparr>cl_vec_offset := vo\<rparr>) = node_inv st"
  "node_inv (st\<lparr>cl_vec_emitted := ve\<rparr>) = node_inv st" "node_inv (st\<lparr>cl_vec_scope_kind := vk\<rparr>) = node_inv st"
  "node_inv (st\<lparr>cl_ent_dest := ed\<rparr>) = node_inv st" "node_inv (st\<lparr>cl_ent_next := en\<rparr>) = node_inv st"
  "node_inv (st\<lparr>cl_ent_frag_off := ef\<rparr>) = node_inv st" "node_inv (st\<lparr>cl_push_frag_off := pfo\<rparr>) = node_inv st"
  "node_inv (st\<lparr>cl_acts := ac\<rparr>) = node_inv st" "node_inv (st\<lparr>cl_pull_peer := pp\<rparr>) = node_inv st"
  "node_inv (st\<lparr>cl_pull_reason := pr\<rparr>) = node_inv st" "node_inv (st\<lparr>cl_pull_deadline_ms := pd\<rparr>) = node_inv st"
  "node_inv (st\<lparr>cl_push_refill_ms := pm\<rparr>) = node_inv st" "node_inv (st\<lparr>cl_serve_refill_ms := sm\<rparr>) = node_inv st"
  "node_inv (st\<lparr>cl_refuse_log_next_ms := rl\<rparr>) = node_inv st"
  "node_inv (st\<lparr>cl_refuse_since_log := rs\<rparr>) = node_inv st"
  by (simp_all add: node_inv_def)

lemma node_inv_setI:
  "node_inv st \<Longrightarrow> n \<le> CLUSTER_PUSH_BURST \<Longrightarrow> node_inv (st\<lparr>cl_push_tokens := n\<rparr>)"
  "node_inv st \<Longrightarrow> n \<le> CLUSTER_SERVE_BURST \<Longrightarrow> node_inv (st\<lparr>cl_serve_tokens := n\<rparr>)"
  "node_inv st \<Longrightarrow> doc_inv d \<Longrightarrow> rows_shareable d \<Longrightarrow> node_inv (st\<lparr>cl_doc := d\<rparr>)"
  "node_inv st \<Longrightarrow> asm_ok a \<Longrightarrow> node_inv (st\<lparr>cl_asm_rx := a\<rparr>)"
  "node_inv st \<Longrightarrow> length ks \<le> CLUSTER_PULL_KEYS \<Longrightarrow> node_inv (st\<lparr>cl_ent_keys := ks\<rparr>)"
  "node_inv st \<Longrightarrow> length ks \<le> CLUSTER_PULL_KEYS
     \<Longrightarrow> (\<forall>k \<in> set ks. section_shareable (key_section k)) \<Longrightarrow> node_inv (st\<lparr>cl_pull_keys := ks\<rparr>)"
  by (simp_all add: node_inv_def)

lemma node_invD:
  assumes "node_inv st"
  shows "doc_inv (cl_doc st)" "rows_shareable (cl_doc st)" "asm_ok (cl_asm_rx st)"
    "cl_push_tokens st \<le> CLUSTER_PUSH_BURST" "cl_serve_tokens st \<le> CLUSTER_SERVE_BURST"
    "length (cl_pull_keys st) \<le> CLUSTER_PULL_KEYS"
    "\<forall>k \<in> set (cl_pull_keys st). section_shareable (key_section k)"
    "length (cl_push_keys st) = CLUSTER_PUSH_QUEUE" "cl_push_head st < CLUSTER_PUSH_QUEUE"
  using assms by (simp_all add: node_inv_def)

lemma node_inv_pull_keys_nil: "node_inv st \<Longrightarrow> node_inv (st\<lparr>cl_pull_keys := []\<rparr>)"
  by (simp add: node_inv_def)

lemma refuse_inv [simp]: "node_inv (refuse_entry ev st) = node_inv st"
  by (simp add: refuse_entry_def Let_def)

lemma pull_reset_inv: "node_inv st \<Longrightarrow> node_inv (pull_reset_locked st)"
  by (simp add: pull_reset_locked_def node_inv_pull_keys_nil)

lemma asm_inactive_inv: "node_inv st \<Longrightarrow> node_inv (st\<lparr>cl_asm_rx := (cl_asm_rx st)\<lparr>asm_active := False\<rparr>\<rparr>)"
  by (simp add: node_inv_def asm_ok_def)

lemma frag_reset_inv: "node_inv st \<Longrightarrow> node_inv (frag_reset_locked st)"
  by (simp add: frag_reset_locked_def node_inv_def asm_ok_def)

lemma ent_keys_nil_inv: "node_inv st \<Longrightarrow> node_inv (st\<lparr>cl_ent_keys := []\<rparr>)"
  by (simp add: node_inv_def)

lemma may_push_inv: "node_inv st \<Longrightarrow> node_inv (fst (may_push_locked ev st))"
  by (simp add: may_push_locked_def Let_def node_inv_setI)

lemma may_serve_inv: "node_inv st \<Longrightarrow> node_inv (fst (may_serve_locked ev st))"
  by (simp add: may_serve_locked_def Let_def node_inv_setI)

lemma serve_started_inv: "node_inv st \<Longrightarrow> node_inv (serve_started_locked st)"
  using node_invD(5)[of st] by (simp add: serve_started_locked_def node_inv_setI)

lemma may_push_frame [simp]:
  "cl_push_count (fst (may_push_locked ev st)) = cl_push_count st"
  "cl_push_head (fst (may_push_locked ev st)) = cl_push_head st"
  "cl_push_keys (fst (may_push_locked ev st)) = cl_push_keys st"
  "cl_doc (fst (may_push_locked ev st)) = cl_doc st"
  by (simp_all add: may_push_locked_def Let_def)

lemma push_append_inv:
  "node_inv st \<Longrightarrow> cl_push_count st < CLUSTER_PUSH_QUEUE \<Longrightarrow>
     node_inv (st\<lparr>cl_push_keys := (cl_push_keys st)[i := k], cl_push_count := cl_push_count st + 1\<rparr>)"
  by (simp add: node_inv_def)

lemma push_enqueue_inv:
  assumes "node_inv st"
  shows "node_inv (push_enqueue_locked ev key st)"
proof -
  obtain st1 ok where m: "may_push_locked ev st = (st1, ok)" by fastforce
  have st1: "node_inv st1" using may_push_inv[OF assms, of ev] m by simp
  have "cl_push_count st1 = cl_push_count st" using may_push_frame(1)[of ev st] m by simp
  moreover have "node_inv (st1\<lparr>cl_push_tokens := cl_push_tokens st1 - 1\<rparr>)"
    using node_inv_setI(1)[OF st1] node_invD(4)[OF st1] by simp
  ultimately show ?thesis using st1 assms
      push_append_inv[OF st1] push_append_inv[of "st1\<lparr>cl_push_tokens := cl_push_tokens st1 - 1\<rparr>"]
    by (simp add: push_enqueue_locked_def m Let_def not_le)
qed

lemma push_advance_inv: "node_inv st \<Longrightarrow> node_inv (push_advance_locked st)"
  unfolding push_advance_locked_def node_inv_def by (auto simp: CLUSTER_PUSH_QUEUE_def)

lemma ent_advance_inv [simp]: "node_inv (ent_advance_locked st) = node_inv st"
  by (simp add: ent_advance_locked_def Let_def)

lemma tx_entry_step_inv: "node_inv st \<Longrightarrow> node_inv (fst (tx_entry_step st))"
proof (induction st rule: tx_entry_step.induct)
  case (1 st)
  then show ?case
    by (subst tx_entry_step.simps) (auto simp: Let_def split: option.splits prod.splits)
qed

lemma tx_push_step_inv: "node_inv st \<Longrightarrow> node_inv (fst (tx_push_step st))"
proof (induction st rule: tx_push_step.induct)
  case (1 st)
  then show ?case
    by (subst tx_push_step.simps)
      (auto simp: Let_def push_advance_inv split: option.splits prod.splits)
qed

lemma tx_vector_step_inv: "node_inv st \<Longrightarrow> node_inv (fst (tx_vector_step st))"
  by (auto simp: tx_vector_step_def Let_def split: prod.splits)

lemma tx_next_inv: "node_inv st \<Longrightarrow> node_inv (fst (tx_next_locked ev st))"
proof -
  assume "node_inv st"
  then have "node_inv (fst (tx_entry_step st))" by (rule tx_entry_step_inv)
  moreover obtain st1 out where s1: "tx_entry_step st = (st1, out)" by fastforce
  ultimately have i1: "node_inv st1" by simp
  have "node_inv (fst (tx_vector_step st1))" "node_inv (fst (tx_push_step st1))"
    using i1 by (simp_all add: tx_vector_step_inv tx_push_step_inv)
  with i1 show ?thesis
    by (auto simp: tx_next_locked_def s1 Let_def pull_reset_inv split: option.splits prod.splits)
qed

lemma tx_work_inv: "node_inv st \<Longrightarrow> node_inv (fst (tx_work_fn ev ch_ok st))"
proof -
  assume inv: "node_inv st"
  let ?st = "if cl_pull_state st = PULL_AWAIT_VECTOR \<and> ev_uptime_ms ev > cl_pull_deadline_ms st
                  then pull_reset_locked (bump pull_timed_out_update st) else st"
  have "node_inv (fst (tx_next_locked ev ?st))" using inv by (intro tx_next_inv) (simp add: pull_reset_inv)
  with inv show ?thesis
    by (auto simp: tx_work_fn_def Let_def frag_reset_inv pull_reset_inv split: prod.splits option.splits)
qed

lemma retain_shareable: "rows_shareable d \<Longrightarrow> rows_shareable (fst (meshtastic_cluster_doc_retain d scope))"
  by (auto simp: rows_shareable_def retain_spec Let_def)

lemma scope_set_inv: "node_inv st \<Longrightarrow> node_inv (scope_set_locked ev kind pinned st)"
proof -
  assume inv: "node_inv st"
  let ?st = "st\<lparr>cl_scope_kind := kind, cl_scope_pinned := pinned\<rparr>"
  obtain doc dropped evicted where
    r: "meshtastic_cluster_doc_retain (cl_doc ?st) (my_scope_locked ev ?st) = (doc, dropped, evicted)"
    by (metis prod_cases3)
  have "doc_inv doc" "rows_shareable doc"
    using retain_inv[of "cl_doc ?st" "my_scope_locked ev ?st"]
      retain_shareable[of "cl_doc ?st" "my_scope_locked ev ?st"] inv r
    by (auto simp: node_inv_def)
  then show ?thesis using inv
    unfolding scope_set_locked_def Let_def r
    by (auto simp: node_inv_def frag_reset_locked_def pull_reset_locked_def asm_ok_def)
qed

lemma demote_inv: "node_inv st \<Longrightarrow> node_inv (demote_locked ev st)"
  by (simp add: demote_locked_def scope_set_inv)

lemma pull_judge_inv [simp]: "node_inv (pull_judge st) = node_inv st"
  by (simp add: pull_judge_def Let_def)

lemma pull_start_inv: "node_inv st \<Longrightarrow> node_inv (fst (pull_start_locked ev peer delay reason st))"
  by (auto simp: pull_start_locked_def Let_def node_inv_pull_keys_nil)

lemma backstop_inv: "node_inv st \<Longrightarrow> node_inv (backstop_tick ev st)"
  using pull_start_inv[of "st\<lparr>cl_backstop_countdown := cfg_backstop_periods ev\<rparr>" ev]
  by (auto simp: backstop_tick_def Let_def split: prod.splits) (metis fst_conv)+

lemma digest_work_inv: "node_inv st \<Longrightarrow> node_inv (fst (digest_work_fn ev ch_ok sent st))"
  by (simp add: digest_work_fn_def backstop_inv)

section \<open>Receive handlers keep the invariant\<close>

text \<open>What the protobuf decoder guarantees of a message: repeated and bytes fields stay within the
  sizes of \<^verbatim>\<open>cluster.options\<close>.\<close>

definition msg_wf :: "zephyrtastic_ClusterMessage \<Rightarrow> bool" where
  "msg_wf m \<longleftrightarrow>
     (case m of
        Msg_Entry e \<Rightarrow> length (ce_payload e) \<le> MESHTASTIC_CLUSTER_FRAG_MAX
                       \<and> length (ce_author_sig e) \<le> MESHTASTIC_CLUSTER_SIG_LEN
      | Msg_Vector v \<Rightarrow> length (vc_entries v) \<le> CLUSTER_VECTOR_ROWS
      | Msg_Entry_Req ks \<Rightarrow> length ks \<le> CLUSTER_PULL_KEYS
      | _ \<Rightarrow> True)"

lemma frag_fits_bounds:
  assumes "meshtastic_cluster_frag_fits t off (of_nat len) (of_nat MESHTASTIC_CLUSTER_PAYLOAD_MAX)
             (of_nat MESHTASTIC_CLUSTER_FRAG_MAX) = (True, tot)"
    and "len \<le> MESHTASTIC_CLUSTER_FRAG_MAX"
  shows "unat off + len \<le> unat tot" "unat tot \<le> MESHTASTIC_CLUSTER_PAYLOAD_MAX"
proof -
  have len: "unat (of_nat len :: u32) = len" "unat (ucast (of_nat len :: u32) :: u64) = len"
    using assms(2) by (simp_all add: unat_of_nat unsigned_ucast_eq take_bit_eq_mod MESHTASTIC_CLUSTER_FRAG_MAX_def)
  have up: "unat (ucast x :: u64) = unat x" for x :: u32
    using unsigned_less[of x, where 'a = nat] by (simp add: unsigned_ucast_eq take_bit_eq_mod)
  have le: "(ucast off :: u64) + ucast (of_nat len :: u32) \<le> ucast tot"
    and tot: "tot \<le> of_nat MESHTASTIC_CLUSTER_PAYLOAD_MAX"
    using assms(1) by (auto simp: meshtastic_cluster_frag_fits_def Let_def)
  show "unat tot \<le> MESHTASTIC_CLUSTER_PAYLOAD_MAX"
    using tot by (simp add: word_le_nat_alt MESHTASTIC_CLUSTER_PAYLOAD_MAX_def)
  have "unat ((ucast off :: u64) + ucast (of_nat len :: u32)) = unat off + len"
    using unsigned_less[of off, where 'a = nat] assms(2)
    by (subst unat_add_lem[THEN iffD1]) (simp_all add: up len MESHTASTIC_CLUSTER_FRAG_MAX_def)
  with le show "unat off + len \<le> unat tot" by (simp add: word_le_nat_alt up)
qed

lemma asm_store_ok:
  assumes "asm_ok a" "asm_have a + length p \<le> asm_total a"
  shows "asm_ok (a\<lparr>asm_buf := take (asm_have a) (asm_buf a) @ p @ drop (asm_have a + length p) (asm_buf a),
                  asm_have := asm_have a + length p, asm_deadline_ms := t\<rparr>)"
  using assms by (simp add: asm_ok_def)

lemma asm_expire_inv: "node_inv st \<Longrightarrow> node_inv (asm_expire ev st)"
  by (simp add: asm_expire_def asm_inactive_inv)

lemma asm_open_inv:
  "node_inv st \<Longrightarrow> tot \<le> MESHTASTIC_CLUSTER_PAYLOAD_MAX \<Longrightarrow> node_inv (asm_open from key stamp t tot st)"
  using node_invD(3)[of st]
  by (auto simp: asm_open_def Let_def bump_def asm_ok_def intro!: node_inv_setI)

lemma asm_take_inv:
  assumes "node_inv st" "asm_total (cl_asm_rx st) = tot" "off + length p \<le> tot"
  shows "node_inv (fst (asm_take ev off p tot st))"
proof (cases "off = asm_have (cl_asm_rx st)")
  case True
  let ?a = "(cl_asm_rx st)\<lparr>asm_buf := take off (asm_buf (cl_asm_rx st)) @ p @ drop (off + length p) (asm_buf (cl_asm_rx st)),
      asm_have := off + length p, asm_deadline_ms := ev_uptime_ms ev + cfg_frag_timeout_sec ev * 1000\<rparr>"
  have "asm_ok ?a" using asm_store_ok[OF node_invD(3)[OF assms(1)], of p] True assms by simp
  then have "node_inv (st\<lparr>cl_asm_rx := ?a\<rparr>)" "node_inv (st\<lparr>cl_asm_rx := ?a\<lparr>asm_active := False\<rparr>\<rparr>)"
    using assms(1) by (auto simp: asm_ok_def intro!: node_inv_setI)
  with True show ?thesis by (simp add: asm_take_def Let_def)
qed (use assms in \<open>simp add: asm_take_def Let_def\<close>)

lemma reassemble_inv:
  assumes "node_inv st" "length (ce_payload e) \<le> MESHTASTIC_CLUSTER_FRAG_MAX"
  shows "node_inv (fst (reassemble_entry ev from e key stamp st))"
proof -
  obtain fits tot where ff: "meshtastic_cluster_frag_fits (ce_payload_total e) (ce_frag_offset e)
      (of_nat (length (ce_payload e))) (of_nat MESHTASTIC_CLUSTER_PAYLOAD_MAX)
      (of_nat MESHTASTIC_CLUSTER_FRAG_MAX) = (fits, tot)" by fastforce
  show ?thesis
  proof (cases fits)
    case False
    with ff assms(1) show ?thesis by (simp add: reassemble_entry_def)
  next
    case True
    note b = frag_fits_bounds[OF ff[unfolded eqTrueI[OF True]] assms(2)]
    have x: "node_inv (asm_expire ev st)" using assms(1) by (rule asm_expire_inv)
    let ?o = "asm_open from key stamp (ce_tombstone e) (unat tot) (asm_expire ev st)"
    have "node_inv ?o" "asm_total (cl_asm_rx ?o) = unat tot"
      using asm_open_inv[OF x b(2)] by (simp_all add: asm_open_def Let_def)
    with x b assms(1) show ?thesis
      by (auto simp: reassemble_entry_def ff Let_def asm_matches_def intro!: asm_take_inv)
  qed
qed

lemma in_set_updD: "x \<in> set (xs[i := y]) \<Longrightarrow> x = y \<or> x \<in> set xs"
  using set_update_subset_insert[of xs i y] by auto

lemma accept_signed_set:
  "set (doc_entries (fst (meshtastic_cluster_doc_accept_signed d key stamp t p sig)))
     \<subseteq> insert (stored_entry key stamp t p sig) (set (doc_entries d))"
  by (auto simp: meshtastic_cluster_doc_accept_signed_def Let_def
      dest: in_set_takeD in_set_dropD dest!: in_set_updD split: prod.splits)

lemma accept_signed_shareable:
  "rows_shareable d \<Longrightarrow> section_shareable (key_section key)
     \<Longrightarrow> rows_shareable (fst (meshtastic_cluster_doc_accept_signed d key stamp t p sig))"
  using accept_signed_set[of d key stamp t p sig] by (auto simp: rows_shareable_def)

lemma entry_signature_sig_ok: "sig_ok (snd (entry_signature_ok ev key stamp t a p))"
  by (simp add: entry_signature_ok_def Let_def sig_ok_def)

lemma sig_account_inv [simp]: "node_inv (sig_account ev v st) = node_inv st"
  by (cases v) (simp_all add: sig_account_def)

lemma entry_merge_inv:
  assumes "node_inv st" "section_shareable (key_section key)" "sig_ok sig"
  shows "node_inv (entry_merge ev key stamp t p sig st)"
proof -
  obtain doc ret where r: "meshtastic_cluster_doc_accept_signed (cl_doc st) key stamp t p sig = (doc, ret)"
    by fastforce
  have "doc_inv doc" "rows_shareable doc"
    using accept_signed_inv[OF node_invD(1)[OF assms(1)] assms(3), of key stamp t p]
      accept_signed_shareable[OF node_invD(2)[OF assms(1)] assms(2), of stamp t p sig] r by simp_all
  then have "node_inv (st\<lparr>cl_hlc := h, cl_doc := doc\<rparr>)" for h
    using assms(1) by (intro node_inv_setI) simp_all
  then show ?thesis by (simp add: entry_merge_def Let_def r split: sum.splits)
qed

lemma on_entry_inv:
  assumes "node_inv st" "length (ce_payload e) \<le> MESHTASTIC_CLUSTER_FRAG_MAX"
  shows "node_inv (on_entry ev from e st)"
proof (cases "(ce_key e, ce_stamp e)")
  case (Pair a b)
  then show ?thesis
  proof (cases "a = None \<or> b = None")
    case False
    then obtain pk ps where ab: "a = Some pk" "b = Some ps" by auto
    obtain st1 w where r: "reassemble_entry ev from e (key_from_pb pk) (stamp_from_pb ps) st = (st1, w)"
      by fastforce
    have i1: "node_inv st1" using reassemble_inv[OF assms, of ev "from"] r by (metis fst_conv)
    show ?thesis
    proof (cases w)
      case None
      with Pair ab r i1 assms(1) show ?thesis by (simp add: on_entry_def Let_def)
    next
      case (Some payload)
      obtain v sig where vs: "entry_signature_ok ev (key_from_pb pk) (stamp_from_pb ps) (ce_tombstone e)
          (ce_author_sig e) payload = (v, sig)" by fastforce
      have "sig_ok sig" using entry_signature_sig_ok vs by (metis snd_conv)
      with Pair ab r Some i1 vs assms(1) show ?thesis
        by (simp add: on_entry_def Let_def entry_merge_inv)
    qed
  qed (use assms Pair in \<open>auto simp: on_entry_def split: option.splits\<close>)
qed

lemma vector_rows_inv:
  "node_inv st \<Longrightarrow> node_inv (fst (vector_rows ev mine rows st ns))"
proof (induction rows arbitrary: st ns)
  case (Cons row rows)
  have "node_inv (st\<lparr>cl_hlc := h, cl_pull_keys := cl_pull_keys st @ [k]\<rparr>)"
    if "length (cl_pull_keys st) < CLUSTER_PULL_KEYS" "section_shareable (key_section k)" for h k
    using that Cons.prems node_invD(7)[OF Cons.prems] by (intro node_inv_setI) auto
  with Cons show ?case
    by (auto simp: Let_def split: option.splits meshtastic_cluster_want.splits)
qed simp

lemma on_vector_inv: "node_inv st \<Longrightarrow> node_inv (on_vector ev from v st)"
proof -
  assume inv: "node_inv st"
  obtain st1 ns where r: "vector_rows ev (my_scope_locked ev st) (vc_entries v) (bump vector_rx_update st) False = (st1, ns)"
    by fastforce
  have "node_inv st1"
    using vector_rows_inv[of "bump vector_rx_update st" ev "my_scope_locked ev st" "vc_entries v" False] inv r by simp
  with inv show ?thesis
    by (simp add: on_vector_def Let_def r pull_reset_inv demote_inv node_inv_pull_keys_nil)
qed

lemma on_vector_req_inv: "node_inv st \<Longrightarrow> node_inv (on_vector_req ev from scope st)"
  using may_serve_inv[of st ev]
  by (auto simp: on_vector_req_def Let_def serve_started_inv split: prod.splits)

lemma on_entry_req_inv: "node_inv st \<Longrightarrow> node_inv (on_entry_req ev from keys st)"
proof -
  assume inv: "node_inv st"
  obtain st1 ok where r: "(if cl_ent_dest st = 0 then may_serve_locked ev st else (st, False)) = (st1, ok)"
    by fastforce
  have "node_inv st1" using may_serve_inv[OF inv, of ev] inv r by (auto split: if_splits)
  then have "node_inv (serve_started_locked st1)" by (rule serve_started_inv)
  with \<open>node_inv st1\<close> show ?thesis by (simp add: on_entry_req_def r Let_def node_inv_setI(5))
qed

lemma peer_note_inv [simp]: "node_inv (peer_note_locked ev from d c a h st) = node_inv st"
  by (auto simp: peer_note_locked_def Let_def split: option.splits)

lemma digest_compare_inv [simp]: "node_inv (fst (digest_compare_locked ev from d theirs st)) = node_inv st"
  by (auto simp: digest_compare_locked_def Let_def split: prod.splits)

lemma on_digest_inv: "node_inv st \<Longrightarrow> node_inv (on_digest ev from d st)"
proof -
  assume inv: "node_inv st"
  let ?t = "stamp_from_pb (dg_max_stamp d)"
  obtain st1 v where r: "digest_compare_locked ev from d ?t (hlc_observe ev ?t st) = (st1, v)" by fastforce
  have i1: "node_inv st1"
    using digest_compare_inv[of ev "from" d ?t "hlc_observe ev ?t st"] inv r by simp
  let ?n = "bump digest_rx_mismatch_update
              (peer_note_locked ev from d (dv_comparable v) (dv_comparable v \<and> dv_match v) (dv_theirs v) st1)"
  have "node_inv (fst (pull_start_locked ev from (ev_rand32 ev mod (cfg_pull_delay_ms ev + 1)) PULL_REASON_DIGEST ?n))"
    using i1 by (intro pull_start_inv) simp
  with i1 show ?thesis by (auto simp: on_digest_def r Let_def split: prod.splits)
qed

lemma on_packet_inv:
  "node_inv st \<Longrightarrow> (\<forall>m. decoded = Some m \<longrightarrow> msg_wf m)
     \<Longrightarrow> node_inv (cluster_on_packet ev ch from ci pki decoded st)"
  by (auto simp: cluster_on_packet_def on_digest_inv on_vector_req_inv on_vector_inv on_entry_req_inv
      on_entry_inv msg_wf_def split: option.splits zephyrtastic_ClusterMessage.splits)

end
