(* ===== verification/Cluster_Store.thy ===== *)
theory Cluster_Store
  imports Cluster_Local Cluster_Sync
begin

text \<open>
  Persistence of the cluster document: the record written per entry and its settings key
  (\<^verbatim>\<open>persist_entry\<close> and \<^verbatim>\<open>rec_name\<close> of \<^verbatim>\<open>meshtastic_cluster.c\<close>), the key parser of
  \<^verbatim>\<open>meshtastic_cluster_key.h\<close>, the load handler \<^verbatim>\<open>cluster_settings_set\<close> and the module's
  initialisation.  Reading a (possibly sealed) record from flash is a parameter.
\<close>

section \<open>Record names\<close>

definition hex_char :: "nat \<Rightarrow> char" where
  "hex_char n = (if n < 10 then char_of (48 + n) else char_of (87 + n))"

definition hex8 :: "u32 \<Rightarrow> string" where
  "hex8 w = map (\<lambda>i. hex_char (unat (drop_bit (4 * (7 - i)) w) mod 16)) [0..<8]"

fun dec_digits :: "nat \<Rightarrow> nat list" where
  "dec_digits n = (if n < 10 then [n] else dec_digits (n div 10) @ [n mod 10])"

declare dec_digits.simps [simp del]

definition dec_string :: "nat \<Rightarrow> string" where
  "dec_string n = map (\<lambda>d. char_of (48 + d)) (dec_digits n)"

text \<open>The name below the \<^verbatim>\<open>mtclus/\<close> subtree, as the format \<^verbatim>\<open>%c%08x/%u\<close> prints it.\<close>

definition rec_name :: "meshtastic_cluster_key \<Rightarrow> string" where
  "rec_name key =
     (if key_layer key = LAYER_BASE then CHR ''b'' else CHR ''n'')
     # hex8 (key_node_id key) @ CHR ''/'' # dec_string (unat (key_section key))"

definition hex_nib :: "char \<Rightarrow> u32 option" where
  "hex_nib c =
     (let n = of_char c :: nat
      in if 48 \<le> n \<and> n \<le> 57 then Some (of_nat (n - 48))
         else if 97 \<le> n \<and> n \<le> 102 then Some (of_nat (n - 97) + 10)
         else if 65 \<le> n \<and> n \<le> 70 then Some (of_nat (n - 65) + 10)
         else None)"

text \<open>The digit loop of the parser, with the number of digits still allowed and the number read.\<close>

fun parse_hex :: "nat \<Rightarrow> string \<Rightarrow> u32 \<Rightarrow> nat \<Rightarrow> string \<times> u32 \<times> nat" where
  "parse_hex 0 s acc d = (s, acc, d)"
| "parse_hex (Suc k) [] acc d = ([], acc, d)"
| "parse_hex (Suc k) (c # cs) acc d =
     (case hex_nib c of
        None \<Rightarrow> (c # cs, acc, d)
      | Some nib \<Rightarrow> parse_hex k cs (push_bit 4 acc OR nib) (d + 1))"

definition is_digit :: "char \<Rightarrow> bool" where
  "is_digit c \<longleftrightarrow> 48 \<le> (of_char c :: nat) \<and> (of_char c :: nat) \<le> 57"

fun parse_dec :: "string \<Rightarrow> u32 \<Rightarrow> (string \<times> u32) option" where
  "parse_dec [] sec = Some ([], sec)"
| "parse_dec (c # cs) sec =
     (if is_digit c
      then let d = of_nat (of_char c - 48) :: u32
           in if sec > (UINT32_MAX - d) div 10 then None else parse_dec cs (sec * 10 + d)
      else Some (c # cs, sec))"

definition meshtastic_cluster_parse_entry_key :: "string \<Rightarrow> (char \<times> u32 \<times> u32) option" where
  "meshtastic_cluster_parse_entry_key key =
     (case key of
        [] \<Rightarrow> None
      | layer # p \<Rightarrow>
          let (p, node, digits) = parse_hex 8 p 0 0
          in (case p of
                [] \<Rightarrow> None
              | c # p \<Rightarrow>
                  if digits = 0 \<or> c \<noteq> CHR ''/'' then None
                  else if p = [] \<or> \<not> is_digit (hd p) then None
                  else (case parse_dec p 0 of
                          None \<Rightarrow> None
                        | Some (rest, sec) \<Rightarrow> if rest \<noteq> [] then None else Some (layer, node, sec))))"

section \<open>Records\<close>

definition CLUSTER_REC_TOMBSTONE :: u8 where
  "CLUSTER_REC_TOMBSTONE = 0x01"

definition CLUSTER_REC_SIGNED :: u8 where
  "CLUSTER_REC_SIGNED = 0x02"

definition REC_HDR :: nat where
  "REC_HDR = 17"

definition REC_MAX :: nat where
  "REC_MAX = REC_HDR + MESHTASTIC_CLUSTER_PAYLOAD_MAX + MESHTASTIC_CLUSTER_SIG_LEN"

text \<open>The bytes \<^verbatim>\<open>persist_entry\<close> hands to flash: the packed header, the payload, the signature.\<close>

definition persist_entry :: "meshtastic_cluster_entry \<Rightarrow> string \<times> bytes" where
  "persist_entry e =
     (rec_name (ent_key e),
      le_bytes (of_int (st_physical_ms (ent_stamp e)) :: u64) 8
      @ le_bytes (st_counter (ent_stamp e)) 4 @ le_bytes (st_node_id (ent_stamp e)) 4
      @ [(if ent_tombstone e then CLUSTER_REC_TOMBSTONE else 0) OR (if ent_has_sig e then CLUSTER_REC_SIGNED else 0)]
      @ ent_payload e @ (if ent_has_sig e then ent_sig e else []))"

definition persist_scope :: "u8 \<Rightarrow> nat \<Rightarrow> bytes" where
  "persist_scope kind max_entries = [kind] @ le_bytes (of_nat max_entries :: u16) 2"

section \<open>Loading\<close>

text \<open>The build: the AUTO scope choice and the table size.  \<open>got\<close> is what reading the record of
  stored length \<open>len\<close> gives.\<close>

record load_cfg =
  lc_scope_auto :: bool
  lc_max_entries :: nat
  lc_seal_overhead :: nat

definition load_scope :: "load_cfg \<Rightarrow> bytes result \<Rightarrow> cluster \<Rightarrow> cluster \<times> unit result" where
  "load_scope lc got st =
     (case got of
        Inl err \<Rightarrow> (st, if err = EACCES then Inr () else Inl EINVAL)
      | Inr b \<Rightarrow>
          if length b \<noteq> 3 then (st, Inl EINVAL)
          else if \<not> lc_scope_auto lc then (st, Inr ())
          else
            let kind = hd b; cap = unat (le_word (tl b) :: u16)
            in if lc_max_entries lc > cap then (act Act_Forget_Scope st, Inr ())
               else if kind = SCOPE_CORE \<or> kind = SCOPE_FULL then (st\<lparr>cl_scope_kind := kind\<rparr>, Inr ())
               else (st, Inr ()))"

definition cluster_settings_set ::
  "cluster_env \<Rightarrow> load_cfg \<Rightarrow> string \<Rightarrow> nat \<Rightarrow> bytes result \<Rightarrow> cluster \<Rightarrow> cluster \<times> unit result" where
  "cluster_settings_set ev lc key len got st =
     (if key = ''scope'' then load_scope lc got st
      else case meshtastic_cluster_parse_entry_key key of
             None \<Rightarrow> (st, Inl ENOENT)
           | Some (layer, node_id, sec) \<Rightarrow>
               if len < REC_HDR \<or> len > REC_MAX + lc_seal_overhead lc then (st, Inl EINVAL)
               else case got of
                      Inl err \<Rightarrow> (st, if err = EACCES then Inr () else Inl EINVAL)
                    | Inr rec \<Rightarrow>
                        if length rec < REC_HDR then (st, Inl EINVAL)
                        else
                          let k = \<lparr>key_layer = (if layer = CHR ''b'' then LAYER_BASE else LAYER_NODE),
                                   key_node_id = node_id, key_section = ucast sec\<rparr>;
                              stamp = \<lparr>st_physical_ms = sint (le_word (take 8 rec) :: u64),
                                       st_counter = le_word (take 4 (drop 8 rec)),
                                       st_node_id = le_word (take 4 (drop 12 rec))\<rparr>;
                              flags = rec ! 16;
                              signed = (flags AND CLUSTER_REC_SIGNED \<noteq> 0);
                              tombstone = (flags AND CLUSTER_REC_TOMBSTONE \<noteq> 0);
                              plen0 = length rec - REC_HDR;
                              plen = (if signed then plen0 - MESHTASTIC_CLUSTER_SIG_LEN else plen0);
                              payload = take plen (drop REC_HDR rec);
                              sig = (if signed
                                     then Some (take MESHTASTIC_CLUSTER_SIG_LEN (drop (REC_HDR + plen) rec)) else None)
                          in if signed \<and> plen0 < MESHTASTIC_CLUSTER_SIG_LEN then (st, Inl EINVAL)
                             else if plen > MESHTASTIC_CLUSTER_PAYLOAD_MAX
                                     \<or> flags AND NOT (CLUSTER_REC_TOMBSTONE OR CLUSTER_REC_SIGNED) \<noteq> 0
                             then (st, Inl EINVAL)
                             else if \<not> section_shareable (key_section k)
                                     \<or> \<not> payload_is_its_section ev (key_section k) payload tombstone
                             then (st, Inr ())
                             else if \<not> meshtastic_cluster_scope_contains (my_scope_locked ev st) k
                             then (act (Act_Forget k) st, Inr ())
                             else
                               let doc = fst (meshtastic_cluster_doc_accept_signed (cl_doc st) k stamp tombstone payload sig)
                               in (hlc_observe ev stamp (st\<lparr>cl_doc := doc\<rparr>), Inr ()))"

section \<open>Initialisation\<close>

text \<open>The module's static state before initialisation, and after it (before any record is loaded).\<close>

definition zero_key :: meshtastic_cluster_key where
  "zero_key = \<lparr>key_layer = 0, key_node_id = 0, key_section = 0\<rparr>"

definition zero_stats :: meshtastic_cluster_stats where
  "zero_stats =
     \<lparr>digest_tx = 0, digest_rx_match = 0, digest_rx_mismatch = 0, digest_rx_incomparable = 0,
      rx_wrong_channel = 0, rx_undecodable = 0, rx_not_implemented = 0, stat_pull_started = 0,
      pull_timed_out = 0, stat_pull_fruitless = 0, pull_empty = 0, pull_held = 0, vector_tx = 0,
      vector_rx = 0, entry_tx = 0, entry_rx_applied = 0, entry_rx_stale = 0, entry_rx_refused = 0,
      entry_rx_no_space = 0, entry_rx_out_of_scope = 0, want_no_space = 0, entries_evicted = 0,
      scope_demotions = 0, backstop_walks = 0, entry_rx_future = 0, frag_rx = 0, frag_assembled = 0,
      frag_out_of_order = 0, frag_displaced = 0, frag_timed_out = 0, rx_unsolicited = 0, tx_busy = 0,
      push_tx = 0, push_suppressed = 0, sig_signed = 0, sig_sign_failed = 0, sig_verified = 0,
      sig_unsigned = 0, sig_refused_bad = 0, sig_refused_no_key = 0, sig_refused_malformed = 0,
      sig_refused_unsigned = 0, sections_applied = 0, sections_kept_local = 0, sections_held = 0\<rparr>"

definition zero_asm :: cluster_asm where
  "zero_asm =
     \<lparr>asm_active = False, asm_from = 0, asm_key = zero_key, asm_stamp = unset_stamp, asm_tombstone = False,
      asm_total = 0, asm_have = 0, asm_deadline_ms = 0, asm_buf = replicate MESHTASTIC_CLUSTER_PAYLOAD_MAX 0\<rparr>"

definition meshtastic_cluster_init :: "bool \<Rightarrow> bool \<Rightarrow> nat \<Rightarrow> int \<Rightarrow> cluster" where
  "meshtastic_cluster_init core full max_entries uptime_ms =
     \<lparr>cl_doc = meshtastic_cluster_doc_init max_entries,
      cl_scope_kind = fst (compiled_scope core full), cl_scope_pinned = snd (compiled_scope core full),
      cl_backstop_peer = 0, cl_backstop_countdown = 0,
      cl_hlc = \<lparr>hlc_physical_ms = 0, hlc_counter = 0\<rparr>, cl_stats = zero_stats, cl_peers = [],
      cl_pull_state = PULL_IDLE, cl_pull_reason = PULL_REASON_DIGEST, cl_pull_peer = 0,
      cl_pull_deadline_ms = 0, cl_pull_keys = [],
      cl_vec_dest = 0, cl_vec_offset = 0, cl_vec_emitted = 0, cl_vec_scope_kind = 0,
      cl_ent_dest = 0, cl_ent_keys = [], cl_ent_next = 0, cl_ent_frag_off = 0,
      cl_push_keys = replicate CLUSTER_PUSH_QUEUE zero_key, cl_push_head = 0, cl_push_count = 0,
      cl_push_frag_off = 0, cl_asm_rx = zero_asm,
      cl_serve_tokens = CLUSTER_SERVE_BURST, cl_serve_refill_ms = uptime_ms,
      cl_push_tokens = CLUSTER_PUSH_BURST, cl_push_refill_ms = uptime_ms,
      cl_pull_hold_until_ms = 0, cl_pull_last_applied = 0, cl_pull_asked_entries = False,
      cl_pull_fruitless = 0, cl_refuse_log_next_ms = 0, cl_refuse_since_log = 0, cl_acts = []\<rparr>"

section \<open>Names print and parse back\<close>

lemma hex_nib_char: "n < 16 \<Longrightarrow> hex_nib (hex_char n) = Some (of_nat n)"
proof (cases "n < 10")
  case False
  assume "n < 16"
  with False have c: "(of_char (hex_char n) :: nat) = 87 + n" by (simp add: hex_char_def)
  have "(of_nat (87 + n - 97) + 10 :: u32) = of_nat (87 + n - 97 + 10)" by (simp only: of_nat_add of_nat_numeral)
  also have "87 + n - 97 + 10 = n" using False by simp
  finally show ?thesis using False \<open>n < 16\<close> unfolding hex_nib_def Let_def c by simp
qed (simp add: hex_nib_def hex_char_def)

lemma nibble_word: "(of_nat (unat (v::u32) mod 16) :: u32) = take_bit 4 v"
proof -
  have "unat v mod 16 = unat (v mod 16)" by (simp add: unat_mod)
  then show ?thesis by (simp add: take_bit_eq_mod)
qed

lemma parse_hex_map:
  "parse_hex k (map (\<lambda>i. hex_char (unat (drop_bit (4 * (k - 1 - i)) w) mod 16)) [0..<k] @ rest) acc d
     = (rest, push_bit (4 * k) acc OR take_bit (4 * k) w, d + k)"
proof (induction k arbitrary: acc d)
  case (Suc k)
  have idx: "[0..<Suc k] = 0 # map Suc [0..<k]" by (simp add: upt_conv_Cons map_Suc_upt)
  have bits: "(push_bit (4 + 4 * k) acc OR push_bit (4 * k) (take_bit 4 (drop_bit (4 * k) w))) OR take_bit (4 * k) w
      = push_bit (4 + 4 * k) acc OR take_bit (4 + 4 * k) w"
    by (rule bit_word_eqI) (auto simp: bit_simps)
  show ?case
    unfolding idx
    using Suc.IH[of "push_bit 4 acc OR take_bit 4 (drop_bit (4 * k) w)" "d + 1"]
    by (simp add: hex_nib_char nibble_word o_def bits add.commute)
qed simp

lemma parse_hex8: "parse_hex 8 (hex8 w @ rest) 0 0 = (rest, w, 8)"
  using parse_hex_map[of 8 w rest 0 0] by (simp add: hex8_def take_bit_word_eq_self)

lemma is_digit_char: "d < 10 \<Longrightarrow> is_digit (char_of (48 + d :: nat))"
  by (simp add: is_digit_def)

lemma of_char_digit: "d < 10 \<Longrightarrow> (of_char (char_of (48 + d :: nat)) :: nat) = 48 + d"
  by simp

lemma parse_dec_digits:
  assumes "\<forall>d \<in> set ds. d < 10" "foldl (\<lambda>a d. a * 10 + d) a ds < 2 ^ 32"
  shows "parse_dec (map (\<lambda>d. char_of (48 + d)) ds) (of_nat a)
           = Some ([], of_nat (foldl (\<lambda>a d. a * 10 + d) a ds))"
  using assms
proof (induction ds arbitrary: a)
  case (Cons d ds)
  have mono: "b \<le> foldl (\<lambda>a d. a * 10 + d) b xs" for b :: nat and xs
  proof (induction xs arbitrary: b)
    case (Cons x xs)
    from Cons.IH[of "b * 10 + x"] show ?case by simp
  qed simp
  have lt: "a * 10 + d < 2 ^ 32" using mono[of "a * 10 + d" ds] Cons.prems(2) by simp
  have d: "d < 10" using Cons.prems by simp
  have "\<not> (of_nat a :: u32) > (UINT32_MAX - of_nat d) div 10"
  proof -
    have "unat (UINT32_MAX - of_nat d) = 2 ^ 32 - 1 - d"
      using d by (simp add: UINT32_MAX_def unat_sub word_le_nat_alt unat_of_nat)
    then have "unat ((UINT32_MAX - of_nat d) div 10 :: u32) = (2 ^ 32 - 1 - d) div 10"
      by (simp add: unat_div)
    moreover have "unat (of_nat a :: u32) = a" using lt by (simp add: unat_of_nat)
    ultimately show ?thesis using lt by (simp add: word_less_nat_alt)
  qed
  moreover have "(of_nat a * 10 + of_nat d :: u32) = of_nat (a * 10 + d)" by simp
  ultimately show ?case
    using Cons.IH[of "a * 10 + d"] Cons.prems d
    by (simp add: is_digit_char of_char_digit Let_def)
qed simp

lemma dec_digits_lt: "\<forall>d \<in> set (dec_digits n). d < 10"
  by (induction n rule: dec_digits.induct) (subst dec_digits.simps, auto)

lemma dec_digits_val: "foldl (\<lambda>a d. a * 10 + d) 0 (dec_digits n) = n"
  by (induction n rule: dec_digits.induct) (subst dec_digits.simps, auto)

lemma dec_digits_nonempty: "dec_digits n \<noteq> []"
  by (subst dec_digits.simps) simp

lemma parse_dec_string: "n < 2 ^ 32 \<Longrightarrow> parse_dec (dec_string n) 0 = Some ([], of_nat n)"
  using parse_dec_digits[of "dec_digits n" 0] by (simp add: dec_string_def dec_digits_lt dec_digits_val)

lemma hd_dec_string: "dec_string n \<noteq> []" "is_digit (hd (dec_string n))"
  using dec_digits_nonempty[of n] dec_digits_lt[of n]
  by (auto simp: dec_string_def hd_map intro!: is_digit_char)

lemma parse_rec_name:
  "meshtastic_cluster_parse_entry_key (rec_name k) =
     Some (if key_layer k = LAYER_BASE then CHR ''b'' else CHR ''n'', key_node_id k, ucast (key_section k))"
proof -
  have "unat (key_section k) < 2 ^ 32"
    using unsigned_less[of "key_section k", where 'a = nat] by simp
  moreover have "(of_nat (unat (key_section k)) :: u32) = ucast (key_section k)" by simp
  ultimately show ?thesis
    by (simp add: meshtastic_cluster_parse_entry_key_def rec_name_def parse_hex8 parse_dec_string hd_dec_string)
qed

section \<open>Records load back\<close>

definition rec_flags :: "bool \<Rightarrow> bool \<Rightarrow> u8" where
  "rec_flags t g = (if t then CLUSTER_REC_TOMBSTONE else 0) OR (if g then CLUSTER_REC_SIGNED else 0)"

lemma rec_flags_bits:
  "(rec_flags t g AND CLUSTER_REC_SIGNED \<noteq> 0) = g"
  "(rec_flags t g AND CLUSTER_REC_TOMBSTONE \<noteq> 0) = t"
  "rec_flags t g AND NOT (CLUSTER_REC_TOMBSTONE OR CLUSTER_REC_SIGNED) = 0"
  by (cases t; cases g; simp add: rec_flags_def CLUSTER_REC_SIGNED_def CLUSTER_REC_TOMBSTONE_def)+

lemma rec_fields:
  fixes ms :: u64 and ctr author :: u32 and fl body
  defines "r \<equiv> le_bytes ms 8 @ le_bytes ctr 4 @ le_bytes author 4 @ [fl] @ body"
  shows "le_word (take 8 r) = ms" "le_word (take 4 (drop 8 r)) = ctr" "le_word (take 4 (drop 12 r)) = author"
    "r ! 16 = fl" "drop REC_HDR r = body" "length r = REC_HDR + length body"
  by (simp_all add: r_def f64.dec_enc f32.dec_enc nth_append REC_HDR_def)

text \<open>What loading a record written for \<open>e\<close> does to the node.\<close>

lemma load_persisted:
  assumes ok: "entry_ok e" and ms: "i64_range (st_physical_ms (ent_stamp e))"
    and share: "section_shareable (key_section (ent_key e))"
    and sect: "payload_is_its_section ev (key_section (ent_key e)) (ent_payload e) (ent_tombstone e)"
    and scope: "meshtastic_cluster_scope_contains (my_scope_locked ev st) (ent_key e)"
    and rec: "persist_entry e = (name, rec)"
  shows "cluster_settings_set ev lc name (length rec) (Inr rec) st
    = (hlc_observe ev (ent_stamp e) (st\<lparr>cl_doc := accept_entry (cl_doc st) e\<rparr>), Inr ())"
proof -
  have wf: "write_ok (ent_key e) (ent_stamp e) (ent_tombstone e) (ent_payload e)"
    and sl: "length (ent_sig e) = MESHTASTIC_CLUSTER_SIG_LEN"
    using ok by (auto simp: entry_ok_def)
  have pl: "length (ent_payload e) \<le> MESHTASTIC_CLUSTER_PAYLOAD_MAX" using wf by (simp add: write_ok_def)
  let ?body = "ent_payload e @ (if ent_has_sig e then ent_sig e else [])"
  have r: "rec = le_bytes (of_int (st_physical_ms (ent_stamp e)) :: u64) 8 @ le_bytes (st_counter (ent_stamp e)) 4
      @ le_bytes (st_node_id (ent_stamp e)) 4 @ [rec_flags (ent_tombstone e) (ent_has_sig e)] @ ?body"
    and n: "name = rec_name (ent_key e)"
    using rec by (auto simp: persist_entry_def rec_flags_def)
  note fields = rec_fields[of "of_int (st_physical_ms (ent_stamp e))" "st_counter (ent_stamp e)"
      "st_node_id (ent_stamp e)" "rec_flags (ent_tombstone e) (ent_has_sig e)" ?body, folded r]
  have key: "\<lparr>key_layer = (if (if key_layer (ent_key e) = LAYER_BASE then CHR ''b'' else CHR ''n'') = CHR ''b''
                then LAYER_BASE else LAYER_NODE),
            key_node_id = key_node_id (ent_key e), key_section = ucast (ucast (key_section (ent_key e)) :: u32)\<rparr> = ent_key e"
    using wf valid_key_layer[of "ent_key e"] by (intro meshtastic_cluster_key.equality) (auto simp: write_ok_def)
  have stamp: "\<lparr>st_physical_ms = sint (of_int (st_physical_ms (ent_stamp e)) :: u64),
      st_counter = st_counter (ent_stamp e), st_node_id = st_node_id (ent_stamp e)\<rparr> = ent_stamp e"
    using sint_of_int_i64[OF ms] by (intro meshtastic_hlc_stamp.equality) simp_all
  have nm: "rec_name (ent_key e) \<noteq> ''scope''" by (auto simp: rec_name_def)
  have sg: "drop (REC_HDR + length (ent_payload e)) rec = (if ent_has_sig e then ent_sig e else [])"
  proof -
    have "drop (REC_HDR + length (ent_payload e)) rec = drop (length (ent_payload e)) (drop REC_HDR rec)"
      by (simp only: drop_drop add.commute)
    then show ?thesis unfolding fields(5) by simp
  qed
  show ?thesis
    using pl sl share sect scope
    by (simp only: cluster_settings_set_def n parse_rec_name nm fields rec_flags_bits Let_def option.case
        prod.case sum.case if_False key stamp)
      (simp add: sg accept_entry_def REC_MAX_def)
qed

section \<open>Properties\<close>

text \<open>The boot pass over the records of the subtree, in whatever order flash returns them.\<close>

definition load_all :: "cluster_env \<Rightarrow> load_cfg \<Rightarrow> (string \<times> bytes) list \<Rightarrow> cluster \<Rightarrow> cluster" where
  "load_all ev lc recs st =
     foldl (\<lambda>st (name, rec). fst (cluster_settings_set ev lc name (length rec) (Inr rec) st)) st recs"

definition loadable :: "cluster_env \<Rightarrow> meshtastic_cluster_scope \<Rightarrow> meshtastic_cluster_entry \<Rightarrow> bool" where
  "loadable ev scope e \<longleftrightarrow>
     i64_range (st_physical_ms (ent_stamp e)) \<and> section_shareable (key_section (ent_key e))
     \<and> payload_is_its_section ev (key_section (ent_key e)) (ent_payload e) (ent_tombstone e)
     \<and> meshtastic_cluster_scope_contains scope (ent_key e)"

lemma load_all_replay:
  assumes "\<forall>e \<in> set es. entry_ok e \<and> loadable ev (my_scope_locked ev st) e"
  shows "cl_doc (load_all ev lc (map persist_entry es) st) = replay (cl_doc st) es"
  using assms
proof (induction es arbitrary: st)
  case (Cons e es)
  let ?st = "hlc_observe ev (ent_stamp e) (st\<lparr>cl_doc := accept_entry (cl_doc st) e\<rparr>)"
  obtain name rec where p: "persist_entry e = (name, rec)" by fastforce
  have step: "cluster_settings_set ev lc name (length rec) (Inr rec) st = (?st, Inr ())"
    using Cons.prems load_persisted[OF _ _ _ _ _ p] by (simp add: loadable_def)
  have "my_scope_locked ev ?st = my_scope_locked ev st" by (simp add: my_scope_locked_def)
  with Cons show ?case by (simp add: load_all_def p step replay_def)
qed (simp add: load_all_def replay_def)

lemma replay_rebuilds:
  assumes "doc_inv d" "set es = set (doc_entries d)"
  shows "replay (meshtastic_cluster_doc_init (doc_cap d)) es = d"
proof -
  let ?i = "meshtastic_cluster_doc_init (doc_cap d)" and ?K = "ent_key ` set (doc_entries d)"
  have card: "card ?K \<le> doc_cap d" using doc_count_keys[OF assms(1)] assms(1) by (simp add: doc_inv_def)
  have i: "doc_in ?K (doc_cap d) ?i"
    using card by (simp add: doc_in_def doc_init_inv) (simp add: meshtastic_cluster_doc_init_def)
  have d: "doc_in ?K (doc_cap d) d" using card assms(1) by (simp add: doc_in_def)
  have st: "sync.stored ?i = {}" "sync.stored d = set (doc_entries d)"
    using stored_doc[OF assms(1)] stored_doc[OF doc_init_inv, of "doc_cap d"]
    by (simp_all add: meshtastic_cluster_doc_init_def)
  have vs: "unique_stamps (set (doc_entries d))"
    unfolding unique_stamps_def
    using lookup_ents_mem[OF doc_inv_sorted[OF assms(1)]] by (metis option.inject)
  have "sync.put_all ?i es = sync.put_all d []"
    using assms doc_inv_entry_ok[OF assms(1)] vs
    by (intro sync.converge[OF i d]) (auto simp: st unique_stamps_versioned)
  then show ?thesis by (simp add: replay_put_all sync.put_all_def)
qed

text \<open>C13. Nothing is lost across a reboot: writing every row of a well-formed document to flash and
  loading the records back, in any order and with repetitions, into an empty table of the same size
  gives the document back.\<close>

theorem document_survives_reboot:
  assumes "doc_inv d" "set es = set (doc_entries d)"
    and "\<forall>e \<in> set es. loadable ev (my_scope_locked ev st) e"
    and "cl_doc st = meshtastic_cluster_doc_init (doc_cap d)"
  shows "cl_doc (load_all ev lc (map persist_entry es) st) = d"
  using load_all_replay[of es ev st lc] replay_rebuilds[OF assms(1,2)] assms doc_inv_entry_ok[OF assms(1)]
  by simp

definition ex_env :: cluster_env where
  "ex_env = \<lparr>se_xeddsa = True, se_required = False, se_self = 9, se_own_pub = None, se_pubkey = (\<lambda>_. None),
     se_verify = (\<lambda>_ _ _. False), ev_uptime_ms = 1000, ev_epoch_ms = 5000, ev_now_sec = 1, ev_rand32 = 0,
     ev_tx_pending = False, ev_trusted = (\<lambda>n. n = 7), ev_node_known = (\<lambda>n. n < 16),
     ev_decode_config = (\<lambda>b. Some (Config_display b)), ev_decode_intent = (\<lambda>b. None), ev_crc32 = (\<lambda>c b. c + sum_list (map ucast b)),
     ev_sign = (\<lambda>b. None), cfg_sign = False, cfg_push_interval_ms = 30000, cfg_serve_interval_ms = 2000,
     cfg_digest_period_sec = 300, cfg_sync_timeout_sec = 30, cfg_frag_timeout_sec = 30, cfg_pull_delay_ms = 5000,
     cfg_tx_gap_ms = 2000, cfg_backstop_periods = 4, cfg_peers = 8\<rparr>"

definition ex_lc :: load_cfg where
  "ex_lc = \<lparr>lc_scope_auto = True, lc_max_entries = 3, lc_seal_overhead = 0\<rparr>"

theorem document_survives_reboot_witness:
  "cl_doc (load_all ex_env ex_lc (map persist_entry (rev (doc_entries ex_doc)))
     (meshtastic_cluster_init False False 3 0)) = ex_doc"
proof -
  let ?st = "meshtastic_cluster_init False False 3 0"
  have "\<forall>e \<in> set (rev (doc_entries ex_doc)). loadable ex_env (my_scope_locked ex_env ?st) e" by code_simp
  moreover have "doc_cap ex_doc = 3" by code_simp
  ultimately show ?thesis
    using document_survives_reboot[OF ex_doc_inv(1), of "rev (doc_entries ex_doc)" ex_env ?st ex_lc]
    by (simp add: meshtastic_cluster_init_def)
qed

text \<open>A scope an operator pinned is recorded without the pin: after a reboot of an AUTO build the
  kind is restored and the node is free to narrow it.\<close>

lemma pinned_scope_forgotten:
  assumes "lc_scope_auto lc" "lc_max_entries lc < 2 ^ 16" "kind = SCOPE_CORE \<or> kind = SCOPE_FULL"
  shows "fst (cluster_settings_set ev lc ''scope'' 3 (Inr (persist_scope kind (lc_max_entries lc)))
           (meshtastic_cluster_init False False n t))
         = (meshtastic_cluster_init False False n t)\<lparr>cl_scope_kind := kind\<rparr>
       \<and> \<not> cl_scope_pinned (meshtastic_cluster_init False False n t)"
proof -
  have "unat (of_nat (lc_max_entries lc) :: u16) = lc_max_entries lc" using assms(2) by (simp add: unat_of_nat)
  then show ?thesis
    using assms by (simp add: cluster_settings_set_def load_scope_def persist_scope_def f16.dec_enc
        meshtastic_cluster_init_def compiled_scope_def)
qed

end
