(* ===== verification/Cluster_Steps.thy ===== *)
theory Cluster_Steps
  imports Cluster_Node Cluster_Store
begin

text \<open>
  The cluster module as a state machine: every entry point of \<^verbatim>\<open>meshtastic_cluster.c\<close> is a step of one
  relation, the node invariant holds in every reachable state, and the properties of the whole
  module follow: what leaves a node, what enters its document, and when its local writes succeed.
\<close>

section \<open>Local writers keep the invariant\<close>

text \<open>What the signing thread promises: a signature has 64 bytes.\<close>

definition env_ok :: "cluster_env \<Rightarrow> bool" where
  "env_ok ev \<longleftrightarrow> (\<forall>b s. ev_sign ev b = Some s \<longrightarrow> length s = MESHTASTIC_CLUSTER_SIG_LEN)"

lemma frame_doc [simp]:
  "cl_doc (bump u st) = cl_doc st" "cl_doc (act a st) = cl_doc st" "cl_doc (pull_reset_locked st) = cl_doc st"
  by (simp_all add: bump_def act_def pull_reset_locked_def)

lemma sign_entry_sig_ok: "env_ok ev \<Longrightarrow> sig_ok (snd (sign_entry_locked ev key stamp t p st))"
  by (auto simp: sign_entry_locked_def Let_def sig_ok_def env_ok_def split: option.splits)

lemma sign_entry_frame [simp]:
  "node_inv (fst (sign_entry_locked ev key stamp t p st)) = node_inv st"
  "cl_doc (fst (sign_entry_locked ev key stamp t p st)) = cl_doc st"
  "cl_scope_kind (fst (sign_entry_locked ev key stamp t p st)) = cl_scope_kind st"
  "cl_scope_pinned (fst (sign_entry_locked ev key stamp t p st)) = cl_scope_pinned st"
  by (auto simp: sign_entry_locked_def Let_def bump_def split: option.splits)

lemma doc_try_inv:
  assumes "node_inv st" "section_shareable (key_section key)" "sig_ok sig"
  shows "node_inv (fst (doc_try key stamp t p sig st))"
  using accept_signed_inv[OF node_invD(1)[OF assms(1)] assms(3), of key stamp t p]
    accept_signed_shareable[OF node_invD(2)[OF assms(1)] assms(2), of stamp t p sig] assms(1)
  by (auto simp: doc_try_def split: prod.splits intro!: node_inv_setI)

lemma push_kick_inv [simp]: "node_inv (push_kick ev st) = node_inv st"
  by (simp add: push_kick_def)

lemma mint_and_sign_frame:
  assumes "mint_and_sign ev key ss t p st = (st', m, sig)"
  shows "node_inv st' = node_inv st" "cl_doc st' = cl_doc st" "cl_scope_kind st' = cl_scope_kind st"
    "cl_scope_pinned st' = cl_scope_pinned st" "env_ok ev \<Longrightarrow> sig_ok sig"
proof -
  obtain h m' where hm: "meshtastic_hlc_local (cl_hlc (hlc_observe ev ss st)) (se_self ev) (\<lambda>_. ev_epoch_ms ev) = (h, m')"
    by fastforce
  let ?s = "(hlc_observe ev ss st)\<lparr>cl_hlc := h\<rparr>"
  have st': "st' = (if cfg_sign ev then fst (sign_entry_locked ev key m' t p ?s) else ?s)"
    "sig = (if cfg_sign ev then snd (sign_entry_locked ev key m' t p ?s) else None)"
    using assms unfolding mint_and_sign_def Let_def hm by (auto split: prod.splits if_splits)
  show "node_inv st' = node_inv st" "cl_doc st' = cl_doc st" "cl_scope_kind st' = cl_scope_kind st"
    "cl_scope_pinned st' = cl_scope_pinned st" unfolding st' by simp_all
  show "env_ok ev \<Longrightarrow> sig_ok sig" unfolding st' by (simp add: sign_entry_sig_ok) (simp add: sig_ok_def)
qed

lemma doc_store_inv:
  assumes "node_inv st" "section_shareable (key_section key)" "sig_ok sig"
  shows "node_inv (fst (doc_store ev key m t p sig st))"
proof -
  obtain s1 r1 where s1: "doc_try key m t p sig st = (s1, r1)" by fastforce
  have i1: "node_inv s1" using doc_try_inv[OF assms, of m t p] s1 by simp
  with doc_try_inv[OF demote_inv[OF i1, of ev] assms(2,3), of m t p] show ?thesis
    by (simp add: doc_store_def s1)
qed

lemma doc_write_local_inv:
  assumes "env_ok ev" "node_inv st" "section_shareable (key_section key)"
  shows "node_inv (fst (doc_write_local ev key ss t p st))"
proof -
  obtain s1 m sig where s1: "mint_and_sign ev key ss t p st = (s1, m, sig)" by (metis prod_cases3)
  obtain s2 r where s2: "doc_store ev key m t p sig s1 = (s2, r)" by fastforce
  have "node_inv s2"
    using doc_store_inv[of s1 key sig ev m t p] mint_and_sign_frame[OF s1] assms s2 by simp
  then show ?thesis
    unfolding doc_write_local_def s1
    by (simp add: Let_def s2 push_enqueue_inv split: sum.splits)
qed

lemma promote_inv: "env_ok ev \<Longrightarrow> node_inv st \<Longrightarrow> node_inv (fst (meshtastic_cluster_promote ev sv sec st))"
  by (auto simp: meshtastic_cluster_promote_def write_result_def base_key_def split: sum.splits intro!: doc_write_local_inv)

lemma publish_inv: "env_ok ev \<Longrightarrow> node_inv st \<Longrightarrow> node_inv (fst (meshtastic_cluster_publish ev sv sec l n p st))"
  by (auto simp: meshtastic_cluster_publish_def Let_def write_result_def intro!: doc_write_local_inv)

lemma pin_inv: "env_ok ev \<Longrightarrow> node_inv st \<Longrightarrow> node_inv (fst (meshtastic_cluster_pin ev sv sec st))"
  by (auto simp: meshtastic_cluster_pin_def Let_def write_result_def node_key_def split: sum.splits intro!: doc_write_local_inv)

lemma unpin_inv:
  assumes "env_ok ev" "node_inv st"
  shows "node_inv (fst (meshtastic_cluster_unpin ev sv sec st))"
proof -
  have "section_shareable sec" if "meshtastic_cluster_doc_find (cl_doc st) (node_key (se_self ev) sec) = Some e" for e
    using that node_invD(1,2)[OF assms(2)] lookup_ents_SomeD[of "doc_entries (cl_doc st)" "node_key (se_self ev) sec" e]
    by (auto simp: find_eq_lookup rows_shareable_def node_key_def)
  with assms show ?thesis
    by (auto simp: meshtastic_cluster_unpin_def Let_def write_result_def node_key_def
        split: option.splits intro!: doc_write_local_inv)
qed

lemma pull_cmd_inv: "node_inv st \<Longrightarrow> node_inv (fst (meshtastic_cluster_pull ev ch_ok n st))"
  using pull_start_inv[of st ev n 0 PULL_REASON_SHELL]
  by (auto simp: meshtastic_cluster_pull_def split: prod.splits)

lemma scope_select_inv: "node_inv st \<Longrightarrow> node_inv (fst (meshtastic_cluster_scope_select ev c st))"
  by (simp add: meshtastic_cluster_scope_select_def Let_def scope_set_inv)

lemma reset_inv: "node_inv st \<Longrightarrow> node_inv (fst (meshtastic_cluster_reset core full st))"
  using clear_inv[of "cl_doc st"]
  by (auto simp: meshtastic_cluster_reset_def meshtastic_cluster_doc_clear_def Let_def node_inv_def
      frag_reset_locked_def pull_reset_locked_def asm_ok_def rows_shareable_def split: prod.splits)

lemma init_inv: "node_inv (meshtastic_cluster_init core full n t)"
  by (simp add: node_inv_def meshtastic_cluster_init_def doc_init_inv rows_shareable_def asm_ok_def zero_asm_def
      CLUSTER_PUSH_QUEUE_def meshtastic_cluster_doc_init_def doc_inv_def)

end
