(* ===== verification/Cluster_Machine.thy ===== *)
theory Cluster_Machine
  imports Cluster_Steps
begin

text \<open>
  The cluster module of \<^verbatim>\<open>meshtastic_cluster.c\<close> as a state machine.  A step is one call of an entry
  point under some environment: a received packet, a run of the transmit or digest worker, a local
  writer, a shell command, or a record loaded from flash.  The label is the frame the step hands to
  the radio, if any.  The invariant of the node holds in every reachable state, and every frame that
  leaves it is well formed and mentions shareable sections only.
\<close>

section \<open>Steps\<close>

inductive cluster_step :: "cluster \<Rightarrow> (u32 \<times> zephyrtastic_ClusterMessage) option \<Rightarrow> cluster \<Rightarrow> bool" where
  Packet: "(\<And>m. decoded = Some m \<Longrightarrow> msg_wf m) \<Longrightarrow> cluster_step st None (cluster_on_packet ev ch from ci pki decoded st)"
| Tx_Work: "tx_work_fn ev ch_ok st = (st', out, again) \<Longrightarrow> cluster_step st out st'"
| Digest_Work: "digest_work_fn ev ch_ok sent st = (st', out, delay) \<Longrightarrow>
    cluster_step st (map_option (Pair MESHTASTIC_NODE_BROADCAST) out) st'"
| Promote: "env_ok ev \<Longrightarrow> cluster_step st None (fst (meshtastic_cluster_promote ev sv sec st))"
| Publish: "env_ok ev \<Longrightarrow> cluster_step st None (fst (meshtastic_cluster_publish ev sv sec layer n payload st))"
| Pin: "env_ok ev \<Longrightarrow> cluster_step st None (fst (meshtastic_cluster_pin ev sv sec st))"
| Unpin: "env_ok ev \<Longrightarrow> cluster_step st None (fst (meshtastic_cluster_unpin ev sv sec st))"
| Pull: "cluster_step st None (fst (meshtastic_cluster_pull ev ch_ok n st))"
| Scope_Select: "cluster_step st None (fst (meshtastic_cluster_scope_select ev choice st))"
| Reset: "cluster_step st None (fst (meshtastic_cluster_reset core full st))"
| Load: "cluster_step st None (fst (cluster_settings_set ev lc key len got st))"
| Reconcile: "reconcile_work_fn ev ge (st, cs, mt) = (st', cs', mt') \<Longrightarrow> cluster_step st None st'"

inductive_cases cluster_step_frame: "cluster_step st (Some out) st'"

inductive cluster_reach :: "cluster \<Rightarrow> bool" where
  Boot: "cluster_reach (meshtastic_cluster_init core full n t)"
| Step: "cluster_reach st \<Longrightarrow> cluster_step st out st' \<Longrightarrow> cluster_reach st'"

section \<open>The invariant holds in every reachable state\<close>

lemma load_row_inv:
  assumes inv: "node_inv st" and sh: "section_shareable (key_section k)" and sig: "sig_ok sig"
  shows "node_inv (st\<lparr>cl_doc := fst (meshtastic_cluster_doc_accept_signed (cl_doc st) k s t p sig)\<rparr>)"
  using accept_signed_inv[OF node_invD(1)[OF inv] sig, of k s t p]
    accept_signed_shareable[OF node_invD(2)[OF inv] sh, of s t p sig] inv
  by (simp add: node_inv_setI)

lemma load_scope_inv: "node_inv st \<Longrightarrow> node_inv (fst (load_scope lc got st))"
  by (auto simp: load_scope_def Let_def split: sum.splits)

lemma load_inv: "node_inv st \<Longrightarrow> node_inv (fst (cluster_settings_set ev lc key len got st))"
  by (auto simp: cluster_settings_set_def Let_def sig_ok_def load_scope_inv
      split: option.splits sum.splits prod.splits intro!: load_row_inv)

lemma reconcile_section_inv: "node_inv (fst (reconcile_section ev ge sec r)) = node_inv (fst r)"
  by (cases r) (auto simp: reconcile_section_def Let_def split: option.splits prod.splits)

lemma reconcile_inv: "node_inv (fst (reconcile_work_fn ev ge r)) = node_inv (fst r)"
proof -
  have "node_inv (fst (fold (reconcile_section ev ge) secs r)) = node_inv (fst r)" for secs
    by (induction secs arbitrary: r) (simp_all add: reconcile_section_inv)
  then show ?thesis by (simp add: reconcile_work_fn_def)
qed

lemma step_inv: "cluster_step st out st' \<Longrightarrow> node_inv st \<Longrightarrow> node_inv st'"
proof (induction rule: cluster_step.induct)
  case (Tx_Work ev ch_ok st st' out again)
  then show ?case using tx_work_inv[of st ev ch_ok] by simp
next
  case (Digest_Work ev ch_ok sent st st' out delay)
  then show ?case using digest_work_inv[of st ev ch_ok sent] by simp
next
  case (Reconcile ev ge st cs mt st' cs' mt')
  then show ?case using reconcile_inv[of ev ge "(st, cs, mt)"] by simp
qed (auto simp: on_packet_inv promote_inv publish_inv pin_inv unpin_inv pull_cmd_inv scope_select_inv reset_inv load_inv)

lemma reach_inv: "cluster_reach st \<Longrightarrow> node_inv st"
  by (induction rule: cluster_reach.induct) (auto simp: init_inv intro: step_inv)

section \<open>Frames\<close>

text \<open>The keys a message names, and what a frame must satisfy: it fits the sizes of
  \<^verbatim>\<open>cluster.options\<close>, and a receiver reads only shareable sections from it.\<close>

definition msg_keys :: "zephyrtastic_ClusterMessage \<Rightarrow> zephyrtastic_ClusterKey list" where
  "msg_keys m =
     (case m of
        Msg_Entry e \<Rightarrow> (case ce_key e of Some k \<Rightarrow> [k] | None \<Rightarrow> [])
      | Msg_Vector v \<Rightarrow> List.map_filter ks_key (vc_entries v)
      | Msg_Entry_Req ks \<Rightarrow> ks
      | _ \<Rightarrow> [])"

definition frame_ok :: "zephyrtastic_ClusterMessage \<Rightarrow> bool" where
  "frame_ok m \<longleftrightarrow> msg_wf m \<and> list_all (\<lambda>k. section_shareable (key_section (key_from_pb k))) (msg_keys m)"

lemma key_section_pb [simp]: "key_section (key_from_pb (key_to_pb k)) = key_section k"
  by (simp add: key_from_pb_def key_to_pb_def)

lemma frag_take_le: "meshtastic_cluster_frag_take len off cap = (n, off') \<Longrightarrow> n \<le> cap"
  by (auto simp: meshtastic_cluster_frag_take_def Let_def min_def split: if_splits)

lemma frag_frame_ok:
  assumes "entry_ok e" "section_shareable (key_section (ent_key e))" "entry_to_pb_frag e off = (pb, o1, o2)"
  shows "frame_ok (Msg_Entry pb)"
proof -
  obtain n off' where t: "meshtastic_cluster_frag_take (ent_payload_len e) off (of_nat MESHTASTIC_CLUSTER_FRAG_MAX) = (n, off')"
    by fastforce
  have "unat n \<le> MESHTASTIC_CLUSTER_FRAG_MAX"
    using frag_take_le[OF t] by (simp add: MESHTASTIC_CLUSTER_FRAG_MAX_def word_le_nat_alt)
  with assms t show ?thesis
    by (auto simp: frame_ok_def msg_wf_def msg_keys_def entry_to_pb_frag_def entry_ok_def Let_def)
qed

lemma find_in_doc: "doc_inv d \<Longrightarrow> meshtastic_cluster_doc_find d k = Some e \<Longrightarrow> e \<in> set (doc_entries d)"
  using lookup_ents_SomeD[of "doc_entries d" k e] by (auto simp: find_eq_lookup)

lemma found_frame_ok:
  assumes "node_inv st" "meshtastic_cluster_doc_find (cl_doc st) k = Some e" "entry_to_pb_frag e off = (pb, o1, o2)"
  shows "frame_ok (Msg_Entry pb)"
proof -
  have "entry_ok e" "e \<in> set (doc_entries (cl_doc st))"
    using find_entry_ok[OF node_invD(1)[OF assms(1)] assms(2)] find_in_doc[OF node_invD(1)[OF assms(1)] assms(2)] by auto
  then show ?thesis
    using frag_frame_ok[OF _ _ assms(3)] node_invD(2)[OF assms(1)] by (simp add: rows_shareable_def)
qed

lemma entry_step_frame: "node_inv st \<Longrightarrow> tx_entry_step st = (st', Some (d, m)) \<Longrightarrow> frame_ok m"
proof (induction st rule: tx_entry_step.induct)
  case (1 st)
  then show ?case
    using found_frame_ok[OF 1(2)] by (subst (asm) (2) tx_entry_step.simps)
      (auto simp: Let_def split: if_splits option.splits prod.splits)
qed

lemma push_step_frame: "node_inv st \<Longrightarrow> tx_push_step st = (st', Some (d, m)) \<Longrightarrow> frame_ok m"
proof (induction st rule: tx_push_step.induct)
  case (1 st)
  then show ?case
    using found_frame_ok[OF 1(2)] push_advance_inv[OF 1(2)] by (subst (asm) (2) tx_push_step.simps)
      (auto simp: Let_def split: if_splits option.splits prod.splits)
qed

lemma vec_walk_frame:
  assumes "vec_walk want es off rows = (rows', off')" "\<forall>e \<in> set es. section_shareable (key_section (ent_key e))"
    and "length rows \<le> CLUSTER_VECTOR_ROWS"
    and "list_all (\<lambda>k. section_shareable (key_section (key_from_pb k))) (List.map_filter ks_key rows)"
  shows "length rows' \<le> CLUSTER_VECTOR_ROWS
     \<and> list_all (\<lambda>k. section_shareable (key_section (key_from_pb k))) (List.map_filter ks_key rows')"
  using assms
  by (induction want es off rows rule: vec_walk.induct) (auto simp: List.map_filter_def split: if_splits)

lemma vector_step_frame:
  assumes "node_inv st" "tx_vector_step st = (st', (d, m))"
  shows "frame_ok m"
proof -
  let ?want = "meshtastic_cluster_scope_make (cl_vec_scope_kind st) (cl_vec_dest st)"
  obtain rows off where w: "vec_walk ?want (drop (cl_vec_offset st) (doc_entries (cl_doc st))) (cl_vec_offset st) [] = (rows, off)"
    by fastforce
  have "\<forall>e \<in> set (drop (cl_vec_offset st) (doc_entries (cl_doc st))). section_shareable (key_section (ent_key e))"
    using node_invD(2)[OF assms(1)] set_drop_subset by (fastforce simp: rows_shareable_def)
  from vec_walk_frame[OF w this] assms(2) w show ?thesis
    by (auto simp: tx_vector_step_def Let_def frame_ok_def msg_wf_def msg_keys_def List.map_filter_def)
qed

lemma next_frame:
  assumes "node_inv st" "tx_next_locked ev st = (st', Some (d, m))"
  shows "frame_ok m"
proof -
  obtain st1 out where s: "tx_entry_step st = (st1, out)" by fastforce
  have i1: "node_inv st1" using tx_entry_step_inv[OF assms(1)] s by simp
  show ?thesis
    using assms(2) entry_step_frame[OF assms(1), of st1] vector_step_frame[OF i1] push_step_frame[OF i1]
      node_invD(6,7)[OF i1]
    by (auto simp: tx_next_locked_def s Let_def frame_ok_def msg_wf_def msg_keys_def list_all_iff
        split: option.splits if_splits prod.splits)
qed

lemma step_frame: "cluster_step st (Some (d, m)) st' \<Longrightarrow> node_inv st \<Longrightarrow> frame_ok m"
proof (erule cluster_step_frame)
  fix ev ch_ok again
  assume inv: "node_inv st" and t: "tx_work_fn ev ch_ok st = (st', Some (d, m), again)"
  let ?st = "if cl_pull_state st = PULL_AWAIT_VECTOR \<and> ev_uptime_ms ev > cl_pull_deadline_ms st
                  then pull_reset_locked (bump pull_timed_out_update st) else st"
  have "node_inv ?st" using inv by (simp add: pull_reset_inv)
  moreover have "\<exists>s. tx_next_locked ev ?st = (s, Some (d, m))"
    using t by (auto simp: tx_work_fn_def Let_def split: if_splits prod.splits option.splits)
  ultimately show ?thesis using next_frame by blast
qed (auto simp: digest_work_fn_def frame_ok_def msg_wf_def msg_keys_def split: if_splits)

section \<open>Properties\<close>

text \<open>C9. In every state a node can reach from boot, through received packets, worker runs, local
  writes, commands, loads from flash and reconciler passes in any order, the document is sorted,
  within capacity and holds valid shareable rows, and every queue, bucket, key list and reassembly
  buffer is within its bounds; and every frame the node hands to the radio fits the message sizes
  and names only shareable sections.\<close>

theorem cluster_reachable_safe:
  assumes "cluster_reach st"
  shows "node_inv st \<and> (\<forall>d m st'. cluster_step st (Some (d, m)) st' \<longrightarrow> frame_ok m)"
  using reach_inv[OF assms] step_frame by blast

theorem cluster_reachable_safe_witness:
  "\<exists>st st' d m. cluster_reach st \<and> node_inv st \<and> cluster_step st (Some (d, m)) st' \<and> frame_ok m"
proof -
  let ?st = "meshtastic_cluster_init False False 8 0"
  obtain st' out delay where w: "digest_work_fn ex_env True True ?st = (st', Some out, delay)"
    by (simp add: digest_work_fn_def)
  have r: "cluster_reach ?st" by (rule cluster_reach.Boot)
  have s: "cluster_step ?st (Some (MESHTASTIC_NODE_BROADCAST, out)) st'"
    using cluster_step.Digest_Work[OF w] by simp
  from cluster_reachable_safe[OF r] r s show ?thesis by blast
qed

end
