(* ===== verification/Cluster_Exchange.thy ===== *)
theory Cluster_Exchange
  imports Cluster_Machine
begin

text \<open>
  The exchange of entries between two nodes of \<^verbatim>\<open>meshtastic_cluster.c\<close>: the frames a stored row is
  sent as, the runs of the transmit worker that answer a request, the delivery of the frames to a
  receiver, and the gates a row passes before it enters the receiver's document.
\<close>

section \<open>The frames of a row\<close>

text \<open>A payload of at most \<^const>\<open>MESHTASTIC_CLUSTER_PAYLOAD_MAX\<close> bytes takes one or two fragments.\<close>

definition entry_frames :: "meshtastic_cluster_entry \<Rightarrow> zephyrtastic_ClusterEntry list" where
  "entry_frames e =
     (let (f0, _, n0) = entry_to_pb_frag e 0
      in if n0 \<ge> ent_payload_len e then [f0] else [f0, fst (entry_to_pb_frag e n0)])"

definition author_sig_of :: "meshtastic_cluster_entry \<Rightarrow> bytes" where
  "author_sig_of e = (if ent_has_sig e then ent_sig e else [])"

definition frame_of :: "meshtastic_cluster_entry \<Rightarrow> nat \<Rightarrow> bytes \<Rightarrow> bytes \<Rightarrow> zephyrtastic_ClusterEntry" where
  "frame_of e off p sig =
     \<lparr>ce_key = Some (key_to_pb (ent_key e)), ce_stamp = Some (stamp_to_pb (ent_stamp e)), ce_tombstone = ent_tombstone e,
      ce_payload = p, ce_payload_total = of_nat (length (ent_payload e)), ce_frag_offset = of_nat off, ce_author_sig = sig\<rparr>"

lemma entry_ok_len:
  assumes "entry_ok e"
  shows "length (ent_payload e) \<le> 128" "unat (ent_payload_len e) = length (ent_payload e)"
    "(ucast (ent_payload_len e) :: u32) = of_nat (length (ent_payload e))"
proof -
  show l: "length (ent_payload e) \<le> 128"
    using assms by (simp add: entry_ok_def write_ok_def MESHTASTIC_CLUSTER_PAYLOAD_MAX_def)
  show u: "unat (ent_payload_len e) = length (ent_payload e)"
    using assms l by (simp add: entry_ok_def unat_of_nat)
  have "(ucast (ent_payload_len e) :: u32) = of_nat (unat (ent_payload_len e))" by simp
  then show "(ucast (ent_payload_len e) :: u32) = of_nat (length (ent_payload e))" by (simp only: u)
qed

lemma frag_short:
  assumes "entry_ok e" "length (ent_payload e) \<le> 88"
  shows "entry_to_pb_frag e 0 = (frame_of e 0 (ent_payload e) (author_sig_of e), 0, ent_payload_len e)"
proof -
  note l = entry_ok_len[OF assms(1)]
  have "ent_payload_len e \<le> 88" using l(2) assms(2) by (simp add: word_le_nat_alt)
  then have "ent_payload_len e < 88 \<or> ent_payload_len e = 88" by (auto simp: word_le_less_eq)
  then show ?thesis using assms(2) l(2)
    by (auto simp: entry_to_pb_frag_def meshtastic_cluster_frag_take_def MESHTASTIC_CLUSTER_FRAG_MAX_def Let_def
        frame_of_def author_sig_of_def l)
qed

lemma frag_long:
  assumes "entry_ok e" "length (ent_payload e) > 88"
  shows "entry_to_pb_frag e 0 = (frame_of e 0 (take 88 (ent_payload e)) [], 0, 88)"
    and "entry_to_pb_frag e 88 = (frame_of e 88 (drop 88 (ent_payload e)) (author_sig_of e), 88, ent_payload_len e)"
    and "88 < ent_payload_len e"
proof -
  note l = entry_ok_len[OF assms(1)]
  show gt: "88 < ent_payload_len e" using l(2) assms(2) by (simp add: word_less_nat_alt)
  then have ng: "\<not> ent_payload_len e < 88" by (simp add: not_less word_le_less_eq)
  with gt show "entry_to_pb_frag e 0 = (frame_of e 0 (take 88 (ent_payload e)) [], 0, 88)"
    using assms(2) by (simp add: entry_to_pb_frag_def meshtastic_cluster_frag_take_def MESHTASTIC_CLUSTER_FRAG_MAX_def Let_def
        frame_of_def l)
  have u: "unat (ent_payload_len e - 88) = length (ent_payload e) - 88"
    using gt l(2) by (simp add: unat_sub word_le_less_eq)
  then have "ent_payload_len e - 88 < 88" using l(1) by (simp add: word_less_nat_alt)
  then show "entry_to_pb_frag e 88 = (frame_of e 88 (drop 88 (ent_payload e)) (author_sig_of e), 88, ent_payload_len e)"
    using gt ng u assms(2) by (simp add: entry_to_pb_frag_def meshtastic_cluster_frag_take_def MESHTASTIC_CLUSTER_FRAG_MAX_def Let_def
        frame_of_def author_sig_of_def l)
qed

lemma entry_frames_eq:
  assumes "entry_ok e"
  shows "entry_frames e =
     (if length (ent_payload e) \<le> 88 then [frame_of e 0 (ent_payload e) (author_sig_of e)]
      else [frame_of e 0 (take 88 (ent_payload e)) [], frame_of e 88 (drop 88 (ent_payload e)) (author_sig_of e)])"
  using frag_short[OF assms] frag_long[OF assms] by (auto simp: entry_frames_def not_le)

section \<open>Answering a request\<close>

text \<open>Runs of the transmit worker on a working channel, one per environment.\<close>

fun tx_works :: "cluster_env list \<Rightarrow> cluster \<Rightarrow> (u32 \<times> zephyrtastic_ClusterMessage) option list" where
  "tx_works [] st = []"
| "tx_works (ev # evs) st =
     (let (st', out, _) = tx_work_fn ev True st in out # tx_works evs st')"

text \<open>The cursor of the entry transmission, and the frames it has left to send.\<close>

definition cursor_ok :: "cluster \<Rightarrow> bool" where
  "cursor_ok st \<longleftrightarrow> cl_ent_frag_off st = 0 \<or>
     (cl_ent_frag_off st = 88 \<and> cl_ent_next st < length (cl_ent_keys st)
      \<and> (\<exists>e. meshtastic_cluster_doc_find (cl_doc st) (cl_ent_keys st ! cl_ent_next st) = Some e
            \<and> length (ent_payload e) > 88))"

definition row_frames :: "meshtastic_cluster_doc \<Rightarrow> meshtastic_cluster_key \<Rightarrow> zephyrtastic_ClusterEntry list" where
  "row_frames d k = (case meshtastic_cluster_doc_find d k of None \<Rightarrow> [] | Some e \<Rightarrow> entry_frames e)"

definition pending :: "cluster \<Rightarrow> zephyrtastic_ClusterEntry list" where
  "pending st =
     drop (if cl_ent_frag_off st = 0 then 0 else 1)
       (concat (map (row_frames (cl_doc st)) (drop (cl_ent_next st) (cl_ent_keys st))))"

lemma advance_pending:
  "pending (ent_advance_locked st) = concat (map (row_frames (cl_doc st)) (drop (Suc (cl_ent_next st)) (cl_ent_keys st)))"
  "cursor_ok (ent_advance_locked st)"
  by (simp_all add: pending_def cursor_ok_def ent_advance_locked_def Let_def)

lemma advance_dest: "pending (ent_advance_locked st) \<noteq> [] \<Longrightarrow> cl_ent_dest (ent_advance_locked st) = cl_ent_dest st"
  unfolding advance_pending by (auto simp: ent_advance_locked_def Let_def)

lemma advance_off [simp]: "ent_advance_locked (st\<lparr>cl_ent_frag_off := x\<rparr>) = ent_advance_locked st"
  by (simp add: ent_advance_locked_def Let_def)

lemma advance_doc [simp]: "cl_doc (ent_advance_locked st) = cl_doc st"
  by (simp add: ent_advance_locked_def Let_def)

lemma pending_bump [simp]:
  "pending (bump u st) = pending st" "cursor_ok (bump u st) = cursor_ok st" "cl_ent_dest (bump u st) = cl_ent_dest st"
  by (simp_all add: pending_def cursor_ok_def bump_def)

lemma pending_split:
  assumes "cl_ent_next st < length (cl_ent_keys st)"
  shows "pending st = drop (if cl_ent_frag_off st = 0 then 0 else 1)
     (row_frames (cl_doc st) (cl_ent_keys st ! cl_ent_next st) @ pending (ent_advance_locked st))"
  using Cons_nth_drop_Suc[OF assms, symmetric] by (simp add: pending_def[of st] advance_pending)

text \<open>One step of the entry transmission sends the next pending frame of a present row.\<close>

lemma entry_step_found:
  assumes e: "entry_ok e" and c: "cursor_ok st" and d: "cl_ent_dest st \<noteq> 0"
    and lt: "cl_ent_next st < length (cl_ent_keys st)"
    and found: "meshtastic_cluster_doc_find (cl_doc st) (cl_ent_keys st ! cl_ent_next st) = Some e"
    and p: "pending st = f # fs"
  shows "\<exists>st'. tx_entry_step st = (st', Some (cl_ent_dest st, Msg_Entry f)) \<and> cursor_ok st' \<and> pending st' = fs
     \<and> (fs \<noteq> [] \<longrightarrow> cl_ent_dest st' = cl_ent_dest st)"
proof (cases "length (ent_payload e) > 88 \<and> cl_ent_frag_off st = 0")
  case True
  note l = frag_long[OF e conjunct1[OF True]]
  let ?st = "st\<lparr>cl_ent_frag_off := 88\<rparr>"
  have "tx_entry_step st = (bump entry_tx_update ?st, Some (cl_ent_dest st, Msg_Entry (frame_of e 0 (take 88 (ent_payload e)) [])))"
    using d lt found True l by (subst tx_entry_step.simps) (simp add: Let_def not_le[symmetric])
  moreover have "cursor_ok ?st" using lt found True by (auto simp: cursor_ok_def)
  moreover have "pending ?st = fs \<and> f = frame_of e 0 (take 88 (ent_payload e)) []"
    using p found True lt pending_split[of st] pending_split[of ?st] entry_frames_eq[OF e]
    by (simp add: row_frames_def advance_pending)
  ultimately show ?thesis by (intro exI[of _ "bump entry_tx_update ?st"]) simp
next
  case False
  let ?st = "ent_advance_locked st"
  have off: "entry_to_pb_frag e (cl_ent_frag_off st) = (last (entry_frames e), cl_ent_frag_off st, ent_payload_len e)
      \<and> drop (if cl_ent_frag_off st = 0 then 0 else 1) (entry_frames e) = [last (entry_frames e)] \<and> entry_frames e \<noteq> []"
    using False c found frag_short[OF e] frag_long[OF e] entry_frames_eq[OF e] by (auto simp: cursor_ok_def not_less)
  have step: "tx_entry_step st = (bump entry_tx_update ?st, Some (cl_ent_dest st, Msg_Entry (last (entry_frames e))))"
    using d lt found off by (subst tx_entry_step.simps) (simp add: Let_def)
  have ne: "entry_frames e \<noteq> []" using off by blast
  have "pending st = drop (if cl_ent_frag_off st = 0 then 0 else 1) (entry_frames e) @ pending ?st"
    using pending_split[OF lt] found ne by (cases "entry_frames e") (auto simp: row_frames_def)
  then have "f = last (entry_frames e) \<and> pending ?st = fs" using p off by simp
  then show ?thesis
    using step advance_pending(2)[of st] advance_dest[of st] by (intro exI[of _ "bump entry_tx_update ?st"]) simp
qed

lemma entry_step_pending:
  assumes "node_inv st" "cursor_ok st" "cl_ent_dest st \<noteq> 0" "pending st = f # fs"
  shows "\<exists>st'. tx_entry_step st = (st', Some (cl_ent_dest st, Msg_Entry f)) \<and> cursor_ok st' \<and> pending st' = fs
     \<and> (fs \<noteq> [] \<longrightarrow> cl_ent_dest st' = cl_ent_dest st)"
  using assms
proof (induction st rule: tx_entry_step.induct)
  case (1 st)
  have lt: "cl_ent_next st < length (cl_ent_keys st)"
    using 1(5) by (rule_tac ccontr) (simp add: pending_def not_less)
  show ?case
  proof (cases "meshtastic_cluster_doc_find (cl_doc st) (cl_ent_keys st ! cl_ent_next st)")
    case None
    then have p: "pending (ent_advance_locked st) = f # fs"
      using 1(3,5) pending_split[OF lt] by (auto simp: cursor_ok_def row_frames_def)
    then have dest: "cl_ent_dest (ent_advance_locked st) = cl_ent_dest st" using advance_dest[of st] by simp
    from 1(1)[OF conjI[OF 1(4) lt] None] 1(2,4) p dest lt None advance_pending(2)[of st] show ?thesis
      by (subst tx_entry_step.simps) simp
  next
    case (Some e)
    then show ?thesis
      using entry_step_found[OF _ 1(3,4) lt Some 1(5)] find_entry_ok[OF node_invD(1)[OF 1(2)] Some] by simp
  qed
qed

lemma work_pending:
  assumes "node_inv st" "cursor_ok st" "cl_ent_dest st \<noteq> 0" "pending st = f # fs"
  shows "\<exists>st' gap. tx_work_fn ev True st = (st', Some (cl_ent_dest st, Msg_Entry f), gap) \<and> cursor_ok st'
     \<and> pending st' = fs \<and> (fs \<noteq> [] \<longrightarrow> cl_ent_dest st' = cl_ent_dest st)"
proof -
  let ?st = "if cl_pull_state st = PULL_AWAIT_VECTOR \<and> ev_uptime_ms ev > cl_pull_deadline_ms st
                  then pull_reset_locked (bump pull_timed_out_update st) else st"
  have "node_inv ?st" "cursor_ok ?st" "cl_ent_dest ?st = cl_ent_dest st" "pending ?st = f # fs"
    using assms by (simp_all add: pull_reset_inv) (simp_all add: cursor_ok_def pending_def pull_reset_locked_def bump_def)
  with entry_step_pending[of ?st f fs] assms(3) show ?thesis
    by (auto simp: tx_work_fn_def tx_next_locked_def Let_def)
qed

lemma works_pending:
  assumes "node_inv st" "cursor_ok st" "cl_ent_dest st \<noteq> 0" "length evs = length (pending st)"
  shows "tx_works evs st = map (\<lambda>f. Some (cl_ent_dest st, Msg_Entry f)) (pending st)"
  using assms
proof (induction evs arbitrary: st)
  case (Cons ev evs)
  then obtain f fs where p: "pending st = f # fs" by (cases "pending st") auto
  obtain st' gap where s: "tx_work_fn ev True st = (st', Some (cl_ent_dest st, Msg_Entry f), gap)" "cursor_ok st'"
    "pending st' = fs" "fs \<noteq> [] \<longrightarrow> cl_ent_dest st' = cl_ent_dest st"
    using work_pending[OF Cons(2,3,4) p] by blast
  have i: "node_inv st'" using tx_work_inv[OF Cons(2), of ev True] s(1) by simp
  show ?case
  proof (cases fs)
    case Nil
    with s(1) p Cons(5) show ?thesis by simp
  next
    case (Cons g gs)
    with Cons.IH[OF i s(2)] s p Cons.prems(3,4) show ?thesis by simp
  qed
qed simp

section \<open>Delivery\<close>

text \<open>The frames arrive at the given uptimes; the rest of the receiver's environment is unchanged.\<close>

fun deliver :: "cluster_env \<Rightarrow> u32 \<Rightarrow> (int \<times> zephyrtastic_ClusterEntry) list \<Rightarrow> cluster \<Rightarrow> cluster" where
  "deliver ev from [] st = st"
| "deliver ev from ((t, f) # fs) st = deliver ev from fs (on_entry (ev\<lparr>ev_uptime_ms := t\<rparr>) from f st)"

text \<open>The gates that look at the key and the stamp of a row.\<close>

definition admits :: "cluster_env \<Rightarrow> cluster \<Rightarrow> meshtastic_cluster_key \<Rightarrow> meshtastic_hlc_stamp \<Rightarrow> bool" where
  "admits ev st key stamp \<longleftrightarrow>
     section_shareable (key_section key) \<and> meshtastic_cluster_scope_contains (my_scope_locked ev st) key
     \<and> entry_authorized ev key stamp \<and> stamp_within_horizon ev stamp
     \<and> (key_layer key = LAYER_NODE \<longrightarrow> node_owner_is_known ev (key_node_id key))"

lemma admits_uptime [simp]: "admits (ev\<lparr>ev_uptime_ms := t\<rparr>) st key stamp = admits ev st key stamp"
  by (simp add: admits_def my_scope_locked_def entry_authorized_def stamp_within_horizon_def node_owner_is_known_def
      author_is_master_def Let_def)

lemma payload_uptime [simp]:
  "payload_is_its_section (ev\<lparr>ev_uptime_ms := t\<rparr>) sec p tomb = payload_is_its_section ev sec p tomb"
  "entry_signature_ok (ev\<lparr>ev_uptime_ms := t\<rparr>) key stamp tomb a p = entry_signature_ok ev key stamp tomb a p"
  by (simp_all add: payload_is_its_section_def private_payload_is_valid_def entry_signature_ok_def Let_def cong: option.case_cong)

lemma admits_cong: "cl_scope_kind st' = cl_scope_kind st \<Longrightarrow> admits ev st' key stamp = admits ev st key stamp"
  by (simp add: admits_def my_scope_locked_def)

lemma frag_fits_frame:
  assumes "off + l \<le> len" "len \<le> 128" "l \<le> 88"
  shows "meshtastic_cluster_frag_fits (of_nat len) (of_nat off) (of_nat l)
      (of_nat MESHTASTIC_CLUSTER_PAYLOAD_MAX) (of_nat MESHTASTIC_CLUSTER_FRAG_MAX) = (True, of_nat len)"
proof -
  have u: "unat (of_nat n :: u32) = n" "(ucast (of_nat n :: u32) :: u64) = of_nat n" "unat (of_nat n :: u64) = n"
    if "n \<le> 128" for n
  proof -
    show n: "unat (of_nat n :: u32) = n" "unat (of_nat n :: u64) = n" using that by (simp_all add: unat_of_nat)
    show "(ucast (of_nat n :: u32) :: u64) = of_nat n" by (metis n(1) of_nat_unat)
  qed
  have z: "(of_nat len = (0::u32)) = (len = 0)" using u(1)[OF assms(2)] by (cases "len = 0") auto
  have "(of_nat len :: u32) \<le> of_nat 128" "(of_nat l :: u32) \<le> of_nat 88"
    "(of_nat off + of_nat l :: u64) \<le> of_nat len"
    using assms u[of len] u[of l] u[of "off + l"] by (simp_all add: word_le_nat_alt)
  with assms u[of len] u[of l] u[of off] z show ?thesis
    by (auto simp: meshtastic_cluster_frag_fits_def Let_def MESHTASTIC_CLUSTER_PAYLOAD_MAX_def MESHTASTIC_CLUSTER_FRAG_MAX_def)
qed

lemma frame_of_simps [simp]:
  "ce_key (frame_of e off p sig) = Some (key_to_pb (ent_key e))" "ce_stamp (frame_of e off p sig) = Some (stamp_to_pb (ent_stamp e))"
  "ce_tombstone (frame_of e off p sig) = ent_tombstone e" "ce_payload (frame_of e off p sig) = p"
  "ce_payload_total (frame_of e off p sig) = of_nat (length (ent_payload e))"
  "ce_frag_offset (frame_of e off p sig) = of_nat off" "ce_author_sig (frame_of e off p sig) = sig"
  by (simp_all add: frame_of_def)

lemma on_entry_frame:
  assumes "entry_ok e" "admits ev st (ent_key e) (ent_stamp e)"
  shows "on_entry ev from (frame_of e off p sig) st =
     (let (st, whole) = reassemble_entry ev from (frame_of e off p sig) (ent_key e) (ent_stamp e) st
      in case whole of
           None \<Rightarrow> st
         | Some payload \<Rightarrow>
             if \<not> payload_is_its_section ev (key_section (ent_key e)) payload (ent_tombstone e) then refuse_entry ev st
             else
               let (v, sg) = entry_signature_ok ev (ent_key e) (ent_stamp e) (ent_tombstone e) sig payload;
                   st = sig_account ev v st
               in if \<not> meshtastic_cluster_sig_accepts v then st
                  else entry_merge ev (ent_key e) (ent_stamp e) (ent_tombstone e) payload sg st)"
proof -
  have k: "key_from_pb (key_to_pb (ent_key e)) = ent_key e"
    using assms(1) valid_key_layer by (intro key_pb_roundtrip) (auto simp: entry_ok_def write_ok_def)
  obtain st1 whole where r: "reassemble_entry ev from (frame_of e off p sig) (ent_key e) (ent_stamp e) st = (st1, whole)"
    by fastforce
  show ?thesis using assms(2) by (cases whole) (auto simp: on_entry_def k admits_def r Let_def split: prod.split)
qed

text \<open>A whole payload in one frame, and the two fragments of a longer one.\<close>

lemma reassemble_whole:
  assumes "entry_ok e" "length (ent_payload e) \<le> 88"
  shows "reassemble_entry ev from (frame_of e 0 (ent_payload e) sig) key stamp st = (st, Some (ent_payload e))"
  using frag_fits_frame[of 0 "length (ent_payload e)" "length (ent_payload e)"] assms(2)
  by (simp add: reassemble_entry_def unat_of_nat)

lemma reassemble_first:
  assumes "entry_ok e" "length (ent_payload e) > 88" "asm_ok (cl_asm_rx st)"
    and "\<not> asm_matches (cl_asm_rx st) from key stamp (ent_tombstone e) (length (ent_payload e))"
    and "reassemble_entry ev from (frame_of e 0 (take 88 (ent_payload e)) sig) key stamp st = (st', whole)"
  shows "whole = None \<and> asm_matches (cl_asm_rx st') from key stamp (ent_tombstone e) (length (ent_payload e))
     \<and> asm_have (cl_asm_rx st') = 88 \<and> take 88 (asm_buf (cl_asm_rx st')) = take 88 (ent_payload e)
     \<and> length (asm_buf (cl_asm_rx st')) = 128
     \<and> asm_deadline_ms (cl_asm_rx st') = ev_uptime_ms ev + cfg_frag_timeout_sec ev * 1000
     \<and> cl_doc st' = cl_doc st \<and> cl_scope_kind st' = cl_scope_kind st"
proof -
  let ?n = "length (ent_payload e)"
  have n: "?n \<le> 128" "unat (of_nat ?n :: u32) = ?n" using entry_ok_len(1)[OF assms(1)] by (simp_all add: unat_of_nat)
  have "\<not> asm_matches (cl_asm_rx (asm_expire ev st)) from key stamp (ent_tombstone e) ?n"
    using assms(4) by (simp add: asm_expire_def bump_def asm_matches_def)
  then have "(st', whole) = asm_take ev 0 (take 88 (ent_payload e)) ?n (asm_open from key stamp (ent_tombstone e) ?n (asm_expire ev st))"
    using assms(2,5) frag_fits_frame[of 0 88 ?n] n by (simp add: reassemble_entry_def min_def Let_def)
  moreover have "length (asm_buf (cl_asm_rx st)) = 128" using assms(3) by (simp add: asm_ok_def MESHTASTIC_CLUSTER_PAYLOAD_MAX_def)
  ultimately show ?thesis using assms(2)
    by (simp add: asm_take_def asm_open_def asm_expire_def bump_def Let_def asm_matches_def min_def
        key_order.cmp_refl hlc_order.cmp_refl)
qed

lemma reassemble_second:
  assumes "entry_ok e" "length (ent_payload e) > 88"
    and "asm_matches (cl_asm_rx st) from key stamp (ent_tombstone e) (length (ent_payload e))"
    and "asm_have (cl_asm_rx st) = 88" "take 88 (asm_buf (cl_asm_rx st)) = take 88 (ent_payload e)"
    and "length (asm_buf (cl_asm_rx st)) = 128" "ev_uptime_ms ev \<le> asm_deadline_ms (cl_asm_rx st)"
    and "reassemble_entry ev from (frame_of e 88 (drop 88 (ent_payload e)) sig) key stamp st = (st', whole)"
  shows "whole = Some (ent_payload e) \<and> cl_doc st' = cl_doc st"
proof -
  let ?n = "length (ent_payload e)"
  have n: "?n \<le> 128" "unat (of_nat ?n :: u32) = ?n" using entry_ok_len(1)[OF assms(1)] by (simp_all add: unat_of_nat)
  have "(st', whole) = asm_take ev 88 (drop 88 (ent_payload e)) ?n st"
    using assms(2,3,7,8) frag_fits_frame[of 88 "?n - 88" ?n] n by (simp add: reassemble_entry_def asm_expire_def Let_def)
  with assms(2,4,5,6) n show ?thesis by (simp add: asm_take_def Let_def bump_def)
qed

lemma sig_account_doc [simp]: "cl_doc (sig_account ev v st) = cl_doc st"
  by (simp add: sig_account_def refuse_entry_def bump_def act_def Let_def split: meshtastic_cluster_sig_verdict.splits)

lemma entry_merge_doc:
  "cl_doc (entry_merge ev key stamp t p sig st) = fst (meshtastic_cluster_doc_accept_signed (cl_doc st) key stamp t p sig)"
  by (simp add: entry_merge_def Let_def bump_def act_def split: prod.splits sum.splits)

lemma on_entry_complete:
  assumes "entry_ok e" "admits ev st (ent_key e) (ent_stamp e)"
    and "payload_is_its_section ev (key_section (ent_key e)) (ent_payload e) (ent_tombstone e)"
    and "entry_signature_ok ev (ent_key e) (ent_stamp e) (ent_tombstone e) asig (ent_payload e) = (v, sig)"
    and "meshtastic_cluster_sig_accepts v"
    and "reassemble_entry ev from (frame_of e off p asig) (ent_key e) (ent_stamp e) st = (st', Some (ent_payload e))"
    and "cl_doc st' = cl_doc st"
  shows "cl_doc (on_entry ev from (frame_of e off p asig) st)
       = fst (meshtastic_cluster_doc_accept_signed (cl_doc st) (ent_key e) (ent_stamp e) (ent_tombstone e) (ent_payload e) sig)"
  using assms by (simp add: on_entry_frame Let_def entry_merge_doc)

section \<open>What enters the document\<close>

lemma refuse_doc [simp]: "cl_doc (refuse_entry ev st) = cl_doc st"
  by (simp add: refuse_entry_def bump_def act_def Let_def)

lemma asm_doc [simp]:
  "cl_doc (asm_expire ev st) = cl_doc st" "cl_doc (asm_open from key stamp t n st) = cl_doc st"
  "cl_doc (fst (asm_take ev off p n st)) = cl_doc st"
  by (simp_all add: asm_expire_def asm_open_def asm_take_def bump_def Let_def)

lemma reassemble_doc: "cl_doc (fst (reassemble_entry ev from e key stamp st)) = cl_doc st"
  by (simp add: reassemble_entry_def bump_def Let_def split: prod.splits)

lemma compare_doc: "digest_compare_locked ev from d theirs st = (st', v) \<Longrightarrow> cl_doc st' = cl_doc st"
  by (auto simp: digest_compare_locked_def Let_def split: prod.splits if_splits)

lemma peer_note_doc [simp]: "cl_doc (peer_note_locked ev from d a b h st) = cl_doc st"
  by (simp add: peer_note_locked_def Let_def split: option.splits)

lemma pull_judge_doc [simp]: "cl_doc (pull_judge st) = cl_doc st"
  by (simp add: pull_judge_def Let_def bump_def)

lemma pull_start_doc: "pull_start_locked ev peer delay reason st = (st', ok) \<Longrightarrow> cl_doc st' = cl_doc st"
  unfolding pull_start_locked_def Let_def by (auto simp: bump_def split: if_splits)

lemma on_digest_doc: "cl_doc (on_digest ev from d st) = cl_doc st"
proof -
  let ?st = "hlc_observe ev (stamp_from_pb (dg_max_stamp d)) st"
  obtain st1 v where c: "digest_compare_locked ev from d (stamp_from_pb (dg_max_stamp d)) ?st = (st1, v)" by fastforce
  have "cl_doc st1 = cl_doc st" using compare_doc[OF c] by simp
  then show ?thesis
    by (auto simp: on_digest_def c Let_def bump_def act_def dest!: pull_start_doc split: prod.splits)
qed

lemma may_serve_doc: "cl_doc (fst (may_serve_locked ev st)) = cl_doc st"
  by (simp add: may_serve_locked_def bump_def Let_def)

lemma serve_req_doc: "cl_doc (on_vector_req ev from sc st) = cl_doc st" "cl_doc (on_entry_req ev from ks st) = cl_doc st"
proof -
  obtain st1 ok where m: "may_serve_locked ev st = (st1, ok)" by fastforce
  have "cl_doc st1 = cl_doc st" using may_serve_doc[of ev st] m by simp
  then show "cl_doc (on_vector_req ev from sc st) = cl_doc st" "cl_doc (on_entry_req ev from ks st) = cl_doc st"
    by (simp_all add: on_vector_req_def on_entry_req_def m serve_started_locked_def bump_def act_def Let_def)
qed

lemma vector_rows_doc: "cl_doc (fst (vector_rows ev mine rows st b)) = cl_doc st"
proof (induction rows arbitrary: st b)
  case (Cons row rows)
  then show ?case by (auto simp: Let_def bump_def split: option.splits meshtastic_cluster_want.splits)
qed simp

lemma demote_doc: "set (doc_entries (cl_doc (demote_locked ev st))) \<subseteq> set (doc_entries (cl_doc st))"
  by (auto simp: demote_locked_def scope_set_locked_def frag_reset_locked_def pull_reset_locked_def retain_spec bump_def act_def Let_def)

lemma on_vector_doc: "set (doc_entries (cl_doc (on_vector ev from v st))) \<subseteq> set (doc_entries (cl_doc st))"
proof -
  obtain st1 b where r: "vector_rows ev (my_scope_locked ev st) (vc_entries v) (bump vector_rx_update st) False = (st1, b)" by fastforce
  have "cl_doc st1 = cl_doc st" using vector_rows_doc[of ev _ "vc_entries v" "bump vector_rx_update st" False] r by (metis frame_doc(1) fst_conv)
  with demote_doc[of ev st1] show ?thesis
    by (simp add: on_vector_def r Let_def)
qed

lemma on_entry_doc:
  assumes "x \<in> set (doc_entries (cl_doc (on_entry ev from e st)))" "x \<notin> set (doc_entries (cl_doc st))"
  shows "admits ev st (ent_key x) (ent_stamp x)
     \<and> payload_is_its_section ev (key_section (ent_key x)) (ent_payload x) (ent_tombstone x)
     \<and> (\<exists>v sig. entry_signature_ok ev (ent_key x) (ent_stamp x) (ent_tombstone x) (ce_author_sig e) (ent_payload x) = (v, sig)
          \<and> meshtastic_cluster_sig_accepts v
          \<and> x = stored_entry (ent_key x) (ent_stamp x) (ent_tombstone x) (ent_payload x) sig)"
proof -
  obtain pk ps where k: "ce_key e = Some pk" "ce_stamp e = Some ps"
    using assms by (cases "ce_key e"; cases "ce_stamp e") (auto simp: on_entry_def bump_def)
  let ?k = "key_from_pb pk" and ?s = "stamp_from_pb ps"
  obtain st1 whole where r: "reassemble_entry ev from e ?k ?s st = (st1, whole)" by fastforce
  have d: "cl_doc st1 = cl_doc st" using reassemble_doc[of ev "from" e ?k ?s st] r by simp
  have adm: "admits ev st ?k ?s"
    using assms by (auto simp: on_entry_def k admits_def bump_def Let_def split: if_splits)
  then have on: "on_entry ev from e st = (case whole of None \<Rightarrow> st1 | Some payload \<Rightarrow>
      if \<not> payload_is_its_section ev (key_section ?k) payload (ce_tombstone e) then refuse_entry ev st1
      else let (v, sig) = entry_signature_ok ev ?k ?s (ce_tombstone e) (ce_author_sig e) payload; st = sig_account ev v st1
           in if \<not> meshtastic_cluster_sig_accepts v then st else entry_merge ev ?k ?s (ce_tombstone e) payload sig st)"
    by (auto simp: on_entry_def k admits_def r Let_def)
  from assms d obtain p where w: "whole = Some p" by (cases whole) (auto simp: on)
  obtain v sig where g: "entry_signature_ok ev ?k ?s (ce_tombstone e) (ce_author_sig e) p = (v, sig)" by fastforce
  have ok: "payload_is_its_section ev (key_section ?k) p (ce_tombstone e)" "meshtastic_cluster_sig_accepts v"
    using assms d by (auto simp: on w g Let_def split: if_splits)
  have "x \<in> insert (stored_entry ?k ?s (ce_tombstone e) p sig) (set (doc_entries (cl_doc st)))"
    using assms(1) accept_signed_set[of "cl_doc st" ?k ?s "ce_tombstone e" p sig] ok d by (auto simp: on w g entry_merge_doc)
  with assms(2) adm g ok show ?thesis by auto
qed

section \<open>Properties\<close>

text \<open>C12. A request that a node agrees to serve is answered completely: the following runs of the
  transmit worker send the requester every fragment of every row it asked for and the node holds,
  in the order of the request, before anything else.\<close>

theorem entry_request_answered:
  assumes "cluster_reach st" "from \<noteq> 0" "cl_ent_dest st = 0" "snd (may_serve_locked ev st)" "keys \<noteq> []"
    and "frames = concat (map (row_frames (cl_doc st)) (map key_from_pb (take CLUSTER_PULL_KEYS keys)))"
    and "length evs = length frames"
  shows "tx_works evs (on_entry_req ev from keys st) = map (\<lambda>f. Some (from, Msg_Entry f)) frames"
proof -
  obtain st1 where m: "may_serve_locked ev st = (st1, True)" using assms(4) by (cases "may_serve_locked ev st") auto
  have doc: "cl_doc st1 = cl_doc st" using may_serve_doc[of ev st] m by simp
  let ?st = "on_entry_req ev from keys st"
  have ks: "take CLUSTER_PULL_KEYS keys \<noteq> []" using assms(5) by (simp add: CLUSTER_PULL_KEYS_def)
  have eq: "?st = act (Act_Tx 0) ((serve_started_locked st1)\<lparr>cl_ent_dest := from,
      cl_ent_keys := map key_from_pb (take CLUSTER_PULL_KEYS keys), cl_ent_next := 0, cl_ent_frag_off := 0\<rparr>)"
    using assms(3) ks m by (simp add: on_entry_req_def Let_def)
  have "node_inv ?st" using reach_inv[OF assms(1)] by (rule on_entry_req_inv)
  moreover have "cursor_ok ?st" "cl_ent_dest ?st = from" "pending ?st = frames"
    using assms(6) doc by (simp_all add: eq act_def cursor_ok_def pending_def serve_started_locked_def)
  ultimately show ?thesis using works_pending[of ?st evs] assms(2,7) by simp
qed

text \<open>A row of one fragment, one of two, and a node that has received the first in a packet.\<close>

definition ex_row :: "bytes \<Rightarrow> meshtastic_cluster_entry" where
  "ex_row p = stored_entry (base_key 5) (ex_stamp 1) False p None"

definition ex_node :: cluster where
  "ex_node = cluster_on_packet ex_env (Some 0) 7 0 False (Some (Msg_Entry (hd (entry_frames (ex_row [7])))))
     (meshtastic_cluster_init False False 3 0)"

lemma ex_node_reach: "cluster_reach ex_node"
proof -
  have "msg_wf (Msg_Entry (hd (entry_frames (ex_row [7]))))" by code_simp
  then have "cluster_step (meshtastic_cluster_init False False 3 0) None ex_node"
    unfolding ex_node_def by (intro cluster_step.Packet) simp
  then show ?thesis by (rule cluster_reach.Step[OF cluster_reach.Boot])
qed

theorem entry_request_answered_witness:
  "tx_works [ex_env] (on_entry_req ex_env 3 [key_to_pb (base_key 5)] ex_node)
     = [Some (3, Msg_Entry (frame_of (ex_row [7]) 0 [7] []))]"
proof -
  have "concat (map (row_frames (cl_doc ex_node)) (map key_from_pb (take CLUSTER_PULL_KEYS [key_to_pb (base_key 5)])))
      = [frame_of (ex_row [7]) 0 [7] []]" by code_simp
  moreover have "cl_ent_dest ex_node = 0" "snd (may_serve_locked ex_env ex_node)" by code_simp+
  ultimately show ?thesis
    using entry_request_answered[OF ex_node_reach, of 3 ex_env "[key_to_pb (base_key 5)]" _ "[ex_env]"] by simp
qed

text \<open>C10. A row sent by one node arrives at another as it was stored: when the frames of the row reach
  a receiver whose gates admit the row, within the fragment timeout and with no partial copy of the same
  version in the slot, the receiver's document is the merge of exactly that row.\<close>

theorem entry_transfer_roundtrip:
  assumes e: "entry_ok e" and inv: "node_inv st" and adm: "admits ev st (ent_key e) (ent_stamp e)"
    and pay: "payload_is_its_section ev (key_section (ent_key e)) (ent_payload e) (ent_tombstone e)"
    and sig: "entry_signature_ok ev (ent_key e) (ent_stamp e) (ent_tombstone e) (author_sig_of e) (ent_payload e) = (v, sig)"
    and acc: "meshtastic_cluster_sig_accepts v"
    and slot: "\<not> asm_matches (cl_asm_rx st) from (ent_key e) (ent_stamp e) (ent_tombstone e) (length (ent_payload e))"
    and ts: "length ts = length (entry_frames e)" "last ts \<le> hd ts + cfg_frag_timeout_sec ev * 1000"
  shows "cl_doc (deliver ev from (zip ts (entry_frames e)) st)
       = fst (meshtastic_cluster_doc_accept_signed (cl_doc st) (ent_key e) (ent_stamp e) (ent_tombstone e) (ent_payload e) sig)"
proof (cases "length (ent_payload e) \<le> 88")
  case True
  with ts(1) obtain t where t: "ts = [t]" by (auto simp: entry_frames_eq[OF e] length_Suc_conv)
  then show ?thesis
    using on_entry_complete[OF e _ _ _ acc reassemble_whole[OF e True] refl, of "ev\<lparr>ev_uptime_ms := t\<rparr>"] adm pay sig True
    by (simp add: entry_frames_eq[OF e])
next
  case False
  then have long: "length (ent_payload e) > 88" by simp
  with ts(1) obtain t0 t1 where t: "ts = [t0, t1]" by (auto simp: entry_frames_eq[OF e] length_Suc_conv)
  let ?e0 = "ev\<lparr>ev_uptime_ms := t0\<rparr>" and ?e1 = "ev\<lparr>ev_uptime_ms := t1\<rparr>"
  let ?f0 = "frame_of e 0 (take 88 (ent_payload e)) []" and ?f1 = "frame_of e 88 (drop 88 (ent_payload e)) (author_sig_of e)"
  obtain s0 w0 where r0: "reassemble_entry ?e0 from ?f0 (ent_key e) (ent_stamp e) st = (s0, w0)" by fastforce
  note f = reassemble_first[OF e long node_invD(3)[OF inv] slot r0]
  have s0: "on_entry ?e0 from ?f0 st = s0" using adm f r0 by (simp add: on_entry_frame[OF e])
  obtain s1 w1 where r1: "reassemble_entry ?e1 from ?f1 (ent_key e) (ent_stamp e) s0 = (s1, w1)" by fastforce
  have s: "w1 = Some (ent_payload e) \<and> cl_doc s1 = cl_doc s0"
    using reassemble_second[OF e long _ _ _ _ _ r1] f ts(2) t by simp
  have adm1: "admits ?e1 s0 (ent_key e) (ent_stamp e)" using adm f admits_cong[of s0 st] by simp
  have pay1: "payload_is_its_section ?e1 (key_section (ent_key e)) (ent_payload e) (ent_tombstone e)"
    and sig1: "entry_signature_ok ?e1 (ent_key e) (ent_stamp e) (ent_tombstone e) (author_sig_of e) (ent_payload e) = (v, sig)"
    using pay sig by simp_all
  note on_entry_complete[OF e adm1 pay1 sig1 acc r1[unfolded conjunct1[OF s]] conjunct2[OF s]]
  then show ?thesis using f s0 t long by (simp add: entry_frames_eq[OF e])
qed

theorem entry_transfer_roundtrip_witness:
  "cl_doc (deliver ex_env 7 (zip [0, 2000] (entry_frames (ex_row (replicate 100 7)))) (meshtastic_cluster_init False False 3 0))
     = fst (meshtastic_cluster_doc_accept_signed (meshtastic_cluster_doc_init 3) (base_key 5) (ex_stamp 1) False
              (replicate 100 7) None)"
proof -
  let ?e = "ex_row (replicate 100 7)" and ?st = "meshtastic_cluster_init False False 3 0"
  have "entry_ok ?e" "admits ex_env ?st (ent_key ?e) (ent_stamp ?e)"
    "payload_is_its_section ex_env (key_section (ent_key ?e)) (ent_payload ?e) (ent_tombstone ?e)"
    "entry_signature_ok ex_env (ent_key ?e) (ent_stamp ?e) (ent_tombstone ?e) (author_sig_of ?e) (ent_payload ?e)
       = (SIG_ACCEPT_UNSIGNED, None)"
    "meshtastic_cluster_sig_accepts SIG_ACCEPT_UNSIGNED" "length (entry_frames ?e) = 2"
    "cfg_frag_timeout_sec ex_env = 30"
    by code_simp+
  moreover have "\<not> asm_matches (cl_asm_rx ?st) 7 (ent_key ?e) (ent_stamp ?e) (ent_tombstone ?e) (length (ent_payload ?e))"
    by (simp add: asm_matches_def meshtastic_cluster_init_def zero_asm_def)
  ultimately show ?thesis
    using entry_transfer_roundtrip[of ?e ?st ex_env SIG_ACCEPT_UNSIGNED None 7 "[0, 2000]"] init_inv[of False False 3 0]
    by (simp add: ex_row_def stored_entry_def meshtastic_cluster_init_def)
qed



end
