(* ===== verification/Cluster_Budget.thy ===== *)
theory Cluster_Budget
  imports Cluster_Exchange
begin

text \<open>
  The airtime budgets of \<^verbatim>\<open>meshtastic_cluster.c\<close>.  Serving requests and pushing changes are paid from
  token buckets; the locale states what a bucket promises per step and bounds the number of steps that
  spend a token in any stretch of time.  It is interpreted on the serve bucket of a node that handles
  packets and runs its workers.
\<close>

section \<open>Token buckets\<close>

text \<open>How many events of a run spend a token.\<close>

fun spent :: "(int \<Rightarrow> 'e \<Rightarrow> 's \<Rightarrow> 's) \<Rightarrow> (int \<Rightarrow> 'e \<Rightarrow> 's \<Rightarrow> bool) \<Rightarrow> (int \<times> 'e) list \<Rightarrow> 's \<Rightarrow> nat" where
  "spent step spends [] s = 0"
| "spent step spends ((now, e) # xs) s =
     (if spends now e s then 1 else 0) + spent step spends xs (step now e s)"

text \<open>A state holds tokens and the time up to which they have been granted; an event happens at a time.
  What the holder may still claim is \<open>credit\<close>, in units of time.\<close>

locale token_bucket =
  fixes tokens :: "'s \<Rightarrow> nat" and refill :: "'s \<Rightarrow> int" and burst :: nat and ivl :: int
    and step :: "int \<Rightarrow> 'e \<Rightarrow> 's \<Rightarrow> 's" and spends :: "int \<Rightarrow> 'e \<Rightarrow> 's \<Rightarrow> bool"
  assumes past: "0 < ivl \<Longrightarrow> refill s \<le> now \<Longrightarrow> refill s \<le> refill (step now e s) \<and> refill (step now e s) \<le> now"
    and cost: "0 < ivl \<Longrightarrow> refill s \<le> now \<Longrightarrow>
      int (tokens (step now e s)) * ivl - refill (step now e s) + (if spends now e s then ivl else 0)
        \<le> int (tokens s) * ivl - refill s"
    and bound: "0 < ivl \<Longrightarrow> refill s \<le> now \<Longrightarrow> tokens s \<le> burst \<Longrightarrow> tokens (step now e s) \<le> burst"
    and fresh: "0 < ivl \<Longrightarrow> refill s \<le> now \<Longrightarrow> tokens s \<le> burst \<Longrightarrow> now - refill s < ivl * 2 ^ 32 \<Longrightarrow> spends now e s \<Longrightarrow>
      tokens (step now e s) < burst \<and> now - refill (step now e s) < ivl"
begin

lemma spent_credit:
  assumes "0 < ivl" "sorted (t # map fst xs)" "refill s \<le> t" "list_all (\<lambda>x. fst x \<le> t1) xs" "t \<le> t1"
  shows "int (spent step spends xs s) * ivl \<le> int (tokens s) * ivl + (t1 - refill s)"
  using assms
proof (induction xs arbitrary: s t)
  case Nil
  then show ?case by simp
next
  case (Cons a xs)
  obtain now e where a: "a = (now, e)" by fastforce
  let ?s = "step now e s"
  have le: "refill s \<le> now" using Cons.prems a by simp
  have "int (spent step spends xs ?s) * ivl \<le> int (tokens ?s) * ivl + (t1 - refill ?s)"
    using Cons.IH[of now ?s] Cons.prems a past[OF Cons.prems(1) le] by simp
  then show ?case using cost[OF Cons.prems(1) le, of e] by (auto simp: a algebra_simps)
qed

text \<open>However many events ask for it, a bucket spends at most its burst, one more, and one per interval.\<close>

lemma spent_bound:
  assumes "0 < ivl" "sorted (t0 # map fst xs)" "refill s \<le> t0" "list_all (\<lambda>x. fst x \<le> t1) xs"
    and "t1 - refill s < ivl * 2 ^ 32" "t0 \<le> t1" "tokens s \<le> burst"
  shows "int (spent step spends xs s) * ivl < (int burst + 1) * ivl + (t1 - t0)"
  using assms
proof (induction xs arbitrary: s t0)
  case Nil
  then show ?case by (simp add: add_pos_nonneg)
next
  case (Cons a xs)
  obtain now e where a: "a = (now, e)" by fastforce
  let ?s = "step now e s"
  have le: "refill s \<le> now" "t0 \<le> now" "now \<le> t1" "sorted (now # map fst xs)" using Cons.prems a by auto
  note p = past[OF Cons.prems(1) le(1), of e]
  show ?case
  proof (cases "spends now e s")
    case True
    have "tokens ?s < burst \<and> now - refill ?s < ivl"
      using fresh[OF Cons.prems(1) le(1) Cons.prems(7) _ True] Cons.prems(5) le(3) by simp
    moreover have "int (spent step spends xs ?s) * ivl \<le> int (tokens ?s) * ivl + (t1 - refill ?s)"
      using spent_credit[OF Cons.prems(1) le(4), of ?s t1] Cons.prems(4) le p by simp
    moreover have "(int (tokens ?s) + 1) * ivl \<le> int burst * ivl"
      using calculation(1) Cons.prems(1) by (intro mult_right_mono) auto
    ultimately show ?thesis using True le a by (simp add: algebra_simps)
  next
    case False
    have "int (spent step spends xs ?s) * ivl < (int burst + 1) * ivl + (t1 - now)"
      using Cons.IH[OF Cons.prems(1) le(4), of ?s] Cons.prems p le bound[OF Cons.prems(1) le(1) Cons.prems(7)] by simp
    with False le a show ?thesis by simp
  qed
qed

end

section \<open>The serve bucket of a node\<close>

text \<open>What drives a node from outside: packets and the runs of its workers.  An event carries the
  environment it happens in, up to the time and the serve interval, which the run fixes.\<close>

datatype net_event =
  Net_Rx "nat option" u32 nat bool "zephyrtastic_ClusterMessage option"
  | Net_Tx bool
  | Net_Digest bool bool

definition net_step :: "int \<Rightarrow> int \<Rightarrow> cluster_env \<times> net_event \<Rightarrow> cluster \<Rightarrow> cluster" where
  "net_step ivl now x st =
     (let ev = (fst x)\<lparr>ev_uptime_ms := now, cfg_serve_interval_ms := ivl\<rparr>
      in case snd x of
           Net_Rx ch from ci pki decoded \<Rightarrow> cluster_on_packet ev ch from ci pki decoded st
         | Net_Tx ch_ok \<Rightarrow> fst (tx_work_fn ev ch_ok st)
         | Net_Digest ch_ok sent \<Rightarrow> fst (digest_work_fn ev ch_ok sent st))"

text \<open>An event starts an answer when it opens the vector or the entry transmission.\<close>

definition opens :: "cluster \<Rightarrow> cluster \<Rightarrow> bool" where
  "opens st st' \<longleftrightarrow> (cl_vec_dest st = 0 \<and> cl_vec_dest st' \<noteq> 0) \<or> (cl_ent_dest st = 0 \<and> cl_ent_dest st' \<noteq> 0)"

definition net_serves :: "int \<Rightarrow> int \<Rightarrow> cluster_env \<times> net_event \<Rightarrow> cluster \<Rightarrow> bool" where
  "net_serves ivl now x st = opens st (net_step ivl now x st)"

text \<open>Steps that neither touch the bucket nor open a transmission.\<close>

definition quiet :: "cluster \<Rightarrow> cluster \<Rightarrow> bool" where
  "quiet st st' \<longleftrightarrow> cl_serve_tokens st' = cl_serve_tokens st \<and> cl_serve_refill_ms st' = cl_serve_refill_ms st
     \<and> (cl_vec_dest st' = cl_vec_dest st \<or> cl_vec_dest st' = 0) \<and> (cl_ent_dest st' = cl_ent_dest st \<or> cl_ent_dest st' = 0)"

lemma quiet_refl [simp]: "quiet st st" by (simp add: quiet_def)

lemma quiet_trans: "quiet a b \<Longrightarrow> quiet b c \<Longrightarrow> quiet a c" by (auto simp: quiet_def)

lemma quiet_frame [simp]:
  "quiet a (bump u b) = quiet a b" "quiet a (act x b) = quiet a b" "quiet a (pull_reset_locked b) = quiet a b"
  "quiet a (refuse_entry ev b) = quiet a b" "quiet a (frag_reset_locked b) = quiet a b"
  by (simp_all add: quiet_def bump_def act_def pull_reset_locked_def refuse_entry_def frag_reset_locked_def Let_def)

lemma quiet_upd [simp]:
  "quiet a (b\<lparr>cl_doc := d\<rparr>) = quiet a b" "quiet a (b\<lparr>cl_hlc := h\<rparr>) = quiet a b" "quiet a (b\<lparr>cl_pull_keys := ks\<rparr>) = quiet a b"
  "quiet a (b\<lparr>cl_pull_state := ps\<rparr>) = quiet a b" "quiet a (b\<lparr>cl_asm_rx := am\<rparr>) = quiet a b"
  "quiet a (b\<lparr>cl_peers := pe\<rparr>) = quiet a b" "quiet a (b\<lparr>cl_backstop_peer := bp\<rparr>) = quiet a b"
  "quiet a (b\<lparr>cl_backstop_countdown := bc\<rparr>) = quiet a b" "quiet a (b\<lparr>cl_pull_fruitless := pf\<rparr>) = quiet a b"
  "quiet a (b\<lparr>cl_vec_offset := vo\<rparr>) = quiet a b" "quiet a (b\<lparr>cl_vec_emitted := ve\<rparr>) = quiet a b"
  "quiet a (b\<lparr>cl_ent_frag_off := ef\<rparr>) = quiet a b" "quiet a (b\<lparr>cl_push_frag_off := pff\<rparr>) = quiet a b"
  "quiet a (b\<lparr>cl_pull_asked_entries := pa\<rparr>) = quiet a b" "quiet a (b\<lparr>cl_pull_last_applied := pl\<rparr>) = quiet a b"
  "quiet a (b\<lparr>cl_ent_next := en\<rparr>) = quiet a b" "quiet a (b\<lparr>cl_ent_keys := ek\<rparr>) = quiet a b"
  by (simp_all add: quiet_def)

lemma quiet_close [simp]: "quiet a b \<Longrightarrow> quiet a (b\<lparr>cl_vec_dest := 0\<rparr>)" "quiet a b \<Longrightarrow> quiet a (b\<lparr>cl_ent_dest := 0\<rparr>)"
  by (simp_all add: quiet_def)

lemma quiet_pull_start: "quiet st (fst (pull_start_locked ev peer delay reason st))"
  by (simp add: pull_start_locked_def pull_judge_def quiet_def bump_def Let_def)

lemma quiet_demote: "quiet st (demote_locked ev st)"
  by (simp add: demote_locked_def scope_set_locked_def frag_reset_locked_def pull_reset_locked_def quiet_def bump_def act_def Let_def
      split: prod.splits)

lemma quiet_vector_rows: "quiet st (fst (vector_rows ev mine rows st b))"
proof (induction rows arbitrary: st b)
  case (Cons row rows)
  have step: "quiet st (fst (vector_rows ev mine rows s c))" if "quiet st s" for s c
    using quiet_trans[OF that Cons.IH] .
  show ?case by (auto simp: Let_def intro!: step split: option.splits meshtastic_cluster_want.splits)
qed simp

lemma quiet_on_vector: "quiet st (on_vector ev from v st)"
proof -
  obtain st1 b where r: "vector_rows ev (my_scope_locked ev st) (vc_entries v) (bump vector_rx_update st) False = (st1, b)" by fastforce
  have q: "quiet st st1"
    using quiet_vector_rows[of "bump vector_rx_update st" ev "my_scope_locked ev st" "vc_entries v" False] r
    by (simp add: quiet_def bump_def)
  with quiet_trans[OF q quiet_demote, of ev] show ?thesis by (simp add: on_vector_def r Let_def)
qed

lemma quiet_on_digest: "quiet st (on_digest ev from d st)"
proof -
  let ?st = "hlc_observe ev (stamp_from_pb (dg_max_stamp d)) st"
  obtain st1 v where c: "digest_compare_locked ev from d (stamp_from_pb (dg_max_stamp d)) ?st = (st1, v)" by fastforce
  have "quiet ?st st1" using c by (auto simp: digest_compare_locked_def Let_def split: prod.splits if_splits)
  moreover have "quiet st ?st" by simp
  ultimately have q: "quiet st st1" by (rule quiet_trans[rotated])
  have n: "quiet st (peer_note_locked ev from d a b h st1)" for a b h
    using q by (simp add: peer_note_locked_def Let_def split: option.splits)
  have ps: "quiet st s2" if "pull_start_locked ev from dl PULL_REASON_DIGEST s = (s2, ok)" "quiet st s" for dl s s2 ok
    using quiet_trans[OF that(2) quiet_pull_start[of s ev "from" dl PULL_REASON_DIGEST]] that(1) by simp
  show ?thesis by (auto simp: on_digest_def c Let_def n split: prod.splits) (auto elim!: ps simp: n)
qed

lemma quiet_reassemble: "quiet st (fst (reassemble_entry ev from e key stamp st))"
proof -
  have q: "quiet st (asm_expire ev st)" by (simp add: asm_expire_def)
  have t: "quiet st (fst (asm_take ev off p n s))" if "quiet st s" for off p n s
    using that by (simp add: asm_take_def Let_def)
  have o: "quiet st (asm_open from key stamp b n (asm_expire ev st))" for b n
    using q by (simp add: asm_open_def Let_def)
  show ?thesis using q by (auto simp: reassemble_entry_def Let_def intro!: t o split: prod.splits)
qed

lemma quiet_on_entry: "quiet st (on_entry ev from e st)"
proof (cases "ce_key e"; cases "ce_stamp e")
  fix pk ps assume k: "ce_key e = Some pk" "ce_stamp e = Some ps"
  obtain st1 whole where r: "reassemble_entry ev from e (key_from_pb pk) (stamp_from_pb ps) st = (st1, whole)" by fastforce
  have q: "quiet st st1" using quiet_reassemble[of st ev "from" e "key_from_pb pk" "stamp_from_pb ps"] r by simp
  have s: "quiet st (sig_account ev v st1)" for v
    using q by (simp add: sig_account_def split: meshtastic_cluster_sig_verdict.splits)
  have m: "quiet st (entry_merge ev key stamp t p sig s)" if "quiet st s" for key stamp t p sig s
    using that unfolding entry_merge_def Let_def by (auto simp: quiet_def bump_def act_def split: prod.splits sum.splits)
  show ?thesis using q s by (cases whole) (auto simp: on_entry_def k r Let_def intro!: m split: prod.splits)
qed (simp_all add: on_entry_def)

lemma quiet_entry_step: "quiet st (fst (tx_entry_step st))"
proof (induction st rule: tx_entry_step.induct)
  case (1 st)
  have a: "quiet st (ent_advance_locked st)" by (simp add: ent_advance_locked_def Let_def)
  show ?case
    using 1 quiet_trans[OF a] a by (subst tx_entry_step.simps) (auto simp: Let_def split: option.splits prod.splits)
qed

lemma quiet_push_step: "quiet st (fst (tx_push_step st))"
proof (induction st rule: tx_push_step.induct)
  case (1 st)
  have a: "quiet st (push_advance_locked s)" if "quiet st s" for s using that by (simp add: push_advance_locked_def quiet_def)
  show ?case
    using 1 quiet_trans[OF a[OF quiet_refl]] by (subst tx_push_step.simps) (auto simp: Let_def intro!: a split: option.splits prod.splits)
qed

lemma quiet_tx_next: "quiet st (fst (tx_next_locked ev st))"
proof -
  obtain st1 out where s: "tx_entry_step st = (st1, out)" by fastforce
  have q: "quiet st st1" using quiet_entry_step[of st] s by simp
  moreover have "quiet st1 (fst (tx_vector_step st1))" by (simp add: tx_vector_step_def Let_def split: prod.splits)
  ultimately have "quiet st (fst (tx_vector_step st1))" by (rule quiet_trans)
  with q quiet_trans[OF q quiet_push_step] show ?thesis
    by (auto simp: tx_next_locked_def s Let_def split: option.splits prod.splits)
qed

lemma quiet_tx_work: "quiet st (fst (tx_work_fn ev ch_ok st))"
proof -
  let ?st = "if cl_pull_state st = PULL_AWAIT_VECTOR \<and> ev_uptime_ms ev > cl_pull_deadline_ms st
                  then pull_reset_locked (bump pull_timed_out_update st) else st"
  have "quiet st (fst (tx_next_locked ev ?st))" by (rule quiet_trans[OF _ quiet_tx_next]) simp
  then show ?thesis by (auto simp: tx_work_fn_def Let_def split: prod.splits option.splits)
qed

lemma quiet_digest_work: "quiet st (fst (digest_work_fn ev ch_ok sent st))"
proof -
  have b: "quiet st (backstop_tick ev s)" if "quiet st s" for s
  proof -
    let ?s = "s\<lparr>cl_backstop_countdown := cfg_backstop_periods ev\<rparr>"
    have "quiet st (fst (pull_start_locked ev (cl_backstop_peer s) 0 PULL_REASON_BACKSTOP ?s))"
      using that by (intro quiet_trans[OF _ quiet_pull_start]) simp
    with that show ?thesis by (auto simp: backstop_tick_def Let_def split: prod.splits)
  qed
  show ?thesis by (simp add: digest_work_fn_def b)
qed

text \<open>The tokens granted for an elapsed time, with the wrap-around of the 32-bit count.\<close>

definition granted :: "int \<Rightarrow> int \<Rightarrow> nat" where
  "granted elapsed ivl = nat (elapsed div ivl) mod 2 ^ 32"

lemma granted_le:
  assumes "0 < ivl" "0 \<le> elapsed"
  shows "int (granted elapsed ivl) * ivl \<le> elapsed"
proof -
  have "granted elapsed ivl \<le> nat (elapsed div ivl)" by (simp add: granted_def)
  then have "int (granted elapsed ivl) \<le> elapsed div ivl" using assms by (simp add: pos_imp_zdiv_nonneg_iff nat_le_iff le_nat_iff)
  then have "int (granted elapsed ivl) * ivl \<le> elapsed div ivl * ivl" using assms(1) by (intro mult_right_mono) auto
  also have "\<dots> \<le> elapsed" using assms(1) by (simp add: minus_mod_eq_div_mult[symmetric])
  finally show ?thesis .
qed

lemma granted_all:
  assumes "0 < ivl" "0 \<le> elapsed" "elapsed < ivl * 2 ^ 32"
  shows "elapsed - int (granted elapsed ivl) * ivl < ivl"
proof -
  have "elapsed div ivl < 2 ^ 32"
  proof (rule ccontr)
    assume "\<not> elapsed div ivl < 2 ^ 32"
    then have "2 ^ 32 * ivl \<le> elapsed div ivl * ivl" using assms(1) by (intro mult_right_mono) auto
    also have "\<dots> \<le> elapsed" using assms(1) by (simp add: minus_mod_eq_div_mult[symmetric])
    finally show False using assms(3) by (simp add: mult.commute)
  qed
  moreover have "0 \<le> elapsed div ivl" using assms by (simp add: pos_imp_zdiv_nonneg_iff)
  ultimately have "int (granted elapsed ivl) = elapsed div ivl" by (simp add: granted_def nat_less_iff)
  then show ?thesis using assms(1) by (simp add: minus_div_mult_eq_mod)
qed

lemma capped_le:
  assumes "0 < (ivl :: int)"
  shows "int (min ((t + g) mod 2 ^ 32) b) * ivl \<le> (int t + int g) * ivl"
proof -
  have "min ((t + g) mod 2 ^ 32) b \<le> t + g" using mod_less_eq_dividend[of "t + g" "2 ^ 32"] by linarith
  then have "int (min ((t + g) mod 2 ^ 32) b) \<le> int t + int g" by linarith
  then show ?thesis using assms by (intro mult_right_mono) auto
qed

text \<open>The bucket under a serve decision: time is granted at most once, and a yes leaves a token to spend.\<close>

definition served :: "cluster_env \<Rightarrow> cluster \<Rightarrow> cluster" where
  "served ev st =
     (let g = granted (ev_uptime_ms ev - cl_serve_refill_ms st) (cfg_serve_interval_ms ev)
      in if ev_uptime_ms ev - cl_serve_refill_ms st \<ge> cfg_serve_interval_ms ev
         then st\<lparr>cl_serve_tokens := min ((cl_serve_tokens st + g) mod 2 ^ 32) CLUSTER_SERVE_BURST,
                 cl_serve_refill_ms := cl_serve_refill_ms st + int g * cfg_serve_interval_ms ev\<rparr>
         else st)"

lemma may_serve_served:
  assumes "0 < cfg_serve_interval_ms ev"
  shows "may_serve_locked ev st
       = (if cl_serve_tokens (served ev st) = 0 then (bump tx_busy_update (served ev st), False) else (served ev st, True))"
proof -
  have "cfg_serve_interval_ms ev \<noteq> 0" using assms by simp
  then show ?thesis unfolding may_serve_locked_def served_def granted_def Let_def by (simp only: if_False)
qed

lemma served_bucket:
  assumes "0 < cfg_serve_interval_ms ev" "cl_serve_refill_ms st \<le> ev_uptime_ms ev"
  shows "cl_serve_refill_ms st \<le> cl_serve_refill_ms (served ev st) \<and> cl_serve_refill_ms (served ev st) \<le> ev_uptime_ms ev"
    and "int (cl_serve_tokens (served ev st)) * cfg_serve_interval_ms ev - cl_serve_refill_ms (served ev st)
           \<le> int (cl_serve_tokens st) * cfg_serve_interval_ms ev - cl_serve_refill_ms st"
    and "cl_serve_tokens st \<le> CLUSTER_SERVE_BURST \<Longrightarrow> cl_serve_tokens (served ev st) \<le> CLUSTER_SERVE_BURST"
    and "ev_uptime_ms ev - cl_serve_refill_ms st < cfg_serve_interval_ms ev * 2 ^ 32
           \<Longrightarrow> ev_uptime_ms ev - cl_serve_refill_ms (served ev st) < cfg_serve_interval_ms ev"
proof -
  note g = granted_le[OF assms(1), of "ev_uptime_ms ev - cl_serve_refill_ms st"]
  show "cl_serve_refill_ms st \<le> cl_serve_refill_ms (served ev st) \<and> cl_serve_refill_ms (served ev st) \<le> ev_uptime_ms ev"
    using g assms by (simp add: served_def Let_def)
  show "int (cl_serve_tokens (served ev st)) * cfg_serve_interval_ms ev - cl_serve_refill_ms (served ev st)
      \<le> int (cl_serve_tokens st) * cfg_serve_interval_ms ev - cl_serve_refill_ms st"
    using capped_le[OF assms(1), of "cl_serve_tokens st"
        "granted (ev_uptime_ms ev - cl_serve_refill_ms st) (cfg_serve_interval_ms ev)" CLUSTER_SERVE_BURST] by (simp add: served_def Let_def algebra_simps)
  show "cl_serve_tokens st \<le> CLUSTER_SERVE_BURST \<Longrightarrow> cl_serve_tokens (served ev st) \<le> CLUSTER_SERVE_BURST"
    by (simp add: served_def Let_def)
  show "ev_uptime_ms ev - cl_serve_refill_ms st < cfg_serve_interval_ms ev * 2 ^ 32
      \<Longrightarrow> ev_uptime_ms ev - cl_serve_refill_ms (served ev st) < cfg_serve_interval_ms ev"
    using granted_all[OF assms(1), of "ev_uptime_ms ev - cl_serve_refill_ms st"] assms(2) by (simp add: served_def Let_def algebra_simps)
qed

text \<open>What a step may do to the bucket, in the form the locale asks for: nothing, grant, or grant and spend.\<close>

definition bucket_step :: "cluster_env \<Rightarrow> cluster \<Rightarrow> cluster \<Rightarrow> bool" where
  "bucket_step ev st st' \<longleftrightarrow>
     quiet st st' \<or> quiet (served ev st) st'
     \<or> (0 < cl_serve_tokens (served ev st) \<and> cl_serve_tokens st' = cl_serve_tokens (served ev st) - 1
        \<and> cl_serve_refill_ms st' = cl_serve_refill_ms (served ev st))"

lemma served_dest [simp]: "cl_vec_dest (served ev st) = cl_vec_dest st" "cl_ent_dest (served ev st) = cl_ent_dest st"
  by (simp_all add: served_def Let_def)

lemma bucket_packet:
  assumes "0 < cfg_serve_interval_ms ev"
  shows "bucket_step ev st (cluster_on_packet ev ch from ci pki decoded st)"
proof -
  have v: "bucket_step ev st (on_vector_req ev from sc st)" for sc
    by (auto simp: on_vector_req_def may_serve_served[OF assms] bucket_step_def serve_started_locked_def Let_def act_def)
  have e: "bucket_step ev st (on_entry_req ev from ks st)" for ks
    by (auto simp: on_entry_req_def may_serve_served[OF assms] bucket_step_def serve_started_locked_def Let_def act_def)
  show ?thesis
    using quiet_on_digest quiet_on_vector quiet_on_entry v e
    by (auto simp: cluster_on_packet_def bucket_step_def split: option.splits zephyrtastic_ClusterMessage.splits)
qed

lemma net_bucket:
  assumes "0 < ivl"
  shows "bucket_step ((fst x)\<lparr>ev_uptime_ms := now, cfg_serve_interval_ms := ivl\<rparr>) st (net_step ivl now x st)"
  using assms bucket_packet quiet_tx_work quiet_digest_work
  by (auto simp: net_step_def Let_def bucket_step_def split: net_event.splits)

lemma opens_spends:
  assumes "bucket_step ev st st'" "opens st st'"
  shows "0 < cl_serve_tokens (served ev st) \<and> cl_serve_tokens st' = cl_serve_tokens (served ev st) - 1
        \<and> cl_serve_refill_ms st' = cl_serve_refill_ms (served ev st)"
  using assms by (auto simp: bucket_step_def opens_def quiet_def)

interpretation serve: token_bucket cl_serve_tokens cl_serve_refill_ms CLUSTER_SERVE_BURST ivl "net_step ivl" "net_serves ivl"
proof
  fix s now e
  let ?ev = "(fst e)\<lparr>ev_uptime_ms := now, cfg_serve_interval_ms := ivl\<rparr>" and ?s = "net_step ivl now e s"
  assume i: "0 < ivl" and r: "cl_serve_refill_ms s \<le> now"
  note b = net_bucket[OF i, where x = e and now = now and st = s]
  note g = served_bucket[of ?ev s]
  show "cl_serve_refill_ms s \<le> cl_serve_refill_ms ?s \<and> cl_serve_refill_ms ?s \<le> now"
    using b g(1) i r by (auto simp: bucket_step_def quiet_def)
  show "cl_serve_tokens s \<le> CLUSTER_SERVE_BURST \<Longrightarrow> cl_serve_tokens ?s \<le> CLUSTER_SERVE_BURST"
    using b g(3) i r by (auto simp: bucket_step_def quiet_def)
  show "int (cl_serve_tokens ?s) * ivl - cl_serve_refill_ms ?s + (if net_serves ivl now e s then ivl else 0)
      \<le> int (cl_serve_tokens s) * ivl - cl_serve_refill_ms s"
    using opens_spends[OF b] b g(2) i r
    by (auto simp: net_serves_def bucket_step_def quiet_def of_nat_diff algebra_simps)
  assume "cl_serve_tokens s \<le> CLUSTER_SERVE_BURST" "now - cl_serve_refill_ms s < ivl * 2 ^ 32" "net_serves ivl now e s"
  then show "cl_serve_tokens ?s < CLUSTER_SERVE_BURST \<and> now - cl_serve_refill_ms ?s < ivl"
    using opens_spends[OF b] g(3,4) i r by (auto simp: net_serves_def)
qed

section \<open>Properties\<close>

text \<open>C39. Requests cannot amplify into unbounded airtime: whatever packets arrive and whenever the workers
  run, the number of answers a node starts in a stretch of time is below the burst plus one plus the
  number of serve intervals in it.\<close>

theorem serve_rate_bounded:
  assumes "node_inv st" "0 < ivl" "sorted (t0 # map fst events)" "list_all (\<lambda>e. fst e \<le> t1) events" "t0 \<le> t1"
    and "cl_serve_refill_ms st \<le> t0" "t1 - cl_serve_refill_ms st < ivl * 2 ^ 32"
  shows "int (spent (net_step ivl) (net_serves ivl) events st) * ivl < (int CLUSTER_SERVE_BURST + 1) * ivl + (t1 - t0)"
  using serve.spent_bound[OF assms(2,3,6,4,7,5)] node_invD(5)[OF assms(1)] by simp

theorem serve_rate_bounded_witness:
  "spent (net_step 2000) (net_serves 2000)
     [(1000, ex_env, Net_Rx (Some 0) 7 0 False (Some (Msg_Vector_Req PB_SCOPE_FULL)))] (meshtastic_cluster_init False False 3 0) < 5"
proof -
  let ?st = "meshtastic_cluster_init False False 3 0"
  have r: "cl_serve_refill_ms ?st = 0" by (simp add: meshtastic_cluster_init_def)
  show ?thesis
    using serve_rate_bounded[of ?st 2000 0 "[(1000, ex_env, Net_Rx (Some 0) 7 0 False (Some (Msg_Vector_Req PB_SCOPE_FULL)))]" 1000]
      init_inv[of False False 3 0]
    by (simp add: r CLUSTER_SERVE_BURST_def)
qed

end
