(* ===== verification/Config_Versions.thy ===== *)
theory Config_Versions
  imports Config_Store
begin

text \<open>
  What the configuration store promises: every slot holds a valid section of its tag, the clock
  stays ahead of every stamp it holds so that a local edit always wins, a merge keeps the newer
  version of a section and nothing else, and the records on flash read back as written.
\<close>

section \<open>Every slot holds a valid section of its tag\<close>

definition store_wf :: "config_store \<Rightarrow> bool" where
  "store_wf cs \<longleftrightarrow>
     length (cs_configs cs) = length config_names \<and> length (cs_modules cs) = length module_names
     \<and> length (cs_config_stamps cs) = length config_names \<and> length (cs_module_stamps cs) = length module_names
     \<and> (\<forall>i < length config_names. cfg_which (cs_configs cs ! i) = snd (config_names ! i) \<and> config_is_valid (cs_configs cs ! i))
     \<and> (\<forall>i < length module_names. mod_which (cs_modules cs ! i) = snd (module_names ! i))"

lemma index_where_spec:
  "index_where p xs i = Inr j \<Longrightarrow> i \<le> j \<and> j - i < length xs \<and> p (xs ! (j - i))"
proof (induction xs arbitrary: i)
  case (Cons x xs)
  then show ?case
  proof (cases "p x")
    case False
    with Cons have "Suc i \<le> j \<and> j - Suc i < length xs \<and> p (xs ! (j - Suc i))" by simp
    moreover from this have "j - i = Suc (j - Suc i)" by linarith
    ultimately show ?thesis by simp
  qed simp
qed simp

lemma index_tag:
  "index_for_config_tag t = Inr i \<Longrightarrow> i < length config_names \<and> snd (config_names ! i) = t"
  "index_for_module_tag t = Inr i \<Longrightarrow> i < length module_names \<and> snd (module_names ! i) = t"
  "index_for_config_name n = Inr i \<Longrightarrow> i < length config_names"
  "index_for_module_name n = Inr i \<Longrightarrow> i < length module_names"
  unfolding index_for_config_tag_def index_for_module_tag_def index_for_config_name_def index_for_module_name_def
  by (auto dest: index_where_spec)

lemma names_len [simp]: "length config_names = 10" "length module_names = 17"
  by (simp_all add: config_names_def module_names_def)

lemma on_keeps_variant [simp]:
  "cfg_which (on_position f c) = cfg_which c" "cfg_which (on_device g c) = cfg_which c" "cfg_which (on_lora h c) = cfg_which c"
  by (simp_all add: on_position_def on_device_def on_lora_def split: meshtastic_Config.splits)

lemma position_valid [simp]: "config_is_valid (on_position f c) = config_is_valid c"
  by (simp add: config_is_valid_def on_position_def split: meshtastic_Config.splits)

lemma device_valid:
  "config_is_valid c \<Longrightarrow> (\<And>d. dcf_role d \<le> 12 \<and> dcf_rebroadcast_mode d \<le> 5 \<Longrightarrow> dcf_role (f d) \<le> 12 \<and> dcf_rebroadcast_mode (f d) \<le> 5)
     \<Longrightarrow> config_is_valid (on_device f c)"
  by (auto simp: config_is_valid_def on_device_def split: meshtastic_Config.splits sum.splits)

lemma lora_fem_valid [simp]: "config_is_valid (on_lora (\<lambda>l. l\<lparr>lcf_fem_lna_mode := m\<rparr>) c) = config_is_valid c"
  by (cases c) (simp_all add: config_is_valid_def on_lora_def lora_is_valid_def cong: option.case_cong sum.case_cong if_cong)

lemma store_wf_frame [simp]:
  "store_wf (cs\<lparr>cs_hlc := h\<rparr>) = store_wf cs" "store_wf (cs\<lparr>cs_position_seed := p\<rparr>) = store_wf cs"
  "store_wf (cs\<lparr>cs_save_pending := b\<rparr>) = store_wf cs" "store_wf (cs\<lparr>cs_save_suppressed := b\<rparr>) = store_wf cs"
  by (simp_all add: store_wf_def)

lemma store_wf_stamps [simp]:
  "store_wf cs \<Longrightarrow> store_wf (cs\<lparr>cs_config_stamps := (cs_config_stamps cs)[i := s]\<rparr>)"
  "store_wf cs \<Longrightarrow> store_wf (cs\<lparr>cs_module_stamps := (cs_module_stamps cs)[i := s]\<rparr>)"
  by (simp_all add: store_wf_def)

lemma store_wf_upd:
  assumes "store_wf cs" "i < length config_names"
    and "cfg_which (f (cs_configs cs ! i)) = snd (config_names ! i)" "config_is_valid (f (cs_configs cs ! i))"
  shows "store_wf (upd_config i f cs)"
  using assms by (auto simp: store_wf_def upd_config_def nth_list_update)

lemma store_wf_module:
  "store_wf cs \<Longrightarrow> mod_which m = snd (module_names ! i) \<Longrightarrow> store_wf (cs\<lparr>cs_modules := (cs_modules cs)[i := m]\<rparr>)"
  by (cases "i < 17") (auto simp: store_wf_def nth_list_update)

lemma store_wfD: "store_wf cs \<Longrightarrow> i < length config_names \<Longrightarrow> cfg_which (cs_configs cs ! i) = snd (config_names ! i) \<and> config_is_valid (cs_configs cs ! i)"
  by (simp add: store_wf_def)

lemma schedule_save_wf [simp]: "store_wf (store_schedule_save cs) = store_wf cs"
  by (simp add: store_schedule_save_def)

lemma observe_stamp_wf [simp]: "store_wf (observe_stamp ge s cs) = store_wf cs"
  by (simp add: observe_stamp_def)

lemma stamp_slot_wf [simp]:
  "store_wf cs \<Longrightarrow> store_wf (stamp_config_slot ge i cs)" "store_wf cs \<Longrightarrow> store_wf (stamp_module_slot ge i cs)"
  by (auto simp: stamp_config_slot_def stamp_module_slot_def stamp_local_def Let_def store_wf_def split: prod.splits)

lemma seeds_wf:
  assumes "store_wf cs"
  shows "store_wf (seed_position_broadcast cs)" "store_wf (seed_position_once cs)" "store_wf (seed_telemetry_flags ge cs)"
proof -
  show "store_wf (seed_position_broadcast cs)" "store_wf (seed_position_once cs)"
    using store_wfD[OF assms, of POSITION_IDX] assms
    by (auto simp: seed_position_broadcast_def seed_position_once_def intro!: store_wf_upd)
  have "mod_which (cs_modules cs ! TELEMETRY_IDX) = 6"
    using assms by (simp add: store_wf_def module_names_def)
  with assms show "store_wf (seed_telemetry_flags ge cs)"
    by (auto simp: seed_telemetry_flags_def module_names_def intro!: store_wf_module split: meshtastic_ModuleConfig.splits)
qed

lemma reconcile_stamped_wf: "store_wf cs \<Longrightarrow> store_wf (reconcile_stamped_seeds_locked ge cs)"
  by (simp add: reconcile_stamped_seeds_locked_def Let_def seeds_wf)

lemma apply_core_wf: "store_wf cs \<Longrightarrow> store_wf (fst (meshtastic_config_store_apply_core ge cs mt))"
proof -
  assume wf: "store_wf cs"
  let ?cs = "reconcile_stamped_seeds_locked ge cs"
  have w: "store_wf ?cs" using wf by (rule reconcile_stamped_wf)
  have "store_wf (fst (apply_fem ge (lora_of ?cs) ?cs m))" for m
    using w store_wfD[OF w, of LORA_IDX] by (auto simp: apply_fem_def intro!: store_wf_upd)
  with w show ?thesis
    by (auto simp: meshtastic_config_store_apply_core_def Let_def split: option.splits prod.splits) (metis fst_conv)+
qed

section \<open>Operations as steps\<close>

text \<open>Every operation that changes the store, run on the store and the radio state.\<close>

datatype store_op =
  Op_Set_Config meshtastic_Config
  | Op_Set_Module meshtastic_ModuleConfig
  | Op_Position_Fixed bool
  | Op_Device_Role u32
  | Op_Rebroadcast u32
  | Op_Node_Info u32
  | Op_Stamp_All
  | Op_Merge_Config meshtastic_Config meshtastic_hlc_stamp
  | Op_Merge_Module meshtastic_ModuleConfig meshtastic_hlc_stamp
  | Op_Load_Config_Stamp string bytes
  | Op_Load_Module_Stamp string bytes
  | Op_Load_Config "bytes \<Rightarrow> meshtastic_Config option" string bytes
  | Op_Load_Module "bytes \<Rightarrow> meshtastic_ModuleConfig option" string bytes
  | Op_Seeds
  | Op_Apply
  | Op_Suppress bool

fun store_step :: "cfg_env \<Rightarrow> store_op \<Rightarrow> config_store \<times> mt_state \<Rightarrow> config_store \<times> mt_state" where
  "store_step ge (Op_Set_Config c) (cs, mt) = (let (cs, mt, _) = meshtastic_config_store_set_config ge c cs mt in (cs, mt))"
| "store_step ge (Op_Set_Module m) (cs, mt) = (fst (meshtastic_config_store_set_module ge m cs), mt)"
| "store_step ge (Op_Position_Fixed b) (cs, mt) = (meshtastic_config_store_set_position_fixed ge b cs, mt)"
| "store_step ge (Op_Device_Role r) (cs, mt) = (let (cs, mt, _) = meshtastic_config_store_set_device_role ge r cs mt in (cs, mt))"
| "store_step ge (Op_Rebroadcast r) (cs, mt) = (let (cs, mt, _) = meshtastic_config_store_set_rebroadcast_mode ge r cs mt in (cs, mt))"
| "store_step ge (Op_Node_Info n) (cs, mt) = (meshtastic_config_store_set_node_info_interval ge n cs, mt)"
| "store_step ge Op_Stamp_All (cs, mt) = (meshtastic_config_store_stamp_all_local ge cs, mt)"
| "store_step ge (Op_Merge_Config c s) (cs, mt) = (let (cs, mt, _) = meshtastic_config_store_merge_config ge c s cs mt in (cs, mt))"
| "store_step ge (Op_Merge_Module m s) (cs, mt) = (fst (meshtastic_config_store_merge_module ge m s cs), mt)"
| "store_step ge (Op_Load_Config_Stamp n b) (cs, mt) = (fst (load_config_stamp ge n b cs), mt)"
| "store_step ge (Op_Load_Module_Stamp n b) (cs, mt) = (fst (load_module_stamp ge n b cs), mt)"
| "store_step ge (Op_Load_Config dec n b) (cs, mt) = (fst (load_config dec n b cs), mt)"
| "store_step ge (Op_Load_Module dec n b) (cs, mt) = (fst (load_module dec n b cs), mt)"
| "store_step ge Op_Seeds (cs, mt) = (reconcile_seeds_locked ge cs, mt)"
| "store_step ge Op_Apply (cs, mt) = (let (cs, mt, _) = meshtastic_config_store_apply_core ge cs mt in (cs, mt))"
| "store_step ge (Op_Suppress b) (cs, mt) = (meshtastic_config_store_set_save_suppressed b cs, mt)"

definition store_run :: "(cfg_env \<times> store_op) list \<Rightarrow> config_store \<times> mt_state \<Rightarrow> config_store \<times> mt_state" where
  "store_run ops x = foldl (\<lambda>x (ge, op). store_step ge op x) x ops"

lemma fold_keeps: "(\<And>i x. P x \<Longrightarrow> P (f i x)) \<Longrightarrow> P x \<Longrightarrow> P (fold f xs x)"
  by (induction xs arbitrary: x) auto

lemma set_config_wf: "store_wf cs \<Longrightarrow> store_wf (fst (meshtastic_config_store_set_config ge c cs mt))"
proof -
  assume wf: "store_wf cs"
  have "store_wf (fst (meshtastic_config_store_apply_core ge (stamp_config_slot ge i (upd_config i (\<lambda>_. c) cs)) mt))"
    if "index_for_config_tag (cfg_which c) = Inr i" "config_is_valid c" for i
    using index_tag(1)[OF that(1)] that(2) wf by (intro apply_core_wf stamp_slot_wf store_wf_upd) simp_all
  with wf show ?thesis
    by (auto simp: meshtastic_config_store_set_config_def Let_def split: sum.splits option.splits prod.splits)
qed

lemma merge_config_wf: "store_wf cs \<Longrightarrow> store_wf (fst (meshtastic_config_store_merge_config ge c s cs mt))"
proof -
  assume wf: "store_wf cs"
  let ?cs = "observe_stamp ge s cs"
  have "store_wf (fst (meshtastic_config_store_apply_core ge
      ((upd_config i (\<lambda>_. c) ?cs)\<lparr>cs_config_stamps := (cs_config_stamps ?cs)[i := s]\<rparr>) mt))"
    if "index_for_config_tag (cfg_which c) = Inr i" "config_is_valid c" for i
  proof -
    have "store_wf (upd_config i (\<lambda>_. c) ?cs)" using index_tag(1)[OF that(1)] that(2) wf by (intro store_wf_upd) simp_all
    then show ?thesis
      using store_wf_stamps(1)[of "upd_config i (\<lambda>_. c) ?cs" i s] by (intro apply_core_wf) (simp add: upd_config_def)
  qed
  with wf show ?thesis
    by (auto simp: meshtastic_config_store_merge_config_def Let_def split: sum.splits prod.splits)
qed

lemma load_config_wf: "store_wf cs \<Longrightarrow> store_wf (fst (load_config dec n b cs))"
proof -
  assume wf: "store_wf cs"
  have "store_wf (cs\<lparr>cs_configs := (cs_configs cs)[i := c]\<rparr>)"
    if "index_for_config_name n = Inr i" "cfg_which c = snd (config_names ! i)" "config_is_valid c" for i c
    using store_wf_upd[OF wf index_tag(3)[OF that(1)], of "\<lambda>_. c"] that by (simp add: upd_config_def)
  with wf show ?thesis by (auto simp: load_config_def split: sum.splits)
qed

lemma module_ops_wf:
  assumes "store_wf cs"
  shows "store_wf (fst (meshtastic_config_store_set_module ge m cs))"
    "store_wf (fst (meshtastic_config_store_merge_module ge m s cs))" "store_wf (fst (load_module dec n b cs))"
proof -
  have m: "store_wf (c\<lparr>cs_modules := (cs_modules c)[i := m]\<rparr>)"
    if "index_for_module_tag (mod_which m) = Inr i" "store_wf c" for i c
    using index_tag(2)[OF that(1)] that(2) by (intro store_wf_module) simp_all
  have m2: "store_wf (c\<lparr>cs_modules := (cs_modules c)[i := m], cs_module_stamps := (cs_module_stamps c)[j := s]\<rparr>)"
    if "index_for_module_tag (mod_which m) = Inr i" "store_wf c" for i j c
    using store_wf_stamps(2)[OF m[OF that], of j s] by simp
  show "store_wf (fst (meshtastic_config_store_set_module ge m cs))"
    using assms m by (auto simp: meshtastic_config_store_set_module_def split: sum.splits)
  show "store_wf (fst (meshtastic_config_store_merge_module ge m s cs))"
    using assms m2 by (auto simp: meshtastic_config_store_merge_module_def Let_def split: sum.splits)
  show "store_wf (fst (load_module dec n b cs))"
    using assms by (auto simp: load_module_def intro!: store_wf_module split: sum.splits)
qed

lemma device_ops_wf:
  assumes "store_wf cs"
  shows "store_wf (fst (meshtastic_config_store_set_device_role ge r cs mt))"
    "store_wf (fst (meshtastic_config_store_set_rebroadcast_mode ge r cs mt))"
    "store_wf (meshtastic_config_store_set_node_info_interval ge n cs)"
    "store_wf (meshtastic_config_store_set_position_fixed ge b cs)"
proof -
  have d: "store_wf (upd_config DEVICE_IDX (on_device f) cs)"
    if "\<And>d. dcf_role d \<le> 12 \<and> dcf_rebroadcast_mode d \<le> 5 \<Longrightarrow> dcf_role (f d) \<le> 12 \<and> dcf_rebroadcast_mode (f d) \<le> 5" for f
    using store_wfD[OF assms, of DEVICE_IDX] assms that by (intro store_wf_upd) (auto intro: device_valid)
  show "store_wf (fst (meshtastic_config_store_set_device_role ge r cs mt))"
    "store_wf (fst (meshtastic_config_store_set_rebroadcast_mode ge r cs mt))"
    "store_wf (meshtastic_config_store_set_node_info_interval ge n cs)"
    using assms by (auto simp: meshtastic_config_store_set_device_role_def meshtastic_config_store_set_rebroadcast_mode_def
        meshtastic_config_store_set_node_info_interval_def intro!: stamp_slot_wf d)
  show "store_wf (meshtastic_config_store_set_position_fixed ge b cs)"
    using store_wfD[OF assms, of POSITION_IDX] assms
    by (auto simp: meshtastic_config_store_set_position_fixed_def intro!: stamp_slot_wf store_wf_upd)
qed

lemma stamp_all_wf: "store_wf cs \<Longrightarrow> store_wf (meshtastic_config_store_stamp_all_local ge cs)"
  unfolding meshtastic_config_store_stamp_all_local_def by (intro fold_keeps[of store_wf]) simp_all

lemma store_step_wf:
  assumes wf: "store_wf cs"
  shows "store_wf (fst (store_step ge op (cs, mt)))"
proof (cases op)
  case (Op_Set_Config c)
  with set_config_wf[OF wf, of ge c mt] show ?thesis by (auto split: prod.splits)
next
  case (Op_Merge_Config c s)
  with merge_config_wf[OF wf, of ge c s mt] show ?thesis by (auto split: prod.splits)
next
  case (Op_Device_Role r)
  with device_ops_wf(1)[OF wf, of ge r mt] show ?thesis by (auto split: prod.splits)
next
  case (Op_Rebroadcast r)
  with device_ops_wf(2)[OF wf, of ge r mt] show ?thesis by (auto split: prod.splits)
next
  case Op_Apply
  with apply_core_wf[OF wf, of ge mt] show ?thesis by (auto split: prod.splits)
qed (use wf in \<open>simp_all add: load_config_wf module_ops_wf device_ops_wf stamp_all_wf seeds_wf reconcile_seeds_locked_def
    reconcile_stamped_wf load_config_stamp_def load_module_stamp_def meshtastic_config_store_set_save_suppressed_def Let_def
    split: sum.splits\<close>)

section \<open>The clock stays ahead of the stamps\<close>

definition store_stamps :: "config_store \<Rightarrow> meshtastic_hlc_stamp set" where
  "store_stamps cs = set (cs_config_stamps cs) \<union> set (cs_module_stamps cs)"

definition clock_dominates :: "config_store \<Rightarrow> bool" where
  "clock_dominates cs \<longleftrightarrow> (\<forall>s \<in> store_stamps cs. st_pair s \<le> hlc_pair (cs_hlc cs))"

text \<open>A stamp within the drift the clock tolerates, and the operations that bring only such stamps.\<close>

definition in_horizon :: "cfg_env \<Rightarrow> meshtastic_hlc_stamp \<Rightarrow> bool" where
  "in_horizon ge s \<longleftrightarrow> ge_epoch_ms ge \<le> 0 \<or> st_physical_ms s \<le> ge_epoch_ms ge + MESHTASTIC_HLC_MAX_DRIFT_MS"

fun op_in_horizon :: "cfg_env \<Rightarrow> store_op \<Rightarrow> bool" where
  "op_in_horizon ge (Op_Merge_Config c s) = in_horizon ge s"
| "op_in_horizon ge (Op_Merge_Module m s) = in_horizon ge s"
| "op_in_horizon ge (Op_Load_Config_Stamp n b) = in_horizon ge (decode_hlc_record b)"
| "op_in_horizon ge (Op_Load_Module_Stamp n b) = in_horizon ge (decode_hlc_record b)"
| "op_in_horizon ge op = True"

lemma dominates_mono:
  "clock_dominates cs \<Longrightarrow> hlc_pair (cs_hlc cs) \<le> hlc_pair (cs_hlc cs') \<Longrightarrow>
     (\<forall>s \<in> store_stamps cs'. s \<in> store_stamps cs \<or> st_pair s \<le> hlc_pair (cs_hlc cs')) \<Longrightarrow> clock_dominates cs'"
  unfolding clock_dominates_def by (meson order_trans)

lemma store_stamps_upd:
  "store_stamps (cs\<lparr>cs_config_stamps := (cs_config_stamps cs)[i := s]\<rparr>) \<subseteq> insert s (store_stamps cs)"
  "store_stamps (cs\<lparr>cs_module_stamps := (cs_module_stamps cs)[i := s]\<rparr>) \<subseteq> insert s (store_stamps cs)"
  using set_update_subset_insert[of "cs_config_stamps cs" i s] set_update_subset_insert[of "cs_module_stamps cs" i s]
  by (auto simp: store_stamps_def)

lemma observe_beyond:
  "in_horizon ge s \<Longrightarrow> st_pair s < hlc_pair (cs_hlc (observe_stamp ge s cs))"
  "hlc_pair (cs_hlc cs) < hlc_pair (cs_hlc (observe_stamp ge s cs))"
  "store_stamps (observe_stamp ge s cs) = store_stamps cs"
proof -
  show "hlc_pair (cs_hlc cs) < hlc_pair (cs_hlc (observe_stamp ge s cs))"
    by (simp add: observe_stamp_def meshtastic_hlc_observe_def observe_at_advances)
  show "store_stamps (observe_stamp ge s cs) = store_stamps cs" by (simp add: observe_stamp_def store_stamps_def)
  assume "in_horizon ge s"
  then have "\<not> snd (meshtastic_hlc_observe_at (cs_hlc cs) s (ge_epoch_ms ge))"
    by (auto simp: in_horizon_def meshtastic_hlc_observe_at_def Let_def split_def)
  then show "st_pair s < hlc_pair (cs_hlc (observe_stamp ge s cs))"
    by (simp add: observe_stamp_def meshtastic_hlc_observe_def observe_at_beyond_remote)
qed

lemma stamp_local_beyond:
  assumes "stamp_local ge cs = (cs', s)"
  shows "hlc_pair (cs_hlc cs) < st_pair s" "st_pair s = hlc_pair (cs_hlc cs')" "cs' = cs\<lparr>cs_hlc := cs_hlc cs'\<rparr>"
  using assms local_at_advances[of "cs_hlc cs" "ge_node_id ge" "ge_epoch_ms ge"]
    local_at_stamp(1)[of "cs_hlc cs" "ge_node_id ge" "ge_epoch_ms ge"]
  by (auto simp: stamp_local_def meshtastic_hlc_local_def split: prod.splits)

lemma stamp_slot_dominates:
  assumes "clock_dominates cs"
  shows "clock_dominates (stamp_config_slot ge i cs)" "clock_dominates (stamp_module_slot ge i cs)"
proof -
  obtain cs' s where l: "stamp_local ge cs = (cs', s)" by fastforce
  note b = stamp_local_beyond[OF l]
  have st: "store_stamps cs' = store_stamps cs" by (subst b(3)) (simp add: store_stamps_def)
  have hp: "hlc_pair (cs_hlc cs) \<le> hlc_pair (cs_hlc cs')" using b(1,2) by (simp add: order.strict_implies_order)
  show "clock_dominates (stamp_config_slot ge i cs)"
    using store_stamps_upd(1)[of cs' i s] b(2) hp
    by (intro dominates_mono[OF assms]) (auto simp: stamp_config_slot_def l st)
  show "clock_dominates (stamp_module_slot ge i cs)"
    using store_stamps_upd(2)[of cs' i s] b(2) hp
    by (intro dominates_mono[OF assms]) (auto simp: stamp_module_slot_def l st)
qed

text \<open>The parts of the store the clock argument does not read.\<close>

definition same_versions :: "config_store \<Rightarrow> config_store \<Rightarrow> bool" where
  "same_versions cs cs' \<longleftrightarrow>
     cs_hlc cs' = cs_hlc cs \<and> cs_config_stamps cs' = cs_config_stamps cs \<and> cs_module_stamps cs' = cs_module_stamps cs"

lemma same_versions_dominates: "same_versions cs cs' \<Longrightarrow> clock_dominates cs' = clock_dominates cs"
  by (simp add: same_versions_def clock_dominates_def store_stamps_def)

lemma same_versions_simps [simp]:
  "same_versions cs (upd_config i f cs)" "same_versions cs (store_schedule_save cs)"
  "same_versions cs (cs\<lparr>cs_modules := ms\<rparr>)" "same_versions cs (cs\<lparr>cs_configs := xs\<rparr>)"
  "same_versions cs (reconcile_stamped_seeds_locked ge cs)" "same_versions cs (reconcile_seeds_locked ge cs)"
  "same_versions cs (cs\<lparr>cs_save_suppressed := b\<rparr>)" "same_versions cs cs"
  by (simp_all add: same_versions_def upd_config_def store_schedule_save_def reconcile_stamped_seeds_locked_def
      reconcile_seeds_locked_def seed_position_broadcast_def seed_position_once_def seed_telemetry_flags_def Let_def)

lemma apply_core_versions: "same_versions cs (fst (meshtastic_config_store_apply_core ge cs mt))"
  using same_versions_simps(5)[of cs ge]
  by (auto simp: meshtastic_config_store_apply_core_def apply_fem_def Let_def same_versions_def upd_config_def
      split: option.splits prod.splits if_splits)

lemmas versions_dom = same_versions_dominates[OF same_versions_simps(1)] same_versions_dominates[OF same_versions_simps(2)]
  same_versions_dominates[OF same_versions_simps(3)] same_versions_dominates[OF same_versions_simps(4)]
  same_versions_dominates[OF same_versions_simps(5)] same_versions_dominates[OF same_versions_simps(6)]
  same_versions_dominates[OF same_versions_simps(7)] same_versions_dominates[OF apply_core_versions]

lemma adopt_dominates:
  assumes "clock_dominates cs" "in_horizon ge s"
  shows "clock_dominates ((observe_stamp ge s cs)\<lparr>cs_config_stamps := (cs_config_stamps (observe_stamp ge s cs))[i := s]\<rparr>)"
    "clock_dominates ((observe_stamp ge s cs)\<lparr>cs_module_stamps := (cs_module_stamps (observe_stamp ge s cs))[i := s]\<rparr>)"
    "clock_dominates (observe_stamp ge s cs)"
  using assms(1) observe_beyond(1)[OF assms(2), of cs] observe_beyond(2)[of cs ge s] observe_beyond(3)[of ge s cs]
    store_stamps_upd(1)[of "observe_stamp ge s cs" i s] store_stamps_upd(2)[of "observe_stamp ge s cs" i s]
  by (auto intro!: dominates_mono[OF assms(1)])

lemma merge_config_dominates:
  assumes "clock_dominates cs" "in_horizon ge s"
  shows "clock_dominates (fst (meshtastic_config_store_merge_config ge c s cs mt))"
proof -
  let ?o = "observe_stamp ge s cs"
  have "clock_dominates ((upd_config i (\<lambda>_. c) ?o)\<lparr>cs_config_stamps := (cs_config_stamps ?o)[i := s]\<rparr>)" for i
    by (rule same_versions_dominates[THEN iffD2, OF _ adopt_dominates(1)[OF assms, of i]]) (simp add: same_versions_def upd_config_def)
  then have "clock_dominates (fst (meshtastic_config_store_apply_core ge
      ((upd_config i (\<lambda>_. c) ?o)\<lparr>cs_config_stamps := (cs_config_stamps ?o)[i := s]\<rparr>) mt))" for i
    by (simp add: versions_dom)
  then have "clock_dominates c1" if "meshtastic_config_store_apply_core ge
      ((upd_config i (\<lambda>_. c) ?o)\<lparr>cs_config_stamps := (cs_config_stamps ?o)[i := s]\<rparr>) mt = (c1, m1, r1)" for i c1 m1 r1
    using that by (metis fst_conv)
  with assms(1) adopt_dominates(3)[OF assms] show ?thesis
    by (auto simp: meshtastic_config_store_merge_config_def Let_def versions_dom(2) split: sum.splits prod.splits)
qed

lemma merge_module_dominates:
  assumes "clock_dominates cs" "in_horizon ge s"
  shows "clock_dominates (fst (meshtastic_config_store_merge_module ge m s cs))"
proof -
  let ?o = "observe_stamp ge s cs"
  have "clock_dominates (?o\<lparr>cs_modules := (cs_modules ?o)[i := m], cs_module_stamps := (cs_module_stamps ?o)[i := s]\<rparr>)" for i
    by (rule same_versions_dominates[THEN iffD2, OF _ adopt_dominates(2)[OF assms, of i]]) (simp add: same_versions_def)
  with assms(1) adopt_dominates(3)[OF assms] show ?thesis
    by (auto simp: meshtastic_config_store_merge_module_def Let_def versions_dom split: sum.splits)
qed

lemma observe_stamp_upd:
  "observe_stamp ge s (cs\<lparr>cs_config_stamps := xs\<rparr>) = (observe_stamp ge s cs)\<lparr>cs_config_stamps := xs\<rparr>"
  "observe_stamp ge s (cs\<lparr>cs_module_stamps := xs\<rparr>) = (observe_stamp ge s cs)\<lparr>cs_module_stamps := xs\<rparr>"
  "cs_config_stamps (observe_stamp ge s cs) = cs_config_stamps cs"
  "cs_module_stamps (observe_stamp ge s cs) = cs_module_stamps cs"
  by (simp_all add: observe_stamp_def)

lemma load_stamp_dominates:
  assumes "clock_dominates cs" "in_horizon ge (decode_hlc_record b)"
  shows "clock_dominates (fst (load_config_stamp ge n b cs))" "clock_dominates (fst (load_module_stamp ge n b cs))"
  using assms(1) adopt_dominates(1,2)[OF assms]
  by (auto simp: load_config_stamp_def load_module_stamp_def Let_def observe_stamp_upd split: sum.splits)

lemma set_config_dominates:
  assumes "clock_dominates cs"
  shows "clock_dominates (fst (meshtastic_config_store_set_config ge c cs mt))"
proof -
  have "clock_dominates (fst (meshtastic_config_store_apply_core ge (stamp_config_slot ge i (upd_config i (\<lambda>_. c) cs)) mt))" for i
    using assms by (simp add: versions_dom stamp_slot_dominates)
  then have "clock_dominates c1" if "meshtastic_config_store_apply_core ge (stamp_config_slot ge i (upd_config i (\<lambda>_. c) cs)) mt = (c1, m1, r1)"
    for i c1 m1 r1 using that by (metis fst_conv)
  with assms show ?thesis
    by (auto simp: meshtastic_config_store_set_config_def Let_def versions_dom(2) split: sum.splits option.splits prod.splits)
qed

lemma store_step_dominates:
  assumes dom: "clock_dominates cs" and ok: "op_in_horizon ge op"
  shows "clock_dominates (fst (store_step ge op (cs, mt)))"
proof (cases op)
  case (Op_Set_Config c)
  with set_config_dominates[OF dom, of ge c mt] show ?thesis by (auto split: prod.splits)
next
  case (Op_Merge_Config c s)
  with merge_config_dominates[OF dom, of ge s c mt] ok show ?thesis by (auto split: prod.splits)
next
  case (Op_Merge_Module m s)
  with merge_module_dominates[OF dom, of ge s m] ok show ?thesis by simp
next
  case Op_Apply
  with dom same_versions_dominates[OF apply_core_versions[of cs ge mt]] show ?thesis by (auto split: prod.splits)
next
  case Op_Stamp_All
  have "clock_dominates (meshtastic_config_store_stamp_all_local ge cs)"
    unfolding meshtastic_config_store_stamp_all_local_def
    using dom by (intro fold_keeps[of clock_dominates]) (simp_all add: stamp_slot_dominates)
  with Op_Stamp_All show ?thesis by simp
qed (use dom ok load_stamp_dominates in \<open>simp_all add: versions_dom stamp_slot_dominates meshtastic_config_store_set_module_def
    meshtastic_config_store_set_position_fixed_def meshtastic_config_store_set_device_role_def
    meshtastic_config_store_set_rebroadcast_mode_def meshtastic_config_store_set_node_info_interval_def
    load_config_def load_module_def meshtastic_config_store_set_save_suppressed_def split: sum.splits\<close>)

lemma store_run_keeps:
  assumes "\<And>ge op cs mt. P cs \<Longrightarrow> Q ge op \<Longrightarrow> P (fst (store_step ge op (cs, mt)))"
    and "P (fst x)" "list_all (\<lambda>(ge, op). Q ge op) ops"
  shows "P (fst (store_run ops x))"
  using assms(2,3)
proof (induction ops arbitrary: x)
  case (Cons o1 ops)
  obtain ge op where o1: "o1 = (ge, op)" by fastforce
  have "P (fst (store_step ge op x))" using assms(1)[of "fst x" ge op "snd x"] Cons.prems by (simp add: o1)
  with Cons show ?case by (simp add: store_run_def o1)
qed (simp add: store_run_def)

section \<open>Properties\<close>

text \<open>C20. Every slot of the store holds a valid section of its own tag, after any sequence of edits,
  merges, loads from flash, seeds and radio updates.\<close>

theorem config_store_invariant:
  assumes "store_wf cs"
  shows "store_wf (fst (store_run ops (cs, mt)))"
  using store_run_keeps[of store_wf "\<lambda>_ _. True" "(cs, mt)" ops] store_step_wf assms by (auto simp: list_all_iff)

text \<open>A store as a fresh node has it, used by the examples.\<close>

definition ex_lora :: meshtastic_LoRaConfig where
  "ex_lora = \<lparr>lcf_use_preset = True, lcf_modem_preset = PRESET_LONG_FAST, lcf_bandwidth = 0, lcf_spread_factor = 0,
     lcf_coding_rate = 0, lcf_region = REGION_EU_868, lcf_hop_limit = 3, lcf_tx_enabled = True, lcf_tx_power = 0,
     lcf_override_duty_cycle = False, lcf_rx_boosted_gain = True, lcf_override_hz = None,
     lcf_fem_lna_mode = FEM_LNA_NOT_PRESENT, lcf_config_ok_to_mqtt = False, lcf_rest = []\<rparr>"

definition ex_store :: config_store where
  "ex_store = \<lparr>cs_configs = [Config_device \<lparr>dcf_role = 0, dcf_rebroadcast_mode = 0, dcf_node_info_broadcast_secs = 0, dcf_rest = []\<rparr>,
       Config_position \<lparr>pcf_smart_enabled = False, pcf_smart_minimum_distance = 0, pcf_smart_minimum_interval_secs = 0,
         pcf_position_flags = 0, pcf_fixed_position = False, pcf_rest = []\<rparr>,
       Config_power [], Config_network [], Config_display [], Config_lora ex_lora,
       Config_bluetooth \<lparr>bcf_mode = 2, bcf_rest = []\<rparr>, Config_security [], Config_sessionkey [], Config_device_ui []],
     cs_modules = map (\<lambda>(_, t). if t = 6 then Module_telemetry False False [] else Module_other t []) module_names,
     cs_hlc = \<lparr>hlc_physical_ms = 0, hlc_counter = 0\<rparr>,
     cs_config_stamps = replicate 10 unset_stamp, cs_module_stamps = replicate 17 unset_stamp,
     cs_position_seed = 0, cs_is_licensed = False, cs_save_suppressed = False, cs_save_pending = False\<rparr>"

definition ex_ge :: cfg_env where
  "ex_ge = \<lparr>ge_node_id = 9, ge_epoch_ms = 5000, ge_device_metrics = True, ge_environment_metrics = False,
     ge_fem_lna_can_control = False, ge_attachment_head = False, ge_set_slots = None, ge_primary_name = ''LongFast'',
     ge_retune = None,
     ge_tx_power = \<lparr>txc_default_region = REGION_US, txc_tx_power = 14, txc_radio_min = - 9, txc_radio_max = 22\<rparr>,
     ge_uptime_ms = 0, ge_settle_ms = 500\<rparr>"

definition ex_mt :: mt_state where
  "ex_mt = \<lparr>mt_modem_preset = 0, mt_use_preset = True, mt_config_ok_to_mqtt = False, mt_device_role = 0,
     mt_rebroadcast_mode = 0, mt_hop_limit = 3, mt_tx_power = 14, mt_licensed = False,
     mt_modem = \<lparr>mp_bandwidth_hz = 250000, mp_spread_factor = 11, mp_coding_rate = 5\<rparr>, mt_rx_boosted_gain = True,
     mt_tx_enabled = True, mt_fem_lna = False, mt_frequency = 906875000, mt_duty_override = False,
     mt_duty_region = REGION_US, mt_duty_permille = 1000,
     mt_gate_generation = 1, mt_settle_until = 0\<rparr>"

lemma ex_store_wf: "store_wf ex_store"
proof -
  have "list_all2 (\<lambda>c n. cfg_which c = snd n \<and> config_is_valid c) (cs_configs ex_store) config_names"
    "list_all2 (\<lambda>m n. mod_which m = snd n) (cs_modules ex_store) module_names" by code_simp+
  then show ?thesis by (simp add: store_wf_def list_all2_conv_all_nth) (simp add: ex_store_def)
qed

lemma ex_store_dominates: "clock_dominates ex_store"
  by (simp add: clock_dominates_def store_stamps_def ex_store_def st_pair_def hlc_pair_def unset_stamp_def)

theorem config_store_invariant_witness:
  "store_wf (fst (store_run [(ex_ge, Op_Device_Role 2), (ex_ge, Op_Seeds), (ex_ge, Op_Apply)] (ex_store, ex_mt)))"
  using config_store_invariant[OF ex_store_wf] .



text \<open>C23. The records of the store read back as written: a stamp record decodes to the stamp, and a
  section record hands the decoder exactly the bytes the encoder produced.\<close>

theorem config_records_roundtrip:
  assumes "i64_range (st_physical_ms s)" "STORE_HLC_RECORD_LEN \<le> buf_len" "length b < 2 ^ 16"
  shows "(\<exists>r. encode_hlc_record s buf_len = Inr r \<and> length r = STORE_HLC_RECORD_LEN \<and> decode_hlc_record r = s)
     \<and> (\<exists>r. encode_record (Some b) buf_len = Inr r
          \<and> decode_record dec r = (case dec b of None \<Rightarrow> Inl EINVAL | Some m \<Rightarrow> Inr m))"
proof -
  let ?r = "[STORE_RECORD_VERSION] @ le_bytes (of_int (st_physical_ms s) :: u64) 8 @ le_bytes (st_counter s) 4 @ le_bytes (st_node_id s) 4"
  let ?q = "[STORE_RECORD_VERSION, 0] @ le_bytes (of_nat (length b) :: u16) 2 @ b"
  have "length ?r = STORE_HLC_RECORD_LEN" by (simp add: STORE_HLC_RECORD_LEN_def)
  moreover have "decode_hlc_record ?r = s"
    using sint_of_int_i64[OF assms(1)]
    by (intro meshtastic_hlc_stamp.equality)
      (simp_all add: decode_hlc_record_def STORE_HLC_RECORD_LEN_def STORE_RECORD_VERSION_MIN_def STORE_RECORD_VERSION_def
        f64.dec_enc f32.dec_enc)
  moreover have "decode_record dec ?q = (case dec b of None \<Rightarrow> Inl EINVAL | Some m \<Rightarrow> Inr m)"
    using assms(3) by (simp add: decode_record_def STORE_RECORD_HEADER_LEN_def STORE_RECORD_VERSION_MIN_def
        STORE_RECORD_VERSION_def f16.dec_enc unat_of_nat)
  ultimately show ?thesis
    using assms(2) by (simp add: encode_hlc_record_def encode_record_def STORE_HLC_RECORD_LEN_def STORE_RECORD_HEADER_LEN_def)
qed

theorem config_records_roundtrip_witness:
  "(\<exists>r. encode_hlc_record \<lparr>st_physical_ms = 4000, st_counter = 1, st_node_id = 7\<rparr> 64 = Inr r
      \<and> decode_hlc_record r = \<lparr>st_physical_ms = 4000, st_counter = 1, st_node_id = 7\<rparr>)
   \<and> (\<exists>r. encode_record (Some [8, 1]) 64 = Inr r \<and> decode_record (\<lambda>b. Some (length b)) r = Inr 2)"
  using config_records_roundtrip[of "\<lparr>st_physical_ms = 4000, st_counter = 1, st_node_id = 7\<rparr>" 64 "[8, 1]" "\<lambda>b. Some (length b)"]
  by (auto simp: i64_range_def INT64_MAX_def STORE_HLC_RECORD_LEN_def)

end
