(* ===== verification/Cluster_Reconcile.thy ===== *)
theory Cluster_Reconcile
  imports Cluster_Steps Config_Versions
begin

text \<open>
  The reconciler of \<^verbatim>\<open>meshtastic_cluster.c\<close> against the configuration store: after one pass every
  section the document has an opinion about is either the document's value under its version or a
  newer local one, a second pass changes nothing, and the LoRa section is never touched.
\<close>

section \<open>What one merge changes\<close>

text \<open>Slot \<open>j\<close> keeps its stamp, and its value if it was ever stamped.\<close>

definition slot_kept :: "nat \<Rightarrow> config_store \<Rightarrow> config_store \<Rightarrow> bool" where
  "slot_kept j cs cs' \<longleftrightarrow>
     cs_config_stamps cs' ! j = cs_config_stamps cs ! j
     \<and> (cs_config_stamps cs ! j \<noteq> unset_stamp \<longrightarrow> cs_configs cs' ! j = cs_configs cs ! j)"

definition store_len :: "config_store \<Rightarrow> bool" where
  "store_len cs \<longleftrightarrow> length (cs_configs cs) = 10 \<and> length (cs_config_stamps cs) = 10"

lemma slot_kept_refl [simp]: "slot_kept j cs cs" by (simp add: slot_kept_def)

lemma slot_kept_trans: "slot_kept j a b \<Longrightarrow> slot_kept j b c \<Longrightarrow> slot_kept j a c" by (simp add: slot_kept_def)

lemma stamped_seeds_slot:
  "j \<noteq> POSITION_IDX \<or> cs_config_stamps cs ! j \<noteq> unset_stamp
     \<Longrightarrow> cs_configs (reconcile_stamped_seeds_locked ge cs) ! j = cs_configs cs ! j"
  by (auto simp: reconcile_stamped_seeds_locked_def seed_telemetry_flags_def seed_position_broadcast_def upd_config_def
      Let_def is_unset_iff)

lemma seeds_len [simp]: "length (cs_configs (reconcile_stamped_seeds_locked ge cs)) = length (cs_configs cs)"
  by (simp add: reconcile_stamped_seeds_locked_def seed_telemetry_flags_def seed_position_broadcast_def upd_config_def Let_def)

lemma apply_core_slot:
  assumes "meshtastic_config_store_apply_core ge cs mt = (cs', mt', r)"
  shows "cs_config_stamps cs' = cs_config_stamps cs" "length (cs_configs cs') = length (cs_configs cs)"
    "j \<noteq> LORA_IDX \<Longrightarrow> j \<noteq> POSITION_IDX \<or> cs_config_stamps cs ! j \<noteq> unset_stamp \<Longrightarrow> cs_configs cs' ! j = cs_configs cs ! j"
proof -
  show "cs_config_stamps cs' = cs_config_stamps cs"
    using apply_core_versions[of cs ge mt] assms by (simp add: same_versions_def)
  let ?s = "reconcile_stamped_seeds_locked ge cs"
  have e: "cs' = ?s \<or> cs' = fst (apply_fem ge (lora_of ?s) ?s m)" for m
    using assms by (auto simp: meshtastic_config_store_apply_core_def Let_def apply_fem_def
        split: option.splits prod.splits if_splits)
  from e[of mt] show "length (cs_configs cs') = length (cs_configs cs)"
    by (auto simp: apply_fem_def upd_config_def)
  assume "j \<noteq> LORA_IDX" "j \<noteq> POSITION_IDX \<or> cs_config_stamps cs ! j \<noteq> unset_stamp"
  with e[of mt] stamped_seeds_slot[of j cs ge] show "cs_configs cs' ! j = cs_configs cs ! j"
    by (auto simp: apply_fem_def upd_config_def)
qed

lemma merge_config_slots:
  assumes m: "meshtastic_config_store_merge_config ge c v cs mt = (cs', mt', r)"
    and i: "index_for_config_tag (cfg_which c) = Inr i" and len: "store_len cs"
    and v: "v \<noteq> unset_stamp" and nl: "i \<noteq> LORA_IDX"
  shows "store_len cs'" "j \<noteq> i \<Longrightarrow> j \<noteq> LORA_IDX \<Longrightarrow> slot_kept j cs cs'"
    "config_is_valid c \<Longrightarrow> cs_config_stamps cs ! i < v \<Longrightarrow> cs_configs cs' ! i = c \<and> cs_config_stamps cs' ! i = v"
    "\<not> (config_is_valid c \<and> cs_config_stamps cs ! i < v) \<Longrightarrow>
       cs_configs cs' = cs_configs cs \<and> cs_config_stamps cs' = cs_config_stamps cs"
    "cs_config_stamps cs' ! LORA_IDX = cs_config_stamps cs ! LORA_IDX"
proof -
  let ?n = "config_is_valid c \<and> cs_config_stamps cs ! i < v"
  let ?b = "(upd_config i (\<lambda>_. c) (observe_stamp ge v cs))\<lparr>cs_config_stamps := (cs_config_stamps (observe_stamp ge v cs))[i := v]\<rparr>"
  have i10: "i < 10" using index_tag(1)[OF i] by simp
  have keep: "cs_configs cs' = cs_configs cs \<and> cs_config_stamps cs' = cs_config_stamps cs" if "\<not> ?n"
    using that m i by (auto simp: meshtastic_config_store_merge_config_def Let_def observe_stamp_def split: if_splits)
  have new: "\<exists>cs1 r1. meshtastic_config_store_apply_core ge ?b mt = (cs1, mt', r1) \<and> cs' = store_schedule_save cs1" if ?n
    using that m i by (auto simp: meshtastic_config_store_merge_config_def Let_def observe_stamp_upd split: prod.splits)
  have sv [simp]: "cs_configs (store_schedule_save x) = cs_configs x" "cs_config_stamps (store_schedule_save x) = cs_config_stamps x" for x
    by (simp_all add: store_schedule_save_def)
  have b [simp]: "cs_configs ?b = (cs_configs cs)[i := c]" "cs_config_stamps ?b = (cs_config_stamps cs)[i := v]"
    by (simp_all add: upd_config_def observe_stamp_def)
  show "\<not> ?n \<Longrightarrow> cs_configs cs' = cs_configs cs \<and> cs_config_stamps cs' = cs_config_stamps cs" by (rule keep)
  have all: "store_len cs' \<and> cs_config_stamps cs' ! LORA_IDX = cs_config_stamps cs ! LORA_IDX
      \<and> (j \<noteq> i \<longrightarrow> j \<noteq> LORA_IDX \<longrightarrow> slot_kept j cs cs')
      \<and> (?n \<longrightarrow> cs_configs cs' ! i = c \<and> cs_config_stamps cs' ! i = v)"
  proof (cases ?n)
    case False
    with keep[OF False] len show ?thesis by (auto simp: store_len_def slot_kept_def)
  next
    case True
    obtain cs1 r1 where ap: "meshtastic_config_store_apply_core ge ?b mt = (cs1, mt', r1)" "cs' = store_schedule_save cs1"
      using new[OF True] by blast
    note a = apply_core_slot[OF ap(1), unfolded b]
    have st: "cs_config_stamps cs' = (cs_config_stamps cs)[i := v]" "length (cs_configs cs') = length (cs_configs cs)"
      using a(1,2) by (simp_all add: ap(2))
    have own: "cs_configs cs' ! i = c" using a(3)[of i] nl v i10 len by (simp add: ap(2) store_len_def)
    have other: "slot_kept j cs cs'" if "j \<noteq> i" "j \<noteq> LORA_IDX"
      using a(3)[of j] that by (cases "j = POSITION_IDX") (simp_all add: slot_kept_def st(1), simp_all add: ap(2))
    show ?thesis using st own other nl i10 len by (auto simp: store_len_def)
  qed
  from all show "store_len cs'" "cs_config_stamps cs' ! LORA_IDX = cs_config_stamps cs ! LORA_IDX"
    "j \<noteq> i \<Longrightarrow> j \<noteq> LORA_IDX \<Longrightarrow> slot_kept j cs cs'"
    "config_is_valid c \<Longrightarrow> cs_config_stamps cs ! i < v \<Longrightarrow> cs_configs cs' ! i = c \<and> cs_config_stamps cs' ! i = v"
    by blast+
qed

section \<open>One section\<close>

definition recon_sections :: "u16 list" where
  "recon_sections = filter (\<lambda>sec. \<not> meshtastic_cluster_section_is_private sec) shareable_sections"

lemma recon_sections_eq: "recon_sections = [1, 2, 3, 5, 6, 7]" by code_simp

fun sec_idx :: "u16 \<Rightarrow> nat" where "sec_idx sec = unat sec - 1"

lemma recon_idx: "sec \<in> set recon_sections \<Longrightarrow> index_for_config_tag sec = Inr (sec_idx sec) \<and> sec_idx sec < 10"
  by (auto simp: recon_sections_eq index_for_config_tag_def config_names_def)

lemma recon_idx_inj:
  "a \<in> set recon_sections \<Longrightarrow> b \<in> set recon_sections \<Longrightarrow> a \<noteq> b \<Longrightarrow> sec_idx a \<noteq> sec_idx b"
  "a \<in> set recon_sections \<Longrightarrow> sec_idx a = LORA_IDX \<longleftrightarrow> a = Config_lora_tag"
  by (auto simp: recon_sections_eq Config_lora_tag_def)

text \<open>A section is settled when the store is at least as new as a value of the document it could apply.\<close>

definition settled :: "cluster_env \<Rightarrow> u16 \<Rightarrow> cluster \<Rightarrow> config_store \<Rightarrow> bool" where
  "settled ev sec st cs \<longleftrightarrow>
     (\<forall>payload v c. doc_opinion ev sec st = Some (payload, v) \<longrightarrow> ev_decode_config ev payload = Some c \<longrightarrow>
        cfg_which c = sec \<longrightarrow> config_is_valid c \<longrightarrow> v \<le> cs_config_stamps cs ! sec_idx sec)"

lemma opinion_version:
  assumes "doc_inv (cl_doc st)" "doc_opinion ev sec st = Some (payload, v)"
  shows "v \<noteq> unset_stamp"
proof -
  have "ent_stamp e \<noteq> unset_stamp" if "meshtastic_cluster_doc_find (cl_doc st) k = Some e" for k e
    using find_entry_ok[OF assms(1) that] by (simp add: entry_ok_def write_ok_def)
  with assms(2) show ?thesis
    by (auto simp: doc_opinion_def meshtastic_cluster_doc_effective_version_def Let_def
        split: option.splits prod.splits bool.splits if_splits)
qed

lemma reconcile_section_spec:
  assumes r: "reconcile_section ev ge sec (st, cs, mt) = (st', cs', mt')"
    and inv: "doc_inv (cl_doc st)" and len: "store_len cs" and sec: "sec \<in> set recon_sections"
  shows "cl_doc st' = cl_doc st" "store_len cs'"
    "j \<noteq> sec_idx sec \<Longrightarrow> j \<noteq> LORA_IDX \<Longrightarrow> slot_kept j cs cs'"
    "cs_config_stamps cs' ! LORA_IDX = cs_config_stamps cs ! LORA_IDX"
    "sec \<noteq> Config_lora_tag \<Longrightarrow> doc_opinion ev sec st = Some (payload, v) \<Longrightarrow> ev_decode_config ev payload = Some c \<Longrightarrow>
       cfg_which c = sec \<Longrightarrow> config_is_valid c \<Longrightarrow> cs_config_stamps cs ! sec_idx sec < v \<Longrightarrow>
       cs_configs cs' ! sec_idx sec = c \<and> cs_config_stamps cs' ! sec_idx sec = v"
    "settled ev sec st cs \<or> sec = Config_lora_tag \<Longrightarrow> cs_configs cs' = cs_configs cs \<and> cs_config_stamps cs' = cs_config_stamps cs"
proof -
  note ix = recon_idx[OF sec]
  have derived: "section_is_doc_derived sec v cs \<longleftrightarrow> cs_config_stamps cs ! sec_idx sec = v" for v
    using ix by (simp add: section_is_doc_derived_def meshtastic_config_store_get_config_stamp_def hlc_order.cmp_zero)
  show "cl_doc st' = cl_doc st"
    using r by (auto simp: reconcile_section_def Let_def split: option.splits prod.splits if_splits)
  have noop: "cs' = cs" if "\<not> (\<exists>payload v c. doc_opinion ev sec st = Some (payload, v) \<and> ev_decode_config ev payload = Some c
      \<and> cfg_which c = sec \<and> sec \<noteq> Config_lora_tag \<and> cs_config_stamps cs ! sec_idx sec \<noteq> v)"
    using that r derived by (auto simp: reconcile_section_def Let_def split: option.splits prod.splits if_splits)
  have run: "\<exists>r1. meshtastic_config_store_merge_config ge c v cs mt = (cs', mt', r1)"
    if "doc_opinion ev sec st = Some (payload, v)" "ev_decode_config ev payload = Some c" "cfg_which c = sec"
      "sec \<noteq> Config_lora_tag" "cs_config_stamps cs ! sec_idx sec \<noteq> v" for payload v c
    using that r derived by (auto simp: reconcile_section_def Let_def split: prod.splits)
  have "(store_len cs' \<and> (j \<noteq> sec_idx sec \<longrightarrow> j \<noteq> LORA_IDX \<longrightarrow> slot_kept j cs cs')
      \<and> cs_config_stamps cs' ! LORA_IDX = cs_config_stamps cs ! LORA_IDX)
     \<and> (sec \<noteq> Config_lora_tag \<and> doc_opinion ev sec st = Some (payload, v) \<and> ev_decode_config ev payload = Some c \<and>
          cfg_which c = sec \<and> config_is_valid c \<and> cs_config_stamps cs ! sec_idx sec < v \<longrightarrow>
          cs_configs cs' ! sec_idx sec = c \<and> cs_config_stamps cs' ! sec_idx sec = v)
     \<and> (settled ev sec st cs \<or> sec = Config_lora_tag \<longrightarrow> cs_configs cs' = cs_configs cs \<and> cs_config_stamps cs' = cs_config_stamps cs)"
  proof (cases "\<exists>payload v c. doc_opinion ev sec st = Some (payload, v) \<and> ev_decode_config ev payload = Some c
      \<and> cfg_which c = sec \<and> sec \<noteq> Config_lora_tag \<and> cs_config_stamps cs ! sec_idx sec \<noteq> v")
    case False
    with noop[OF False] len show ?thesis by auto
  next
    case True
    then obtain p1 v1 c1 where o: "doc_opinion ev sec st = Some (p1, v1)" "ev_decode_config ev p1 = Some c1"
      "cfg_which c1 = sec" "sec \<noteq> Config_lora_tag" "cs_config_stamps cs ! sec_idx sec \<noteq> v1" by blast
    obtain r1 where m: "meshtastic_config_store_merge_config ge c1 v1 cs mt = (cs', mt', r1)" using run[OF o] by blast
    have i1: "index_for_config_tag (cfg_which c1) = Inr (sec_idx sec)" using ix o(3) by simp
    have nl: "sec_idx sec \<noteq> LORA_IDX" using recon_idx_inj(2)[OF sec] o(4) by simp
    note f = merge_config_slots[OF m i1 len opinion_version[OF inv o(1)] nl]
    have "cs_configs cs' = cs_configs cs \<and> cs_config_stamps cs' = cs_config_stamps cs" if "settled ev sec st cs"
      using that o by (intro f(4)) (auto simp: settled_def not_less)
    with f(1,2,3,5) o show ?thesis by auto
  qed
  then show "store_len cs'" "j \<noteq> sec_idx sec \<Longrightarrow> j \<noteq> LORA_IDX \<Longrightarrow> slot_kept j cs cs'"
    "cs_config_stamps cs' ! LORA_IDX = cs_config_stamps cs ! LORA_IDX"
    "sec \<noteq> Config_lora_tag \<Longrightarrow> doc_opinion ev sec st = Some (payload, v) \<Longrightarrow> ev_decode_config ev payload = Some c \<Longrightarrow>
       cfg_which c = sec \<Longrightarrow> config_is_valid c \<Longrightarrow> cs_config_stamps cs ! sec_idx sec < v \<Longrightarrow>
       cs_configs cs' ! sec_idx sec = c \<and> cs_config_stamps cs' ! sec_idx sec = v"
    "settled ev sec st cs \<or> sec = Config_lora_tag \<Longrightarrow> cs_configs cs' = cs_configs cs \<and> cs_config_stamps cs' = cs_config_stamps cs"
    by blast+
qed

section \<open>A whole pass\<close>

text \<open>What a pass from \<open>cs\<close> to \<open>cs'\<close> has done to the slot of one section.\<close>

definition applied :: "cluster_env \<Rightarrow> u16 \<Rightarrow> cluster \<Rightarrow> config_store \<Rightarrow> config_store \<Rightarrow> bool" where
  "applied ev sec st cs cs' \<longleftrightarrow>
     (\<forall>payload v c. doc_opinion ev sec st = Some (payload, v) \<longrightarrow> ev_decode_config ev payload = Some c \<longrightarrow>
        cfg_which c = sec \<longrightarrow> config_is_valid c \<longrightarrow>
        (if cs_config_stamps cs ! sec_idx sec < v
         then cs_configs cs' ! sec_idx sec = c \<and> cs_config_stamps cs' ! sec_idx sec = v
         else slot_kept (sec_idx sec) cs cs'))"

lemma opinion_cong:
  assumes e: "cl_doc st' = cl_doc st"
  shows "doc_opinion ev sec st' = doc_opinion ev sec st"
  unfolding doc_opinion_def e ..

lemma applied_cong:
  assumes "cl_doc st' = cl_doc st"
  shows "applied ev sec st' cs cs' = applied ev sec st cs cs'"
  unfolding applied_def opinion_cong[OF assms] ..

lemma applied_after:
  assumes "applied ev sec st cs cs1" "slot_kept (sec_idx sec) cs1 cs'" "doc_inv (cl_doc st)"
  shows "applied ev sec st cs cs'"
  using assms opinion_version[OF assms(3), of ev sec] unfolding applied_def
  by (auto simp: slot_kept_def)

lemma applied_before:
  assumes "slot_kept (sec_idx sec) cs cs1" "applied ev sec st cs1 cs'"
  shows "applied ev sec st cs cs'"
  using assms unfolding applied_def by (auto simp: slot_kept_def)

lemma step_applied:
  assumes r: "reconcile_section ev ge sec (st, cs, mt) = (st', cs', mt')"
    and inv: "doc_inv (cl_doc st)" and len: "store_len cs" and sec: "sec \<in> set recon_sections" "sec \<noteq> Config_lora_tag"
  shows "applied ev sec st cs cs'"
  unfolding applied_def
proof (intro allI impI)
  fix payload v c
  assume o: "doc_opinion ev sec st = Some (payload, v)" "ev_decode_config ev payload = Some c" "cfg_which c = sec" "config_is_valid c"
  note f = reconcile_section_spec[OF r inv len sec(1)]
  show "if cs_config_stamps cs ! sec_idx sec < v then cs_configs cs' ! sec_idx sec = c \<and> cs_config_stamps cs' ! sec_idx sec = v
      else slot_kept (sec_idx sec) cs cs'"
  proof (cases "cs_config_stamps cs ! sec_idx sec < v")
    case True
    with f(5)[OF sec(2) o True] show ?thesis by simp
  next
    case False
    then have "settled ev sec st cs" using o by (auto simp: settled_def)
    with f(6) False show ?thesis by (simp add: slot_kept_def)
  qed
qed

lemma pass_spec:
  assumes "fold (reconcile_section ev ge) secs (st, cs, mt) = (st', cs', mt')"
    and "doc_inv (cl_doc st)" "store_len cs" "distinct secs" "set secs \<subseteq> set recon_sections"
  shows "cl_doc st' = cl_doc st \<and> store_len cs' \<and> cs_config_stamps cs' ! LORA_IDX = cs_config_stamps cs ! LORA_IDX
     \<and> (\<forall>j. j \<noteq> LORA_IDX \<longrightarrow> j \<notin> sec_idx ` set secs \<longrightarrow> slot_kept j cs cs')
     \<and> (\<forall>sec \<in> set secs. sec \<noteq> Config_lora_tag \<longrightarrow> applied ev sec st cs cs')"
  using assms
proof (induction secs arbitrary: st cs mt)
  case (Cons sec secs)
  obtain st1 cs1 mt1 where r: "reconcile_section ev ge sec (st, cs, mt) = (st1, cs1, mt1)" by (metis prod_cases3)
  have sec: "sec \<in> set recon_sections" using Cons.prems(5) by simp
  note f = reconcile_section_spec[OF r Cons.prems(2,3) sec]
  have ih: "cl_doc st' = cl_doc st1" "store_len cs'" "cs_config_stamps cs' ! LORA_IDX = cs_config_stamps cs1 ! LORA_IDX"
    "\<And>j. j \<noteq> LORA_IDX \<Longrightarrow> j \<notin> sec_idx ` set secs \<Longrightarrow> slot_kept j cs1 cs'"
    "\<And>s. s \<in> set secs \<Longrightarrow> s \<noteq> Config_lora_tag \<Longrightarrow> applied ev s st1 cs1 cs'"
    using Cons.IH[of st1 cs1 mt1] Cons.prems f(1,2) r by auto
  have out: "sec_idx sec \<notin> sec_idx ` set secs"
    using recon_idx_inj(1)[OF sec] Cons.prems(4,5) by auto
  have "applied ev sec st cs cs'" if "sec \<noteq> Config_lora_tag"
    using applied_after[OF step_applied[OF r Cons.prems(2,3) sec that] _ Cons.prems(2)] ih(4)[OF _ out]
      recon_idx_inj(2)[OF sec] that by blast
  moreover have "applied ev s st cs cs'" if s: "s \<in> set secs" "s \<noteq> Config_lora_tag" for s
  proof -
    have "s \<in> set recon_sections" "s \<noteq> sec" using s(1) Cons.prems(4,5) by auto
    then have "slot_kept (sec_idx s) cs cs1" using f(3)[of "sec_idx s"] recon_idx_inj(1)[of s sec] recon_idx_inj(2)[of s] sec s(2) by auto
    with applied_before ih(5)[OF s] applied_cong[OF f(1)] show ?thesis by blast
  qed
  moreover have "slot_kept j cs cs'" if "j \<noteq> LORA_IDX" "j \<notin> sec_idx ` set (sec # secs)" for j
    using that f(3)[of j] ih(4)[of j] slot_kept_trans by auto
  ultimately show ?case using f(1,4) ih(1-3) by auto
qed simp

lemma work_fn_fold: "reconcile_work_fn ev ge = fold (reconcile_section ev ge) recon_sections"
  by (rule ext) (simp add: reconcile_work_fn_def recon_sections_def)

lemma settled_noop:
  assumes "doc_inv (cl_doc st)" "store_len cs" "set secs \<subseteq> set recon_sections"
    and "\<forall>sec \<in> set secs. sec \<noteq> Config_lora_tag \<longrightarrow> settled ev sec st cs"
    and "fold (reconcile_section ev ge) secs (st, cs, mt) = (st', cs', mt')"
  shows "cs_configs cs' = cs_configs cs \<and> cs_config_stamps cs' = cs_config_stamps cs"
  using assms
proof (induction secs arbitrary: st cs mt)
  case (Cons sec secs)
  obtain st1 cs1 mt1 where r: "reconcile_section ev ge sec (st, cs, mt) = (st1, cs1, mt1)" by (metis prod_cases3)
  have sec: "sec \<in> set recon_sections" using Cons.prems(3) by simp
  note f = reconcile_section_spec[OF r Cons.prems(1,2) sec]
  have same: "cs_configs cs1 = cs_configs cs \<and> cs_config_stamps cs1 = cs_config_stamps cs"
    using Cons.prems(4) by (intro f(6)) auto
  then have "settled ev s st1 cs1 = settled ev s st cs" for s by (simp add: settled_def opinion_cong[OF f(1)])
  with Cons.IH[of st1 cs1 mt1] Cons.prems f(1,2) same r show ?case by auto
qed simp

section \<open>Properties\<close>

text \<open>C15. One pass of the reconciler makes the configuration follow the document: every section with a
  usable value in the document ends as that value under its version if the store was older, and
  is left alone if the store was as new or newer; the LoRa section is never written, and a second
  pass changes nothing.\<close>

theorem reconciler_follows_document:
  assumes "doc_inv (cl_doc st)" "store_wf cs" "reconcile_work_fn ev ge (st, cs, mt) = (st', cs', mt')"
  shows "(\<forall>sec \<in> {1, 2, 3, 5, 7}. applied ev sec st cs cs')
     \<and> cs_config_stamps cs' ! LORA_IDX = cs_config_stamps cs ! LORA_IDX \<and> cl_doc st' = cl_doc st
     \<and> (\<forall>st'' cs'' mt''. reconcile_work_fn ev ge (st', cs', mt') = (st'', cs'', mt'') \<longrightarrow>
          cs_configs cs'' = cs_configs cs' \<and> cs_config_stamps cs'' = cs_config_stamps cs')"
proof -
  have len: "store_len cs" using assms(2) by (simp add: store_wf_def store_len_def)
  have d: "distinct recon_sections" by code_simp
  note p = pass_spec[OF assms(3)[unfolded work_fn_fold] assms(1) len d order.refl]
  have ap: "\<forall>sec \<in> set recon_sections. sec \<noteq> Config_lora_tag \<longrightarrow> applied ev sec st cs cs'" using p by blast
  have "settled ev sec st' cs'" if sec: "sec \<in> set recon_sections" "sec \<noteq> Config_lora_tag" for sec
    unfolding settled_def
  proof (intro allI impI)
    fix payload v c
    assume o: "doc_opinion ev sec st' = Some (payload, v)" "ev_decode_config ev payload = Some c" "cfg_which c = sec" "config_is_valid c"
    have "doc_opinion ev sec st = Some (payload, v)" using o(1) p opinion_cong[of st' st ev sec] by simp
    with ap sec o(2-4) show "v \<le> cs_config_stamps cs' ! sec_idx sec"
      unfolding applied_def slot_kept_def by (metis leI order.refl)
  qed
  then have "\<forall>sec \<in> set recon_sections. sec \<noteq> Config_lora_tag \<longrightarrow> settled ev sec st' cs'" by blast
  then have "cs_configs cs'' = cs_configs cs' \<and> cs_config_stamps cs'' = cs_config_stamps cs'"
    if "reconcile_work_fn ev ge (st', cs', mt') = (st'', cs'', mt'')" for st'' cs'' mt''
    using settled_noop[OF _ _ order.refl _ that[unfolded work_fn_fold]] p assms(1) by simp
  moreover have "{1, 2, 3, 5, 7} \<subseteq> set recon_sections - {Config_lora_tag}" by (simp add: recon_sections_eq Config_lora_tag_def)
  ultimately show ?thesis using ap p by blast
qed

theorem reconciler_follows_document_witness:
  "\<exists>st' cs' mt'. reconcile_work_fn ex_env ex_ge ((meshtastic_cluster_init False False 3 0)\<lparr>cl_doc := ex_doc\<rparr>, ex_store, ex_mt)
       = (st', cs', mt')
     \<and> (\<exists>payload v. doc_opinion ex_env 5 ((meshtastic_cluster_init False False 3 0)\<lparr>cl_doc := ex_doc\<rparr>) = Some (payload, v)
          \<and> cs_configs cs' ! 4 = Config_display payload \<and> cs_config_stamps cs' ! 4 = v)"
proof -
  let ?st = "(meshtastic_cluster_init False False 3 0)\<lparr>cl_doc := ex_doc\<rparr>"
  obtain st' cs' mt' where r: "reconcile_work_fn ex_env ex_ge (?st, ex_store, ex_mt) = (st', cs', mt')" by (metis prod_cases3)
  have o: "doc_opinion ex_env 5 ?st \<noteq> None \<and> cs_config_stamps ex_store ! 4 < snd (the (doc_opinion ex_env 5 ?st))" by code_simp
  then obtain payload v where o': "doc_opinion ex_env 5 ?st = Some (payload, v)" by auto
  have d: "ev_decode_config ex_env payload = Some (Config_display payload)" by (simp add: ex_env_def)
  have v: "config_is_valid (Config_display payload)"
    by (simp add: config_is_valid_def index_for_config_tag_def config_names_def)
  have a: "applied ex_env 5 ?st ex_store cs'"
    using reconciler_follows_document[OF _ ex_store_wf r] ex_doc_inv(1) by simp
  have "cs_configs cs' ! 4 = Config_display payload \<and> cs_config_stamps cs' ! 4 = v"
    using a[unfolded applied_def, rule_format, OF o' d _ v] o o' by simp
  with r o' show ?thesis by blast
qed

end
