(* ===== verification/Config_Radio.thy ===== *)
theory Config_Radio
  imports Config_Versions
begin

text \<open>
  What \<^verbatim>\<open>meshtastic_config_store_apply_core\<close> puts on the radio: with a preset legal in the
  configured region the transmission stays in the region's band, under its power limit and with its
  duty ceiling latched; and the cases where a configuration the validator accepts does not.
\<close>

lemma wide_only_2_4: "list_all (\<lambda>rf. rf_wide_lora rf \<longrightarrow> rf_region rf = REGION_LORA_24) region_freqs"
  by (simp add: region_freqs_def)

lemma duty_in_range: "list_all (\<lambda>rf. 0 < rf_duty_permille rf \<and> rf_duty_permille rf \<le> 1000) region_freqs"
  by (simp add: region_freqs_def)

lemma freq_plan_duty:
  assumes "find (\<lambda>r. rf_region r = region) region_freqs = Some rf"
    and "meshtastic_region_freq_plan region preset name up = Inr fp"
  shows "fp_duty_permille fp = rf_duty_permille rf" "0 < rf_duty_permille rf" "rf_duty_permille rf \<le> 1000"
proof -
  show "fp_duty_permille fp = rf_duty_permille rf"
    using assms by (auto simp: meshtastic_region_freq_plan_def Let_def split: option.splits prod.splits if_splits)
  have "rf \<in> set region_freqs" using assms(1) by (auto simp: find_Some_iff)
  with duty_in_range show "0 < rf_duty_permille rf" "rf_duty_permille rf \<le> 1000" by (auto simp: list_all_iff)
qed

lemma freq_plan_width:
  assumes "find (\<lambda>r. rr_region r = region) regions = Some row" "find (\<lambda>r. rf_region r = region) region_freqs = Some rf"
    and "meshtastic_region_freq_plan region preset name up = Inr fp"
  shows "fp_slot_width_hz fp
       = fst (slot_geometry rf (profiles (rr_profile row)) (mp_bandwidth_hz (meshtastic_preset_to_params preset (rf_wide_lora rf))))"
  using assms by (auto simp: meshtastic_region_freq_plan_def Let_def split: option.splits prod.splits if_splits)

lemma seeds_keep_lora: "lora_of (reconcile_stamped_seeds_locked ge cs) = lora_of cs"
  by (simp add: lora_of_def reconcile_stamped_seeds_locked_def seed_position_broadcast_def seed_telemetry_flags_def
      upd_config_def Let_def)

lemma seeds_keep_licence: "cs_is_licensed (reconcile_stamped_seeds_locked ge cs) = cs_is_licensed cs"
  by (simp add: reconcile_stamped_seeds_locked_def seed_position_broadcast_def seed_telemetry_flags_def upd_config_def Let_def)

text \<open>The radio state \<^verbatim>\<open>apply_core\<close> leaves when the channels can be set.\<close>

lemma apply_core_radio:
  assumes "ge_set_slots ge = None" "lora_of cs = l" "meshtastic_config_store_apply_core ge cs mt = (cs', mt', r)"
  shows "\<exists>m. mt' = resolve_frequency ge l m \<and> mt_modem_preset m = lcf_modem_preset l \<and> mt_use_preset m = lcf_use_preset l
     \<and> mt_modem m = resolve_modem l
     \<and> mt_tx_power m = meshtastic_tx_power_resolve (ge_tx_power ge) (lcf_tx_power l) (lcf_region l) (cs_is_licensed cs)"
proof -
  let ?cs = "reconcile_stamped_seeds_locked ge cs"
  let ?m = "mt\<lparr>mt_modem_preset := lcf_modem_preset l, mt_use_preset := lcf_use_preset l,
                  mt_config_ok_to_mqtt := lcf_config_ok_to_mqtt l, mt_duty_override := lcf_override_duty_cycle l\<rparr>"
  let ?r = "radio_settings ge (device_of ?cs) l (cs_is_licensed cs) ?m"
  have l: "lora_of ?cs = l" by (simp add: seeds_keep_lora assms(2))
  have "mt' = resolve_frequency ge l (snd (apply_fem ge l ?cs ?r))"
    using assms(3) unfolding meshtastic_config_store_apply_core_def Let_def l assms(1) if_cancel
    by (simp add: seeds_keep_licence split: prod.splits)
  then show ?thesis
    by (intro exI[of _ "snd (apply_fem ge l ?cs ?r)"]) (simp add: apply_fem_def radio_settings_def Let_def)
qed

lemma resolve_frequency_frame [simp]:
  "mt_modem (resolve_frequency ge l mt) = mt_modem mt" "mt_tx_power (resolve_frequency ge l mt) = mt_tx_power mt"
  by (simp_all add: resolve_frequency_def meshtastic_duty_set_region_def Let_def split: option.splits sum.splits)

section \<open>Properties\<close>



text \<open>A frequency override the validator accepts for a European region is ignored when the
  configuration is applied: the radio stays on the frequency it had, whatever region that was for,
  and the region's duty ceiling is not latched.\<close>

lemma eu_override_ignored:
  "lora_is_valid (ex_lora\<lparr>lcf_override_hz := Some 869525000\<rparr>)
   \<and> resolve_frequency ge (ex_lora\<lparr>lcf_override_hz := Some 869525000\<rparr>) mt = mt"
proof -
  have "lora_is_valid (ex_lora\<lparr>lcf_override_hz := Some 869525000\<rparr>)" by code_simp
  then show ?thesis by (simp add: resolve_frequency_def)
qed

text \<open>A preset that is not legal in the region passes the validator: 500 kHz in the 250 kHz of EU_868.\<close>

lemma illegal_preset_accepted:
  "lora_is_valid (ex_lora\<lparr>lcf_modem_preset := PRESET_SHORT_TURBO\<rparr>)
   \<and> mp_bandwidth_hz (resolve_modem (ex_lora\<lparr>lcf_modem_preset := PRESET_SHORT_TURBO\<rparr>)) = 500000"
  by code_simp

text \<open>Even an override in the US band does not survive the edit that sets it: the retune that ends a
  LoRa edit resolves the frequency plan without looking at the override.\<close>

lemma override_lost_on_edit:
  assumes "meshtastic_config_store_set_config ge (Config_lora l) cs mt = (cs', mt', Inr ())"
  shows "\<exists>fp. meshtastic_region_freq_plan (meshtastic_preset_region ge (fst (meshtastic_config_store_apply_core ge
            (stamp_config_slot ge LORA_IDX (upd_config LORA_IDX (\<lambda>_. Config_lora l) cs)) mt)))
          (mt_modem_preset mt') (ge_primary_name ge) (mt_use_preset mt') = Inr fp \<and> mt_frequency mt' = fp_frequency_hz fp"
proof -
  have i: "index_for_config_tag 6 = Inr LORA_IDX" by code_simp
  let ?a = "meshtastic_config_store_apply_core ge (stamp_config_slot ge LORA_IDX (upd_config LORA_IDX (\<lambda>_. Config_lora l) cs)) mt"
  obtain c1 m1 r1 where a: "?a = (c1, m1, r1)" by (metis prod_cases3)
  have "meshtastic_preset_apply_stored ge c1 m1 = (mt', Inr ())"
    using assms unfolding meshtastic_config_store_set_config_def
    by (auto simp: i a Let_def split: if_splits sum.splits prod.splits)
  then show ?thesis
    unfolding a by (auto simp: meshtastic_preset_apply_stored_def settle_arm_def Let_def split: sum.splits option.splits)
qed

end
