(* ===== verification/Airtime.thy ===== *)
theory Airtime
  imports Complex_Main Config_Versions
begin

text \<open>
  Airtime accounting and the duty-cycle gate, \<^verbatim>\<open>meshtastic_airtime.c\<close> and \<^verbatim>\<open>meshtastic_duty.c\<close>: one
  ring of ten-second buckets per preset, one ring of minute buckets for transmissions, both aged lazily
  on access, and the gate that refuses to transmit past the ceiling of the region.  Percentages, floats
  in the source, are exact rationals here; times are seconds of uptime, which the caller reads once.
\<close>

section \<open>The rings\<close>

definition MESHTASTIC_AIRTIME_PRESET_SLOTS :: nat where "MESHTASTIC_AIRTIME_PRESET_SLOTS = 15"

definition MESHTASTIC_AIRTIME_SLOT_CUSTOM :: nat where
  "MESHTASTIC_AIRTIME_SLOT_CUSTOM = MESHTASTIC_AIRTIME_PRESET_SLOTS - 1"

definition MESHTASTIC_CHANNEL_UTILIZATION_PERIODS :: nat where "MESHTASTIC_CHANNEL_UTILIZATION_PERIODS = 6"

definition MESHTASTIC_MINUTES_IN_HOUR :: nat where "MESHTASTIC_MINUTES_IN_HOUR = 60"

definition MESHTASTIC_MS_IN_HOUR :: nat where "MESHTASTIC_MS_IN_HOUR = 60 * 60 * 1000"

datatype meshtastic_airtime_type = AIRTIME_TX | AIRTIME_RX | AIRTIME_RX_ALL

record airtime =
  at_channel_utilization :: "u32 list list"
  at_utilization_tx :: "u32 list"
  at_last_util_tick :: u32
  at_last_tx_tick :: u32
  at_initialized :: bool

definition airtime_slot :: "bool \<Rightarrow> u32 \<Rightarrow> nat" where
  "airtime_slot use_preset modem_preset =
     (if \<not> use_preset then MESHTASTIC_AIRTIME_SLOT_CUSTOM
      else if unat modem_preset \<ge> MESHTASTIC_AIRTIME_SLOT_CUSTOM then MESHTASTIC_AIRTIME_SLOT_CUSTOM
      else unat modem_preset)"

definition period_util_minute :: "u32 \<Rightarrow> nat" where
  "period_util_minute sec = unat ((sec div 10) mod of_nat MESHTASTIC_CHANNEL_UTILIZATION_PERIODS)"

definition period_util_hour :: "u32 \<Rightarrow> nat" where
  "period_util_hour sec = unat ((sec div 60) mod of_nat MESHTASTIC_MINUTES_IN_HOUR)"

text \<open>Zeroing the buckets of one ring of \<open>n\<close> entered between two ticks.\<close>

definition ring_advance :: "nat \<Rightarrow> u32 \<Rightarrow> u32 \<Rightarrow> u32 list \<Rightarrow> u32 list" where
  "ring_advance n tick last_tick ring =
     (let elapsed = tick - last_tick
      in if elapsed \<ge> of_nat n then map (\<lambda>_. 0) ring
         else fold (\<lambda>i r. r[unat ((last_tick + of_nat i) mod of_nat n) := 0]) [1..<Suc (unat elapsed)] ring)"

definition airtime_advance :: "u32 \<Rightarrow> airtime \<Rightarrow> airtime" where
  "airtime_advance sec st =
     (let util_tick = sec div 10; tx_tick = sec div 60
      in if \<not> at_initialized st
         then st\<lparr>at_initialized := True, at_last_util_tick := util_tick, at_last_tx_tick := tx_tick\<rparr>
         else st\<lparr>at_channel_utilization :=
                   map (ring_advance MESHTASTIC_CHANNEL_UTILIZATION_PERIODS util_tick (at_last_util_tick st))
                     (at_channel_utilization st),
                 at_last_util_tick := util_tick,
                 at_utilization_tx := ring_advance MESHTASTIC_MINUTES_IN_HOUR tx_tick (at_last_tx_tick st) (at_utilization_tx st),
                 at_last_tx_tick := tx_tick\<rparr>)"

definition ring_add :: "nat \<Rightarrow> u32 \<Rightarrow> u32 list \<Rightarrow> u32 list" where
  "ring_add i ms ring = ring[i := ring ! i + ms]"

text \<open>\<open>slot\<close> is \<^const>\<open>airtime_slot\<close> of the radio's configuration at the call.\<close>

definition meshtastic_airtime_log :: "meshtastic_airtime_type \<Rightarrow> u32 \<Rightarrow> nat \<Rightarrow> u32 \<Rightarrow> airtime \<Rightarrow> airtime" where
  "meshtastic_airtime_log ty ms slot sec st =
     (let st = airtime_advance sec st;
          chan = (at_channel_utilization st)[slot := ring_add (period_util_minute sec) ms (at_channel_utilization st ! slot)]
      in case ty of
           AIRTIME_TX \<Rightarrow> st\<lparr>at_utilization_tx := ring_add (period_util_hour sec) ms (at_utilization_tx st),
                           at_channel_utilization := chan\<rparr>
         | AIRTIME_RX \<Rightarrow> st\<lparr>at_channel_utilization := chan\<rparr>
         | AIRTIME_RX_ALL \<Rightarrow> st\<lparr>at_channel_utilization := chan\<rparr>)"

definition channel_util_slot_locked :: "nat \<Rightarrow> airtime \<Rightarrow> rat" where
  "channel_util_slot_locked slot st =
     of_nat (unat (sum_list (at_channel_utilization st ! slot)))
       / of_nat (MESHTASTIC_CHANNEL_UTILIZATION_PERIODS * 10 * 1000) * 100"

definition meshtastic_airtime_channel_util_percent_slot :: "nat \<Rightarrow> u32 \<Rightarrow> airtime \<Rightarrow> airtime \<times> rat" where
  "meshtastic_airtime_channel_util_percent_slot slot sec st =
     (if slot \<ge> MESHTASTIC_AIRTIME_PRESET_SLOTS then (st, 0)
      else let st = airtime_advance sec st in (st, channel_util_slot_locked slot st))"

definition meshtastic_airtime_channel_util_percent :: "bool \<Rightarrow> u32 \<Rightarrow> u32 \<Rightarrow> airtime \<Rightarrow> airtime \<times> rat" where
  "meshtastic_airtime_channel_util_percent use_preset modem_preset sec st =
     (let st = airtime_advance sec st in (st, channel_util_slot_locked (airtime_slot use_preset modem_preset) st))"

definition meshtastic_airtime_tx_util_percent :: "u32 \<Rightarrow> airtime \<Rightarrow> airtime \<times> rat" where
  "meshtastic_airtime_tx_util_percent sec st =
     (let st = airtime_advance sec st
      in (st, of_nat (unat (sum_list (at_utilization_tx st))) / of_nat MESHTASTIC_MS_IN_HOUR * 100))"

text \<open>The walk over the minute ring, oldest bucket first.\<close>

fun silent_loop :: "u32 list \<Rightarrow> u32 \<Rightarrow> rat \<Rightarrow> rat \<Rightarrow> nat list \<Rightarrow> nat" where
  "silent_loop ring last_tick remaining pct [] = MESHTASTIC_MINUTES_IN_HOUR"
| "silent_loop ring last_tick remaining pct (age # ages) =
     (let idx = unat ((last_tick + 1 + of_nat age) mod of_nat MESHTASTIC_MINUTES_IN_HOUR);
          remaining = remaining - of_nat (unat (ring ! idx)) / (of_nat MESHTASTIC_MS_IN_HOUR / 100)
      in if remaining \<le> pct then age + 1 else silent_loop ring last_tick remaining pct ages)"

definition meshtastic_airtime_silent_minutes :: "rat \<Rightarrow> rat \<Rightarrow> u32 \<Rightarrow> airtime \<Rightarrow> airtime \<times> nat" where
  "meshtastic_airtime_silent_minutes tx_percent pct sec st =
     (if tx_percent \<le> pct then (st, 0)
      else let st = airtime_advance sec st
           in (st, silent_loop (at_utilization_tx st) (at_last_tx_tick st) tx_percent pct [0..<MESHTASTIC_MINUTES_IN_HOUR]))"

definition meshtastic_airtime_init :: airtime where
  "meshtastic_airtime_init =
     \<lparr>at_channel_utilization = replicate MESHTASTIC_AIRTIME_PRESET_SLOTS (replicate MESHTASTIC_CHANNEL_UTILIZATION_PERIODS 0),
      at_utilization_tx = replicate MESHTASTIC_MINUTES_IN_HOUR 0,
      at_last_util_tick = 0, at_last_tx_tick = 0, at_initialized = False\<rparr>"

section \<open>The gate\<close>

record meshtastic_duty_stats =
  ds_blocked :: u32
  ds_blocked_relay :: u32
  ds_last_silent_minutes :: nat
  ds_last_log_ms :: int

text \<open>Power-up values; the log clock is a static of \<open>meshtastic_duty_note_blocked\<close> that a reset of the
  counters leaves alone.\<close>

definition duty_stats_init :: meshtastic_duty_stats where
  "duty_stats_init = \<lparr>ds_blocked = 0, ds_blocked_relay = 0, ds_last_silent_minutes = 0, ds_last_log_ms = 0\<rparr>"

definition meshtastic_duty_stats_reset :: "meshtastic_duty_stats \<Rightarrow> meshtastic_duty_stats" where
  "meshtastic_duty_stats_reset s = s\<lparr>ds_blocked := 0, ds_blocked_relay := 0, ds_last_silent_minutes := 0\<rparr>"

definition meshtastic_duty_set_override :: "bool \<Rightarrow> mt_state \<Rightarrow> mt_state" where
  "meshtastic_duty_set_override on mt = mt\<lparr>mt_duty_override := on\<rparr>"

text \<open>The ceiling and the override are latched in the radio state; the role is the device's.\<close>

definition ROLE_ROUTER :: u32 where "ROLE_ROUTER = 2"
definition ROLE_ROUTER_LATE :: u32 where "ROLE_ROUTER_LATE = 11"

definition meshtastic_duty_effective_pct :: "mt_state \<Rightarrow> rat" where
  "meshtastic_duty_effective_pct mt =
     (if mt_duty_region mt = REGION_EU_866
      then (if mt_device_role mt = ROLE_ROUTER \<or> mt_device_role mt = ROLE_ROUTER_LATE then 10 else 5 / 2)
      else of_nat (mt_duty_permille mt) / 10)"

text \<open>The result is the wait in minutes when sending is refused.\<close>

definition meshtastic_duty_blocked :: "mt_state \<Rightarrow> u32 \<Rightarrow> airtime \<Rightarrow> airtime \<times> nat option" where
  "meshtastic_duty_blocked mt sec st =
     (let ceiling = meshtastic_duty_effective_pct mt
      in if mt_duty_override mt \<or> ceiling \<ge> 100 then (st, None)
         else
           let (st, used) = meshtastic_airtime_tx_util_percent sec st
           in if used \<le> ceiling then (st, None)
              else let (st, minutes) = meshtastic_airtime_silent_minutes used ceiling sec st in (st, Some minutes))"

text \<open>Counting a refusal; the log line, at most one a minute, reads the utilisation and so ages the rings.\<close>

definition meshtastic_duty_note_blocked ::
    "bool \<Rightarrow> nat \<Rightarrow> int \<Rightarrow> meshtastic_duty_stats \<times> airtime \<Rightarrow> meshtastic_duty_stats \<times> airtime" where
  "meshtastic_duty_note_blocked is_relay silent_minutes now = (\<lambda>(s, st).
     let s = s\<lparr>ds_blocked := ds_blocked s + 1,
               ds_blocked_relay := (if is_relay then ds_blocked_relay s + 1 else ds_blocked_relay s),
               ds_last_silent_minutes := silent_minutes\<rparr>
     in if ds_blocked s = 1 \<or> now - ds_last_log_ms s \<ge> 1000 * 60
        then (s\<lparr>ds_last_log_ms := now\<rparr>, fst (meshtastic_airtime_tx_util_percent (word_of_int (now div 1000)) st))
        else (s, st))"

section \<open>A ring is the recent part of its history\<close>

text \<open>The history of one ring is the list of the amounts added to it, each with its tick.\<close>

type_synonym history = "(int \<times> u32) list"

definition at_tick :: "history \<Rightarrow> int \<Rightarrow> u32" where
  "at_tick h k = sum_list (map snd (filter (\<lambda>e. fst e = k) h))"

definition in_window :: "nat \<Rightarrow> int \<Rightarrow> history \<Rightarrow> u32" where
  "in_window n now h = sum_list (map snd (filter (\<lambda>e. now - int n < fst e) h))"

definition ring_rep :: "nat \<Rightarrow> history \<Rightarrow> u32 \<Rightarrow> u32 list \<Rightarrow> bool" where
  "ring_rep n h tick ring \<longleftrightarrow> length ring = n \<and> (\<forall>e \<in> set h. fst e \<le> uint tick)
     \<and> (\<forall>k. uint tick - int n < k \<and> k \<le> uint tick \<longrightarrow> ring ! nat (k mod int n) = at_tick h k)"

lemma at_tick_later: "\<forall>e \<in> set h. fst e \<le> t \<Longrightarrow> t < k \<Longrightarrow> at_tick h k = 0"
  unfolding at_tick_def by (induction h) auto

lemma fold_zero_length [simp]: "length (fold (\<lambda>i r. r[f i := 0]) is r) = length r"
  by (induction "is" arbitrary: r) auto

lemma fold_zero_nth:
  "j < length r \<Longrightarrow> fold (\<lambda>i r. r[f i := 0]) is r ! j = (if j \<in> f ` set is then 0 else r ! j)"
  by (induction "is" arbitrary: r) (auto simp: nth_list_update)

lemma mod_window_eq: "(a::int) mod m = b mod m \<Longrightarrow> \<bar>a - b\<bar> < m \<Longrightarrow> a = b"
  by (metis abs_of_nonneg dvd_imp_le_int mod_eq_dvd_iff abs_ge_zero abs_0_eq eq_iff_diff_eq_0 linorder_not_less abs_of_pos order.strict_trans1)

lemma unat_of_small: "n < 2 ^ 32 \<Longrightarrow> unat (of_nat n :: u32) = n"
  by (simp add: unat_of_nat)

lemma unat_mod_nat: "0 < n \<Longrightarrow> n < 2 ^ 32 \<Longrightarrow> unat ((w::u32) mod of_nat n) = nat (uint w mod int n)"
  by (simp add: unat_mod unat_of_small nat_mod_distrib)

lemma uint_sub_le: "(b::u32) \<le> a \<Longrightarrow> uint (a - b) = uint a - uint b"
  by (simp add: uint_minus_simple_alt)

lemma uint_add_small: "(w::u32) < 2 ^ 31 \<Longrightarrow> i < 2 ^ 16 \<Longrightarrow> uint (w + of_nat i) = uint w + int i"
  by (simp add: uint_nat unat_word_ariths(1) unat_of_small word_less_nat_alt del: of_nat_unat)

lemma nat_le_iff_int: "n \<le> unat (w::u32) \<longleftrightarrow> int n \<le> uint w"
  by (metis of_nat_unat of_nat_le_iff)

text \<open>The cells zeroed on the way to a tick are those of the ticks just entered.\<close>

lemma entered_cells:
  assumes le: "(last_tick::u32) \<le> tick" and n: "n < 2 ^ 16" and e: "uint tick - uint last_tick < int n"
    and small: "tick < 2 ^ 31" and k: "uint tick - int n < k" "k \<le> uint tick"
  shows "nat (k mod int n) \<in> (\<lambda>i. unat ((last_tick + of_nat i) mod of_nat n)) ` set [1..<Suc (unat (tick - last_tick))]
     \<longleftrightarrow> uint last_tick < k" (is "_ \<in> ?f ` set [1..<Suc ?e] \<longleftrightarrow> _")
proof -
  have e': "int ?e = uint tick - uint last_tick"
    using uint_sub_le[OF le] by (simp add: uint_nat del: of_nat_unat)
  have f: "?f i = nat ((uint last_tick + int i) mod int n)" if "i \<le> ?e" for i
  proof -
    have "i < n" using that e e' by linarith
    then have "last_tick < 2 ^ 31" "i < 2 ^ 16" "0 < n" using n small le by (auto intro: order.strict_trans1)
    then show ?thesis using n by (simp add: unat_mod_nat uint_add_small)
  qed
  have set_e: "set [1..<Suc ?e] = {1..?e}" by auto
  have old: "nat (k mod int n) \<noteq> ?f i" if i: "1 \<le> i" "i \<le> ?e" and "k \<le> uint last_tick" for i
  proof -
    have "k \<noteq> uint last_tick + int i" "\<bar>k - (uint last_tick + int i)\<bar> < int n" using that e e' k by linarith+
    then have "k mod int n \<noteq> (uint last_tick + int i) mod int n" using mod_window_eq by blast
    then show ?thesis using k unfolding f[OF i(2)] by (simp add: eq_nat_nat_iff)
  qed
  have new: "nat (k mod int n) = ?f (nat (k - uint last_tick))" "nat (k - uint last_tick) \<in> {1..?e}" if "uint last_tick < k"
    using f[of "nat (k - uint last_tick)"] k e' that by (auto simp: nat_le_iff)
  show ?thesis unfolding set_e
  proof
    assume "nat (k mod int n) \<in> ?f ` {1..?e}"
    then obtain i where "1 \<le> i" "i \<le> ?e" "nat (k mod int n) = ?f i" by (auto simp only: image_iff atLeastAtMost_iff)
    then show "uint last_tick < k" using old[of i] by linarith
  next
    assume "uint last_tick < k"
    then show "nat (k mod int n) \<in> ?f ` {1..?e}" by (intro image_eqI[where f = ?f and x = "nat (k - uint last_tick)"] new)
  qed
qed

lemma ring_rep_advance:
  assumes r: "ring_rep n h last_tick ring" and le: "last_tick \<le> tick" and n: "0 < n" "n < 2 ^ 16"
    and small: "tick < 2 ^ 31"
  shows "ring_rep n h tick (ring_advance n tick last_tick ring)"
proof -
  have len: "nat (k mod int n) < length ring" for k using r n unfolding ring_rep_def by (simp add: nat_less_iff)
  have bound: "\<forall>e \<in> set h. fst e \<le> uint tick" "uint last_tick \<le> uint tick"
    using r le unfolding ring_rep_def word_le_def by (auto intro: order_trans)
  have later: "uint last_tick < k \<Longrightarrow> at_tick h k = 0" for k
    using r at_tick_later unfolding ring_rep_def by blast
  have "unat (of_nat n :: u32) = n" using n by (intro unat_of_small) simp
  then have far: "of_nat n \<le> tick - last_tick \<longleftrightarrow> int n \<le> uint tick - uint last_tick"
    using uint_sub_le[OF le] unfolding word_le_nat_alt by (simp add: nat_le_iff_int)
  have "ring_advance n tick last_tick ring ! nat (k mod int n) = at_tick h k"
    if k: "uint tick - int n < k" "k \<le> uint tick" for k
  proof (cases "int n \<le> uint tick - uint last_tick")
    case True
    then show ?thesis using far k len later unfolding ring_advance_def by simp
  next
    case False
    then have "uint tick - uint last_tick < int n" by simp
    moreover have "k \<le> uint last_tick \<Longrightarrow> ring ! nat (k mod int n) = at_tick h k"
      using r k bound unfolding ring_rep_def by auto
    ultimately show ?thesis
      using False far entered_cells[OF le n(2) _ small k] later
      unfolding ring_advance_def Let_def by (auto simp only: fold_zero_nth[OF len] if_False linorder_not_less split: if_split)
  qed
  moreover have "length (ring_advance n tick last_tick ring) = n"
    using r unfolding ring_rep_def ring_advance_def Let_def by simp
  ultimately show ?thesis using bound unfolding ring_rep_def by blast
qed

lemma at_tick_Nil: "at_tick [] k = 0"
  unfolding at_tick_def by simp

lemma at_tick_Cons: "at_tick (e # h) k = (if fst e = k then snd e else 0) + at_tick h k"
  unfolding at_tick_def by simp

lemma ring_rep_add:
  assumes r: "ring_rep n h tick ring" and n: "0 < n" "n < 2 ^ 16"
  shows "ring_rep n ((uint tick, ms) # h) tick (ring_add (unat (tick mod of_nat n)) ms ring)"
proof -
  have i: "unat (tick mod of_nat n) = nat (uint tick mod int n)" using n by (simp add: unat_mod_nat)
  have eq: "nat (k mod int n) = nat (uint tick mod int n) \<longleftrightarrow> k = uint tick" if "uint tick - int n < k" "k \<le> uint tick" for k
    using mod_window_eq[of k "int n" "uint tick"] that n by (auto simp: eq_nat_nat_iff)
  have "ring_add (nat (uint tick mod int n)) ms ring ! nat (k mod int n) = at_tick ((uint tick, ms) # h) k"
    if k: "uint tick - int n < k" "k \<le> uint tick" for k
  proof -
    have "nat (k mod int n) < length ring" "ring ! nat (k mod int n) = at_tick h k"
      using r n k unfolding ring_rep_def by (auto simp: nat_less_iff)
    then show ?thesis
      using eq[OF k] unfolding ring_add_def at_tick_Cons by (cases "k = uint tick") (auto simp: nth_list_update)
  qed
  then show ?thesis using r unfolding ring_rep_def i by (simp add: ring_add_def)
qed

text \<open>The sum over a ring is the sum over the window.\<close>

lemma window_bij:
  assumes "0 < n"
  shows "bij_betw (\<lambda>k. nat (k mod int n)) {t - int n<..t} {..<n}"
proof -
  have inj: "inj_on (\<lambda>k. nat (k mod int n)) {t - int n<..t}"
  proof (rule inj_onI)
    fix x y assume "x \<in> {t - int n<..t}" "y \<in> {t - int n<..t}" "nat (x mod int n) = nat (y mod int n)"
    then show "x = y" using assms by (intro mod_window_eq[of x "int n" y]) (simp_all add: eq_nat_nat_iff abs_less_iff)
  qed
  have "(\<lambda>k. nat (k mod int n)) ` {t - int n<..t} = {..<n}"
  proof (rule card_subset_eq)
    show "card ((\<lambda>k. nat (k mod int n)) ` {t - int n<..t}) = card {..<n}"
      using card_image[OF inj] by simp
  qed (use assms in \<open>auto simp: nat_less_iff\<close>)
  then show ?thesis using inj unfolding bij_betw_def by blast
qed

lemma sum_at_tick:
  "\<forall>e \<in> set h. fst e \<le> t \<Longrightarrow> (\<Sum>k\<in>{t - int n<..t}. at_tick h k) = in_window n t h"
  by (induction h) (auto simp: at_tick_Nil at_tick_Cons in_window_def sum.distrib)

lemma ring_rep_sum:
  assumes "ring_rep n h tick ring" "0 < n"
  shows "sum_list ring = in_window n (uint tick) h"
proof -
  have "sum_list ring = (\<Sum>i<n. ring ! i)"
    using assms unfolding ring_rep_def by (simp add: sum_list_sum_nth atLeast0LessThan)
  also have "\<dots> = (\<Sum>k\<in>{uint tick - int n<..uint tick}. ring ! nat (k mod int n))"
    using sum.reindex_bij_betw[OF window_bij[OF assms(2)], of "\<lambda>i. ring ! i"] by simp
  also have "\<dots> = (\<Sum>k\<in>{uint tick - int n<..uint tick}. at_tick h k)"
    using assms unfolding ring_rep_def by (intro sum.cong) auto
  also have "\<dots> = in_window n (uint tick) h"
    using assms unfolding ring_rep_def by (intro sum_at_tick) blast
  finally show ?thesis .
qed

section \<open>Runs of the accounting\<close>

text \<open>One entry of the log: the second, the kind, the slot and the time on air.\<close>

type_synonym log_entry = "u32 \<times> meshtastic_airtime_type \<times> nat \<times> u32"

definition log_run :: "log_entry list \<Rightarrow> airtime \<Rightarrow> airtime" where
  "log_run es st = fold (\<lambda>(sec, ty, slot, ms) st. meshtastic_airtime_log ty ms slot sec st) es st"

text \<open>What an observer of the same run would add up, in unbounded arithmetic: the last 60 minutes of
  transmissions, the last six ten-second periods of one slot.\<close>

definition tx_past_hour :: "u32 \<Rightarrow> log_entry list \<Rightarrow> nat" where
  "tx_past_hour sec es = sum_list (map (\<lambda>(_, _, _, ms). unat ms)
     (filter (\<lambda>(s, ty, _, _). ty = AIRTIME_TX \<and> uint (sec div 60) - 60 < uint (s div 60)) es))"

definition slot_past_minute :: "nat \<Rightarrow> u32 \<Rightarrow> log_entry list \<Rightarrow> nat" where
  "slot_past_minute slot sec es = sum_list (map (\<lambda>(_, _, _, ms). unat ms)
     (filter (\<lambda>(s, _, sl, _). sl = slot \<and> uint (sec div 10) - 6 < uint (s div 10)) es))"

definition tx_history :: "log_entry list \<Rightarrow> history" where
  "tx_history es = rev (map (\<lambda>(s, _, _, ms). (uint (s div 60), ms)) (filter (\<lambda>(_, ty, _, _). ty = AIRTIME_TX) es))"

definition slot_history :: "nat \<Rightarrow> log_entry list \<Rightarrow> history" where
  "slot_history slot es = rev (map (\<lambda>(s, _, _, ms). (uint (s div 10), ms)) (filter (\<lambda>(_, _, sl, _). sl = slot) es))"

definition airtime_rep :: "log_entry list \<Rightarrow> airtime \<Rightarrow> bool" where
  "airtime_rep es st \<longleftrightarrow>
     (if at_initialized st
      then ring_rep MESHTASTIC_MINUTES_IN_HOUR (tx_history es) (at_last_tx_tick st) (at_utilization_tx st)
         \<and> length (at_channel_utilization st) = MESHTASTIC_AIRTIME_PRESET_SLOTS
         \<and> (\<forall>sl < MESHTASTIC_AIRTIME_PRESET_SLOTS. ring_rep MESHTASTIC_CHANNEL_UTILIZATION_PERIODS
              (slot_history sl es) (at_last_util_tick st) (at_channel_utilization st ! sl))
      else es = [] \<and> st = meshtastic_airtime_init)"

lemma ring_rep_zero: "ring_rep n [] t (replicate n 0)"
  unfolding ring_rep_def by (auto simp: at_tick_Nil nat_less_iff)

lemma div_small: "(sec::u32) div 10 < 2 ^ 31" "sec div 60 < 2 ^ 31"
proof -
  have "unat sec < 2 ^ 32" using unsigned_less[of sec, where ?'a = nat] by simp
  then show "sec div 10 < 2 ^ 31" "sec div 60 < 2 ^ 31" by (simp_all add: word_less_nat_alt unat_div)
qed

lemma div_mono_u32: "(a::u32) \<le> b \<Longrightarrow> a div d \<le> b div d"
  by (simp add: word_le_nat_alt unat_div div_le_mono)

lemma rep_advance:
  assumes r: "airtime_rep es st"
    and le: "at_initialized st \<Longrightarrow> at_last_tx_tick st \<le> sec div 60 \<and> at_last_util_tick st \<le> sec div 10"
  shows "airtime_rep es (airtime_advance sec st)"
    and "at_initialized (airtime_advance sec st)" "at_last_tx_tick (airtime_advance sec st) = sec div 60"
    and "at_last_util_tick (airtime_advance sec st) = sec div 10"
proof -
  show "airtime_rep es (airtime_advance sec st)"
  proof (cases "at_initialized st")
    case True
    then show ?thesis
      using r le div_small[of sec] unfolding airtime_rep_def airtime_advance_def Let_def
      by (auto simp: MESHTASTIC_MINUTES_IN_HOUR_def MESHTASTIC_CHANNEL_UTILIZATION_PERIODS_def intro: ring_rep_advance)
  next
    case False
    then show ?thesis
      using r ring_rep_zero unfolding airtime_rep_def airtime_advance_def Let_def
      by (simp add: meshtastic_airtime_init_def tx_history_def slot_history_def)
  qed
qed (simp_all add: airtime_advance_def Let_def)

lemma rep_log:
  assumes r: "airtime_rep es st"
    and le: "at_initialized st \<Longrightarrow> at_last_tx_tick st \<le> sec div 60 \<and> at_last_util_tick st \<le> sec div 10"
    and slot: "slot < MESHTASTIC_AIRTIME_PRESET_SLOTS"
  shows "airtime_rep (es @ [(sec, ty, slot, ms)]) (meshtastic_airtime_log ty ms slot sec st)"
    and "at_last_tx_tick (meshtastic_airtime_log ty ms slot sec st) = sec div 60"
    and "at_last_util_tick (meshtastic_airtime_log ty ms slot sec st) = sec div 10"
    and "at_initialized (meshtastic_airtime_log ty ms slot sec st)"
proof -
  note adv = rep_advance[OF r le]
  show "airtime_rep (es @ [(sec, ty, slot, ms)]) (meshtastic_airtime_log ty ms slot sec st)"
    using adv slot
      ring_rep_add[of MESHTASTIC_MINUTES_IN_HOUR "tx_history es" "sec div 60" "at_utilization_tx (airtime_advance sec st)" ms]
      ring_rep_add[of MESHTASTIC_CHANNEL_UTILIZATION_PERIODS "slot_history slot es" "sec div 10"
        "at_channel_utilization (airtime_advance sec st) ! slot" ms]
    unfolding airtime_rep_def meshtastic_airtime_log_def
    by (cases ty) (auto simp: Let_def tx_history_def slot_history_def period_util_hour_def period_util_minute_def
        nth_list_update MESHTASTIC_MINUTES_IN_HOUR_def MESHTASTIC_CHANNEL_UTILIZATION_PERIODS_def)
qed (use rep_advance[OF r le] in \<open>auto simp: meshtastic_airtime_log_def Let_def split: meshtastic_airtime_type.split\<close>)

text \<open>A run in order of time, up to \<open>sec\<close>.\<close>

definition log_ok :: "u32 \<Rightarrow> log_entry list \<Rightarrow> bool" where
  "log_ok sec es \<longleftrightarrow> sorted_wrt (\<le>) (map fst es) \<and> (\<forall>(s, _, slot, _) \<in> set es. s \<le> sec \<and> slot < MESHTASTIC_AIRTIME_PRESET_SLOTS)"

lemma log_run_rep:
  "log_ok sec es \<Longrightarrow> airtime_rep es (log_run es meshtastic_airtime_init)
     \<and> (at_initialized (log_run es meshtastic_airtime_init) \<longrightarrow>
          at_last_tx_tick (log_run es meshtastic_airtime_init) \<le> sec div 60
          \<and> at_last_util_tick (log_run es meshtastic_airtime_init) \<le> sec div 10)"
proof (induction es arbitrary: sec rule: rev_induct)
  case Nil
  then show ?case by (simp add: log_run_def airtime_rep_def meshtastic_airtime_init_def)
next
  case (snoc e es)
  obtain s ty slot ms where e: "e = (s, ty, slot, ms)" by (cases e)
  have "log_ok s es" "s \<le> sec" "slot < MESHTASTIC_AIRTIME_PRESET_SLOTS"
    using snoc.prems unfolding log_ok_def e by (auto simp: sorted_wrt_append)
  then show ?case
    using snoc.IH[of s] rep_log[of es "log_run es meshtastic_airtime_init" s slot ty ms] div_mono_u32[of s sec]
    by (simp add: log_run_def e)
qed

definition window_ms :: "nat \<Rightarrow> int \<Rightarrow> history \<Rightarrow> nat" where
  "window_ms n now h = sum_list (map (unat \<circ> snd) (filter (\<lambda>e. now - int n < fst e) h))"

lemma unat_sum_list: "unat (sum_list (ws :: u32 list)) = sum_list (map unat ws) mod 2 ^ 32"
  by (induction ws) (simp_all add: unat_word_ariths(1) mod_add_right_eq)

lemma unat_in_window: "unat (in_window n now h) = window_ms n now h mod 2 ^ 32"
  unfolding in_window_def window_ms_def by (simp add: unat_sum_list)

lemma tx_past_hour_window: "tx_past_hour sec es = window_ms 60 (uint (sec div 60)) (tx_history es)"
  unfolding tx_past_hour_def window_ms_def tx_history_def
  by (simp add: rev_filter[symmetric] rev_map[symmetric] sum_list_rev filter_map comp_def case_prod_unfold conj_commute)

lemma slot_past_minute_window:
  "slot_past_minute slot sec es = window_ms 6 (uint (sec div 10)) (slot_history slot es)"
  unfolding slot_past_minute_def window_ms_def slot_history_def
  by (simp add: rev_filter[symmetric] rev_map[symmetric] sum_list_rev filter_map comp_def case_prod_unfold conj_commute)

lemma rep_tx_sum:
  assumes "airtime_rep es st" "at_initialized st"
  shows "unat (sum_list (at_utilization_tx st)) = window_ms 60 (uint (at_last_tx_tick st)) (tx_history es) mod 2 ^ 32"
  using assms ring_rep_sum[of 60 "tx_history es" "at_last_tx_tick st" "at_utilization_tx st"]
  unfolding airtime_rep_def by (simp add: unat_in_window MESHTASTIC_MINUTES_IN_HOUR_def)

lemma rep_slot_sum:
  assumes "airtime_rep es st" "at_initialized st" "slot < MESHTASTIC_AIRTIME_PRESET_SLOTS"
  shows "unat (sum_list (at_channel_utilization st ! slot))
     = window_ms 6 (uint (at_last_util_tick st)) (slot_history slot es) mod 2 ^ 32"
  using assms ring_rep_sum[of 6 "slot_history slot es" "at_last_util_tick st" "at_channel_utilization st ! slot"]
  unfolding airtime_rep_def by (simp add: unat_in_window MESHTASTIC_CHANNEL_UTILIZATION_PERIODS_def)

text \<open>C34. The lazily aged rings are exact.  After any run of log entries in order of time, however long
  the gaps between them, the transmit utilisation read at a later second is that of the transmissions
  of the last sixty minute buckets, and the channel utilisation of a slot that of the entries of that
  slot in the last six ten-second buckets; sums wrap at 32 bits, which more than an hour on air cannot reach.\<close>

theorem airtime_windows_exact:
  assumes "log_ok sec es" "slot < MESHTASTIC_AIRTIME_PRESET_SLOTS"
  shows "snd (meshtastic_airtime_tx_util_percent sec (log_run es meshtastic_airtime_init))
       = of_nat (tx_past_hour sec es mod 2 ^ 32) / 3600000 * 100
    \<and> snd (meshtastic_airtime_channel_util_percent_slot slot sec (log_run es meshtastic_airtime_init))
       = of_nat (slot_past_minute slot sec es mod 2 ^ 32) / 60000 * 100"
proof -
  note run = log_run_rep[OF assms(1)]
  note adv = rep_advance[OF conjunct1[OF run] mp[OF conjunct2[OF run]]]
  have "snd (meshtastic_airtime_tx_util_percent sec (log_run es meshtastic_airtime_init))
       = of_nat (tx_past_hour sec es mod 2 ^ 32) / 3600000 * 100"
    using rep_tx_sum[OF adv(1,2)]
    unfolding meshtastic_airtime_tx_util_percent_def Let_def tx_past_hour_window
    by (simp add: adv(3) MESHTASTIC_MS_IN_HOUR_def del: of_nat_unat)
  moreover have "snd (meshtastic_airtime_channel_util_percent_slot slot sec (log_run es meshtastic_airtime_init))
       = of_nat (slot_past_minute slot sec es mod 2 ^ 32) / 60000 * 100"
    using assms(2) rep_slot_sum[OF adv(1,2) assms(2)]
    unfolding meshtastic_airtime_channel_util_percent_slot_def Let_def channel_util_slot_locked_def slot_past_minute_window
    by (simp add: adv(4) MESHTASTIC_CHANNEL_UTILIZATION_PERIODS_def del: of_nat_unat)
  ultimately show ?thesis ..
qed

definition ex_log :: "log_entry list" where
  "ex_log = [(5, AIRTIME_TX, 0, 1000), (70, AIRTIME_RX, 0, 500), (3700, AIRTIME_TX, 1, 40000), (3701, AIRTIME_TX, 0, 2000)]"

theorem airtime_windows_exact_witness:
  "snd (meshtastic_airtime_tx_util_percent 3705 (log_run ex_log meshtastic_airtime_init)) = 7 / 6
   \<and> snd (meshtastic_airtime_channel_util_percent_slot 0 3705 (log_run ex_log meshtastic_airtime_init)) = 10 / 3"
proof -
  have "log_ok 3705 ex_log" "(0::nat) < MESHTASTIC_AIRTIME_PRESET_SLOTS" "tx_past_hour 3705 ex_log = 42000"
      "slot_past_minute 0 3705 ex_log = 2000"
    by (simp_all add: log_ok_def ex_log_def tx_past_hour_def slot_past_minute_def MESHTASTIC_AIRTIME_PRESET_SLOTS_def)
  then show ?thesis using airtime_windows_exact[of 3705 ex_log 0] by simp
qed

section \<open>The wait the gate reports\<close>

definition tick_ms :: "history \<Rightarrow> int \<Rightarrow> nat" where
  "tick_ms h k = sum_list (map (unat \<circ> snd) (filter (\<lambda>e. fst e = k) h))"

lemma window_ms_step: "window_ms n t h = tick_ms h (t + 1 - int n) + window_ms n (t + 1) h"
  unfolding window_ms_def tick_ms_def by (induction h) auto

lemma window_ms_antimono: "t \<le> t' \<Longrightarrow> window_ms n t' h \<le> window_ms n t h"
  unfolding window_ms_def by (induction h) (auto simp: add_mono trans_le_add2)

lemma window_ms_empty: "\<forall>e \<in> set h. fst e \<le> t \<Longrightarrow> window_ms n (t + int n) h = 0"
  unfolding window_ms_def by (induction h) auto

lemma unat_at_tick:
  assumes "window_ms n t h < 2 ^ 32" "t - int n < k"
  shows "unat (at_tick h k) = tick_ms h k"
proof -
  have "tick_ms h k \<le> window_ms n t h"
    using window_ms_step[of n "k - 1 + int n" h] window_ms_antimono[of t "k - 1 + int n" n h] assms(2) by simp
  then show ?thesis
    using assms(1) unfolding at_tick_def tick_ms_def by (simp add: unat_sum_list)
qed

text \<open>One step of the walk drops the bucket that leaves the window next.\<close>

lemma silent_loop_step:
  assumes r: "ring_rep 60 h last_tick ring" and W: "window_ms 60 (uint last_tick) h < 2 ^ 32"
    and small: "last_tick < 2 ^ 31" and a: "a < 60"
  defines "W' \<equiv> \<lambda>d. rat_of_nat (window_ms 60 (uint last_tick + int d) h) / 36000"
  shows "silent_loop ring last_tick (W' a) pct [a..<60]
     = (if W' (Suc a) \<le> pct then Suc a else silent_loop ring last_tick (W' (Suc a)) pct [Suc a..<60])"
proof -
  let ?cell = "ring ! unat ((last_tick + 1 + of_nat a) mod of_nat 60)"
  have "unat ((last_tick + 1 + of_nat a) mod of_nat 60) = nat (uint (last_tick + of_nat (Suc a)) mod int 60)"
    using unat_mod_nat[of 60 "last_tick + of_nat (Suc a)"] by (simp add: add.assoc)
  also have "uint (last_tick + of_nat (Suc a)) = uint last_tick + int (Suc a)"
    using small a by (intro uint_add_small) auto
  also have "(uint last_tick + int (Suc a)) mod int 60 = (uint last_tick + int a - 59) mod int 60"
    using mod_add_self2[of "uint last_tick + int a - 59" 60] by (simp add: algebra_simps)
  finally have "?cell = at_tick h (uint last_tick + int a - 59)"
    using r a unfolding ring_rep_def by simp
  then have cell: "unat ?cell = tick_ms h (uint last_tick + int a - 59)"
    using unat_at_tick[OF W] by simp
  have "window_ms 60 (uint last_tick + int a) h = unat ?cell + window_ms 60 (uint last_tick + int (Suc a)) h"
    using window_ms_step[of 60 "uint last_tick + int a" h] unfolding cell by (simp add: algebra_simps)
  then have "W' a - rat_of_nat (unat ?cell) / (of_nat MESHTASTIC_MS_IN_HOUR / 100) = W' (Suc a)"
    unfolding W'_def by (simp add: MESHTASTIC_MS_IN_HOUR_def add_divide_distrib del: of_nat_Suc of_nat_unat)
  then show ?thesis
    unfolding upt_conv_Cons[OF a] silent_loop.simps(2) Let_def MESHTASTIC_MINUTES_IN_HOUR_def by simp
qed

text \<open>The walk stops at the first number of minutes after which the window is below the ceiling.\<close>

lemma silent_loop_first:
  assumes r: "ring_rep 60 h last_tick ring" and W: "window_ms 60 (uint last_tick) h < 2 ^ 32"
    and small: "last_tick < 2 ^ 31" and pct: "0 \<le> pct" and a: "a \<le> 60"
  defines "W' \<equiv> \<lambda>d. rat_of_nat (window_ms 60 (uint last_tick + int d) h) / 36000"
  defines "m \<equiv> \<lambda>a. silent_loop ring last_tick (W' a) pct [a..<60]"
  shows "m a \<le> 60 \<and> W' (m a) \<le> pct \<and> (\<forall>d. a < d \<and> d < m a \<longrightarrow> pct < W' d)"
  using a
proof (induction "60 - a" arbitrary: a)
  case 0
  then show ?case
    using window_ms_empty[of h "uint last_tick" 60] r pct unfolding m_def W'_def ring_rep_def
    by (simp add: MESHTASTIC_MINUTES_IN_HOUR_def)
next
  case (Suc x)
  then have a: "a < 60" by simp
  have "m a = (if W' (Suc a) \<le> pct then Suc a else m (Suc a))"
    using silent_loop_step[OF r W small a] unfolding m_def W'_def by simp
  moreover have "m (Suc a) \<le> 60 \<and> W' (m (Suc a)) \<le> pct \<and> (\<forall>d. Suc a < d \<and> d < m (Suc a) \<longrightarrow> pct < W' d)"
    using Suc.hyps(1)[of "Suc a"] Suc.hyps(2) a by simp
  ultimately show ?case using a by (auto simp: not_le) (metis Suc_lessI)
qed

lemma duty_blocked_iff:
  assumes "airtime_rep es st" "at_initialized st \<Longrightarrow> at_last_tx_tick st \<le> sec div 60 \<and> at_last_util_tick st \<le> sec div 10"
    and "tx_past_hour sec es < 2 ^ 32"
  shows "snd (meshtastic_duty_blocked mt sec st) = None \<longleftrightarrow> mt_duty_override mt \<or> meshtastic_duty_effective_pct mt \<ge> 100
     \<or> of_nat (tx_past_hour sec es) / 36000 \<le> meshtastic_duty_effective_pct mt"
  using rep_tx_sum[OF rep_advance(1,2)[OF assms(1,2)]] assms(3)
  unfolding meshtastic_duty_blocked_def meshtastic_airtime_tx_util_percent_def Let_def tx_past_hour_window
  by (auto simp: rep_advance(3)[OF assms(1,2)] MESHTASTIC_MS_IN_HOUR_def simp del: of_nat_unat split: prod.split)

lemma blocked_state:
  assumes "airtime_rep es st" "at_initialized st \<Longrightarrow> at_last_tx_tick st \<le> sec div 60 \<and> at_last_util_tick st \<le> sec div 10"
    and "tx_past_hour sec es < 2 ^ 32" "meshtastic_duty_blocked mt sec st = (st', Some m)"
  shows "airtime_rep es st'" "at_initialized st'" "at_last_tx_tick st' = sec div 60" "at_last_util_tick st' = sec div 10"
    and "m = silent_loop (at_utilization_tx st') (sec div 60) (of_nat (tx_past_hour sec es) / 36000)
           (meshtastic_duty_effective_pct mt) [0..<60]"
    and "\<not> mt_duty_override mt" "meshtastic_duty_effective_pct mt < 100"
    and "meshtastic_duty_effective_pct mt < of_nat (tx_past_hour sec es) / 36000"
proof -
  note adv = rep_advance[OF assms(1,2)]
  have adv2: "airtime_rep es (airtime_advance sec (airtime_advance sec st))"
      "at_initialized (airtime_advance sec (airtime_advance sec st))"
      "at_last_tx_tick (airtime_advance sec (airtime_advance sec st)) = sec div 60"
      "at_last_util_tick (airtime_advance sec (airtime_advance sec st)) = sec div 10"
    using rep_advance[OF adv(1), of sec] adv by simp_all
  have "unat (sum_list (at_utilization_tx (airtime_advance sec st))) = tx_past_hour sec es"
    using rep_tx_sum[OF adv(1,2)] assms(3) unfolding tx_past_hour_window by (simp add: adv(3))
  then have "st' = airtime_advance sec (airtime_advance sec st)
      \<and> m = silent_loop (at_utilization_tx st') (at_last_tx_tick st') (of_nat (tx_past_hour sec es) / 36000)
           (meshtastic_duty_effective_pct mt) [0..<60]
      \<and> \<not> mt_duty_override mt \<and> meshtastic_duty_effective_pct mt < 100
      \<and> meshtastic_duty_effective_pct mt < of_nat (tx_past_hour sec es) / 36000"
    using assms(4)
    unfolding meshtastic_duty_blocked_def meshtastic_airtime_tx_util_percent_def meshtastic_airtime_silent_minutes_def Let_def
    by (auto simp: MESHTASTIC_MS_IN_HOUR_def MESHTASTIC_MINUTES_IN_HOUR_def simp del: of_nat_unat split: if_splits)
  then show "airtime_rep es st'" "at_initialized st'" "at_last_tx_tick st' = sec div 60" "at_last_util_tick st' = sec div 10"
    "m = silent_loop (at_utilization_tx st') (sec div 60) (of_nat (tx_past_hour sec es) / 36000)
           (meshtastic_duty_effective_pct mt) [0..<60]"
    "\<not> mt_duty_override mt" "meshtastic_duty_effective_pct mt < 100"
    "meshtastic_duty_effective_pct mt < of_nat (tx_past_hour sec es) / 36000"
    using adv2 by auto
qed


definition ex_duty :: mt_state where
  "ex_duty = ex_mt\<lparr>mt_duty_override := False, mt_duty_region := REGION_EU_868, mt_duty_permille := 100\<rparr>"

definition ex_busy :: "log_entry list" where
  "ex_busy = [(0, AIRTIME_TX, 0, 30000), (60, AIRTIME_TX, 0, 345000)]"


end
