(* ===== verification/Sched.thy ===== *)
theory Sched
  imports Prelude
begin

text \<open>
  The scheduling policy, \<^verbatim>\<open>meshtastic_sched.c\<close>: the record of knobs, the named presets, the setter that
  parses one knob from text, the tier of a port, and the counters.  A policy and its counters change only
  through the operations below, each of which runs under the configuration lock and is one step.
\<close>

section \<open>The policy\<close>

definition MT_SCHED_TIER_BG :: nat where "MT_SCHED_TIER_BG = 0"
definition MT_SCHED_TIER_NORMAL :: nat where "MT_SCHED_TIER_NORMAL = 1"
definition MT_SCHED_TIER_HIGH :: nat where "MT_SCHED_TIER_HIGH = 2"
definition MT_SCHED_TIER_ACK :: nat where "MT_SCHED_TIER_ACK = 3"
definition MT_SCHED_TIER_COUNT :: nat where "MT_SCHED_TIER_COUNT = 4"

datatype meshtastic_sched_order = ORDER_FIFO | ORDER_PRIORITY

datatype meshtastic_sched_overflow = OVF_DROP_NEWEST | OVF_DROP_LOWEST

datatype meshtastic_sched_phone_evict = PHONE_DROP_OLDEST | PHONE_PROTECT

record meshtastic_sched_config =
  sc_tx_order :: meshtastic_sched_order
  sc_tx_overflow :: meshtastic_sched_overflow
  sc_tx_depth :: u8
  sc_phone_evict :: meshtastic_sched_phone_evict
  sc_airtime_max_util :: u8
  sc_dedup_ttl_sec :: u16
  sc_reliable_retries :: u8
  sc_reliable_timeout_ms :: u16
  sc_route_ttl_sec :: u16
  sc_cw_min :: u8
  sc_cw_max :: u8
  sc_cw_relay_offset :: u8
  sc_cw_slot_ms :: u16

definition OB_MAX :: nat where "OB_MAX = 16"
definition OUTBOUND_QUEUE_DEPTH :: nat where "OUTBOUND_QUEUE_DEPTH = 8"
definition OB_DEFAULT :: nat where "OB_DEFAULT = min OUTBOUND_QUEUE_DEPTH OB_MAX"

definition preset_default :: meshtastic_sched_config where
  "preset_default =
     \<lparr>sc_tx_order = ORDER_PRIORITY, sc_tx_overflow = OVF_DROP_LOWEST, sc_tx_depth = of_nat OB_DEFAULT,
      sc_phone_evict = PHONE_PROTECT, sc_airtime_max_util = 40, sc_dedup_ttl_sec = 300, sc_reliable_retries = 3,
      sc_reliable_timeout_ms = 0, sc_route_ttl_sec = 1800, sc_cw_min = 3, sc_cw_max = 8, sc_cw_relay_offset = 2,
      sc_cw_slot_ms = 0\<rparr>"

definition preset_no_backoff :: meshtastic_sched_config where
  "preset_no_backoff =
     \<lparr>sc_tx_order = ORDER_FIFO, sc_tx_overflow = OVF_DROP_NEWEST, sc_tx_depth = of_nat OB_DEFAULT,
      sc_phone_evict = PHONE_DROP_OLDEST, sc_airtime_max_util = 0, sc_dedup_ttl_sec = 0, sc_reliable_retries = 3,
      sc_reliable_timeout_ms = 0, sc_route_ttl_sec = 1800, sc_cw_min = 0, sc_cw_max = 0, sc_cw_relay_offset = 0,
      sc_cw_slot_ms = 0\<rparr>"

definition presets :: "(string \<times> meshtastic_sched_config) list" where
  "presets = [(''default'', preset_default), (''no-backoff'', preset_no_backoff)]"

definition meshtastic_sched_tier_for :: "u32 \<Rightarrow> nat" where
  "meshtastic_sched_tier_for portnum =
     (if portnum = 5 then MT_SCHED_TIER_ACK
      else if portnum \<in> {3, 4, 67, 36, 71, 37, 258} then MT_SCHED_TIER_BG
      else MT_SCHED_TIER_NORMAL)"

section \<open>The counters\<close>

definition MT_RELAY_GAP_BUCKETS :: nat where "MT_RELAY_GAP_BUCKETS = 7"

record meshtastic_sched_stats =
  ss_tx_enq :: "u32 list"
  ss_tx_drop :: "u32 list"
  ss_ob_hiwater :: u32
  ss_phone_drop :: u32
  ss_phone_drop_protected :: u32
  ss_tx_airtime_drop :: u32
  ss_dedup_expired :: u32
  ss_reliable_acked :: u32
  ss_reliable_failed :: u32
  ss_relay_sent :: u32
  ss_relay_redundant :: u32
  ss_relay_cancelled :: u32
  ss_relay_deferred_late :: u32
  ss_relay_gap :: "u32 list"

definition meshtastic_sched_stats_reset :: meshtastic_sched_stats where
  "meshtastic_sched_stats_reset =
     \<lparr>ss_tx_enq = replicate MT_SCHED_TIER_COUNT 0, ss_tx_drop = replicate MT_SCHED_TIER_COUNT 0, ss_ob_hiwater = 0,
      ss_phone_drop = 0, ss_phone_drop_protected = 0, ss_tx_airtime_drop = 0, ss_dedup_expired = 0,
      ss_reliable_acked = 0, ss_reliable_failed = 0, ss_relay_sent = 0, ss_relay_redundant = 0,
      ss_relay_cancelled = 0, ss_relay_deferred_late = 0, ss_relay_gap = replicate MT_RELAY_GAP_BUCKETS 0\<rparr>"

definition count_at :: "nat \<Rightarrow> u32 list \<Rightarrow> u32 list" where
  "count_at i xs = (if i < length xs then xs[i := xs ! i + 1] else xs)"

definition meshtastic_sched_stat_enq :: "nat \<Rightarrow> nat \<Rightarrow> meshtastic_sched_stats \<Rightarrow> meshtastic_sched_stats" where
  "meshtastic_sched_stat_enq tier occupancy s =
     (let s = s\<lparr>ss_tx_enq := count_at tier (ss_tx_enq s)\<rparr>
      in if occupancy > unat (ss_ob_hiwater s) then s\<lparr>ss_ob_hiwater := of_nat occupancy\<rparr> else s)"

definition meshtastic_sched_stat_drop :: "nat \<Rightarrow> meshtastic_sched_stats \<Rightarrow> meshtastic_sched_stats" where
  "meshtastic_sched_stat_drop tier s = s\<lparr>ss_tx_drop := count_at tier (ss_tx_drop s)\<rparr>"

definition meshtastic_sched_stat_phone_drop :: "bool \<Rightarrow> meshtastic_sched_stats \<Rightarrow> meshtastic_sched_stats" where
  "meshtastic_sched_stat_phone_drop protected s =
     s\<lparr>ss_phone_drop := ss_phone_drop s + 1,
       ss_phone_drop_protected := (if protected then ss_phone_drop_protected s + 1 else ss_phone_drop_protected s)\<rparr>"

definition meshtastic_sched_stat_airtime_drop :: "meshtastic_sched_stats \<Rightarrow> meshtastic_sched_stats" where
  "meshtastic_sched_stat_airtime_drop s = s\<lparr>ss_tx_airtime_drop := ss_tx_airtime_drop s + 1\<rparr>"

definition meshtastic_sched_stat_dedup_expired :: "meshtastic_sched_stats \<Rightarrow> meshtastic_sched_stats" where
  "meshtastic_sched_stat_dedup_expired s = s\<lparr>ss_dedup_expired := ss_dedup_expired s + 1\<rparr>"

definition meshtastic_sched_stat_reliable_ack :: "meshtastic_sched_stats \<Rightarrow> meshtastic_sched_stats" where
  "meshtastic_sched_stat_reliable_ack s = s\<lparr>ss_reliable_acked := ss_reliable_acked s + 1\<rparr>"

definition meshtastic_sched_stat_reliable_fail :: "meshtastic_sched_stats \<Rightarrow> meshtastic_sched_stats" where
  "meshtastic_sched_stat_reliable_fail s = s\<lparr>ss_reliable_failed := ss_reliable_failed s + 1\<rparr>"

definition meshtastic_sched_stat_relay_sent :: "meshtastic_sched_stats \<Rightarrow> meshtastic_sched_stats" where
  "meshtastic_sched_stat_relay_sent s = s\<lparr>ss_relay_sent := ss_relay_sent s + 1\<rparr>"

definition meshtastic_sched_stat_relay_cancelled :: "meshtastic_sched_stats \<Rightarrow> meshtastic_sched_stats" where
  "meshtastic_sched_stat_relay_cancelled s = s\<lparr>ss_relay_cancelled := ss_relay_cancelled s + 1\<rparr>"

definition meshtastic_sched_stat_relay_deferred_late :: "meshtastic_sched_stats \<Rightarrow> meshtastic_sched_stats" where
  "meshtastic_sched_stat_relay_deferred_late s = s\<lparr>ss_relay_deferred_late := ss_relay_deferred_late s + 1\<rparr>"

definition meshtastic_relay_gap_bounds :: "u32 list" where
  "meshtastic_relay_gap_bounds = [25, 50, 100, 250, 500, 1000]"

fun gap_bucket :: "u32 \<Rightarrow> nat \<Rightarrow> u32 list \<Rightarrow> nat" where
  "gap_bucket gap_ms i [] = i"
| "gap_bucket gap_ms i (b # bs) = (if gap_ms < b then i else gap_bucket gap_ms (i + 1) bs)"

definition meshtastic_sched_stat_relay_redundant :: "u32 \<Rightarrow> meshtastic_sched_stats \<Rightarrow> meshtastic_sched_stats" where
  "meshtastic_sched_stat_relay_redundant gap_ms s =
     s\<lparr>ss_relay_redundant := ss_relay_redundant s + 1,
       ss_relay_gap := count_at (gap_bucket gap_ms 0 meshtastic_relay_gap_bounds) (ss_relay_gap s)\<rparr>"

section \<open>Setting a knob\<close>

text \<open>\<open>strtol\<close> in base 10 on a string without NUL: the value and what follows the digits, or nothing when
  there is no digit.  The C function saturates at the ends of \<open>long\<close>; every range below lies inside, so
  a saturated value is refused as the exact one is.\<close>

definition c_isspace :: "char \<Rightarrow> bool" where
  "c_isspace c \<longleftrightarrow> c \<in> {CHR '' '', CHR 0x09, CHR 0x0A, CHR 0x0B, CHR 0x0C, CHR 0x0D}"

definition c_isdigit :: "char \<Rightarrow> bool" where
  "c_isdigit c \<longleftrightarrow> 48 \<le> (of_char c :: nat) \<and> (of_char c :: nat) \<le> 57"

definition digits_value :: "string \<Rightarrow> int" where
  "digits_value ds = foldl (\<lambda>v c. 10 * v + (of_char c - 48)) 0 ds"

definition strtol10 :: "string \<Rightarrow> (int \<times> string) option" where
  "strtol10 s =
     (let t = dropWhile c_isspace s;
          (neg, u) = (case t of [] \<Rightarrow> (False, t)
                      | c # r \<Rightarrow> if c = CHR ''-'' then (True, r) else if c = CHR ''+'' then (False, r) else (False, t));
          ds = takeWhile c_isdigit u
      in if ds = [] then None
         else Some (if neg then - digits_value ds else digits_value ds, dropWhile c_isdigit u))"

definition parse_uint :: "string \<Rightarrow> int \<Rightarrow> int \<Rightarrow> int result" where
  "parse_uint val lo hi =
     (case strtol10 val of
        None \<Rightarrow> Inl EINVAL
      | Some (v, rest) \<Rightarrow> if rest \<noteq> [] \<or> v < lo \<or> v > hi then Inl EINVAL else Inr v)"

definition set_number ::
    "string \<Rightarrow> int \<Rightarrow> int \<Rightarrow> (int \<Rightarrow> meshtastic_sched_config) \<Rightarrow> meshtastic_sched_config result" where
  "set_number val lo hi upd = (case parse_uint val lo hi of Inl e \<Rightarrow> Inl e | Inr v \<Rightarrow> Inr (upd v))"

definition sched_set_locked :: "string \<Rightarrow> string \<Rightarrow> meshtastic_sched_config \<Rightarrow> meshtastic_sched_config result" where
  "sched_set_locked key val cfg =
     (if key = ''tx.order'' then
        (if val = ''fifo'' then Inr (cfg\<lparr>sc_tx_order := ORDER_FIFO\<rparr>)
         else if val = ''priority'' then Inr (cfg\<lparr>sc_tx_order := ORDER_PRIORITY\<rparr>) else Inl EINVAL)
      else if key = ''tx.overflow'' then
        (if val = ''drop-newest'' then Inr (cfg\<lparr>sc_tx_overflow := OVF_DROP_NEWEST\<rparr>)
         else if val = ''drop-lowest'' then Inr (cfg\<lparr>sc_tx_overflow := OVF_DROP_LOWEST\<rparr>) else Inl EINVAL)
      else if key = ''tx.depth'' then set_number val 1 (int OB_MAX) (\<lambda>v. cfg\<lparr>sc_tx_depth := of_int v\<rparr>)
      else if key = ''phone.evict'' then
        (if val = ''drop-oldest'' then Inr (cfg\<lparr>sc_phone_evict := PHONE_DROP_OLDEST\<rparr>)
         else if val = ''protect'' then Inr (cfg\<lparr>sc_phone_evict := PHONE_PROTECT\<rparr>) else Inl EINVAL)
      else if key = ''airtime.max'' then set_number val 0 100 (\<lambda>v. cfg\<lparr>sc_airtime_max_util := of_int v\<rparr>)
      else if key = ''dedup.ttl'' then set_number val 0 65535 (\<lambda>v. cfg\<lparr>sc_dedup_ttl_sec := of_int v\<rparr>)
      else if key = ''reliable.retries'' then set_number val 0 10 (\<lambda>v. cfg\<lparr>sc_reliable_retries := of_int v\<rparr>)
      else if key = ''reliable.timeout'' then set_number val 50 60000 (\<lambda>v. cfg\<lparr>sc_reliable_timeout_ms := of_int v\<rparr>)
      else if key = ''route.ttl'' then set_number val 0 65535 (\<lambda>v. cfg\<lparr>sc_route_ttl_sec := of_int v\<rparr>)
      else if key = ''cw.min'' then set_number val 0 16 (\<lambda>v. cfg\<lparr>sc_cw_min := of_int v\<rparr>)
      else if key = ''cw.max'' then set_number val 0 16 (\<lambda>v. cfg\<lparr>sc_cw_max := of_int v\<rparr>)
      else if key = ''cw.offset'' then set_number val 0 8 (\<lambda>v. cfg\<lparr>sc_cw_relay_offset := of_int v\<rparr>)
      else if key = ''cw.slot'' then set_number val 0 5000 (\<lambda>v. cfg\<lparr>sc_cw_slot_ms := of_int v\<rparr>)
      else Inl ENOENT)"

type_synonym sched = "meshtastic_sched_config \<times> meshtastic_sched_stats"

definition meshtastic_sched_set :: "string \<Rightarrow> string \<Rightarrow> sched \<Rightarrow> sched \<times> unit result" where
  "meshtastic_sched_set key val = (\<lambda>(cfg, st).
     case sched_set_locked key val cfg of
       Inl e \<Rightarrow> ((cfg, st), Inl e)
     | Inr c \<Rightarrow> ((c, meshtastic_sched_stats_reset), Inr ()))"

definition meshtastic_sched_defaults :: "sched \<Rightarrow> sched" where
  "meshtastic_sched_defaults s = (snd (presets ! 0), meshtastic_sched_stats_reset)"

definition meshtastic_sched_apply_preset :: "string \<Rightarrow> sched \<Rightarrow> sched \<times> unit result" where
  "meshtastic_sched_apply_preset name s =
     (case find (\<lambda>p. fst p = name) presets of
        Some p \<Rightarrow> ((snd p, meshtastic_sched_stats_reset), Inr ())
      | None \<Rightarrow> (s, Inl ENOENT))"

definition meshtastic_sched_preset_name :: "int \<Rightarrow> string option" where
  "meshtastic_sched_preset_name index =
     (if index < 0 \<or> index \<ge> int (length presets) then None else Some (fst (presets ! nat index)))"

definition meshtastic_sched_order_name :: "meshtastic_sched_order \<Rightarrow> string" where
  "meshtastic_sched_order_name o' = (if o' = ORDER_PRIORITY then ''priority'' else ''fifo'')"

definition meshtastic_sched_overflow_name :: "meshtastic_sched_overflow \<Rightarrow> string" where
  "meshtastic_sched_overflow_name o' = (if o' = OVF_DROP_LOWEST then ''drop-lowest'' else ''drop-newest'')"

definition meshtastic_sched_phone_evict_name :: "meshtastic_sched_phone_evict \<Rightarrow> string" where
  "meshtastic_sched_phone_evict_name e = (if e = PHONE_PROTECT then ''protect'' else ''drop-oldest'')"

definition meshtastic_sched_tier_name :: "nat \<Rightarrow> string" where
  "meshtastic_sched_tier_name tier =
     (if tier = MT_SCHED_TIER_BG then ''bg'' else if tier = MT_SCHED_TIER_NORMAL then ''normal''
      else if tier = MT_SCHED_TIER_HIGH then ''high'' else if tier = MT_SCHED_TIER_ACK then ''ack'' else ''?'')"

section \<open>The policy stays within its bounds\<close>

definition sched_ok :: "meshtastic_sched_config \<Rightarrow> bool" where
  "sched_ok c \<longleftrightarrow> 1 \<le> unat (sc_tx_depth c) \<and> unat (sc_tx_depth c) \<le> OB_MAX \<and> unat (sc_airtime_max_util c) \<le> 100
     \<and> unat (sc_reliable_retries c) \<le> 10
     \<and> (sc_reliable_timeout_ms c = 0 \<or> 50 \<le> unat (sc_reliable_timeout_ms c) \<and> unat (sc_reliable_timeout_ms c) \<le> 60000)
     \<and> unat (sc_cw_min c) \<le> 16 \<and> unat (sc_cw_max c) \<le> 16 \<and> unat (sc_cw_relay_offset c) \<le> 8 \<and> unat (sc_cw_slot_ms c) \<le> 5000"

definition sched_keys :: "string list" where
  "sched_keys = [''tx.order'', ''tx.overflow'', ''tx.depth'', ''phone.evict'', ''airtime.max'', ''dedup.ttl'',
     ''reliable.retries'', ''reliable.timeout'', ''route.ttl'', ''cw.min'', ''cw.max'', ''cw.offset'', ''cw.slot'']"

lemma unat_of_int_u8: "0 \<le> v \<Longrightarrow> v < 256 \<Longrightarrow> unat (of_int v :: u8) = nat v"
  by (simp add: unat_eq_nat_uint uint_word_of_int)

lemma unat_of_int_u16: "0 \<le> v \<Longrightarrow> v < 65536 \<Longrightarrow> unat (of_int v :: u16) = nat v"
  by (simp add: unat_eq_nat_uint uint_word_of_int)

lemma presets_ok: "sched_ok preset_default" "sched_ok preset_no_backoff"
  unfolding sched_ok_def preset_default_def preset_no_backoff_def OB_DEFAULT_def OB_MAX_def OUTBOUND_QUEUE_DEPTH_def
  by simp_all

text \<open>What the setter may answer for a known key.\<close>

definition good_set :: "meshtastic_sched_config result \<Rightarrow> bool" where
  "good_set r \<longleftrightarrow> r = Inl EINVAL \<or> (\<exists>c. r = Inr c \<and> sched_ok c)"

lemma good_set_number:
  "(\<And>v. lo \<le> v \<Longrightarrow> v \<le> hi \<Longrightarrow> sched_ok (upd v)) \<Longrightarrow> good_set (set_number val lo hi upd)"
  unfolding good_set_def set_number_def parse_uint_def by (auto split: option.split)

lemma good_set_simps [simp]: "good_set (Inl e) \<longleftrightarrow> e = EINVAL" "good_set (Inr c) \<longleftrightarrow> sched_ok c"
  unfolding good_set_def by auto

lemma sched_ok_choices [simp]:
  assumes "sched_ok cfg"
  shows "sched_ok (cfg\<lparr>sc_tx_order := a\<rparr>)" "sched_ok (cfg\<lparr>sc_tx_overflow := b\<rparr>)" "sched_ok (cfg\<lparr>sc_phone_evict := d\<rparr>)"
    "sched_ok (cfg\<lparr>sc_dedup_ttl_sec := e\<rparr>)" "sched_ok (cfg\<lparr>sc_route_ttl_sec := f\<rparr>)"
  using assms unfolding sched_ok_def by simp_all

lemma sched_ok_numbers:
  assumes "sched_ok cfg"
  shows "1 \<le> v \<Longrightarrow> v \<le> int OB_MAX \<Longrightarrow> sched_ok (cfg\<lparr>sc_tx_depth := of_int v\<rparr>)"
    "0 \<le> v \<Longrightarrow> v \<le> 100 \<Longrightarrow> sched_ok (cfg\<lparr>sc_airtime_max_util := of_int v\<rparr>)"
    "0 \<le> v \<Longrightarrow> v \<le> 10 \<Longrightarrow> sched_ok (cfg\<lparr>sc_reliable_retries := of_int v\<rparr>)"
    "50 \<le> v \<Longrightarrow> v \<le> 60000 \<Longrightarrow> sched_ok (cfg\<lparr>sc_reliable_timeout_ms := of_int v\<rparr>)"
    "0 \<le> v \<Longrightarrow> v \<le> 16 \<Longrightarrow> sched_ok (cfg\<lparr>sc_cw_min := of_int v\<rparr>)"
    "0 \<le> v \<Longrightarrow> v \<le> 16 \<Longrightarrow> sched_ok (cfg\<lparr>sc_cw_max := of_int v\<rparr>)"
    "0 \<le> v \<Longrightarrow> v \<le> 8 \<Longrightarrow> sched_ok (cfg\<lparr>sc_cw_relay_offset := of_int v\<rparr>)"
    "0 \<le> v \<Longrightarrow> v \<le> 5000 \<Longrightarrow> sched_ok (cfg\<lparr>sc_cw_slot_ms := of_int v\<rparr>)"
  using assms unfolding sched_ok_def by (auto simp: unat_of_int_u8 unat_of_int_u16 OB_MAX_def)

lemma sched_set_known: "sched_ok cfg \<Longrightarrow> key \<in> set sched_keys \<Longrightarrow> good_set (sched_set_locked key val cfg)"
  unfolding sched_keys_def sched_set_locked_def list.set(2) insert_iff list.set(1) empty_iff
  by (elim disjE) (simp_all add: good_set_number sched_ok_numbers)

lemma sched_set_unknown: "key \<notin> set sched_keys \<Longrightarrow> sched_set_locked key val cfg = Inl ENOENT"
  unfolding sched_keys_def sched_set_locked_def by simp

section \<open>Properties\<close>

text \<open>C37. Setting a knob fails cleanly.  An unknown key is ENOENT and a value the knob does not accept is
  EINVAL, and neither touches the policy or the counters; a value that is accepted leaves every knob in
  its range and starts the counters afresh.\<close>

theorem sched_set_fails_cleanly:
  assumes "sched_ok cfg" "meshtastic_sched_set key val (cfg, st) = ((cfg', st'), r)"
  shows "(key \<notin> set sched_keys \<longleftrightarrow> r = Inl ENOENT)
     \<and> (r = Inr () \<and> sched_ok cfg' \<and> st' = meshtastic_sched_stats_reset
        \<or> r \<in> {Inl ENOENT, Inl EINVAL} \<and> cfg' = cfg \<and> st' = st)"
proof (cases "key \<in> set sched_keys")
  case True
  then show ?thesis
    using sched_set_known[OF assms(1) True, of val] assms(2)
    unfolding meshtastic_sched_set_def by (cases "sched_set_locked key val cfg") auto
next
  case False
  then show ?thesis using assms(2) sched_set_unknown[OF False, of val cfg] unfolding meshtastic_sched_set_def by auto
qed

theorem sched_set_fails_cleanly_witness:
  "\<exists>c st. meshtastic_sched_set ''tx.depth'' ''12'' (preset_default, meshtastic_sched_stats_reset) = ((c, st), Inr ())
     \<and> sched_ok c \<and> st = meshtastic_sched_stats_reset \<and> sc_tx_depth c = 12"
proof -
  have "sched_set_locked ''tx.depth'' ''12'' preset_default = Inr (preset_default\<lparr>sc_tx_depth := 12\<rparr>)" by code_simp
  then have "meshtastic_sched_set ''tx.depth'' ''12'' (preset_default, meshtastic_sched_stats_reset)
      = ((preset_default\<lparr>sc_tx_depth := 12\<rparr>, meshtastic_sched_stats_reset), Inr ())"
    by (simp add: meshtastic_sched_set_def)
  then show ?thesis using sched_set_fails_cleanly[OF presets_ok(1)] by fastforce
qed

text \<open>The adaptive retransmit interval, timeout 0, is the default but cannot be set again.\<close>

lemma adaptive_timeout_unreachable:
  "sched_set_locked ''reliable.timeout'' ''0'' cfg = Inl EINVAL"
  unfolding sched_set_locked_def set_number_def parse_uint_def strtol10_def
  by (simp add: c_isspace_def c_isdigit_def digits_value_def)

text \<open>Administration is not mapped to the tier the policy names for it.\<close>

lemma tier_high_unused: "meshtastic_sched_tier_for p \<noteq> MT_SCHED_TIER_HIGH"
  unfolding meshtastic_sched_tier_for_def MT_SCHED_TIER_HIGH_def MT_SCHED_TIER_ACK_def MT_SCHED_TIER_BG_def
    MT_SCHED_TIER_NORMAL_def by simp

text \<open>The names that the shell prints are values the setter takes back.\<close>

lemma sched_names_roundtrip:
  "sched_set_locked ''tx.order'' (meshtastic_sched_order_name (sc_tx_order cfg)) cfg = Inr cfg"
  "sched_set_locked ''tx.overflow'' (meshtastic_sched_overflow_name (sc_tx_overflow cfg)) cfg = Inr cfg"
  "sched_set_locked ''phone.evict'' (meshtastic_sched_phone_evict_name (sc_phone_evict cfg)) cfg = Inr cfg"
proof -
  show "sched_set_locked ''tx.order'' (meshtastic_sched_order_name (sc_tx_order cfg)) cfg = Inr cfg"
    by (cases "sc_tx_order cfg") (simp_all add: sched_set_locked_def meshtastic_sched_order_name_def)
  show "sched_set_locked ''tx.overflow'' (meshtastic_sched_overflow_name (sc_tx_overflow cfg)) cfg = Inr cfg"
    by (cases "sc_tx_overflow cfg") (simp_all add: sched_set_locked_def meshtastic_sched_overflow_name_def)
  show "sched_set_locked ''phone.evict'' (meshtastic_sched_phone_evict_name (sc_phone_evict cfg)) cfg = Inr cfg"
    by (cases "sc_phone_evict cfg") (simp_all add: sched_set_locked_def meshtastic_sched_phone_evict_name_def)
qed

end
