(* ===== verification/Contention.thy ===== *)
theory Contention
  imports Sched "HOL-Library.Signed_Division"
begin

text \<open>
  The contention window, \<^verbatim>\<open>meshtastic_contention.c\<close>, and the capped exponential retry delay,
  \<^verbatim>\<open>meshtastic_backoff.c\<close>.  The random generator is outside: a draw takes the 32 random bits as an
  argument \<open>r\<close>.
\<close>

section \<open>The window\<close>

text \<open>Arduino's \<open>map\<close>: the division truncates towards zero.\<close>

definition map_i32 :: "int \<Rightarrow> int \<Rightarrow> int \<Rightarrow> int \<Rightarrow> int \<Rightarrow> int" where
  "map_i32 x in_min in_max out_min out_max =
     signed_divide ((x - in_min) * (out_max - out_min)) (in_max - in_min) + out_min"

record cw_policy =
  cp_lo :: u8
  cp_hi :: u8
  cp_offset :: u8
  cp_slot_override_ms :: u16

definition cw_policy_get :: "meshtastic_sched_config \<Rightarrow> cw_policy" where
  "cw_policy_get c =
     (if sc_cw_max c = 0
      then \<lparr>cp_lo = 0, cp_hi = 0, cp_offset = 0, cp_slot_override_ms = sc_cw_slot_ms c\<rparr>
      else \<lparr>cp_lo = sc_cw_min c, cp_hi = (if sc_cw_max c < sc_cw_min c then sc_cw_min c else sc_cw_max c),
            cp_offset = sc_cw_relay_offset c, cp_slot_override_ms = sc_cw_slot_ms c\<rparr>)"

definition cw_clamp :: "int \<Rightarrow> u8 \<Rightarrow> u8 \<Rightarrow> u8" where
  "cw_clamp cw lo hi = (if cw < uint lo then lo else if cw > uint hi then hi else of_int cw)"

definition random_below :: "u32 \<Rightarrow> u32 \<Rightarrow> u32" where
  "random_below r n = (if n = 0 then 0 else r mod n)"

definition NUM_SYM_CAD :: u32 where "NUM_SYM_CAD = 2"
definition NUM_SYM_CAD_24GHZ :: u32 where "NUM_SYM_CAD_24GHZ = 4"
definition FIXED_TIME_HUNDREDTHS :: u32 where "FIXED_TIME_HUNDREDTHS = 760"

definition bit32 :: "u8 \<Rightarrow> u32" where "bit32 n = push_bit (unat n) 1"

definition meshtastic_contention_slot_ms :: "u8 \<Rightarrow> u32 \<Rightarrow> bool \<Rightarrow> u32" where
  "meshtastic_contention_slot_ms spread_factor bandwidth_hz wide_lora =
     (if spread_factor = 0 \<or> spread_factor > 20 \<or> bandwidth_hz = 0 then 0
      else let bw_khz = bandwidth_hz div 1000
           in if bw_khz = 0 then 0
              else let cad_hundredths =
                         (if wide_lora then (NUM_SYM_CAD_24GHZ + (2 * ucast spread_factor + 3) div 32) * 100
                          else max 225 (NUM_SYM_CAD * 100 + 50));
                       slot_hundredths = bit32 spread_factor * cad_hundredths div bw_khz
                   in (slot_hundredths + FIXED_TIME_HUNDREDTHS) div 100)"

definition cw_from_snr_p :: "cw_policy \<Rightarrow> int \<Rightarrow> u8" where
  "cw_from_snr_p p snr = cw_clamp (map_i32 snr (- 20) 10 (uint (cp_lo p)) (uint (cp_hi p))) (cp_lo p) (cp_hi p)"

definition cw_from_util_p :: "cw_policy \<Rightarrow> u8 \<Rightarrow> u8" where
  "cw_from_util_p p util_pct =
     cw_clamp (map_i32 (uint (min util_pct 100)) 0 100 (uint (cp_lo p)) (uint (cp_hi p))) (cp_lo p) (cp_hi p)"

definition relay_offset_slots :: "cw_policy \<Rightarrow> u32" where
  "relay_offset_slots p = ucast (cp_offset p) * ucast (cp_hi p)"

definition effective_slot_p :: "cw_policy \<Rightarrow> u8 \<Rightarrow> u32 \<Rightarrow> bool \<Rightarrow> u32" where
  "effective_slot_p p spread_factor bandwidth_hz wide_lora =
     (if cp_slot_override_ms p \<noteq> 0 then ucast (cp_slot_override_ms p)
      else meshtastic_contention_slot_ms spread_factor bandwidth_hz wide_lora)"

definition meshtastic_contention_cw_from_snr :: "meshtastic_sched_config \<Rightarrow> int \<Rightarrow> u8" where
  "meshtastic_contention_cw_from_snr c snr = cw_from_snr_p (cw_policy_get c) snr"

definition meshtastic_contention_cw_from_util :: "meshtastic_sched_config \<Rightarrow> u8 \<Rightarrow> u8" where
  "meshtastic_contention_cw_from_util c util_pct = cw_from_util_p (cw_policy_get c) util_pct"

definition MESHTASTIC_CW_MIN :: u32 where "MESHTASTIC_CW_MIN = 3"
definition MESHTASTIC_CW_MAX :: u32 where "MESHTASTIC_CW_MAX = 8"
definition MESHTASTIC_RETX_PROCESSING_MS :: u32 where "MESHTASTIC_RETX_PROCESSING_MS = 4500"

definition meshtastic_contention_retransmit_ms :: "u32 \<Rightarrow> u32 \<Rightarrow> u8 \<Rightarrow> u32" where
  "meshtastic_contention_retransmit_ms airtime_ms slot_ms util_pct =
     (let util_pct = (if util_pct > 100 then 100 else util_pct);
          cw_size = (ucast (MESHTASTIC_CW_MIN + ucast util_pct * (MESHTASTIC_CW_MAX - MESHTASTIC_CW_MIN) div 100) :: u8);
          cw_term = bit32 cw_size + 2 * MESHTASTIC_CW_MAX
                    + push_bit (unat ((MESHTASTIC_CW_MAX + MESHTASTIC_CW_MIN) div 2)) 1
      in 2 * airtime_ms + cw_term * slot_ms + MESHTASTIC_RETX_PROCESSING_MS)"

definition meshtastic_contention_effective_slot_ms :: "meshtastic_sched_config \<Rightarrow> u8 \<Rightarrow> u32 \<Rightarrow> bool \<Rightarrow> u32" where
  "meshtastic_contention_effective_slot_ms c spread_factor bandwidth_hz wide_lora =
     effective_slot_p (cw_policy_get c) spread_factor bandwidth_hz wide_lora"

definition meshtastic_contention_delay_own_ms :: "meshtastic_sched_config \<Rightarrow> u32 \<Rightarrow> u8 \<Rightarrow> u32 \<Rightarrow> u32" where
  "meshtastic_contention_delay_own_ms c r util_pct slot_ms =
     random_below r (bit32 (cw_from_util_p (cw_policy_get c) util_pct)) * slot_ms"

definition relay_delay :: "cw_policy \<Rightarrow> u32 \<Rightarrow> u8 \<Rightarrow> bool \<Rightarrow> u32 \<Rightarrow> u32" where
  "relay_delay p r cw early_like_router slot_ms =
     (if early_like_router then random_below r (2 * ucast cw) * slot_ms
      else relay_offset_slots p * slot_ms + random_below r (bit32 cw) * slot_ms)"

definition meshtastic_contention_delay_relay_ms :: "meshtastic_sched_config \<Rightarrow> u32 \<Rightarrow> int \<Rightarrow> bool \<Rightarrow> u32 \<Rightarrow> u32" where
  "meshtastic_contention_delay_relay_ms c r snr early_like_router slot_ms =
     (let p = cw_policy_get c in relay_delay p r (cw_from_snr_p p snr) early_like_router slot_ms)"

definition meshtastic_contention_delay_relay_worst_ms :: "meshtastic_sched_config \<Rightarrow> int \<Rightarrow> u32 \<Rightarrow> u32" where
  "meshtastic_contention_delay_relay_worst_ms c snr slot_ms =
     (let p = cw_policy_get c in relay_offset_slots p * slot_ms + bit32 (cw_from_snr_p p snr) * slot_ms)"

record meshtastic_contention_plan =
  pl_delay_ms :: u32
  pl_worst_ms :: u32
  pl_slot_ms :: u32
  pl_cw :: u8

definition meshtastic_contention_plan_relay ::
    "meshtastic_sched_config \<Rightarrow> u32 \<Rightarrow> int \<Rightarrow> bool \<Rightarrow> u8 \<Rightarrow> u32 \<Rightarrow> bool \<Rightarrow> meshtastic_contention_plan" where
  "meshtastic_contention_plan_relay c r snr early_like_router spread_factor bandwidth_hz wide_lora =
     (let p = cw_policy_get c;
          cw = cw_from_snr_p p snr;
          slot_ms = effective_slot_p p spread_factor bandwidth_hz wide_lora
      in \<lparr>pl_delay_ms = relay_delay p r cw early_like_router slot_ms,
          pl_worst_ms = relay_offset_slots p * slot_ms + bit32 cw * slot_ms, pl_slot_ms = slot_ms, pl_cw = cw\<rparr>)"

definition meshtastic_contention_plan_own ::
    "meshtastic_sched_config \<Rightarrow> u32 \<Rightarrow> u8 \<Rightarrow> u8 \<Rightarrow> u32 \<Rightarrow> bool \<Rightarrow> meshtastic_contention_plan" where
  "meshtastic_contention_plan_own c r util_pct spread_factor bandwidth_hz wide_lora =
     (let p = cw_policy_get c;
          cw = cw_from_util_p p util_pct;
          slot_ms = effective_slot_p p spread_factor bandwidth_hz wide_lora
      in \<lparr>pl_delay_ms = random_below r (bit32 cw) * slot_ms, pl_worst_ms = bit32 cw * slot_ms, pl_slot_ms = slot_ms, pl_cw = cw\<rparr>)"

section \<open>Retry delays\<close>

record meshtastic_backoff =
  bo_base_ms :: u32
  bo_cap_ms :: u32
  bo_attempts :: u32

definition meshtastic_backoff_init :: "u32 \<Rightarrow> u32 \<Rightarrow> meshtastic_backoff" where
  "meshtastic_backoff_init base_ms cap_ms =
     \<lparr>bo_base_ms = base_ms, bo_cap_ms = (if cap_ms < base_ms then base_ms else cap_ms), bo_attempts = 0\<rparr>"

text \<open>The doubling loop: \<open>n\<close> rounds remain of the count of attempts.\<close>

fun backoff_loop :: "nat \<Rightarrow> u32 \<Rightarrow> u32 \<Rightarrow> u32" where
  "backoff_loop 0 cap delay = delay"
| "backoff_loop (Suc n) cap delay =
     (if delay < cap then backoff_loop n cap (if delay > cap div 2 then cap else delay * 2) else delay)"

definition meshtastic_backoff_next_ms :: "u32 \<Rightarrow> meshtastic_backoff \<Rightarrow> meshtastic_backoff \<times> u32" where
  "meshtastic_backoff_next_ms rand b =
     (let delay = backoff_loop (unat (bo_attempts b)) (bo_cap_ms b) (bo_base_ms b)
      in (if bo_attempts b < - 1 then b\<lparr>bo_attempts := bo_attempts b + 1\<rparr> else b,
          delay + rand mod (delay div 4 + 1)))"

definition meshtastic_backoff_reset :: "meshtastic_backoff \<Rightarrow> meshtastic_backoff" where
  "meshtastic_backoff_reset b = b\<lparr>bo_attempts := 0\<rparr>"

section \<open>Windows stay in bounds\<close>

definition policy_ok :: "cw_policy \<Rightarrow> bool" where
  "policy_ok p \<longleftrightarrow> unat (cp_lo p) \<le> unat (cp_hi p) \<and> unat (cp_hi p) \<le> 16 \<and> unat (cp_offset p) \<le> 8
     \<and> unat (cp_slot_override_ms p) \<le> 5000"

lemma cw_policy_ok: "sched_ok c \<Longrightarrow> policy_ok (cw_policy_get c)"
  unfolding sched_ok_def policy_ok_def cw_policy_get_def by (auto simp: word_less_nat_alt)

lemma cw_clamp_range:
  assumes "unat lo \<le> unat hi" shows "unat lo \<le> unat (cw_clamp cw lo hi) \<and> unat (cw_clamp cw lo hi) \<le> unat hi"
proof (cases "cw < uint lo \<or> cw > uint hi")
  case True
  then show ?thesis using assms unfolding cw_clamp_def by auto
next
  case False
  moreover have "uint hi < 256" using uint_lt2p[of hi] by simp
  ultimately have "0 \<le> cw" "cw < 256" using uint_ge_0[of lo] by linarith+
  then have "unat (of_int cw :: u8) = nat cw" by (rule unat_of_int_u8)
  moreover have "cw_clamp cw lo hi = of_int cw" "uint lo \<le> cw" "cw \<le> uint hi"
    using False unfolding cw_clamp_def by auto
  ultimately show ?thesis using nat_mono[of "uint lo" cw] nat_mono[of cw "uint hi"] by simp
qed

lemma cw_range:
  assumes "policy_ok p"
  shows "unat (cw_from_snr_p p snr) \<le> unat (cp_hi p)" "unat (cw_from_util_p p u) \<le> unat (cp_hi p)"
  using assms cw_clamp_range unfolding policy_ok_def cw_from_snr_p_def cw_from_util_p_def by blast+

lemma unat_ucast_u8 [simp]: "unat (ucast (x::u8) :: u32) = unat x"
  using unsigned_less[of x, where 'a = nat] by (simp add: unsigned_ucast_eq take_bit_eq_mod)

lemma unat_ucast_u16 [simp]: "unat (ucast (x::u16) :: u32) = unat x"
  using unsigned_less[of x, where 'a = nat] by (simp add: unsigned_ucast_eq take_bit_eq_mod)

lemma unat_bit32:
  assumes "unat n < 32" shows "unat (bit32 n) = 2 ^ unat n"
proof -
  have "bit32 n = of_nat (2 ^ unat n)" unfolding bit32_def by (simp add: push_bit_eq_mult)
  moreover have "(2 ^ unat n :: nat) < 2 ^ 32" using assms by (intro power_strict_increasing) auto
  ultimately show ?thesis by (simp only: unat_of_nat) simp
qed

lemma random_below_less: "n \<noteq> 0 \<Longrightarrow> unat (random_below r n) < unat n"
  unfolding random_below_def by (simp add: unat_mod unat_gt_0)

lemma unat_relay_offset: "policy_ok p \<Longrightarrow> unat (relay_offset_slots p) = unat (cp_offset p) * unat (cp_hi p)"
proof -
  assume p: "policy_ok p"
  then have "unat (cp_offset p) * unat (cp_hi p) \<le> 8 * 16" unfolding policy_ok_def by (intro mult_le_mono) auto
  then show ?thesis unfolding relay_offset_slots_def by (simp add: unat_word_ariths(2))
qed

lemma slot_ms_bound:
  assumes "sf \<le> 12" "bw \<ge> 7000"
  shows "unat (meshtastic_contention_slot_ms sf bw wide) \<le> 5000"
proof -
  have sf: "unat sf \<le> 12" using assms(1) by (simp add: word_le_nat_alt)
  have bw: "7 \<le> unat (bw div 1000)" using assms(2) by (simp add: word_le_nat_alt unat_div)
  have small: "2 ^ unat sf \<le> (4096 :: nat)" using power_increasing[OF sf, of "2 :: nat"] by simp
  define cad :: u32 where "cad = (if wide then (NUM_SYM_CAD_24GHZ + (2 * ucast sf + 3) div 32) * 100 else max 225 (NUM_SYM_CAD * 100 + 50))"
  have "2 * unat sf + 3 < 32" using sf by simp
  then have "(2 * ucast sf + 3 :: u32) div 32 = 0"
    by (intro word_unat_eq_iff[THEN iffD2]) (simp add: unat_div unat_word_ariths)
  then have cad: "unat cad \<le> 400" unfolding cad_def NUM_SYM_CAD_24GHZ_def NUM_SYM_CAD_def by simp
  have "unat (bit32 sf * cad) \<le> 4096 * 400"
    using mult_le_mono[OF small cad] sf by (simp add: unat_word_ariths(2) unat_bit32)
  then have "unat (bit32 sf * cad div (bw div 1000)) \<le> 4096 * 400 div 7"
    using bw by (simp only: unat_div) (meson div_le_mono div_le_mono2 le_trans zero_less_numeral)
  then have "unat ((bit32 sf * cad div (bw div 1000) + FIXED_TIME_HUNDREDTHS) div 100) \<le> 5000"
    by (simp add: unat_div unat_word_ariths(1) FIXED_TIME_HUNDREDTHS_def)
  then show ?thesis unfolding meshtastic_contention_slot_ms_def cad_def Let_def by auto
qed

lemma effective_slot_bound:
  "policy_ok p \<Longrightarrow> sf \<le> 12 \<Longrightarrow> bw \<ge> 7000 \<Longrightarrow> unat (effective_slot_p p sf bw wide) \<le> 5000"
  using slot_ms_bound unfolding effective_slot_p_def policy_ok_def by (simp add:)

text \<open>Delays are a number of slots: with at most 65664 slots of at most 5 s the product does not wrap.\<close>

lemma unat_slots:
  assumes "unat (a::u32) + unat (b::u32) \<le> 65664" "unat (slot::u32) \<le> 5000"
  shows "unat (a * slot + b * slot) = (unat a + unat b) * unat slot"
proof -
  have "(unat a + unat b) * unat slot \<le> 65664 * 5000" using assms by (intro mult_le_mono)
  then show ?thesis unfolding distrib_right[symmetric]
    using assms(1) by (simp add: unat_word_ariths)
qed

lemma window_slots:
  assumes "policy_ok p" "unat cw \<le> unat (cp_hi p)"
  shows "unat (bit32 cw) = 2 ^ unat cw" "unat (relay_offset_slots p) + unat (bit32 cw) \<le> 65664"
    "unat (2 * ucast cw :: u32) = 2 * unat cw" "2 * unat cw \<le> 2 ^ unat cw + 1"
proof -
  have cw: "unat cw \<le> 16" using assms unfolding policy_ok_def by linarith
  have off: "unat (cp_offset p) * unat (cp_hi p) \<le> 8 * 16"
    using assms(1) unfolding policy_ok_def by (intro mult_le_mono) auto
  show bit: "unat (bit32 cw) = 2 ^ unat cw" using cw by (intro unat_bit32) simp
  have "(2 :: nat) ^ unat cw \<le> 2 ^ 16" using cw by (intro power_increasing) auto
  then show "unat (relay_offset_slots p) + unat (bit32 cw) \<le> 65664"
    using off unfolding bit unat_relay_offset[OF assms(1)] by simp
  show "unat (2 * ucast cw :: u32) = 2 * unat cw" using cw by (simp add: unat_word_ariths(2))
  have "2 * n \<le> 2 ^ n + (1 :: nat)" for n
  proof (cases n)
    case (Suc m)
    have "Suc m \<le> 2 ^ m" by (simp add: Suc_le_eq)
    then show ?thesis unfolding Suc by simp
  qed simp
  then show "2 * unat cw \<le> 2 ^ unat cw + 1" .
qed

lemma early_delay:
  assumes "policy_ok p" "unat cw \<le> unat (cp_hi p)" "unat slot \<le> 5000"
  shows "unat (relay_delay p r cw True slot) \<le> (2 * unat cw - 1) * unat slot"
proof -
  note w = window_slots[OF assms(1,2)]
  have r: "unat (random_below r (2 * ucast cw)) \<le> 2 * unat cw - 1"
  proof (cases "(2 * ucast cw :: u32) = 0")
    case True
    then show ?thesis unfolding random_below_def by simp
  next
    case False
    then show ?thesis using random_below_less[OF False, of r] w(3) by simp
  qed
  then have "unat (0 * slot + random_below r (2 * ucast cw) * slot) = (unat (0::u32) + unat (random_below r (2 * ucast cw))) * unat slot"
    using w(2,4) assms(3) unfolding w(1) by (intro unat_slots) auto
  then show ?thesis using r unfolding relay_delay_def by (simp add: mult_le_mono)
qed

lemma late_delay:
  assumes "policy_ok p" "unat cw \<le> unat (cp_hi p)" "unat slot \<le> 5000"
  shows "unat (relay_delay p r cw False slot) \<le> (unat (relay_offset_slots p) + 2 ^ unat cw) * unat slot"
    and "unat (relay_offset_slots p) * unat slot \<le> unat (relay_delay p r cw False slot)"
proof -
  note w = window_slots[OF assms(1,2)]
  have "bit32 cw \<noteq> 0" using w(1) by (metis power_not_zero unat_0 zero_neq_numeral)
  then have r: "unat (random_below r (bit32 cw)) < 2 ^ unat cw" using random_below_less w(1) by metis
  have d: "unat (relay_delay p r cw False slot) = (unat (relay_offset_slots p) + unat (random_below r (bit32 cw))) * unat slot"
    unfolding relay_delay_def using w r assms(3) by (simp add: unat_slots)
  show "unat (relay_delay p r cw False slot) \<le> (unat (relay_offset_slots p) + 2 ^ unat cw) * unat slot"
    unfolding d using r by (intro mult_le_mono) auto
  show "unat (relay_offset_slots p) * unat slot \<le> unat (relay_delay p r cw False slot)"
    unfolding d by (intro mult_le_mono) auto
qed

section \<open>Properties\<close>



text \<open>The retry ladder: the base doubled per failure up to the cap, plus at most a quarter.\<close>

lemma backoff_loop_doubles:
  "delay \<le> cap \<Longrightarrow> unat (backoff_loop n cap delay) = min (unat cap) (unat delay * 2 ^ n)"
proof (induction n arbitrary: delay)
  case (Suc n)
  show ?case
  proof (cases "cap div 2 < delay")
    case True
    then have "unat cap div 2 < unat delay" by (simp add: word_less_nat_alt unat_div)
    then have "unat cap < 2 * unat delay" by presburger
    also have "\<dots> \<le> 2 * unat delay * 2 ^ n" by simp
    finally have "unat cap \<le> unat delay * 2 ^ Suc n" by (simp add: mult_ac)
    then show ?thesis using Suc True by (auto simp: word_le_nat_alt word_less_nat_alt)
  next
    case False
    then have "2 * unat delay \<le> unat cap" by (simp add: word_less_nat_alt unat_div)
    moreover have "unat cap < 2 ^ 32" using unsigned_less[of cap, where 'a = nat] by simp
    ultimately have "unat (delay * 2) = 2 * unat delay" "delay * 2 \<le> cap"
      by (simp_all add: unat_word_ariths(2) word_le_nat_alt mult.commute)
    then show ?thesis using Suc.IH[of "delay * 2"] Suc.prems False
      by (cases "unat delay = 0") (auto simp: word_le_nat_alt word_less_nat_alt mult_ac)
  qed
qed (simp add: word_le_nat_alt)

lemma backoff_next_range:
  assumes "cap \<le> 3000000000" "bo_base_ms b \<le> bo_cap_ms b" "bo_cap_ms b = cap"
  defines "d \<equiv> min (unat cap) (unat (bo_base_ms b) * 2 ^ unat (bo_attempts b))"
  shows "d \<le> unat (snd (meshtastic_backoff_next_ms rand b)) \<and> unat (snd (meshtastic_backoff_next_ms rand b)) \<le> d + d div 4"
proof -
  define w where "w = backoff_loop (unat (bo_attempts b)) (bo_cap_ms b) (bo_base_ms b)"
  have w: "unat w = d" unfolding w_def d_def using backoff_loop_doubles[OF assms(2)] assms(3) by simp
  have d: "d \<le> 3000000000" using assms(1) unfolding d_def by (simp add: word_le_nat_alt)
  have "unat (w div 4 + 1) = d div 4 + 1" using d by (simp add: unat_word_ariths(1) unat_div w)
  then have "unat (rand mod (w div 4 + 1)) \<le> d div 4"
    by (simp add: unat_mod)
  then show ?thesis using d unfolding meshtastic_backoff_next_ms_def Let_def w_def[symmetric]
    by (simp add: unat_word_ariths(1) w)
qed
end
