(* ===== verification/Outbound.thy ===== *)
theory Outbound
  imports Airtime Contention "HOL-Library.Multiset"
begin

text \<open>
  The transmit queue, \<^verbatim>\<open>meshtastic_outbound.c\<close>, with the part of \<^verbatim>\<open>meshtastic_radio.c\<close> that decides about
  one transmission: admission through the duty gate, the overflow policy, the choice of the next frame,
  the deferral of a frame the radio could not key up, and the late and cancelled relays.

  One step is one critical section.  The semaphores that only wake a thread are outside: a blocked
  caller may run again at any time.  The image modelled has the airtime ledger, the duty gate and the
  attachments; the driver, the Bluetooth link and the radio heads are answers of the environment.
\<close>

section \<open>Queue entries\<close>

definition MESHTASTIC_PKT_MAX :: nat where "MESHTASTIC_PKT_MAX = 255"
definition MESHTASTIC_HDR_LEN :: nat where "MESHTASTIC_HDR_LEN = 16"
definition TX_DEFER_MAX :: nat where "TX_DEFER_MAX = 32"

text \<open>\<open>ob_done\<close> is the semaphore of the caller that waits for this frame.\<close>

record ob_item =
  ob_wire :: bytes
  ob_tier :: nat
  ob_send_after :: u32
  ob_late :: bool
  ob_gen :: u32
  ob_defers :: nat
  ob_attach :: u8
  ob_done :: "nat option"

text \<open>The source and the id of a wire header, at offsets 4 and 8.\<close>

definition wire_src :: "bytes \<Rightarrow> u32" where "wire_src w = le_word (take 4 (drop 4 w))"

definition wire_id :: "bytes \<Rightarrow> u32" where "wire_id w = le_word (take 4 (drop 8 w))"

definition ob_eligible :: "ob_item \<Rightarrow> u32 \<Rightarrow> bool" where
  "ob_eligible it now \<longleftrightarrow> ob_send_after it = 0 \<or> sint (now - ob_send_after it) \<ge> 0"

record meshtastic_radio_tx_defer_stats =
  td_busy_rx :: u32
  td_cad_busy :: u32
  td_requeued :: u32
  td_dropped :: u32
  td_dropped_cap :: u32
  td_dropped_qfull :: u32

text \<open>A caller of \<open>outbound_enqueue\<close>: what it sends, and its semaphore when it waits for the result.\<close>

record ob_request =
  rq_pkt :: bytes
  rq_tier :: nat
  rq_delay_ms :: u32
  rq_attach :: u8
  rq_waiter :: "nat option"

text \<open>\<open>ob_cur\<close> is the frame in the worker's hands while \<open>ob_inflight\<close> is set, \<open>ob_waiting\<close> the callers
  blocked on a full queue, \<open>ob_results\<close> the results handed to waiting callers, latest first.\<close>

record outbound =
  ob_items :: "ob_item list"
  ob_cur :: "ob_item option"
  ob_waiting :: "ob_request list"
  ob_air :: airtime
  ob_duty :: meshtastic_duty_stats
  ob_sched :: meshtastic_sched_stats
  ob_defer :: meshtastic_radio_tx_defer_stats
  ob_tx_stale :: u32
  ob_tx_packets :: u32
  ob_tx_failures :: u32
  ob_results :: "(nat \<times> unit result) list"

record ob_env =
  oe_cfg :: meshtastic_sched_config
  oe_uptime :: int
  oe_mt :: mt_state
  oe_node_id :: u32
  oe_attach_ready :: "u8 \<Rightarrow> bool"
  oe_attach_tx :: "unit result"
  oe_divert :: "unit result"
  oe_scanning :: bool
  oe_held :: bool
  oe_receiving :: bool
  oe_lora_config :: "unit result"
  oe_lora_send :: "unit result"
  oe_packet_ms :: "nat \<Rightarrow> u32"
  oe_rand :: u32

definition oe_now :: "ob_env \<Rightarrow> u32" where "oe_now oe = word_of_int (oe_uptime oe)"

definition oe_sec :: "ob_env \<Rightarrow> u32" where "oe_sec oe = word_of_int (oe_uptime oe div 1000)"

definition deadline :: "ob_env \<Rightarrow> u32 \<Rightarrow> u32" where
  "deadline oe delay_ms = (let due = oe_now oe + delay_ms in if due = 0 then 1 else due)"

section \<open>Queue helpers\<close>

text \<open>\<open>best\<close> is the best index so far with its tier, \<open>soonest\<close> the least wait of the frames not yet due.\<close>

fun pick_loop ::
    "meshtastic_sched_order \<Rightarrow> u32 \<Rightarrow> nat \<Rightarrow> (nat \<times> nat) option \<Rightarrow> u32 option \<Rightarrow> ob_item list \<Rightarrow> nat option \<times> u32" where
  "pick_loop order now i best soonest [] =
     (case best of Some (b, _) \<Rightarrow> (Some b, 0) | None \<Rightarrow> (None, case soonest of None \<Rightarrow> 0 | Some w \<Rightarrow> w))"
| "pick_loop order now i best soonest (it # its) =
     (if \<not> ob_eligible it now
      then let due = ob_send_after it - now
           in pick_loop order now (Suc i) best
                (case soonest of None \<Rightarrow> Some due | Some s \<Rightarrow> if due < s then Some due else soonest) its
      else case best of
             None \<Rightarrow> if order = ORDER_FIFO then (Some i, 0)
                     else pick_loop order now (Suc i) (Some (i, ob_tier it)) soonest its
           | Some (b, t) \<Rightarrow> pick_loop order now (Suc i)
                     (if order \<noteq> ORDER_FIFO \<and> ob_tier it > t then Some (i, ob_tier it) else best) soonest its)"

definition pick_next_locked :: "meshtastic_sched_order \<Rightarrow> u32 \<Rightarrow> ob_item list \<Rightarrow> nat option \<times> u32" where
  "pick_next_locked order now items = pick_loop order now 0 None None items"

fun evict_loop :: "nat \<Rightarrow> (nat \<times> nat) option \<Rightarrow> ob_item list \<Rightarrow> nat option" where
  "evict_loop i best [] = map_option fst best"
| "evict_loop i best (it # its) =
     evict_loop (Suc i)
       (if ob_done it \<noteq> None then best
        else case best of None \<Rightarrow> Some (i, ob_tier it)
             | Some (b, t) \<Rightarrow> if ob_tier it < t \<or> ob_tier it = t then Some (i, ob_tier it) else best) its"

definition evict_victim_locked :: "ob_item list \<Rightarrow> nat option" where
  "evict_victim_locked items = evict_loop 0 None items"

definition remove_index_locked :: "nat \<Rightarrow> ob_item list \<Rightarrow> ob_item list" where
  "remove_index_locked i items = take i items @ drop (Suc i) items"

section \<open>The radio\<close>

text \<open>The answer of a transmission: a result, or \<open>MESHTASTIC_TX_DEFER\<close>.\<close>

datatype tx_ret = Tx_Ret "unit result" | Tx_Defer

definition air_slot :: "ob_env \<Rightarrow> nat" where
  "air_slot oe = airtime_slot (mt_use_preset (oe_mt oe)) (mt_modem_preset (oe_mt oe))"

definition meshtastic_radio_send_wire_now :: "ob_env \<Rightarrow> bytes \<Rightarrow> outbound \<Rightarrow> outbound \<times> tx_ret" where
  "meshtastic_radio_send_wire_now oe pkt st =
     (if oe_scanning oe then (st, Tx_Ret (Inl EPERM))
      else if \<not> mt_tx_enabled (oe_mt oe) then (st, Tx_Ret (Inl EPERM))
      else if oe_held oe then (st, Tx_Ret (Inl EPERM))
      else if oe_receiving oe
      then (st\<lparr>ob_defer := (ob_defer st)\<lparr>td_busy_rx := td_busy_rx (ob_defer st) + 1\<rparr>\<rparr>, Tx_Defer)
      else
        let ret = (case oe_lora_config oe of Inl e \<Rightarrow> Inl e | Inr _ \<Rightarrow> oe_lora_send oe)
        in case ret of
             Inl e \<Rightarrow>
               if e = EBUSY
               then (st\<lparr>ob_defer := (ob_defer st)\<lparr>td_cad_busy := td_cad_busy (ob_defer st) + 1\<rparr>\<rparr>, Tx_Defer)
               else (st\<lparr>ob_tx_failures := ob_tx_failures st + 1\<rparr>, Tx_Ret (Inl e))
           | Inr _ \<Rightarrow>
               (st\<lparr>ob_tx_packets := ob_tx_packets st + 1,
                   ob_air := meshtastic_airtime_log AIRTIME_TX (oe_packet_ms oe (length pkt)) (air_slot oe) (oe_sec oe) (ob_air st)\<rparr>,
                Tx_Ret (Inr ())))"

definition meshtastic_radio_tx_defer_requeued :: "outbound \<Rightarrow> outbound" where
  "meshtastic_radio_tx_defer_requeued st = st\<lparr>ob_defer := (ob_defer st)\<lparr>td_requeued := td_requeued (ob_defer st) + 1\<rparr>\<rparr>"

definition mt_tx_dropped :: "outbound \<Rightarrow> outbound" where
  "mt_tx_dropped st = st\<lparr>ob_defer := (ob_defer st)\<lparr>td_dropped := td_dropped (ob_defer st) + 1\<rparr>,
                         ob_tx_failures := ob_tx_failures st + 1\<rparr>"

definition meshtastic_radio_tx_dropped_busy :: "outbound \<Rightarrow> outbound" where
  "meshtastic_radio_tx_dropped_busy st =
     mt_tx_dropped (st\<lparr>ob_defer := (ob_defer st)\<lparr>td_dropped_cap := td_dropped_cap (ob_defer st) + 1\<rparr>\<rparr>)"

definition meshtastic_radio_tx_dropped_queue_full :: "outbound \<Rightarrow> outbound" where
  "meshtastic_radio_tx_dropped_queue_full st =
     mt_tx_dropped (st\<lparr>ob_defer := (ob_defer st)\<lparr>td_dropped_qfull := td_dropped_qfull (ob_defer st) + 1\<rparr>\<rparr>)"

definition stat_drop :: "nat \<Rightarrow> outbound \<Rightarrow> outbound" where
  "stat_drop tier st = st\<lparr>ob_sched := meshtastic_sched_stat_drop tier (ob_sched st)\<rparr>"

section \<open>The worker\<close>

definition u8_of_rat :: "rat \<Rightarrow> u8" where "u8_of_rat x = word_of_int (floor x)"

text \<open>\<open>None\<close> when the frame is back in the queue, otherwise whether the defer cap was the reason.\<close>

definition requeue_deferred_locked :: "ob_env \<Rightarrow> ob_item \<Rightarrow> outbound \<Rightarrow> outbound \<times> bool option" where
  "requeue_deferred_locked oe it st =
     (if ob_defers it \<ge> TX_DEFER_MAX then (st, Some True)
      else if length (ob_items st) \<ge> OB_MAX then (st, Some False)
      else
        let (air, util) = meshtastic_airtime_channel_util_percent (mt_use_preset (oe_mt oe)) (mt_modem_preset (oe_mt oe))
                            (oe_sec oe) (ob_air st);
            modem = mt_modem (oe_mt oe);
            slot_ms = meshtastic_contention_effective_slot_ms (oe_cfg oe) (mp_spread_factor modem) (mp_bandwidth_hz modem) False;
            delay_ms = meshtastic_contention_delay_own_ms (oe_cfg oe) (oe_rand oe) (u8_of_rat util) slot_ms;
            delay_ms = max delay_ms (max slot_ms 1);
            it = it\<lparr>ob_defers := ob_defers it + 1, ob_send_after := deadline oe delay_ms\<rparr>
        in (st\<lparr>ob_air := air, ob_items := ob_items st @ [it]\<rparr>, None))"

text \<open>The first half of a pass: take a frame off the queue.\<close>

definition worker_take :: "ob_env \<Rightarrow> outbound \<Rightarrow> outbound" where
  "worker_take oe st =
     (case fst (pick_next_locked (sc_tx_order (oe_cfg oe)) (oe_now oe) (ob_items st)) of
        None \<Rightarrow> st
      | Some i \<Rightarrow> st\<lparr>ob_items := remove_index_locked i (ob_items st), ob_cur := Some (ob_items st ! i)\<rparr>)"

text \<open>Where the frame goes: to a head, over a Bluetooth link, nowhere if it is stale, or on the air.\<close>

definition worker_transmit :: "ob_env \<Rightarrow> ob_item \<Rightarrow> outbound \<Rightarrow> outbound \<times> tx_ret" where
  "worker_transmit oe it st =
     (if ob_attach it \<noteq> 0 then (st, Tx_Ret (oe_attach_tx oe))
      else case oe_divert oe of
             Inr _ \<Rightarrow> (st, Tx_Ret (Inr ()))
           | Inl _ \<Rightarrow>
               if ob_gen it \<noteq> mt_gate_generation (oe_mt oe)
               then (st\<lparr>ob_tx_stale := ob_tx_stale st + 1\<rparr>, Tx_Ret (Inl ESTALE))
               else meshtastic_radio_send_wire_now oe (ob_wire it) st)"

definition worker_finish :: "ob_item \<Rightarrow> unit result \<Rightarrow> outbound \<Rightarrow> outbound" where
  "worker_finish it ret st =
     (let st = (if ret = Inl EBUSY then meshtastic_radio_tx_dropped_busy (stat_drop (ob_tier it) st)
                else if ret = Inl ENOBUFS then meshtastic_radio_tx_dropped_queue_full (stat_drop (ob_tier it) st)
                else st)
      in case ob_done it of None \<Rightarrow> st | Some w \<Rightarrow> st\<lparr>ob_results := (w, ret) # ob_results st\<rparr>)"

text \<open>The second half: transmit the frame in hand and dispose of it.\<close>

definition worker_send :: "ob_env \<Rightarrow> outbound \<Rightarrow> outbound" where
  "worker_send oe st =
     (case ob_cur st of
        None \<Rightarrow> st
      | Some it \<Rightarrow>
          let (st, ret) = worker_transmit oe it st;
              st = st\<lparr>ob_cur := None\<rparr>
          in case ret of
               Tx_Ret r \<Rightarrow> worker_finish it r st
             | Tx_Defer \<Rightarrow>
                 (case requeue_deferred_locked oe it st of
                    (st, None) \<Rightarrow> meshtastic_radio_tx_defer_requeued st
                  | (st, Some cap_hit) \<Rightarrow> worker_finish it (Inl (if cap_hit then EBUSY else ENOBUFS)) st))"

section \<open>Sending\<close>

datatype enq_ret = Enq_Ok | Enq_Wait | Enq_Err errno

definition ob_insert :: "ob_env \<Rightarrow> ob_request \<Rightarrow> outbound \<Rightarrow> outbound" where
  "ob_insert oe rq st =
     (let it = \<lparr>ob_wire = rq_pkt rq, ob_tier = rq_tier rq,
                ob_send_after = (if rq_delay_ms rq = 0 then 0 else deadline oe (rq_delay_ms rq)),
                ob_late = False, ob_gen = mt_gate_generation (oe_mt oe), ob_defers = 0, ob_attach = rq_attach rq,
                ob_done = rq_waiter rq\<rparr>;
          items = ob_items st @ [it]
      in st\<lparr>ob_items := items, ob_sched := meshtastic_sched_stat_enq (rq_tier rq) (length items) (ob_sched st)\<rparr>)"

text \<open>One round of the insertion loop.\<close>

definition enqueue_try :: "ob_env \<Rightarrow> ob_request \<Rightarrow> outbound \<Rightarrow> outbound \<times> enq_ret" where
  "enqueue_try oe rq st =
     (let soft = max 1 (min (unat (sc_tx_depth (oe_cfg oe))) OB_MAX)
      in if length (ob_items st) < soft then (ob_insert oe rq st, Enq_Ok)
         else if rq_waiter rq \<noteq> None then (st, Enq_Wait)
         else case (if sc_tx_order (oe_cfg oe) = ORDER_PRIORITY \<and> sc_tx_overflow (oe_cfg oe) = OVF_DROP_LOWEST
                    then evict_victim_locked (ob_items st) else None) of
                Some victim \<Rightarrow>
                  if ob_tier (ob_items st ! victim) < rq_tier rq
                  then (ob_insert oe rq ((stat_drop (ob_tier (ob_items st ! victim)) st)
                          \<lparr>ob_items := remove_index_locked victim (ob_items st)\<rparr>), Enq_Ok)
                  else (stat_drop (rq_tier rq) st, Enq_Err ENOMSG)
              | None \<Rightarrow> (stat_drop (rq_tier rq) st, Enq_Err ENOMSG))"

definition outbound_enqueue :: "ob_env \<Rightarrow> ob_request \<Rightarrow> outbound \<Rightarrow> outbound \<times> enq_ret" where
  "outbound_enqueue oe rq st =
     (if rq_pkt rq = [] \<or> length (rq_pkt rq) > MESHTASTIC_PKT_MAX then (st, Enq_Err EINVAL)
      else if rq_attach rq \<noteq> 0 \<and> \<not> oe_attach_ready oe (rq_attach rq) then (st, Enq_Err EHOSTUNREACH)
      else case meshtastic_duty_blocked (oe_mt oe) (oe_sec oe) (ob_air st) of
             (air, Some silent) \<Rightarrow>
               let is_relay = (length (rq_pkt rq) \<ge> MESHTASTIC_HDR_LEN \<and> wire_src (rq_pkt rq) \<noteq> oe_node_id oe);
                   (duty, air) = meshtastic_duty_note_blocked is_relay silent (oe_uptime oe) (ob_duty st, air)
               in (st\<lparr>ob_air := air, ob_duty := duty\<rparr>, Enq_Err ECANCELED)
           | (air, None) \<Rightarrow>
               (case enqueue_try oe rq (st\<lparr>ob_air := air\<rparr>) of
                  (st, Enq_Wait) \<Rightarrow> (st\<lparr>ob_waiting := ob_waiting st @ [rq]\<rparr>, Enq_Wait)
                | r \<Rightarrow> r))"

text \<open>A caller blocked on a full queue runs again, or gives up when its timeout ends.\<close>

definition outbound_wake :: "ob_env \<Rightarrow> nat \<Rightarrow> outbound \<Rightarrow> outbound" where
  "outbound_wake oe i st =
     (if i < length (ob_waiting st)
      then case enqueue_try oe (ob_waiting st ! i) st of
             (st', Enq_Wait) \<Rightarrow> st
           | (st', _) \<Rightarrow> st'\<lparr>ob_waiting := take i (ob_waiting st') @ drop (Suc i) (ob_waiting st')\<rparr>
      else st)"

definition outbound_give_up :: "nat \<Rightarrow> outbound \<Rightarrow> outbound" where
  "outbound_give_up i st =
     (if i < length (ob_waiting st)
      then let st' = st\<lparr>ob_waiting := take i (ob_waiting st) @ drop (Suc i) (ob_waiting st)\<rparr>
           in case rq_waiter (ob_waiting st ! i) of
                None \<Rightarrow> st' | Some w \<Rightarrow> st'\<lparr>ob_results := (w, Inl EAGAIN) # ob_results st'\<rparr>
      else st)"

text \<open>The entry points: fire-and-forget, deferred, and blocking with the semaphore \<open>w\<close>.\<close>

definition meshtastic_radio_send_wire_after_on ::
    "ob_env \<Rightarrow> bytes \<Rightarrow> nat \<Rightarrow> u32 \<Rightarrow> u8 \<Rightarrow> outbound \<Rightarrow> outbound \<times> enq_ret" where
  "meshtastic_radio_send_wire_after_on oe pkt tier delay_ms attach =
     outbound_enqueue oe \<lparr>rq_pkt = pkt, rq_tier = tier, rq_delay_ms = delay_ms, rq_attach = attach, rq_waiter = None\<rparr>"

definition meshtastic_radio_send_wire_after :: "ob_env \<Rightarrow> bytes \<Rightarrow> nat \<Rightarrow> u32 \<Rightarrow> outbound \<Rightarrow> outbound \<times> enq_ret" where
  "meshtastic_radio_send_wire_after oe pkt tier delay_ms =
     outbound_enqueue oe \<lparr>rq_pkt = pkt, rq_tier = tier, rq_delay_ms = delay_ms, rq_attach = 0, rq_waiter = None\<rparr>"

definition meshtastic_radio_send_wire_prio :: "ob_env \<Rightarrow> bytes \<Rightarrow> nat \<Rightarrow> outbound \<Rightarrow> outbound \<times> enq_ret" where
  "meshtastic_radio_send_wire_prio oe pkt tier =
     outbound_enqueue oe \<lparr>rq_pkt = pkt, rq_tier = tier, rq_delay_ms = 0, rq_attach = 0, rq_waiter = None\<rparr>"

definition meshtastic_radio_send_wire :: "ob_env \<Rightarrow> bytes \<Rightarrow> outbound \<Rightarrow> outbound \<times> enq_ret" where
  "meshtastic_radio_send_wire oe pkt = meshtastic_radio_send_wire_prio oe pkt MT_SCHED_TIER_NORMAL"

definition meshtastic_radio_send_wire_wait_prio_on ::
    "ob_env \<Rightarrow> bytes \<Rightarrow> nat \<Rightarrow> nat \<Rightarrow> u8 \<Rightarrow> outbound \<Rightarrow> outbound \<times> enq_ret" where
  "meshtastic_radio_send_wire_wait_prio_on oe pkt tier w attach =
     outbound_enqueue oe \<lparr>rq_pkt = pkt, rq_tier = tier, rq_delay_ms = 0, rq_attach = attach, rq_waiter = Some w\<rparr>"

definition meshtastic_radio_send_wire_wait_prio :: "ob_env \<Rightarrow> bytes \<Rightarrow> nat \<Rightarrow> nat \<Rightarrow> outbound \<Rightarrow> outbound \<times> enq_ret" where
  "meshtastic_radio_send_wire_wait_prio oe pkt tier w =
     outbound_enqueue oe \<lparr>rq_pkt = pkt, rq_tier = tier, rq_delay_ms = 0, rq_attach = 0, rq_waiter = Some w\<rparr>"

definition meshtastic_radio_send_wire_wait :: "ob_env \<Rightarrow> bytes \<Rightarrow> nat \<Rightarrow> outbound \<Rightarrow> outbound \<times> enq_ret" where
  "meshtastic_radio_send_wire_wait oe pkt w = meshtastic_radio_send_wire_wait_prio oe pkt MT_SCHED_TIER_NORMAL w"

definition meshtastic_outbound_pending :: "outbound \<Rightarrow> nat" where
  "meshtastic_outbound_pending st = length (ob_items st) + (if ob_cur st \<noteq> None then 1 else 0)"

definition matches :: "u32 \<Rightarrow> u32 \<Rightarrow> ob_item \<Rightarrow> bool" where
  "matches src pid it \<longleftrightarrow> length (ob_wire it) \<ge> MESHTASTIC_HDR_LEN \<and> ob_done it = None
     \<and> wire_src (ob_wire it) = src \<and> wire_id (ob_wire it) = pid"

definition meshtastic_outbound_defer_late :: "ob_env \<Rightarrow> u32 \<Rightarrow> u32 \<Rightarrow> u32 \<Rightarrow> outbound \<Rightarrow> outbound \<times> nat" where
  "meshtastic_outbound_defer_late oe src pid delay_ms st =
     (let hit = (\<lambda>it. \<not> ob_late it \<and> matches src pid it)
      in (st\<lparr>ob_items := map (\<lambda>it. if hit it then it\<lparr>ob_send_after := deadline oe delay_ms, ob_late := True\<rparr> else it) (ob_items st)\<rparr>,
          length (filter hit (ob_items st))))"

text \<open>The reverse scan that removes by index.\<close>

fun cancel_loop :: "u32 \<Rightarrow> u32 \<Rightarrow> nat \<Rightarrow> ob_item list \<Rightarrow> nat \<Rightarrow> ob_item list \<times> nat" where
  "cancel_loop src pid 0 items removed = (items, removed)"
| "cancel_loop src pid (Suc i) items removed =
     (if matches src pid (items ! i) then cancel_loop src pid i (remove_index_locked i items) (removed + 1)
      else cancel_loop src pid i items removed)"

definition meshtastic_outbound_cancel :: "u32 \<Rightarrow> u32 \<Rightarrow> outbound \<Rightarrow> outbound \<times> nat" where
  "meshtastic_outbound_cancel src pid st =
     (let (items, removed) = cancel_loop src pid (length (ob_items st)) (ob_items st) 0
      in (st\<lparr>ob_items := items\<rparr>, removed))"

definition outbound_init :: outbound where
  "outbound_init =
     \<lparr>ob_items = [], ob_cur = None, ob_waiting = [], ob_air = meshtastic_airtime_init, ob_duty = duty_stats_init,
      ob_sched = meshtastic_sched_stats_reset,
      ob_defer = \<lparr>td_busy_rx = 0, td_cad_busy = 0, td_requeued = 0, td_dropped = 0, td_dropped_cap = 0, td_dropped_qfull = 0\<rparr>,
      ob_tx_stale = 0, ob_tx_packets = 0, ob_tx_failures = 0, ob_results = []\<rparr>"

section \<open>The next frame\<close>

definition due_in :: "u32 \<Rightarrow> ob_item \<Rightarrow> u32" where "due_in now it = ob_send_after it - now"

text \<open>The frame that should go next: the oldest eligible one, or the oldest of the highest eligible tier.\<close>

definition goes_next :: "meshtastic_sched_order \<Rightarrow> u32 \<Rightarrow> ob_item list \<Rightarrow> nat \<Rightarrow> bool" where
  "goes_next order now items i \<longleftrightarrow> i < length items \<and> ob_eligible (items ! i) now
     \<and> (\<forall>j < length items. ob_eligible (items ! j) now \<longrightarrow>
          (if order = ORDER_FIFO then i \<le> j
           else ob_tier (items ! j) \<le> ob_tier (items ! i) \<and> (ob_tier (items ! j) = ob_tier (items ! i) \<longrightarrow> i \<le> j)))"

definition soonest_due :: "u32 \<Rightarrow> ob_item list \<Rightarrow> u32 \<Rightarrow> bool" where
  "soonest_due now items w \<longleftrightarrow> (\<exists>it \<in> set items. \<not> ob_eligible it now \<and> w = due_in now it)
     \<and> (\<forall>it \<in> set items. \<not> ob_eligible it now \<longrightarrow> w \<le> due_in now it)"

definition best_ok :: "meshtastic_sched_order \<Rightarrow> u32 \<Rightarrow> ob_item list \<Rightarrow> (nat \<times> nat) option \<Rightarrow> bool" where
  "best_ok order now items best \<longleftrightarrow>
     (case best of None \<Rightarrow> \<forall>it \<in> set items. \<not> ob_eligible it now
      | Some (b, t) \<Rightarrow> goes_next order now items b \<and> t = ob_tier (items ! b) \<and> order \<noteq> ORDER_FIFO)"

definition soon_ok :: "u32 \<Rightarrow> ob_item list \<Rightarrow> u32 option \<Rightarrow> bool" where
  "soon_ok now items soonest \<longleftrightarrow>
     (case soonest of None \<Rightarrow> \<forall>it \<in> set items. ob_eligible it now | Some w \<Rightarrow> soonest_due now items w)"

lemma goes_next_skip: "\<not> ob_eligible it now \<Longrightarrow> goes_next order now xs b \<Longrightarrow> goes_next order now (xs @ [it]) b"
  unfolding goes_next_def by (auto simp: nth_append less_Suc_eq)

lemma goes_next_keep:
  "goes_next order now xs b \<Longrightarrow> ob_tier it \<le> ob_tier (xs ! b) \<Longrightarrow> goes_next order now (xs @ [it]) b"
  unfolding goes_next_def by (auto simp: nth_append less_Suc_eq)

lemma goes_next_new:
  assumes "ob_eligible it now" "\<forall>j < length xs. ob_eligible (xs ! j) now \<longrightarrow> order \<noteq> ORDER_FIFO \<and> ob_tier (xs ! j) < ob_tier it"
  shows "goes_next order now (xs @ [it]) (length xs)"
  using assms unfolding goes_next_def by (fastforce simp: nth_append less_Suc_eq)

lemma soon_ok_step:
  "soon_ok now xs soonest \<Longrightarrow> \<not> ob_eligible it now \<Longrightarrow>
   soon_ok now (xs @ [it]) (case soonest of None \<Rightarrow> Some (ob_send_after it - now)
     | Some s \<Rightarrow> if ob_send_after it - now < s then Some (ob_send_after it - now) else soonest)"
  unfolding soon_ok_def soonest_due_def due_in_def[symmetric]
  by (auto split: option.splits simp: not_less intro: less_imp_le order.trans)

lemma soon_ok_eligible: "soon_ok now xs soonest \<Longrightarrow> ob_eligible it now \<Longrightarrow> soon_ok now (xs @ [it]) soonest"
  unfolding soon_ok_def soonest_due_def by (auto split: option.splits)

definition picked :: "meshtastic_sched_order \<Rightarrow> u32 \<Rightarrow> ob_item list \<Rightarrow> nat option \<times> u32 \<Rightarrow> bool" where
  "picked order now items r \<longleftrightarrow>
     (case r of (Some i, w) \<Rightarrow> goes_next order now items i \<and> w = 0
      | (None, w) \<Rightarrow> (\<forall>it \<in> set items. \<not> ob_eligible it now) \<and> (if items = [] then w = 0 else soonest_due now items w))"

lemma best_ok_step:
  assumes b: "best_ok order now xs best" and it: "ob_eligible it now" and o: "order \<noteq> ORDER_FIFO"
  shows "best_ok order now (xs @ [it])
     (case best of None \<Rightarrow> Some (length xs, ob_tier it) | Some (b, t) \<Rightarrow> if ob_tier it > t then Some (length xs, ob_tier it) else best)"
proof (cases "\<exists>b t. best = Some (b, t) \<and> \<not> ob_tier it > t")
  case True
  then obtain c where c: "best = Some (c, ob_tier (xs ! c))" "goes_next order now xs c" "ob_tier it \<le> ob_tier (xs ! c)"
    using b unfolding best_ok_def by auto
  then have "c < length xs" unfolding goes_next_def by blast
  then show ?thesis
    using c o goes_next_keep[OF c(2,3)] unfolding best_ok_def by (auto simp: nth_append)
next
  case False
  then have "\<forall>j < length xs. ob_eligible (xs ! j) now \<longrightarrow> order \<noteq> ORDER_FIFO \<and> ob_tier (xs ! j) < ob_tier it"
    using b o unfolding best_ok_def goes_next_def by (cases best) fastforce+
  then have "goes_next order now (xs @ [it]) (length xs)" using it by (intro goes_next_new)
  then show ?thesis using False o unfolding best_ok_def by (auto split: option.splits)
qed

lemma pick_loop_picks:
  assumes "best_ok order now xs best" "soon_ok now xs soonest"
  shows "picked order now (xs @ ys) (pick_loop order now (length xs) best soonest ys)"
  using assms
proof (induction ys arbitrary: xs best soonest)
  case Nil
  then show ?case
    unfolding best_ok_def soon_ok_def picked_def
    by (auto split: option.splits simp: soonest_due_def)
next
  case (Cons it ys)
  note IH = Cons.IH[of "xs @ [it]", simplified]
  show ?case
  proof (cases "ob_eligible it now")
    case False
    then have "best_ok order now (xs @ [it]) best"
      using Cons.prems(1) unfolding best_ok_def by (auto split: option.splits simp: goes_next_skip nth_append goes_next_def)
    then show ?thesis using False IH soon_ok_step[OF Cons.prems(2) False] by (simp add: Let_def)
  next
    case el: True
    show ?thesis
    proof (cases "order = ORDER_FIFO")
      case True
      then have "best = None" "\<forall>j < length xs. \<not> ob_eligible (xs ! j) now"
        using Cons.prems(1) unfolding best_ok_def by (auto split: option.splits)
      then show ?thesis
        using True el unfolding picked_def goes_next_def by (auto simp: nth_append not_less_eq_eq)
    next
      case False
      from IH[OF best_ok_step[OF Cons.prems(1) el False] soon_ok_eligible[OF Cons.prems(2) el]]
      show ?thesis using el False by (auto split: option.splits prod.splits)
    qed
  qed
qed

lemma pick_next_picked: "picked order now items (pick_next_locked order now items)"
  using pick_loop_picks[of order now "[]" None None items]
  unfolding pick_next_locked_def best_ok_def soon_ok_def by simp

lemma pick_next_index: "fst (pick_next_locked order now items) = Some i \<Longrightarrow> i < length items"
  using pick_next_picked[of order now items] unfolding picked_def goes_next_def
  by (cases "pick_next_locked order now items") auto

section \<open>The victim of an overflow\<close>

definition lowest_newest :: "ob_item list \<Rightarrow> nat \<Rightarrow> bool" where
  "lowest_newest items v \<longleftrightarrow> v < length items \<and> ob_done (items ! v) = None
     \<and> (\<forall>j < length items. ob_done (items ! j) = None \<longrightarrow>
          ob_tier (items ! v) \<le> ob_tier (items ! j) \<and> (ob_tier (items ! j) = ob_tier (items ! v) \<longrightarrow> j \<le> v))"

definition victim_ok :: "ob_item list \<Rightarrow> (nat \<times> nat) option \<Rightarrow> bool" where
  "victim_ok items best \<longleftrightarrow>
     (case best of None \<Rightarrow> \<forall>j < length items. ob_done (items ! j) \<noteq> None
      | Some (b, t) \<Rightarrow> lowest_newest items b \<and> t = ob_tier (items ! b))"

lemma victim_ok_step:
  assumes "victim_ok xs best"
  shows "victim_ok (xs @ [it])
     (if ob_done it \<noteq> None then best
      else case best of None \<Rightarrow> Some (length xs, ob_tier it)
           | Some (b, t) \<Rightarrow> if ob_tier it < t \<or> ob_tier it = t then Some (length xs, ob_tier it) else best)"
proof (cases "ob_done it")
  case None
  then show ?thesis
    using assms unfolding victim_ok_def lowest_newest_def
    by (fastforce split: option.splits simp: nth_append less_Suc_eq)
next
  case (Some w)
  then show ?thesis
    using assms unfolding victim_ok_def lowest_newest_def
    by (auto split: option.splits simp: nth_append less_Suc_eq)
qed

lemma evict_loop_victim:
  assumes "victim_ok xs best"
  shows "case evict_loop (length xs) best ys of
      None \<Rightarrow> \<forall>it \<in> set (xs @ ys). ob_done it \<noteq> None
    | Some v \<Rightarrow> lowest_newest (xs @ ys) v"
  using assms
proof (induction ys arbitrary: xs best)
  case Nil
  then show ?case unfolding victim_ok_def by (auto split: option.splits simp: in_set_conv_nth)
next
  case (Cons it ys)
  show ?case
    using Cons.IH[OF victim_ok_step[OF Cons.prems, of it]]
    by (simp only: evict_loop.simps length_append_singleton append_assoc append_Cons append_Nil)
qed

lemma evict_victim_lowest:
  "case evict_victim_locked items of None \<Rightarrow> \<forall>it \<in> set items. ob_done it \<noteq> None | Some v \<Rightarrow> lowest_newest items v"
  using evict_loop_victim[of "[]" None items] unfolding evict_victim_locked_def victim_ok_def
  by (simp cong: option.case_cong)

section \<open>Properties\<close>

text \<open>C33. The worker sends the right frame.  Of the frames whose deadline has come it takes the oldest of the
  highest tier, or the oldest under the FIFO policy; it finds nothing only when no frame is due, and then
  the time it sleeps is that of the earliest deadline in the queue.\<close>

theorem outbound_pick_order:
  assumes "pick_next_locked order now items = (r, w)"
  shows "case r of
      Some i \<Rightarrow> i < length items \<and> ob_eligible (items ! i) now
        \<and> (\<forall>j < length items. ob_eligible (items ! j) now \<longrightarrow>
             (if order = ORDER_FIFO then i \<le> j
              else ob_tier (items ! j) \<le> ob_tier (items ! i) \<and> (ob_tier (items ! j) = ob_tier (items ! i) \<longrightarrow> i \<le> j)))
    | None \<Rightarrow> (\<forall>it \<in> set items. \<not> ob_eligible it now)
        \<and> (items \<noteq> [] \<longrightarrow> (\<exists>it \<in> set items. w = ob_send_after it - now) \<and> (\<forall>it \<in> set items. w \<le> ob_send_after it - now))"
  using pick_next_picked[of order now items] assms
  unfolding picked_def goes_next_def soonest_due_def due_in_def by (auto split: option.splits)

definition ex_item :: "nat \<Rightarrow> u32 \<Rightarrow> ob_item" where
  "ex_item tier send_after = \<lparr>ob_wire = replicate 20 0, ob_tier = tier, ob_send_after = send_after, ob_late = False,
     ob_gen = 0, ob_defers = 0, ob_attach = 0, ob_done = None\<rparr>"

theorem outbound_pick_order_witness:
  "fst (pick_next_locked ORDER_PRIORITY 1000 [ex_item 1 0, ex_item 3 2000, ex_item 2 900, ex_item 2 0]) = Some 2
   \<and> ob_eligible (ex_item 2 900) 1000 \<and> ob_tier (ex_item 1 0) \<le> ob_tier (ex_item 2 900)"
proof -
  let ?q = "[ex_item 1 0, ex_item 3 2000, ex_item 2 900, ex_item 2 0]"
  have p: "pick_next_locked ORDER_PRIORITY 1000 ?q = (Some 2, 0)" by code_simp
  have e: "ob_eligible (?q ! 0) 1000" by code_simp
  note t = outbound_pick_order[OF p, simplified option.case]
  then have "\<forall>j < length ?q. ob_eligible (?q ! j) 1000 \<longrightarrow> ob_tier (?q ! j) \<le> ob_tier (?q ! 2)" by auto
  then have "ob_tier (?q ! 0) \<le> ob_tier (?q ! 2)" using e by (metis length_greater_0_conv list.discI)
  then show ?thesis using t unfolding p by simp
qed

end
