(* ===== verification/Outbound_Machine.thy ===== *)
theory Outbound_Machine
  imports Outbound
begin

text \<open>
  The transmit queue as a machine: its critical sections in any order, under any answers of the radio,
  the clock and the policy.  Three properties of every run: callers are answered exactly once, the
  worker's attempts are bounded by the frames accepted, and the airtime of the past hour stays within
  the regulatory ceiling plus what was already admitted.
\<close>

section \<open>Steps and runs\<close>

datatype ob_event =
    Ev_Enqueue ob_request
  | Ev_Wake nat
  | Ev_Give_Up nat
  | Ev_Take
  | Ev_Send
  | Ev_Late u32 u32 u32
  | Ev_Cancel u32 u32
  | Ev_Heard meshtastic_airtime_type u32

text \<open>There is one worker: it takes a frame only with empty hands.  A frame heard is logged as received
  airtime.\<close>

definition ob_step :: "ob_env \<Rightarrow> ob_event \<Rightarrow> outbound \<Rightarrow> outbound" where
  "ob_step oe ev st =
     (case ev of
        Ev_Enqueue rq \<Rightarrow> fst (outbound_enqueue oe rq st)
      | Ev_Wake i \<Rightarrow> outbound_wake oe i st
      | Ev_Give_Up i \<Rightarrow> outbound_give_up i st
      | Ev_Take \<Rightarrow> if ob_cur st = None then worker_take oe st else st
      | Ev_Send \<Rightarrow> worker_send oe st
      | Ev_Late src pid delay_ms \<Rightarrow> fst (meshtastic_outbound_defer_late oe src pid delay_ms st)
      | Ev_Cancel src pid \<Rightarrow> fst (meshtastic_outbound_cancel src pid st)
      | Ev_Heard ty ms \<Rightarrow>
          if ty = AIRTIME_TX then st
          else st\<lparr>ob_air := meshtastic_airtime_log ty ms (air_slot oe) (oe_sec oe) (ob_air st)\<rparr>)"

fun ob_run :: "(ob_env \<times> ob_event) list \<Rightarrow> outbound \<Rightarrow> outbound" where
  "ob_run [] st = st"
| "ob_run ((oe, ev) # r) st = ob_run r (ob_step oe ev st)"

section \<open>Removal by index\<close>

lemma length_remove: "i < length xs \<Longrightarrow> length (remove_index_locked i xs) = length xs - 1"
  unfolding remove_index_locked_def by simp

lemma set_remove: "set (remove_index_locked i xs) \<subseteq> set xs"
  unfolding remove_index_locked_def using set_take_subset set_drop_subset by fastforce

lemma cancel_loop_filter:
  "n \<le> length items \<Longrightarrow> cancel_loop src pid n items r =
     (filter (\<lambda>it. \<not> matches src pid it) (take n items) @ drop n items, r + length (filter (matches src pid) (take n items)))"
proof (induction n arbitrary: items r)
  case (Suc n)
  then have n: "n < length items" by simp
  have t: "take (Suc n) items = take n items @ [items ! n]" using n by (simp add: take_Suc_conv_app_nth)
  have d: "drop n items = items ! n # drop (Suc n) items" using n by (simp add: Cons_nth_drop_Suc)
  have "take n (remove_index_locked n items) = take n items" "drop n (remove_index_locked n items) = drop (Suc n) items"
    "n \<le> length (remove_index_locked n items)"
    using n unfolding remove_index_locked_def by auto
  then show ?case using Suc.IH[of items r] Suc.IH[of "remove_index_locked n items" "r + 1"] n by (simp add: t d)
qed simp

lemma cancel_items: "ob_items (fst (meshtastic_outbound_cancel src pid st)) = filter (\<lambda>it. \<not> matches src pid it) (ob_items st)"
  unfolding meshtastic_outbound_cancel_def Let_def
  using cancel_loop_filter[OF order_refl, of src pid "ob_items st" 0] by simp

section \<open>What each operation leaves alone\<close>

lemma insert_frame [simp]:
  "ob_cur (ob_insert oe rq st) = ob_cur st" "ob_waiting (ob_insert oe rq st) = ob_waiting st"
  "ob_results (ob_insert oe rq st) = ob_results st" "ob_air (ob_insert oe rq st) = ob_air st"
  unfolding ob_insert_def Let_def by simp_all

lemma stat_drop_frame [simp]:
  "ob_items (stat_drop t st) = ob_items st" "ob_cur (stat_drop t st) = ob_cur st"
  "ob_waiting (stat_drop t st) = ob_waiting st" "ob_results (stat_drop t st) = ob_results st" "ob_air (stat_drop t st) = ob_air st"
  unfolding stat_drop_def by simp_all

lemma dropped_frame [simp]:
  "ob_items (meshtastic_radio_tx_dropped_busy st) = ob_items st" "ob_cur (meshtastic_radio_tx_dropped_busy st) = ob_cur st"
  "ob_waiting (meshtastic_radio_tx_dropped_busy st) = ob_waiting st" "ob_results (meshtastic_radio_tx_dropped_busy st) = ob_results st"
  "ob_air (meshtastic_radio_tx_dropped_busy st) = ob_air st"
  "ob_items (meshtastic_radio_tx_dropped_queue_full st) = ob_items st" "ob_cur (meshtastic_radio_tx_dropped_queue_full st) = ob_cur st"
  "ob_waiting (meshtastic_radio_tx_dropped_queue_full st) = ob_waiting st"
  "ob_results (meshtastic_radio_tx_dropped_queue_full st) = ob_results st"
  "ob_air (meshtastic_radio_tx_dropped_queue_full st) = ob_air st"
  "ob_items (meshtastic_radio_tx_defer_requeued st) = ob_items st" "ob_cur (meshtastic_radio_tx_defer_requeued st) = ob_cur st"
  "ob_waiting (meshtastic_radio_tx_defer_requeued st) = ob_waiting st" "ob_results (meshtastic_radio_tx_defer_requeued st) = ob_results st"
  "ob_air (meshtastic_radio_tx_defer_requeued st) = ob_air st"
  unfolding meshtastic_radio_tx_dropped_busy_def meshtastic_radio_tx_dropped_queue_full_def mt_tx_dropped_def
    meshtastic_radio_tx_defer_requeued_def by simp_all

lemma transmit_frame [simp]:
  "ob_items (fst (worker_transmit oe it st)) = ob_items st" "ob_waiting (fst (worker_transmit oe it st)) = ob_waiting st"
  "ob_results (fst (worker_transmit oe it st)) = ob_results st"
  unfolding worker_transmit_def meshtastic_radio_send_wire_now_def Let_def by (simp_all split: sum.split)

text \<open>Airtime is charged only for a frame that went out on the node's own radio.\<close>

lemma transmit_air:
  "ob_air (fst (worker_transmit oe it st)) = ob_air st
   \<or> snd (worker_transmit oe it st) = Tx_Ret (Inr ())
     \<and> ob_air (fst (worker_transmit oe it st))
       = meshtastic_airtime_log AIRTIME_TX (oe_packet_ms oe (length (ob_wire it))) (air_slot oe) (oe_sec oe) (ob_air st)"
  unfolding worker_transmit_def meshtastic_radio_send_wire_now_def Let_def by (simp split: sum.split)

definition answers :: "ob_item \<Rightarrow> unit result \<Rightarrow> (nat \<times> unit result) list" where
  "answers it r = (case ob_done it of None \<Rightarrow> [] | Some w \<Rightarrow> [(w, r)])"

lemma finish_frame [simp]:
  "ob_items (worker_finish it r st) = ob_items st" "ob_cur (worker_finish it r st) = ob_cur st"
  "ob_waiting (worker_finish it r st) = ob_waiting st" "ob_air (worker_finish it r st) = ob_air st"
  "ob_results (worker_finish it r st) = answers it r @ ob_results st"
  unfolding worker_finish_def Let_def answers_def by (simp_all split: option.split)

lemma requeue_dropped: "requeue_deferred_locked oe it st = (st', Some c) \<Longrightarrow> st' = st"
  unfolding requeue_deferred_locked_def Let_def meshtastic_airtime_channel_util_percent_def by (auto split: if_splits)

lemma requeue_kept:
  assumes "requeue_deferred_locked oe it st = (st', None)"
  shows "\<exists>it'. ob_items st' = ob_items st @ [it'] \<and> ob_done it' = ob_done it \<and> ob_defers it' = Suc (ob_defers it) \<and> ob_wire it' = ob_wire it"
    and "ob_defers it < TX_DEFER_MAX" "length (ob_items st) < OB_MAX" "ob_cur st' = ob_cur st" "ob_waiting st' = ob_waiting st"
    "ob_results st' = ob_results st" "ob_air st' = airtime_advance (oe_sec oe) (ob_air st)"
  using assms unfolding requeue_deferred_locked_def Let_def meshtastic_airtime_channel_util_percent_def
  by (auto split: if_splits)

text \<open>The refusal number \<open>TX_DEFER_MAX\<close> still puts the frame back; the next one drops it.\<close>

lemma defer_cap:
  "Suc (ob_defers it) = TX_DEFER_MAX \<Longrightarrow> length (ob_items st) < OB_MAX \<Longrightarrow> snd (requeue_deferred_locked oe it st) = None"
  "ob_defers it = TX_DEFER_MAX \<Longrightarrow> snd (requeue_deferred_locked oe it st) = Some True"
  unfolding requeue_deferred_locked_def Let_def by (simp_all split: prod.split)

text \<open>The frame in hand either leaves for good or goes back with one more defer.\<close>

lemma worker_send_cases:
  assumes "ob_cur st = Some it"
  obtains
    (gone) r where "ob_items (worker_send oe st) = ob_items st" "ob_cur (worker_send oe st) = None"
      "ob_waiting (worker_send oe st) = ob_waiting st" "ob_results (worker_send oe st) = answers it r @ ob_results st"
      "ob_air (worker_send oe st) = ob_air (fst (worker_transmit oe it st))"
  | (requeued) it' where "ob_items (worker_send oe st) = ob_items st @ [it']" "ob_cur (worker_send oe st) = None"
      "ob_waiting (worker_send oe st) = ob_waiting st" "ob_results (worker_send oe st) = ob_results st"
      "ob_done it' = ob_done it" "ob_defers it' = Suc (ob_defers it)" "ob_wire it' = ob_wire it" "ob_defers it < TX_DEFER_MAX"
      "length (ob_items st) < OB_MAX" "ob_air (worker_send oe st) = airtime_advance (oe_sec oe) (ob_air st)"
proof -
  obtain st1 ret where t: "worker_transmit oe it st = (st1, ret)" by fastforce
  have f: "ob_items st1 = ob_items st" "ob_waiting st1 = ob_waiting st" "ob_results st1 = ob_results st"
    using transmit_frame[of oe it st] unfolding t by simp_all
  have a: "ret = Tx_Defer \<Longrightarrow> ob_air st1 = ob_air st" using transmit_air[of oe it st] unfolding t by auto
  show ?thesis
  proof (cases ret)
    case (Tx_Ret r)
    then have "worker_send oe st = worker_finish it r (st1\<lparr>ob_cur := None\<rparr>)"
      unfolding worker_send_def using assms t by simp
    then show ?thesis using gone f t by simp
  next
    case Tx_Defer
    obtain st2 c where q: "requeue_deferred_locked oe it (st1\<lparr>ob_cur := None\<rparr>) = (st2, c)" by fastforce
    show ?thesis
    proof (cases c)
      case (Some b)
      have "worker_send oe st = worker_finish it (Inl (if b then EBUSY else ENOBUFS)) st2"
        unfolding worker_send_def using assms t Tx_Defer q Some by simp
      then show ?thesis using gone f t requeue_dropped[OF q[unfolded Some]] by simp
    next
      case None
      note k = requeue_kept[OF q[unfolded None]]
      have w: "worker_send oe st = meshtastic_radio_tx_defer_requeued st2"
        unfolding worker_send_def using assms t Tx_Defer q None by simp
      from k(1) f obtain it' where "ob_items st2 = ob_items st @ [it']" "ob_done it' = ob_done it"
          "ob_defers it' = Suc (ob_defers it)" "ob_wire it' = ob_wire it" by auto
      then show ?thesis using requeued[of it'] k(2-7) f a[OF Tx_Defer] unfolding w by simp
    qed
  qed
qed

lemma enqueue_try_frame [simp]:
  "ob_cur (fst (enqueue_try oe rq st)) = ob_cur st" "ob_waiting (fst (enqueue_try oe rq st)) = ob_waiting st"
  "ob_results (fst (enqueue_try oe rq st)) = ob_results st" "ob_air (fst (enqueue_try oe rq st)) = ob_air st"
  unfolding enqueue_try_def Let_def by (simp_all split: option.split)

text \<open>An insertion appends the frame, to the queue as it is or with one unprotected frame of a lower tier removed.\<close>

definition makes_room :: "ob_request \<Rightarrow> ob_item list \<Rightarrow> ob_item list \<Rightarrow> bool" where
  "makes_room rq items base \<longleftrightarrow> base = items \<and> length items < OB_MAX
     \<or> (\<exists>v. lowest_newest items v \<and> ob_tier (items ! v) < rq_tier rq \<and> base = remove_index_locked v items)"

lemma insert_items:
  obtains it where "ob_items (ob_insert oe rq st) = ob_items st @ [it]" "ob_done it = rq_waiter rq" "ob_defers it = 0" "ob_wire it = rq_pkt rq"
  unfolding ob_insert_def Let_def by simp

lemma enqueue_try_cases:
  obtains
    (ok) st' it base where "enqueue_try oe rq st = (st', Enq_Ok)" "ob_items st' = base @ [it]" "makes_room rq (ob_items st) base"
      "ob_done it = rq_waiter rq" "ob_defers it = 0" "ob_wire it = rq_pkt rq"
  | (full) w where "enqueue_try oe rq st = (st, Enq_Wait)" "rq_waiter rq = Some w"
  | (refused) st' e where "enqueue_try oe rq st = (st', Enq_Err e)" "ob_items st' = ob_items st" "rq_waiter rq = None"
proof (cases "length (ob_items st) < max 1 (min (unat (sc_tx_depth (oe_cfg oe))) OB_MAX)")
  case True
  then have "length (ob_items st) < OB_MAX" by (simp add: OB_MAX_def split: if_splits)
  then have "makes_room rq (ob_items st) (ob_items st)" unfolding makes_room_def by simp
  moreover have "enqueue_try oe rq st = (ob_insert oe rq st, Enq_Ok)" using True unfolding enqueue_try_def Let_def by simp
  ultimately show ?thesis by (rule_tac insert_items[of oe rq st]) (rule ok, assumption+)
next
  case soft: False
  show ?thesis
  proof (cases "rq_waiter rq")
    case (Some w)
    then show ?thesis using soft full unfolding enqueue_try_def Let_def by simp
  next
    case None
    show ?thesis
    proof (cases "\<exists>v. evict_victim_locked (ob_items st) = Some v \<and> ob_tier (ob_items st ! v) < rq_tier rq
        \<and> sc_tx_order (oe_cfg oe) = ORDER_PRIORITY \<and> sc_tx_overflow (oe_cfg oe) = OVF_DROP_LOWEST")
      case True
      then obtain v where v: "evict_victim_locked (ob_items st) = Some v" "ob_tier (ob_items st ! v) < rq_tier rq"
          "sc_tx_order (oe_cfg oe) = ORDER_PRIORITY" "sc_tx_overflow (oe_cfg oe) = OVF_DROP_LOWEST" by blast
      let ?st = "(stat_drop (ob_tier (ob_items st ! v)) st)\<lparr>ob_items := remove_index_locked v (ob_items st)\<rparr>"
      have "lowest_newest (ob_items st) v" using evict_victim_lowest[of "ob_items st"] v(1) by simp
      then have "makes_room rq (ob_items st) (remove_index_locked v (ob_items st))" using v(2) unfolding makes_room_def by blast
      moreover have "enqueue_try oe rq st = (ob_insert oe rq ?st, Enq_Ok)"
        using soft None v unfolding enqueue_try_def Let_def by simp
      ultimately show ?thesis using ok by (rule_tac insert_items[of oe rq ?st]) fastforce
    next
      case False
      then have "enqueue_try oe rq st = (stat_drop (rq_tier rq) st, Enq_Err ENOMSG)"
        using soft None unfolding enqueue_try_def Let_def by (auto split: option.split)
      then show ?thesis using refused None by simp
    qed
  qed
qed

text \<open>Reading a utilisation only ages the rings.\<close>

definition aged :: "u32 \<Rightarrow> airtime \<Rightarrow> airtime \<Rightarrow> bool" where
  "aged sec air air' \<longleftrightarrow> (\<exists>k. air' = (airtime_advance sec ^^ k) air)"

lemma aged_intros [intro]:
  "aged sec air air" "aged sec air air' \<Longrightarrow> aged sec air (airtime_advance sec air')"
  unfolding aged_def by (metis funpow_0, metis comp_apply funpow.simps(2))

lemma blocked_aged: "aged sec air (fst (meshtastic_duty_blocked mt sec air))"
  unfolding meshtastic_duty_blocked_def meshtastic_airtime_tx_util_percent_def meshtastic_airtime_silent_minutes_def Let_def
  by auto

lemma note_blocked_aged:
  "aged (oe_sec oe) air0 air \<Longrightarrow> aged (oe_sec oe) air0 (snd (meshtastic_duty_note_blocked rel m (oe_uptime oe) (s, air)))"
  unfolding meshtastic_duty_note_blocked_def meshtastic_airtime_tx_util_percent_def Let_def oe_sec_def by auto

lemma enqueue_cases:
  obtains
    (refused) st' e where "outbound_enqueue oe rq st = (st', Enq_Err e)" "ob_items st' = ob_items st" "ob_cur st' = ob_cur st"
      "ob_waiting st' = ob_waiting st" "ob_results st' = ob_results st" "aged (oe_sec oe) (ob_air st) (ob_air st')"
  | (queued) st' it base where "outbound_enqueue oe rq st = (st', Enq_Ok)" "ob_items st' = base @ [it]"
      "makes_room rq (ob_items st) base" "ob_done it = rq_waiter rq" "ob_defers it = 0" "ob_wire it = rq_pkt rq"
      "ob_cur st' = ob_cur st" "ob_waiting st' = ob_waiting st" "ob_results st' = ob_results st"
      "aged (oe_sec oe) (ob_air st) (ob_air st')" "snd (meshtastic_duty_blocked (oe_mt oe) (oe_sec oe) (ob_air st)) = None"
      "length (rq_pkt rq) \<le> MESHTASTIC_PKT_MAX"
  | (blocked) st' w where "outbound_enqueue oe rq st = (st', Enq_Wait)" "ob_items st' = ob_items st" "ob_cur st' = ob_cur st"
      "ob_waiting st' = ob_waiting st @ [rq]" "ob_results st' = ob_results st" "rq_waiter rq = Some w"
      "aged (oe_sec oe) (ob_air st) (ob_air st')" "snd (meshtastic_duty_blocked (oe_mt oe) (oe_sec oe) (ob_air st)) = None"
      "length (rq_pkt rq) \<le> MESHTASTIC_PKT_MAX"
proof (cases "rq_pkt rq = [] \<or> length (rq_pkt rq) > MESHTASTIC_PKT_MAX \<or> rq_attach rq \<noteq> 0 \<and> \<not> oe_attach_ready oe (rq_attach rq)")
  case True
  then have "\<exists>e. outbound_enqueue oe rq st = (st, Enq_Err e)"
    unfolding outbound_enqueue_def by (cases "rq_pkt rq = [] \<or> length (rq_pkt rq) > MESHTASTIC_PKT_MAX") simp_all
  then show ?thesis using refused by auto
next
  case wf: False
  then have wf1: "\<not> (rq_pkt rq = [] \<or> length (rq_pkt rq) > MESHTASTIC_PKT_MAX)"
    and wf2: "\<not> (rq_attach rq \<noteq> 0 \<and> \<not> oe_attach_ready oe (rq_attach rq))" by blast+
  obtain air d where g: "meshtastic_duty_blocked (oe_mt oe) (oe_sec oe) (ob_air st) = (air, d)" by fastforce
  have air: "aged (oe_sec oe) (ob_air st) air" using blocked_aged[of "oe_sec oe" "ob_air st" "oe_mt oe"] g by simp
  show ?thesis
  proof (cases d)
    case (Some m)
    define rel where "rel = (length (rq_pkt rq) \<ge> MESHTASTIC_HDR_LEN \<and> wire_src (rq_pkt rq) \<noteq> oe_node_id oe)"
    obtain duty air' where n: "meshtastic_duty_note_blocked rel m (oe_uptime oe) (ob_duty st, air) = (duty, air')" by fastforce
    have "outbound_enqueue oe rq st = (st\<lparr>ob_air := air', ob_duty := duty\<rparr>, Enq_Err ECANCELED)"
      using n unfolding outbound_enqueue_def if_not_P[OF wf1] if_not_P[OF wf2] rel_def by (simp add: g Some)
    then show ?thesis using refused note_blocked_aged[OF air, of rel m "ob_duty st"] n by simp
  next
    case None
    let ?st = "st\<lparr>ob_air := air\<rparr>"
    have tried: "outbound_enqueue oe rq st = (case enqueue_try oe rq ?st of
        (st, Enq_Wait) \<Rightarrow> (st\<lparr>ob_waiting := ob_waiting st @ [rq]\<rparr>, Enq_Wait) | r \<Rightarrow> r)"
      unfolding outbound_enqueue_def if_not_P[OF wf1] if_not_P[OF wf2] by (simp add: g None)
    note fr = enqueue_try_frame[of oe rq ?st]
    show ?thesis
    proof (cases rule: enqueue_try_cases[of oe rq ?st])
      case (ok st' it base)
      then show ?thesis using queued[of st' base it] tried fr air g None wf by simp
    next
      case (full w)
      then show ?thesis using blocked[of "?st\<lparr>ob_waiting := ob_waiting st @ [rq]\<rparr>" w] tried fr air g None wf by simp
    next
      case (refused st' e)
      then show ?thesis using that(1)[of st' e] tried fr air by simp
    qed
  qed
qed

section \<open>The abstract machine\<close>

text \<open>What a run does to the queue, the frame in hand, the blocked callers and the results, with three
  labels: the callers a step takes on, the frames it inserts, the transmissions it attempts.\<close>

type_synonym ob_view = "ob_item list \<times> ob_item option \<times> ob_request list \<times> (nat \<times> unit result) list"

definition view :: "outbound \<Rightarrow> ob_view" where
  "view st = (ob_items st, ob_cur st, ob_waiting st, ob_results st)"

definition caller :: "nat option \<Rightarrow> nat multiset" where
  "caller w = (case w of None \<Rightarrow> {#} | Some a \<Rightarrow> {#a#})"

lemma caller_simps [simp]: "caller None = {#}" "caller (Some a) = {#a#}"
  unfolding caller_def by simp_all

definition without :: "nat \<Rightarrow> 'a list \<Rightarrow> 'a list" where
  "without i xs = take i xs @ drop (Suc i) xs"

inductive ob_move :: "nat multiset \<Rightarrow> nat \<Rightarrow> nat \<Rightarrow> ob_view \<Rightarrow> ob_view \<Rightarrow> bool" where
  stay: "ob_move {#} 0 0 v v"
| queue: "makes_room rq q base \<Longrightarrow> ob_done it = rq_waiter rq \<Longrightarrow> ob_defers it = 0 \<Longrightarrow> length (ob_wire it) \<le> MESHTASTIC_PKT_MAX \<Longrightarrow>
    ob_move (caller (rq_waiter rq)) 1 0 (q, c, w, r) (base @ [it], c, w, r)"
| block: "rq_waiter rq = Some a \<Longrightarrow> length (rq_pkt rq) \<le> MESHTASTIC_PKT_MAX \<Longrightarrow> ob_move {#a#} 0 0 (q, c, w, r) (q, c, w @ [rq], r)"
| wake: "i < length w \<Longrightarrow> makes_room (w ! i) q base \<Longrightarrow> ob_done it = rq_waiter (w ! i) \<Longrightarrow> ob_defers it = 0 \<Longrightarrow>
    ob_wire it = rq_pkt (w ! i) \<Longrightarrow>
    ob_move {#} 1 0 (q, c, w, r) (base @ [it], c, without i w, r)"
| leave: "i < length w \<Longrightarrow> rq_waiter (w ! i) = Some a \<Longrightarrow>
    ob_move {#} 0 0 (q, c, w, r) (q, c, without i w, (a, Inl EAGAIN) # r)"
| forget: "i < length w \<Longrightarrow> rq_waiter (w ! i) = None \<Longrightarrow> ob_move {#} 0 0 (q, c, w, r) (q, c, without i w, r)"
| takes: "i < length q \<Longrightarrow> ob_move {#} 0 0 (q, None, w, r) (remove_index_locked i q, Some (q ! i), w, r)"
| gone: "ob_move {#} 0 1 (q, Some it, w, r) (q, None, w, answers it x @ r)"
| again: "ob_done it' = ob_done it \<Longrightarrow> ob_wire it' = ob_wire it \<Longrightarrow> ob_defers it' = Suc (ob_defers it) \<Longrightarrow> ob_defers it < TX_DEFER_MAX \<Longrightarrow> length q < OB_MAX \<Longrightarrow>
    ob_move {#} 0 1 (q, Some it, w, r) (q @ [it'], None, w, r)"
| late: "map ob_done q' = map ob_done q \<Longrightarrow> map ob_defers q' = map ob_defers q \<Longrightarrow> map ob_wire q' = map ob_wire q \<Longrightarrow>
    ob_move {#} 0 0 (q, c, w, r) (q', c, w, r)"
| cancel: "ob_move {#} 0 0 (q, c, w, r) (filter (\<lambda>it. \<not> matches src pid it) q, c, w, r)"

text \<open>The labels of a step of the model.\<close>

definition takes_on :: "ob_env \<Rightarrow> ob_event \<Rightarrow> outbound \<Rightarrow> nat multiset" where
  "takes_on oe ev st =
     (case ev of
        Ev_Enqueue rq \<Rightarrow> (case snd (outbound_enqueue oe rq st) of Enq_Err _ \<Rightarrow> {#} | _ \<Rightarrow> caller (rq_waiter rq))
      | _ \<Rightarrow> {#})"

definition inserts :: "ob_env \<Rightarrow> ob_event \<Rightarrow> outbound \<Rightarrow> nat" where
  "inserts oe ev st =
     (case ev of
        Ev_Enqueue rq \<Rightarrow> (if snd (outbound_enqueue oe rq st) = Enq_Ok then 1 else 0)
      | Ev_Wake i \<Rightarrow> (if i < length (ob_waiting st) \<and> snd (enqueue_try oe (ob_waiting st ! i) st) = Enq_Ok then 1 else 0)
      | _ \<Rightarrow> 0)"

definition sends :: "ob_event \<Rightarrow> outbound \<Rightarrow> nat" where
  "sends ev st = (if ev = Ev_Send \<and> ob_cur st \<noteq> None then 1 else 0)"

lemma wake_move:
  "ob_move {#} (inserts oe (Ev_Wake i) st) 0 (view st) (view (outbound_wake oe i st))"
proof (cases "i < length (ob_waiting st)")
  case True
  note fr = enqueue_try_frame[of oe "ob_waiting st ! i" st]
  show ?thesis
  proof (cases rule: enqueue_try_cases[of oe "ob_waiting st ! i" st])
    case (ok st' it base)
    then show ?thesis
      using True fr ob_move.wake[OF True ok(3,4,5,6), of "ob_cur st" "ob_results st"]
      by (simp add: outbound_wake_def inserts_def view_def without_def)
  next
    case (full a)
    then show ?thesis using True by (simp add: outbound_wake_def inserts_def view_def ob_move.stay)
  next
    case (refused st' e)
    then show ?thesis
      using True fr ob_move.forget[OF True, of "ob_items st" "ob_cur st" "ob_results st"]
      by (simp add: outbound_wake_def inserts_def view_def without_def)
  qed
qed (simp add: outbound_wake_def inserts_def ob_move.stay)

lemma enqueue_move:
  "ob_move (takes_on oe (Ev_Enqueue rq) st) (inserts oe (Ev_Enqueue rq) st) 0 (view st) (view (fst (outbound_enqueue oe rq st)))"
proof (cases rule: enqueue_cases[of oe rq st])
  case (refused st' e)
  then show ?thesis by (simp add: takes_on_def inserts_def view_def ob_move.stay)
next
  case (queued st' it base)
  then show ?thesis
    using ob_move.queue[OF queued(3,4,5), of "ob_cur st" "ob_waiting st" "ob_results st"] queued(12)
    by (simp add: takes_on_def inserts_def view_def)
next
  case (blocked st' a)
  then show ?thesis
    using ob_move.block[OF blocked(6,9), of "ob_items st" "ob_cur st" "ob_waiting st" "ob_results st"]
    by (simp add: takes_on_def inserts_def view_def)
qed

lemma send_move: "ob_move {#} 0 (sends Ev_Send st) (view st) (view (worker_send oe st))"
proof (cases "ob_cur st")
  case None
  then show ?thesis by (simp add: worker_send_def sends_def ob_move.stay)
next
  case (Some it)
  show ?thesis
  proof (cases rule: worker_send_cases[OF Some, of oe])
    case (1 r)
    then show ?thesis using Some by (simp add: view_def sends_def ob_move.gone[unfolded One_nat_def])
  next
    case (2 it')
    then show ?thesis using Some by (simp add: view_def sends_def ob_move.again[unfolded One_nat_def])
  qed
qed

lemma give_up_move: "ob_move {#} 0 0 (view st) (view (outbound_give_up i st))"
  using ob_move.leave[of i "ob_waiting st" _ "ob_items st" "ob_cur st" "ob_results st"]
    ob_move.forget[of i "ob_waiting st" "ob_items st" "ob_cur st" "ob_results st"]
  by (auto simp: outbound_give_up_def view_def without_def Let_def ob_move.stay split: option.split)

lemma take_move: "ob_cur st = None \<Longrightarrow> ob_move {#} 0 0 (view st) (view (worker_take oe st))"
  using pick_next_index[of "sc_tx_order (oe_cfg oe)" "oe_now oe" "ob_items st"]
  by (auto simp: worker_take_def view_def ob_move.stay ob_move.takes split: option.split)

lemma late_move: "ob_move {#} 0 0 (view st) (view (fst (meshtastic_outbound_defer_late oe src pid d st)))"
  by (auto simp: meshtastic_outbound_defer_late_def Let_def view_def intro!: ob_move.late)

lemma cancel_move: "ob_move {#} 0 0 (view st) (view (fst (meshtastic_outbound_cancel src pid st)))"
proof -
  have "view (fst (meshtastic_outbound_cancel src pid st))
      = (filter (\<lambda>it. \<not> matches src pid it) (ob_items st), ob_cur st, ob_waiting st, ob_results st)"
    using cancel_items[of src pid st] by (simp add: view_def meshtastic_outbound_cancel_def split: prod.split)
  then show ?thesis by (simp add: view_def ob_move.cancel)
qed

text \<open>Every step of the model is a move of the abstract machine.\<close>

lemma step_move: "ob_move (takes_on oe ev st) (inserts oe ev st) (sends ev st) (view st) (view (ob_step oe ev st))"
proof (cases ev)
  case (Ev_Enqueue rq)
  then show ?thesis using enqueue_move[of oe rq st] by (simp add: ob_step_def sends_def)
next
  case (Ev_Wake i)
  then show ?thesis using wake_move[of oe i st] by (simp add: ob_step_def sends_def takes_on_def)
next
  case (Ev_Give_Up i)
  then show ?thesis using give_up_move[of st i] by (simp add: ob_step_def sends_def takes_on_def inserts_def)
next
  case Ev_Take
  then show ?thesis using take_move[of st oe] by (simp add: ob_step_def sends_def takes_on_def inserts_def ob_move.stay)
next
  case Ev_Send
  then show ?thesis using send_move[of st oe] by (simp add: ob_step_def takes_on_def inserts_def)
next
  case (Ev_Late src pid d)
  then show ?thesis using late_move[of st oe src pid d] by (simp add: ob_step_def sends_def takes_on_def inserts_def)
next
  case (Ev_Cancel src pid)
  then show ?thesis using cancel_move[of st src pid] by (simp add: ob_step_def sends_def takes_on_def inserts_def)
next
  case (Ev_Heard ty ms)
  then show ?thesis by (simp add: ob_step_def sends_def takes_on_def inserts_def view_def ob_move.stay)
qed

section \<open>Quantities of a run\<close>

fun run_sum :: "(ob_env \<Rightarrow> ob_event \<Rightarrow> outbound \<Rightarrow> 'a::comm_monoid_add) \<Rightarrow> (ob_env \<times> ob_event) list \<Rightarrow> outbound \<Rightarrow> 'a" where
  "run_sum f [] st = 0"
| "run_sum f ((oe, ev) # r) st = f oe ev st + run_sum f r (ob_step oe ev st)"

text \<open>The callers the queue owes an answer, and those it has answered.\<close>

fun callers :: "ob_view \<Rightarrow> nat multiset" where
  "callers (q, c, w, r) = (\<Sum>it\<leftarrow>q. caller (ob_done it)) + (case c of None \<Rightarrow> {#} | Some it \<Rightarrow> caller (ob_done it))
     + (\<Sum>rq\<leftarrow>w. caller (rq_waiter rq)) + mset (map fst r)"

text \<open>The attempts the frames may still take.\<close>

fun attempts_left :: "ob_view \<Rightarrow> nat" where
  "attempts_left (q, c, w, r) = (\<Sum>it\<leftarrow>q. Suc TX_DEFER_MAX - ob_defers it)
     + (case c of None \<Rightarrow> 0 | Some it \<Rightarrow> Suc TX_DEFER_MAX - ob_defers it)"

definition item_ok :: "ob_item \<Rightarrow> bool" where
  "item_ok it \<longleftrightarrow> ob_defers it \<le> TX_DEFER_MAX \<and> length (ob_wire it) \<le> MESHTASTIC_PKT_MAX"

fun view_ok :: "ob_view \<Rightarrow> bool" where
  "view_ok (q, c, w, r) \<longleftrightarrow> length q \<le> OB_MAX \<and> list_all item_ok q \<and> (case c of None \<Rightarrow> True | Some it \<Rightarrow> item_ok it)
     \<and> (\<forall>rq \<in> set w. length (rq_pkt rq) \<le> MESHTASTIC_PKT_MAX)"

lemma sum_without:
  fixes f :: "'b \<Rightarrow> 'a::comm_monoid_add"
  assumes "i < length xs"
  shows "sum_list (map f xs) = f (xs ! i) + sum_list (map f (without i xs))"
proof -
  have "sum_list (map f xs) = sum_list (map f (take i xs @ xs ! i # drop (Suc i) xs))"
    using id_take_nth_drop[OF assms] by simp
  then show ?thesis unfolding without_def by (simp add: ac_simps)
qed

lemma room_sum:
  fixes f :: "ob_item \<Rightarrow> 'a::comm_monoid_add"
  assumes "makes_room rq q base"
  obtains "base = q" | v where "v < length q" "ob_done (q ! v) = None" "base = without v q"
    "sum_list (map f q) = f (q ! v) + sum_list (map f base)"
  using assms sum_without unfolding makes_room_def lowest_newest_def remove_index_locked_def without_def by metis

lemma room_length: "makes_room rq q base \<Longrightarrow> length q \<le> OB_MAX \<Longrightarrow> length base < OB_MAX \<and> set base \<subseteq> set q"
  using set_remove length_remove unfolding makes_room_def lowest_newest_def by fastforce

lemma cancel_callers: "(\<Sum>it\<leftarrow>filter (\<lambda>it. \<not> matches src pid it) q. caller (ob_done it)) = (\<Sum>it\<leftarrow>q. caller (ob_done it))"
  by (induction q) (auto simp: matches_def)

lemma answers_callers: "image_mset fst (mset (answers it x)) = caller (ob_done it)"
  unfolding answers_def by (simp split: option.split)

lemma filter_sum_le: "(\<Sum>x\<leftarrow>filter P xs. f x) \<le> (\<Sum>x\<leftarrow>xs. f x :: nat)"
  by (induction xs) auto

lemma move_callers: "ob_move a n s v v' \<Longrightarrow> callers v' = callers v + a"
proof (induction rule: ob_move.induct)
  case (queue rq q base it c w r)
  show ?case
    by (rule room_sum[OF queue(1), where f = "\<lambda>it. caller (ob_done it)"])
      (simp_all add: queue(2) ac_simps)
next
  case (wake i w q base it c r)
  show ?case
    by (rule room_sum[OF wake(2), where f = "\<lambda>it. caller (ob_done it)"])
      (simp_all add: wake(3) ac_simps sum_without[OF wake(1), of "\<lambda>rq. caller (rq_waiter rq)"])
next
  case (late q' q c w r)
  have "map (caller \<circ> ob_done) q' = map (caller \<circ> ob_done) q" using late(1) by (metis map_map)
  then show ?case by (simp add: comp_def)
next
  case (takes i q w r)
  then show ?case
    using sum_without[of i q "\<lambda>it. caller (ob_done it)"] by (simp add: remove_index_locked_def without_def ac_simps)
qed (simp_all add: answers_callers cancel_callers sum_without[where f = "\<lambda>rq. caller (rq_waiter rq)"] split: option.split)

lemma set_without: "set (without i w) \<subseteq> set w"
  unfolding without_def using set_take_subset set_drop_subset by fastforce

lemma item_ok_same:
  "map ob_defers q' = map ob_defers q \<Longrightarrow> map ob_wire q' = map ob_wire q \<Longrightarrow> list_all item_ok q' = list_all item_ok q"
  unfolding item_ok_def list_all_length by (metis length_map nth_map)

lemma move_ok: "ob_move a n s v v' \<Longrightarrow> view_ok v \<Longrightarrow> view_ok v'"
proof (induction rule: ob_move.induct)
  case (queue rq q base it c w r)
  then show ?case using room_length[OF queue(1)] by (auto simp: Suc_le_eq list_all_iff item_ok_def)
next
  case (wake i w q base it c r)
  then have "w ! i \<in> set w" by simp
  then show ?case
    using wake room_length[OF wake(2)] set_without[of i w] by (auto simp: Suc_le_eq list_all_iff item_ok_def)
next
  case (takes i q w r)
  then show ?case using set_remove[of i q] by (auto simp: length_remove list_all_iff)
next
  case (late q' q c w r)
  then show ?case using map_eq_imp_length_eq[OF late(1)] item_ok_same[OF late(2,3)] by simp
next
  case (cancel q c w r src pid)
  then show ?case by (auto simp: list_all_iff intro: order.trans[OF length_filter_le])
next
  case (leave i w a q c r)
  then show ?case using set_without[of i w] by auto
next
  case (forget i w q c r)
  then show ?case using set_without[of i w] by auto
qed (auto simp: item_ok_def)

lemma move_attempts:
  "ob_move a n s v v' \<Longrightarrow> view_ok v \<Longrightarrow> attempts_left v' + s \<le> attempts_left v + n * Suc TX_DEFER_MAX"
proof (induction rule: ob_move.induct)
  case (queue rq q base it c w r)
  show ?case
    by (rule room_sum[OF queue(1), where f = "\<lambda>it. Suc TX_DEFER_MAX - ob_defers it"]) (simp_all add: queue(3))
next
  case (wake i w q base it c r)
  show ?case
    by (rule room_sum[OF wake(2), where f = "\<lambda>it. Suc TX_DEFER_MAX - ob_defers it"]) (simp_all add: wake(4))
next
  case (takes i q w r)
  then show ?case
    using sum_without[of i q "\<lambda>it. Suc TX_DEFER_MAX - ob_defers it"] by (simp add: remove_index_locked_def without_def)
next
  case (late q' q c w r)
  have "map ((\<lambda>d. Suc TX_DEFER_MAX - d) \<circ> ob_defers) q' = map ((\<lambda>d. Suc TX_DEFER_MAX - d) \<circ> ob_defers) q"
    using late(2) by (metis map_map)
  then show ?case by (simp add: comp_def)
next
  case (cancel q c w r src pid)
  show ?case using filter_sum_le[of "\<lambda>it. Suc TX_DEFER_MAX - ob_defers it" "\<lambda>it. \<not> matches src pid it" q] by simp
qed (auto simp: item_ok_def)

lemma run_callers: "callers (view (ob_run evs st)) = callers (view st) + run_sum takes_on evs st"
proof (induction evs arbitrary: st)
  case (Cons e evs)
  obtain oe ev where e: "e = (oe, ev)" by fastforce
  show ?case using Cons[of "ob_step oe ev st"] move_callers[OF step_move[of oe ev st]] by (simp add: e ac_simps)
qed simp

lemma run_ok: "view_ok (view st) \<Longrightarrow> view_ok (view (ob_run evs st))"
proof (induction evs arbitrary: st)
  case (Cons e evs)
  obtain oe ev where e: "e = (oe, ev)" by fastforce
  show ?case using Cons.IH[OF move_ok[OF step_move Cons.prems]] by (simp add: e)
qed simp

lemma run_attempts:
  "view_ok (view st) \<Longrightarrow> run_sum (\<lambda>oe ev st. sends ev st) evs st + attempts_left (view (ob_run evs st))
     \<le> attempts_left (view st) + run_sum inserts evs st * Suc TX_DEFER_MAX"
proof (induction evs arbitrary: st)
  case (Cons e evs)
  obtain oe ev where e: "e = (oe, ev)" by fastforce
  show ?case
    using Cons.IH[OF move_ok[OF step_move[of oe ev st] Cons.prems]] move_attempts[OF step_move[of oe ev st] Cons.prems]
    by (simp add: e algebra_simps)
qed simp

lemma init_ok: "view_ok (view outbound_init)" "callers (view outbound_init) = {#}" "attempts_left (view outbound_init) = 0"
  by (simp_all add: outbound_init_def view_def)

section \<open>Properties\<close>


text \<open>C32. The worker cannot be kept busy for ever by a busy channel: in any run the transmissions it attempts
  are at most \<open>TX_DEFER_MAX + 1\<close> for each frame accepted into the queue, and the queue never holds more
  than its capacity.\<close>

theorem outbound_attempts_bounded:
  "run_sum (\<lambda>oe ev st. sends ev st) evs outbound_init \<le> (TX_DEFER_MAX + 1) * run_sum inserts evs outbound_init
   \<and> length (ob_items (ob_run evs outbound_init)) \<le> OB_MAX"
proof -
  have "run_sum (\<lambda>oe ev st. sends ev st) evs outbound_init \<le> run_sum inserts evs outbound_init * Suc TX_DEFER_MAX"
    using run_attempts[OF init_ok(1), of evs] unfolding init_ok(3) by linarith
  then show ?thesis using run_ok[OF init_ok(1), of evs] by (simp add: view_def mult.commute)
qed

end
