(* ===== verification/Outbound_Duty.thy ===== *)
theory Outbound_Duty
  imports Outbound_Machine
begin

text \<open>
  The regulatory ceiling over the whole transmit path.  The gate stands before the queue, so a frame is
  charged only after it was admitted; the queue bounds how much that can add.
\<close>

section \<open>The airtime ledger along a run\<close>

definition ledger :: "u32 \<Rightarrow> log_entry list \<Rightarrow> airtime \<Rightarrow> bool" where
  "ledger sec es air \<longleftrightarrow> log_ok sec es \<and> airtime_rep es air
     \<and> (at_initialized air \<longrightarrow> at_last_tx_tick air \<le> sec div 60 \<and> at_last_util_tick air \<le> sec div 10)"

lemma ledger_later: "ledger sec es air \<Longrightarrow> sec \<le> sec' \<Longrightarrow> ledger sec' es air"
  unfolding ledger_def log_ok_def using div_mono_u32 by (fastforce intro: order_trans)

lemma ledger_advance: "ledger sec es air \<Longrightarrow> ledger sec es (airtime_advance sec air)"
  unfolding ledger_def using rep_advance[of es air sec] by auto

lemma ledger_aged: "ledger sec es air \<Longrightarrow> aged sec air air' \<Longrightarrow> ledger sec es air'"
proof -
  have "ledger sec es air \<Longrightarrow> ledger sec es ((airtime_advance sec ^^ k) air)" for k
    by (induction k) (auto simp: ledger_advance)
  then show "ledger sec es air \<Longrightarrow> aged sec air air' \<Longrightarrow> ledger sec es air'" unfolding aged_def by blast
qed

lemma ledger_log:
  "ledger sec es air \<Longrightarrow> slot < MESHTASTIC_AIRTIME_PRESET_SLOTS \<Longrightarrow>
   ledger sec (es @ [(sec, ty, slot, ms)]) (meshtastic_airtime_log ty ms slot sec air)"
  unfolding ledger_def using rep_log[of es air sec slot ty ms]
  by (auto simp: log_ok_def sorted_wrt_append)

lemma ledger_init: "ledger sec [] meshtastic_airtime_init"
  unfolding ledger_def log_ok_def airtime_rep_def by (simp add: meshtastic_airtime_init_def)

lemma tx_past_hour_log:
  "tx_past_hour sec (es @ [(sec, ty, slot, ms)]) = tx_past_hour sec es + (if ty = AIRTIME_TX then unat ms else 0)"
  unfolding tx_past_hour_def by simp

lemma tx_past_hour_later: "sec \<le> sec' \<Longrightarrow> tx_past_hour sec' es \<le> tx_past_hour sec es"
  unfolding tx_past_hour_window by (intro window_ms_antimono) (use div_mono_u32[of sec sec' 60] in \<open>simp add: word_le_def\<close>)

lemma air_slot_ok: "air_slot oe < MESHTASTIC_AIRTIME_PRESET_SLOTS"
  unfolding air_slot_def airtime_slot_def MESHTASTIC_AIRTIME_SLOT_CUSTOM_def MESHTASTIC_AIRTIME_PRESET_SLOTS_def by auto

text \<open>What a step adds to the ledger: a transmission on the node's own radio, or what it heard.\<close>

definition keyed :: "ob_env \<Rightarrow> ob_item \<Rightarrow> bool" where
  "keyed oe it \<longleftrightarrow> ob_attach it = 0 \<and> oe_divert oe \<noteq> Inr () \<and> ob_gen it = mt_gate_generation (oe_mt oe) \<and> \<not> oe_scanning oe
     \<and> mt_tx_enabled (oe_mt oe) \<and> \<not> oe_held oe \<and> \<not> oe_receiving oe \<and> oe_lora_config oe = Inr () \<and> oe_lora_send oe = Inr ()"

definition step_log :: "ob_env \<Rightarrow> ob_event \<Rightarrow> outbound \<Rightarrow> log_entry list" where
  "step_log oe ev st =
     (case ev of
        Ev_Send \<Rightarrow> (case ob_cur st of
            Some it \<Rightarrow> if keyed oe it then [(oe_sec oe, AIRTIME_TX, air_slot oe, oe_packet_ms oe (length (ob_wire it)))] else []
          | None \<Rightarrow> [])
      | Ev_Heard ty ms \<Rightarrow> if ty = AIRTIME_TX then [] else [(oe_sec oe, ty, air_slot oe, ms)]
      | _ \<Rightarrow> [])"

fun run_log :: "(ob_env \<times> ob_event) list \<Rightarrow> outbound \<Rightarrow> log_entry list" where
  "run_log [] st = []"
| "run_log ((oe, ev) # r) st = step_log oe ev st @ run_log r (ob_step oe ev st)"

lemma transmit_keyed:
  "ob_air (fst (worker_transmit oe it st)) =
     (if keyed oe it
      then meshtastic_airtime_log AIRTIME_TX (oe_packet_ms oe (length (ob_wire it))) (air_slot oe) (oe_sec oe) (ob_air st)
      else ob_air st)"
  "keyed oe it \<Longrightarrow> snd (worker_transmit oe it st) = Tx_Ret (Inr ())"
  unfolding worker_transmit_def meshtastic_radio_send_wire_now_def Let_def keyed_def
  by (auto split: sum.split)

section \<open>Frames admitted and not yet sent\<close>

definition admitted :: "outbound \<Rightarrow> nat" where
  "admitted st = length (ob_items st) + (if ob_cur st = None then 0 else 1) + length (ob_waiting st)"

lemma room_le: "makes_room rq q base \<Longrightarrow> length base \<le> length q"
  unfolding makes_room_def remove_index_locked_def lowest_newest_def by auto

lemma wake_admitted: "admitted (outbound_wake oe i st) \<le> admitted st" "ob_air (outbound_wake oe i st) = ob_air st"
proof -
  note fr = enqueue_try_frame[of oe "ob_waiting st ! i" st]
  have "admitted (outbound_wake oe i st) \<le> admitted st \<and> ob_air (outbound_wake oe i st) = ob_air st"
  proof (cases rule: enqueue_try_cases[of oe "ob_waiting st ! i" st])
    case (ok st' it base)
    then show ?thesis using fr room_le[OF ok(3)] by (auto simp: outbound_wake_def admitted_def)
  qed (use fr in \<open>auto simp: outbound_wake_def admitted_def\<close>)
  then show "admitted (outbound_wake oe i st) \<le> admitted st" "ob_air (outbound_wake oe i st) = ob_air st" by simp_all
qed

lemma keyed_items:
  assumes "keyed oe it" "ob_cur st = Some it" shows "ob_items (worker_send oe st) = ob_items st"
proof -
  obtain st1 ret where t: "worker_transmit oe it st = (st1, ret)" by fastforce
  then show ?thesis
    using assms transmit_frame(1)[of oe it st] transmit_keyed(2)[OF assms(1), of st]
    unfolding worker_send_def by simp
qed

lemma send_step:
  assumes l: "ledger (oe_sec oe) es (ob_air st)"
  shows "ledger (oe_sec oe) (es @ step_log oe Ev_Send st) (ob_air (worker_send oe st))"
    and "admitted (worker_send oe st) + length (step_log oe Ev_Send st) \<le> admitted st"
proof -
  have "ledger (oe_sec oe) (es @ step_log oe Ev_Send st) (ob_air (worker_send oe st))
      \<and> admitted (worker_send oe st) + length (step_log oe Ev_Send st) \<le> admitted st"
  proof (cases "ob_cur st")
    case None
    then show ?thesis using l by (simp add: worker_send_def step_log_def)
  next
    case (Some it)
    show ?thesis
    proof (cases rule: worker_send_cases[OF Some, of oe])
      case (1 r)
      then show ?thesis
        using l ledger_log[OF l air_slot_ok] transmit_keyed(1)[of oe it st] Some by (simp add: step_log_def admitted_def)
    next
      case (2 it')
      then have "\<not> keyed oe it" using keyed_items[OF _ Some] by fastforce
      then show ?thesis using 2 l ledger_advance[OF l] Some by (simp add: step_log_def admitted_def)
    qed
  qed
  then show "ledger (oe_sec oe) (es @ step_log oe Ev_Send st) (ob_air (worker_send oe st))"
    "admitted (worker_send oe st) + length (step_log oe Ev_Send st) \<le> admitted st" by simp_all
qed

text \<open>The transmissions of a step, and a step that admits nothing.\<close>

definition step_tx :: "ob_env \<Rightarrow> ob_event \<Rightarrow> outbound \<Rightarrow> log_entry list" where
  "step_tx oe ev st = filter (\<lambda>(_, ty, _, _). ty = AIRTIME_TX) (step_log oe ev st)"

lemma other_step:
  assumes l: "ledger (oe_sec oe) es (ob_air st)" and ev: "\<And>rq. ev \<noteq> Ev_Enqueue rq"
  shows "ledger (oe_sec oe) (es @ step_log oe ev st) (ob_air (ob_step oe ev st))
    \<and> admitted (ob_step oe ev st) + length (step_tx oe ev st) \<le> admitted st"
proof (cases ev)
  case (Ev_Wake i)
  then show ?thesis using l wake_admitted[of oe i st] by (simp add: ob_step_def step_log_def step_tx_def)
next
  case (Ev_Give_Up i)
  then show ?thesis
    using l by (auto simp: ob_step_def step_log_def step_tx_def outbound_give_up_def Let_def admitted_def split: option.split)
next
  case Ev_Take
  then show ?thesis
    using l pick_next_index[of "sc_tx_order (oe_cfg oe)" "oe_now oe" "ob_items st"]
    by (auto simp: ob_step_def step_log_def step_tx_def worker_take_def admitted_def length_remove split: option.split)
next
  case Ev_Send
  have "length (step_tx oe Ev_Send st) \<le> length (step_log oe Ev_Send st)" unfolding step_tx_def by (rule length_filter_le)
  then show ?thesis using Ev_Send send_step[OF l] by (simp add: ob_step_def)
next
  case (Ev_Late src pid d)
  then show ?thesis
    using l by (simp add: ob_step_def step_log_def step_tx_def meshtastic_outbound_defer_late_def Let_def admitted_def)
next
  case (Ev_Cancel src pid)
  have "ob_air (fst (meshtastic_outbound_cancel src pid st)) = ob_air st" "ob_cur (fst (meshtastic_outbound_cancel src pid st)) = ob_cur st"
    "ob_waiting (fst (meshtastic_outbound_cancel src pid st)) = ob_waiting st"
    by (simp_all add: meshtastic_outbound_cancel_def split: prod.split)
  then show ?thesis
    using l Ev_Cancel cancel_items[of src pid st] by (simp add: ob_step_def step_log_def step_tx_def admitted_def)
next
  case (Ev_Heard ty ms)
  then show ?thesis
    using l ledger_log[OF l air_slot_ok] by (simp add: ob_step_def step_log_def step_tx_def admitted_def)
qed (use ev in blast)

lemma step_charge:
  assumes "view_ok (view st)" "\<forall>n \<le> MESHTASTIC_PKT_MAX. unat (oe_packet_ms oe n) \<le> M"
  shows "tx_past_hour (oe_sec oe) (es @ step_log oe ev st) \<le> tx_past_hour (oe_sec oe) es + length (step_tx oe ev st) * M"
proof (cases "\<exists>it. ev = Ev_Send \<and> ob_cur st = Some it \<and> keyed oe it")
  case True
  then obtain it where it: "ev = Ev_Send" "ob_cur st = Some it" "keyed oe it" by blast
  then have "length (ob_wire it) \<le> MESHTASTIC_PKT_MAX" using assms(1) by (simp add: view_def item_ok_def)
  then show ?thesis using it assms(2) by (simp add: step_log_def step_tx_def tx_past_hour_log)
next
  case False
  then show ?thesis
    by (cases ev) (auto simp: step_log_def step_tx_def tx_past_hour_log split: option.split)
qed

lemma enqueue_step:
  assumes "ledger (oe_sec oe) es (ob_air st)"
  shows "ledger (oe_sec oe) es (ob_air (fst (outbound_enqueue oe rq st)))
    \<and> (admitted (fst (outbound_enqueue oe rq st)) \<le> admitted st
       \<or> snd (meshtastic_duty_blocked (oe_mt oe) (oe_sec oe) (ob_air st)) = None)"
  by (cases rule: enqueue_cases[of oe rq st]) (use assms ledger_aged in \<open>auto simp: admitted_def\<close>)

text \<open>The state of the node that the bound is about: ceiling \<open>C\<close> percent, frames of at most \<open>M\<close> ms, at most
  \<open>W\<close> blocked callers.\<close>

definition legal :: "rat \<Rightarrow> nat \<Rightarrow> nat \<Rightarrow> u32 \<Rightarrow> log_entry list \<Rightarrow> outbound \<Rightarrow> bool" where
  "legal C M W sec es st \<longleftrightarrow> ledger sec es (ob_air st) \<and> view_ok (view st)
     \<and> rat_of_nat (tx_past_hour sec es + admitted st * M) \<le> C * 36000 + rat_of_nat ((OB_MAX + 1 + W) * M)"

definition steady_env :: "rat \<Rightarrow> nat \<Rightarrow> ob_env \<Rightarrow> bool" where
  "steady_env C M oe \<longleftrightarrow> \<not> mt_duty_override (oe_mt oe) \<and> meshtastic_duty_effective_pct (oe_mt oe) = C
     \<and> (\<forall>n \<le> MESHTASTIC_PKT_MAX. unat (oe_packet_ms oe n) \<le> M)"

lemma legal_step:
  assumes w: "legal C M W sec es st" and later: "sec \<le> oe_sec oe" and env: "steady_env C M oe" and C: "C < 100"
    and small: "(OB_MAX + 1 + W) * M < 2 ^ 31" and cap: "length (ob_waiting (ob_step oe ev st)) \<le> W"
  shows "legal C M W (oe_sec oe) (es @ step_log oe ev st) (ob_step oe ev st)"
proof -
  let ?N = "OB_MAX + 1 + W" and ?st = "ob_step oe ev st" and ?s = "oe_sec oe"
  have l: "ledger ?s es (ob_air st)" and ok: "view_ok (view st)" using w later ledger_later unfolding legal_def by blast+
  have ok': "view_ok (view ?st)" by (rule move_ok[OF step_move ok])
  have "tx_past_hour ?s es \<le> tx_past_hour sec es" using later by (rule tx_past_hour_later)
  then have b: "rat_of_nat (tx_past_hour ?s es + admitted st * M) \<le> C * 36000 + rat_of_nat (?N * M)"
    using w unfolding legal_def by (simp add: of_nat_mono)
  have full: "admitted ?st \<le> ?N" using ok' cap unfolding admitted_def view_def by simp
  show ?thesis
  proof (cases "\<exists>rq. ev = Ev_Enqueue rq \<and> admitted ?st > admitted st")
    case True
    then obtain rq where rq: "ev = Ev_Enqueue rq" "\<not> admitted (fst (outbound_enqueue oe rq st)) \<le> admitted st"
      by (auto simp: ob_step_def)
    have "rat_of_nat (tx_past_hour ?s es) \<le> rat_of_nat (tx_past_hour ?s es + admitted st * M)" by (intro of_nat_mono) simp
    also have "\<dots> \<le> C * 36000 + rat_of_nat (?N * M)" by (rule b)
    also have "\<dots> < rat_of_nat (2 ^ 32)"
    proof -
      have "rat_of_nat (?N * M) < rat_of_nat (2 ^ 31)" using small by (simp only: of_nat_less_iff)
      then show ?thesis using C by simp
    qed
    finally have "tx_past_hour ?s es < 2 ^ 32" by (simp only: of_nat_less_iff)
    then have gate: "rat_of_nat (tx_past_hour ?s es) / 36000 \<le> C"
      using enqueue_step[OF l, of rq] rq(2) duty_blocked_iff[of es "ob_air st" ?s "oe_mt oe"] l env C
      unfolding ledger_def steady_env_def by auto
    have "rat_of_nat (admitted ?st * M) \<le> rat_of_nat (?N * M)" using full by (intro of_nat_mono mult_le_mono1)
    then have "rat_of_nat (tx_past_hour ?s es + admitted ?st * M) \<le> C * 36000 + rat_of_nat (?N * M)"
      using gate unfolding of_nat_add by simp
    then show ?thesis
      using enqueue_step[OF l, of rq] ok' rq(1) unfolding legal_def by (simp add: step_log_def ob_step_def)
  next
    case False
    have "ledger ?s (es @ step_log oe ev st) (ob_air ?st) \<and> admitted ?st + length (step_tx oe ev st) \<le> admitted st"
    proof (cases "\<exists>rq. ev = Ev_Enqueue rq")
      case True
      then show ?thesis using False enqueue_step[OF l] by (auto simp: ob_step_def step_log_def step_tx_def)
    qed (use other_step[OF l] in blast)
    moreover have "tx_past_hour ?s (es @ step_log oe ev st) \<le> tx_past_hour ?s es + length (step_tx oe ev st) * M"
      using step_charge[OF ok] env unfolding steady_env_def by blast
    ultimately have "ledger ?s (es @ step_log oe ev st) (ob_air ?st)"
      and "tx_past_hour ?s (es @ step_log oe ev st) + admitted ?st * M \<le> tx_past_hour ?s es + admitted st * M"
      using mult_le_mono1[of "admitted ?st + length (step_tx oe ev st)" "admitted st" M] by (simp_all add: add_mult_distrib)
    then show ?thesis using b ok' unfolding legal_def by (meson of_nat_mono order_trans)
  qed
qed

text \<open>The run: time does not go back, the ceiling and the bound on a frame stay, at most \<open>W\<close> callers block.\<close>

fun steady_run :: "rat \<Rightarrow> nat \<Rightarrow> nat \<Rightarrow> u32 \<Rightarrow> (ob_env \<times> ob_event) list \<Rightarrow> outbound \<Rightarrow> bool" where
  "steady_run C M W sec [] st = True"
| "steady_run C M W sec ((oe, ev) # r) st \<longleftrightarrow> sec \<le> oe_sec oe \<and> steady_env C M oe
     \<and> length (ob_waiting (ob_step oe ev st)) \<le> W \<and> steady_run C M W (oe_sec oe) r (ob_step oe ev st)"

definition run_end :: "u32 \<Rightarrow> (ob_env \<times> ob_event) list \<Rightarrow> u32" where
  "run_end sec evs = (if evs = [] then sec else oe_sec (fst (last evs)))"

lemma legal_run:
  assumes "C < 100" "(OB_MAX + 1 + W) * M < 2 ^ 31"
  shows "legal C M W sec es st \<Longrightarrow> steady_run C M W sec evs st \<Longrightarrow>
    legal C M W (run_end sec evs) (es @ run_log evs st) (ob_run evs st)"
proof (induction evs arbitrary: sec es st)
  case (Cons e evs)
  obtain oe ev where e: "e = (oe, ev)" by fastforce
  then have "legal C M W (oe_sec oe) (es @ step_log oe ev st) (ob_step oe ev st)"
    using Cons.prems legal_step[OF Cons.prems(1) _ _ assms] by simp
  then show ?case using Cons.IH[of "oe_sec oe" "es @ step_log oe ev st" "ob_step oe ev st"] Cons.prems(2) e
    by (simp add: run_end_def split: if_splits)
qed (simp add: run_end_def)

section \<open>Properties\<close>

text \<open>C30. The duty cycle is kept.  On a node whose ceiling is \<open>C\<close> percent and not overridden, in any run from
  power-up of senders, relays, retries, deferrals and drops, the time on air in the past hour, at the
  last event and at any later moment, is at most the ceiling plus the frames that were already admitted:
  a full queue, the one in the radio and the blocked callers, at \<open>M\<close> milliseconds each.\<close>

theorem duty_cycle_kept:
  assumes "0 \<le> C" "C < 100" "(OB_MAX + 1 + W) * M < 2 ^ 31" "steady_run C M W 0 evs outbound_init" "run_end 0 evs \<le> now"
  shows "rat_of_nat (tx_past_hour now (run_log evs outbound_init)) \<le> C / 100 * 3600000 + rat_of_nat ((OB_MAX + 1 + W) * M)"
proof -
  have "legal C M W 0 [] outbound_init"
    unfolding legal_def using init_ok(1) ledger_init[of 0] assms(1)
    by (simp add: outbound_init_def admitted_def tx_past_hour_def)
  then have "legal C M W (run_end 0 evs) (run_log evs outbound_init) (ob_run evs outbound_init)"
    using legal_run[OF assms(2,3)] assms(4) by fastforce
  then have "rat_of_nat (tx_past_hour (run_end 0 evs) (run_log evs outbound_init)) \<le> C * 36000 + rat_of_nat ((OB_MAX + 1 + W) * M)"
    unfolding legal_def by (meson le_add1 of_nat_mono order_trans)
  moreover have "rat_of_nat (tx_past_hour now (run_log evs outbound_init)) \<le> rat_of_nat (tx_past_hour (run_end 0 evs) (run_log evs outbound_init))"
    using tx_past_hour_later[OF assms(5)] by (rule of_nat_mono)
  ultimately show ?thesis by simp
qed

definition ex_oe :: "int \<Rightarrow> ob_env" where
  "ex_oe t = \<lparr>oe_cfg = preset_default, oe_uptime = t, oe_mt = ex_duty\<lparr>mt_tx_enabled := True\<rparr>, oe_node_id = 7,
     oe_attach_ready = (\<lambda>_. False), oe_attach_tx = Inl EIO, oe_divert = Inl ENOTCONN, oe_scanning = False, oe_held = False,
     oe_receiving = False, oe_lora_config = Inr (), oe_lora_send = Inr (), oe_packet_ms = (\<lambda>n. 900), oe_rand = 5\<rparr>"

definition ex_rq :: ob_request where
  "ex_rq = \<lparr>rq_pkt = replicate 20 7, rq_tier = 1, rq_delay_ms = 0, rq_attach = 0, rq_waiter = None\<rparr>"

definition ex_run :: "(ob_env \<times> ob_event) list" where
  "ex_run = [(ex_oe 5000, Ev_Enqueue ex_rq), (ex_oe 5001, Ev_Take), (ex_oe 5002, Ev_Send)]"

lemma ex_gate:
  "snd (meshtastic_duty_blocked (oe_mt (ex_oe t)) (oe_sec (ex_oe t)) meshtastic_airtime_init) = None"
  unfolding meshtastic_duty_blocked_def meshtastic_airtime_tx_util_percent_def meshtastic_airtime_init_def airtime_advance_def
    meshtastic_duty_effective_pct_def ex_oe_def ex_duty_def Let_def
  by (simp add: sum_list_replicate)

lemma ex_queued:
  "\<exists>it. ob_items (ob_step (ex_oe t) (Ev_Enqueue ex_rq) outbound_init) = [it] \<and> ob_cur (ob_step (ex_oe t) (Ev_Enqueue ex_rq) outbound_init) = None
     \<and> ob_waiting (ob_step (ex_oe t) (Ev_Enqueue ex_rq) outbound_init) = [] \<and> ob_send_after it = 0
     \<and> ob_attach it = 0 \<and> ob_gen it = mt_gate_generation ex_duty \<and> length (ob_wire it) = 20"
  using ex_gate[of t]
  unfolding ob_step_def outbound_enqueue_def ex_rq_def
  by (auto simp: MESHTASTIC_PKT_MAX_def enqueue_try_def ob_insert_def outbound_init_def Let_def ex_oe_def preset_default_def
      OB_DEFAULT_def OB_MAX_def OUTBOUND_QUEUE_DEPTH_def split: prod.splits option.splits)

lemma ex_run_log: "run_log ex_run outbound_init = [(5, AIRTIME_TX, 0, 900)]" "steady_run 10 900 0 0 ex_run outbound_init"
proof -
  define s1 where "s1 = ob_step (ex_oe 5000) (Ev_Enqueue ex_rq) outbound_init"
  define s2 where "s2 = ob_step (ex_oe 5001) Ev_Take s1"
  obtain it where it: "ob_items s1 = [it]" "ob_cur s1 = None" "ob_waiting s1 = []" "ob_send_after it = 0" "ob_attach it = 0"
      "ob_gen it = mt_gate_generation ex_duty" "length (ob_wire it) = 20"
    using ex_queued[of 5000] unfolding s1_def by blast
  have "fst (pick_next_locked order now [it]) = Some 0" for order now
    unfolding pick_next_locked_def by (simp add: ob_eligible_def it(4))
  then have s2: "ob_cur s2 = Some it" "ob_waiting s2 = []"
    unfolding s2_def by (simp_all add: ob_step_def worker_take_def it)
  have k: "keyed (ex_oe t) it" for t by (simp add: keyed_def ex_oe_def it ex_duty_def)
  have "air_slot (ex_oe 5002) = 0"
    by (simp add: air_slot_def ex_oe_def ex_duty_def ex_mt_def airtime_slot_def MESHTASTIC_AIRTIME_SLOT_CUSTOM_def MESHTASTIC_AIRTIME_PRESET_SLOTS_def)
  then show "run_log ex_run outbound_init = [(5, AIRTIME_TX, 0, 900)]"
    by (simp add: ex_run_def s1_def[symmetric] s2_def[symmetric] step_log_def s2 k) (simp add: ex_oe_def oe_sec_def)
  have "ob_waiting (ob_step (ex_oe 5002) Ev_Send s2) = []"
    by (cases rule: worker_send_cases[OF s2(1), of "ex_oe 5002"]) (simp_all add: ob_step_def s2(2))
  then show "steady_run 10 900 0 0 ex_run outbound_init"
    by (simp add: ex_run_def s1_def[symmetric] s2_def[symmetric] it s2 steady_env_def)
      (simp add: ex_oe_def oe_sec_def ex_duty_def meshtastic_duty_effective_pct_def)
qed

theorem duty_cycle_kept_witness:
  "tx_past_hour 100 (run_log ex_run outbound_init) = 900
   \<and> rat_of_nat (tx_past_hour 100 (run_log ex_run outbound_init)) \<le> 10 / 100 * 3600000 + rat_of_nat (17 * 900)"
proof -
  have "run_end 0 ex_run \<le> 100" by (simp add: run_end_def ex_run_def ex_oe_def oe_sec_def)
  moreover have "tx_past_hour 100 (run_log ex_run outbound_init) = 900" by (simp add: ex_run_log tx_past_hour_def)
  ultimately show ?thesis using duty_cycle_kept[of 10 0 900 ex_run 100] ex_run_log(2) by (simp add: OB_MAX_def)
qed

end
