(* ===== verification/Reliable.thy ===== *)
theory Reliable
  imports Outbound
begin

text \<open>
  Sender-side reliable delivery, \<^verbatim>\<open>meshtastic_reliable.c\<close>: the table of sends that wait for an
  acknowledgement, the timer that retransmits them through the transmit queue, and what resolves them.
  What is told to other modules (the phone, the node database, the radio heads) is recorded as a list of
  actions.  The payload of a ROUTING packet is decoded by nanopb; a step takes the result.
\<close>

section \<open>State\<close>

definition PEND_MAX :: nat where "PEND_MAX = 8"
definition BROADCAST_RETRIES :: nat where "BROADCAST_RETRIES = 2"
definition MESHTASTIC_ATTACH_ALL :: u8 where "MESHTASTIC_ATTACH_ALL = 0xFF"
definition MESHTASTIC_PORT_ROUTING :: u32 where "MESHTASTIC_PORT_ROUTING = 5"

record pending =
  pe_wire :: bytes
  pe_id :: u32
  pe_to :: u32
  pe_next_due :: int
  pe_retries_left :: nat
  pe_tier :: nat
  pe_attach :: u8
  pe_channel :: u8
  pe_active :: bool

text \<open>Whom a report comes from, the message, the channel and whether it is a success; the strikes and
  credits of a route; a failed-transmission event; a retransmission handed to the radio heads.\<close>

datatype rl_act =
    Report_Phone u32 u32 u8 bool
  | Route_Failure u32
  | Route_Success u32
  | Event_Tx_Failed u32 u32
  | Fan_Out bytes nat u8

text \<open>\<open>rl_timer\<close> is the uptime the delayed work is armed for.\<close>

record reliable =
  rl_pend :: "pending list"
  rl_timer :: "int option"
  rl_out :: outbound
  rl_acts :: "rl_act list"

record rl_env =
  re_oe :: ob_env
  re_attach_modem :: "u8 \<Rightarrow> (u8 \<times> u32) option"
  re_primary_index :: u8

definition no_pending :: pending where
  "no_pending = \<lparr>pe_wire = [], pe_id = 0, pe_to = 0, pe_next_due = 0, pe_retries_left = 0, pe_tier = 0, pe_attach = 0,
     pe_channel = 0, pe_active = False\<rparr>"

definition reliable_init :: reliable where
  "reliable_init = \<lparr>rl_pend = replicate PEND_MAX no_pending, rl_timer = None, rl_out = outbound_init, rl_acts = []\<rparr>"

section \<open>Operations\<close>

text \<open>The least deadline of an active entry; \<open>None\<close> stands for \<open>INT64_MAX\<close>.\<close>

fun soonest_loop :: "int option \<Rightarrow> pending list \<Rightarrow> int option" where
  "soonest_loop best [] = best"
| "soonest_loop best (p # ps) =
     soonest_loop (if pe_active p \<and> (case best of None \<Rightarrow> True | Some s \<Rightarrow> pe_next_due p < s) then Some (pe_next_due p) else best) ps"

definition reschedule_locked :: "int \<Rightarrow> reliable \<Rightarrow> reliable" where
  "reschedule_locked now st =
     st\<lparr>rl_timer := (case soonest_loop None (rl_pend st) of None \<Rightarrow> None | Some s \<Rightarrow> Some (now + max 0 (s - now)))\<rparr>"

definition act_rl :: "rl_act \<Rightarrow> reliable \<Rightarrow> reliable" where
  "act_rl a st = st\<lparr>rl_acts := rl_acts st @ [a]\<rparr>"

definition rl_stat :: "(meshtastic_sched_stats \<Rightarrow> meshtastic_sched_stats) \<Rightarrow> reliable \<Rightarrow> reliable" where
  "rl_stat f st = st\<lparr>rl_out := (rl_out st)\<lparr>ob_sched := f (ob_sched (rl_out st))\<rparr>\<rparr>"

definition notify_failure :: "rl_env \<Rightarrow> u32 \<times> u32 \<Rightarrow> reliable \<Rightarrow> reliable" where
  "notify_failure re = (\<lambda>(pid, to) st.
     let broadcast = (to = MESHTASTIC_NODE_BROADCAST);
         st = rl_stat meshtastic_sched_stat_reliable_fail st;
         st = (if broadcast then st else act_rl (Route_Failure to) st);
         st = act_rl (Event_Tx_Failed pid to) st
     in act_rl (Report_Phone pid (if broadcast then oe_node_id (re_oe re) else to) (re_primary_index re) False) st)"

fun find_locked :: "u32 \<Rightarrow> pending list \<Rightarrow> nat option" where
  "find_locked pid [] = None"
| "find_locked pid (p # ps) = (if pe_active p \<and> pe_id p = pid then Some 0 else map_option Suc (find_locked pid ps))"

definition deactivate :: "nat \<Rightarrow> reliable \<Rightarrow> reliable" where
  "deactivate i st = st\<lparr>rl_pend := (rl_pend st)[i := (rl_pend st ! i)\<lparr>pe_active := False\<rparr>]\<rparr>"

definition resolve_locked :: "u32 \<Rightarrow> reliable \<Rightarrow> reliable \<times> bool" where
  "resolve_locked pid st =
     (case find_locked pid (rl_pend st) of None \<Rightarrow> (st, False) | Some i \<Rightarrow> (deactivate i st, True))"

definition meshtastic_reliable_pending :: "reliable \<Rightarrow> nat" where
  "meshtastic_reliable_pending st = length (filter pe_active (rl_pend st))"

definition meshtastic_reliable_reset :: "reliable \<Rightarrow> reliable" where
  "meshtastic_reliable_reset st = st\<lparr>rl_pend := map (\<lambda>p. p\<lparr>pe_active := False\<rparr>) (rl_pend st), rl_timer := None\<rparr>"

text \<open>The interval; reading the utilisation ages the rings.\<close>

definition retx_interval_ms :: "rl_env \<Rightarrow> nat \<Rightarrow> u32 \<Rightarrow> u8 \<Rightarrow> outbound \<Rightarrow> outbound \<times> u32" where
  "retx_interval_ms re wire_len override_ms attach ob =
     (if override_ms \<noteq> 0 then (ob, override_ms)
      else
        let oe = re_oe re;
            airtime = oe_packet_ms oe wire_len;
            (air, u) = meshtastic_airtime_channel_util_percent (mt_use_preset (oe_mt oe)) (mt_modem_preset (oe_mt oe))
                         (oe_sec oe) (ob_air ob);
            util = (if u < 0 then 0 else if u > 100 then 100 else u8_of_rat u);
            modem = mt_modem (oe_mt oe);
            (sf, bw) = (if attach \<noteq> 0 \<and> attach \<noteq> MESHTASTIC_ATTACH_ALL
                        then (case re_attach_modem re attach of Some m \<Rightarrow> m | None \<Rightarrow> (mp_spread_factor modem, mp_bandwidth_hz modem))
                        else (mp_spread_factor modem, mp_bandwidth_hz modem));
            slot = meshtastic_contention_effective_slot_ms (oe_cfg oe) sf bw False
        in (ob\<lparr>ob_air := air\<rparr>, meshtastic_contention_retransmit_ms airtime slot util))"

text \<open>What the send path knows of the packet it just sent.\<close>

record sent_packet =
  sp_want_ack :: bool
  sp_from :: u32
  sp_to :: u32
  sp_portnum :: u32
  sp_id :: u32
  sp_channel :: u8
  sp_wire :: bytes
  sp_attach :: u8

fun free_slot :: "pending list \<Rightarrow> nat option" where
  "free_slot [] = None"
| "free_slot (p # ps) = (if \<not> pe_active p then Some 0 else map_option Suc (free_slot ps))"

text \<open>The index of the least deadline, the first one on a tie.\<close>

fun oldest_loop :: "nat \<Rightarrow> (nat \<times> int) option \<Rightarrow> pending list \<Rightarrow> nat" where
  "oldest_loop i best [] = (case best of None \<Rightarrow> 0 | Some (s, _) \<Rightarrow> s)"
| "oldest_loop i best (p # ps) =
     oldest_loop (Suc i) (case best of None \<Rightarrow> Some (i, pe_next_due p)
        | Some (s, d) \<Rightarrow> if pe_next_due p < d then Some (i, pe_next_due p) else best) ps"

definition meshtastic_reliable_on_tx :: "rl_env \<Rightarrow> sent_packet \<Rightarrow> reliable \<Rightarrow> reliable" where
  "meshtastic_reliable_on_tx re sp st =
     (let oe = re_oe re; c = oe_cfg oe
      in if sp_wire sp = [] \<or> length (sp_wire sp) > MESHTASTIC_PKT_MAX then st
         else if \<not> sp_want_ack sp \<or> sp_from sp \<noteq> oe_node_id oe \<or> sp_to sp = oe_node_id oe \<or> sp_portnum sp = MESHTASTIC_PORT_ROUTING
         then st
         else if sc_reliable_retries c = 0 then st
         else
           let retries = (if sp_to sp = MESHTASTIC_NODE_BROADCAST then min (unat (sc_reliable_retries c)) BROADCAST_RETRIES
                          else unat (sc_reliable_retries c));
               now = oe_uptime oe
           in if find_locked (sp_id sp) (rl_pend st) \<noteq> None then st
              else
                let slot = (case free_slot (rl_pend st) of Some i \<Rightarrow> i | None \<Rightarrow> oldest_loop 0 None (rl_pend st));
                    (ob, ivl) = retx_interval_ms re (length (sp_wire sp)) (ucast (sc_reliable_timeout_ms c)) (sp_attach sp) (rl_out st);
                    p = \<lparr>pe_wire = sp_wire sp, pe_id = sp_id sp, pe_to = sp_to sp, pe_next_due = now + uint ivl,
                         pe_retries_left = retries, pe_tier = meshtastic_sched_tier_for (sp_portnum sp),
                         pe_attach = sp_attach sp, pe_channel = sp_channel sp, pe_active = True\<rparr>
                in reschedule_locked now (st\<lparr>rl_out := ob, rl_pend := (rl_pend st)[slot := p]\<rparr>))"

text \<open>A ROUTING packet; \<open>decoded\<close> is the decoded payload, whether it is an error.\<close>

definition meshtastic_reliable_on_routing :: "rl_env \<Rightarrow> u32 \<Rightarrow> u32 \<Rightarrow> u32 \<Rightarrow> bool option \<Rightarrow> reliable \<Rightarrow> reliable" where
  "meshtastic_reliable_on_routing re to from_node request_id decoded st =
     (if to \<noteq> oe_node_id (re_oe re) \<or> request_id = 0 then st
      else case decoded of
             None \<Rightarrow> st
           | Some is_nak \<Rightarrow>
               (case resolve_locked request_id st of
                  (st, False) \<Rightarrow> st
                | (st, True) \<Rightarrow>
                    let st = reschedule_locked (oe_uptime (re_oe re)) st;
                        st = act_rl (Route_Success from_node) st
                    in rl_stat (if is_nak then meshtastic_sched_stat_reliable_fail else meshtastic_sched_stat_reliable_ack) st))"

definition meshtastic_reliable_on_implicit_ack :: "rl_env \<Rightarrow> u32 \<Rightarrow> reliable \<Rightarrow> reliable" where
  "meshtastic_reliable_on_implicit_ack re pid st =
     (case find_locked pid (rl_pend st) of
        None \<Rightarrow> st
      | Some i \<Rightarrow>
          let channel = pe_channel (rl_pend st ! i);
              st = reschedule_locked (oe_uptime (re_oe re)) (deactivate i st);
              st = rl_stat meshtastic_sched_stat_reliable_ack st
          in act_rl (Report_Phone pid (oe_node_id (re_oe re)) channel True) st)"

text \<open>Retransmitting one entry.\<close>

definition retransmit :: "rl_env \<Rightarrow> pending \<Rightarrow> reliable \<Rightarrow> reliable" where
  "retransmit re p st =
     (let oe = re_oe re
      in if pe_attach p = MESHTASTIC_ATTACH_ALL
         then act_rl (Fan_Out (pe_wire p) (pe_tier p) (pe_channel p))
                (st\<lparr>rl_out := fst (meshtastic_radio_send_wire_prio oe (pe_wire p) (pe_tier p) (rl_out st))\<rparr>)
         else if pe_attach p \<noteq> 0
         then st\<lparr>rl_out := fst (meshtastic_radio_send_wire_after_on oe (pe_wire p) (pe_tier p) 0 (pe_attach p) (rl_out st))\<rparr>
         else st\<lparr>rl_out := fst (meshtastic_radio_send_wire_prio oe (pe_wire p) (pe_tier p) (rl_out st))\<rparr>)"

text \<open>The scan of the table from index \<open>i\<close>, with \<open>n\<close> entries to go; the failed sends are collected.\<close>

fun retx_scan :: "rl_env \<Rightarrow> nat \<Rightarrow> nat \<Rightarrow> (u32 \<times> u32) list \<Rightarrow> reliable \<Rightarrow> reliable \<times> (u32 \<times> u32) list" where
  "retx_scan re 0 i failed st = (st, failed)"
| "retx_scan re (Suc n) i failed st =
     (let p = rl_pend st ! i; now = oe_uptime (re_oe re)
      in if \<not> pe_active p \<or> now < pe_next_due p then retx_scan re n (Suc i) failed st
         else if pe_retries_left p = 0
         then retx_scan re n (Suc i) (failed @ [(pe_id p, pe_to p)]) (deactivate i st)
         else
           let (ob, ivl) = retx_interval_ms re (length (pe_wire p)) (ucast (sc_reliable_timeout_ms (oe_cfg (re_oe re)))) (pe_attach p) (rl_out st);
               p = p\<lparr>pe_retries_left := pe_retries_left p - 1, pe_next_due := now + uint ivl\<rparr>
           in retx_scan re n (Suc i) failed (retransmit re p (st\<lparr>rl_out := ob, rl_pend := (rl_pend st)[i := p]\<rparr>)))"

definition retx_work_fn :: "rl_env \<Rightarrow> reliable \<Rightarrow> reliable" where
  "retx_work_fn re st =
     (let (st, failed) = retx_scan re PEND_MAX 0 [] st;
          st = reschedule_locked (oe_uptime (re_oe re)) st
      in fold (notify_failure re) failed st)"

section \<open>The table under each operation\<close>

lemma act_frame [simp]: "rl_pend (act_rl a st) = rl_pend st" "rl_timer (act_rl a st) = rl_timer st"
  unfolding act_rl_def by simp_all

lemma stat_frame [simp]: "rl_pend (rl_stat f st) = rl_pend st" "rl_timer (rl_stat f st) = rl_timer st"
  unfolding rl_stat_def by simp_all

lemma notify_frame [simp]: "rl_pend (notify_failure re x st) = rl_pend st" "rl_timer (notify_failure re x st) = rl_timer st"
  unfolding notify_failure_def Let_def by (simp_all split: prod.split)

lemma fold_notify_frame [simp]:
  "rl_pend (fold (notify_failure re) xs st) = rl_pend st" "rl_timer (fold (notify_failure re) xs st) = rl_timer st"
  by (induction xs arbitrary: st) auto

lemma reschedule_frame [simp]: "rl_pend (reschedule_locked now st) = rl_pend st"
  unfolding reschedule_locked_def by simp

lemma retransmit_frame [simp]: "rl_pend (retransmit re p st) = rl_pend st"
  unfolding retransmit_def Let_def by simp

lemma deactivate_pend [simp]: "rl_pend (deactivate i st) = (rl_pend st)[i := (rl_pend st ! i)\<lparr>pe_active := False\<rparr>]"
  unfolding deactivate_def by simp

text \<open>An entry is due, and what the timer makes of it: a failure at no retries left, otherwise one retry less.\<close>

definition due :: "int \<Rightarrow> pending \<Rightarrow> bool" where
  "due now p \<longleftrightarrow> pe_active p \<and> pe_next_due p \<le> now"

definition ticked :: "int \<Rightarrow> pending \<Rightarrow> pending \<Rightarrow> bool" where
  "ticked now p p' \<longleftrightarrow>
     (if \<not> due now p then p' = p
      else if pe_retries_left p = 0 then p' = p\<lparr>pe_active := False\<rparr>
      else \<exists>d. p' = p\<lparr>pe_retries_left := pe_retries_left p - 1, pe_next_due := d\<rparr>)"

lemma retx_scan_ticks:
  assumes "i + n \<le> length (rl_pend st)"
  shows "length (rl_pend (fst (retx_scan re n i failed st))) = length (rl_pend st)
    \<and> (\<forall>j < length (rl_pend st). if i \<le> j \<and> j < i + n
         then ticked (oe_uptime (re_oe re)) (rl_pend st ! j) (rl_pend (fst (retx_scan re n i failed st)) ! j)
         else rl_pend (fst (retx_scan re n i failed st)) ! j = rl_pend st ! j)"
  using assms
proof (induction n arbitrary: i failed st)
  case (Suc n)
  let ?p = "rl_pend st ! i" and ?now = "oe_uptime (re_oe re)"
  obtain st' failed' p' where step: "retx_scan re (Suc n) i failed st = retx_scan re n (Suc i) failed' st'"
      "rl_pend st' = (rl_pend st)[i := p']" "ticked ?now ?p p'"
  proof (cases "due ?now ?p")
    case False
    then show ?thesis using that[of failed st ?p] by (simp add: due_def ticked_def not_le Let_def)
  next
    case True
    show ?thesis
    proof (cases "pe_retries_left ?p")
      case 0
      then show ?thesis using True that[of "failed @ [(pe_id ?p, pe_to ?p)]" "deactivate i st" "?p\<lparr>pe_active := False\<rparr>"]
        by (simp add: due_def ticked_def Let_def)
    next
      case (Suc m)
      obtain ob ivl where r: "retx_interval_ms re (length (pe_wire ?p)) (ucast (sc_reliable_timeout_ms (oe_cfg (re_oe re)))) (pe_attach ?p) (rl_out st) = (ob, ivl)"
        by fastforce
      let ?q = "?p\<lparr>pe_retries_left := m, pe_next_due := ?now + uint ivl\<rparr>"
      have "retx_scan re (Suc n) i failed st = retx_scan re n (Suc i) failed (retransmit re ?q (st\<lparr>rl_out := ob, rl_pend := (rl_pend st)[i := ?q]\<rparr>))"
        using True Suc by (simp add: due_def r Let_def)
      moreover have "ticked ?now ?p ?q" using True Suc by (auto simp: ticked_def)
      ultimately show ?thesis using that by fastforce
    qed
  qed
  show ?case
  proof (intro conjI allI impI)
    have len: "length (rl_pend st') = length (rl_pend st)" and pre: "Suc i + n \<le> length (rl_pend st')"
      using Suc.prems step(2) by simp_all
    note IH = Suc.IH[OF pre, of failed', unfolded len]
    show "length (rl_pend (fst (retx_scan re (Suc n) i failed st))) = length (rl_pend st)" using IH unfolding step(1) by blast
    fix j assume j: "j < length (rl_pend st)"
    show "if i \<le> j \<and> j < i + Suc n then ticked ?now (rl_pend st ! j) (rl_pend (fst (retx_scan re (Suc n) i failed st)) ! j)
        else rl_pend (fst (retx_scan re (Suc n) i failed st)) ! j = rl_pend st ! j"
      using conjunct2[OF IH, rule_format, OF j] j step(3) unfolding step(1,2) by (cases "j = i") auto
  qed
qed auto

lemma retx_work_ticks:
  assumes "length (rl_pend st) = PEND_MAX"
  shows "length (rl_pend (retx_work_fn re st)) = PEND_MAX"
    and "\<And>j. j < PEND_MAX \<Longrightarrow> ticked (oe_uptime (re_oe re)) (rl_pend st ! j) (rl_pend (retx_work_fn re st) ! j)"
  using retx_scan_ticks[of 0 PEND_MAX st re "[]"] assms unfolding retx_work_fn_def Let_def by (auto split: prod.split)

lemma soonest_loop_least:
  "case soonest_loop best ps of
     None \<Rightarrow> best = None \<and> (\<forall>p \<in> set ps. \<not> pe_active p)
   | Some s \<Rightarrow> (best = Some s \<or> (\<exists>p \<in> set ps. pe_active p \<and> pe_next_due p = s))"
proof (induction best ps rule: soonest_loop.induct)
  case (2 best p ps)
  then show ?case by (auto split: option.splits if_splits)
qed (simp split: option.split)

text \<open>The timer is armed exactly when something is pending, for a moment at which an entry is due.\<close>

definition armed :: "reliable \<Rightarrow> bool" where
  "armed st \<longleftrightarrow>
     (case rl_timer st of None \<Rightarrow> \<forall>p \<in> set (rl_pend st). \<not> pe_active p
      | Some t \<Rightarrow> \<exists>p \<in> set (rl_pend st). due t p)"

lemma reschedule_armed: "armed (reschedule_locked now st)"
  using soonest_loop_least[of None "rl_pend st"]
  unfolding armed_def reschedule_locked_def due_def by (auto split: option.splits)

lemma armed_frame [simp]: "armed (act_rl a st) = armed st" "armed (rl_stat f st) = armed st"
  unfolding armed_def by (simp_all split: option.split)

lemma armed_retx: "armed (retx_work_fn re st)"
proof -
  have "armed (fold (notify_failure re) xs (reschedule_locked now s))" for xs now s
    using reschedule_armed[of now s] unfolding armed_def by (simp split: option.splits)
  then show ?thesis unfolding retx_work_fn_def Let_def by (simp split: prod.split)
qed

section \<open>The budget of retries\<close>

definition budget1 :: "pending \<Rightarrow> nat" where
  "budget1 p = (if pe_active p then Suc (pe_retries_left p) else 0)"

definition budget :: "pending list \<Rightarrow> nat" where
  "budget ps = sum_list (map budget1 ps)"

lemma budget_update:
  assumes "i < length ps" shows "budget (ps[i := p]) + budget1 (ps ! i) = budget ps + budget1 p"
proof -
  have "budget1 (ps ! i) \<le> sum_list (map budget1 ps)" using assms by (intro member_le_sum_list) simp_all
  then show ?thesis using assms unfolding budget_def map_update by (simp add: sum_list_update)
qed

lemma ticked_budget: "ticked now p p' \<Longrightarrow> budget1 p' + (if due now p then 1 else 0) = budget1 p"
  unfolding ticked_def budget1_def due_def by (auto split: if_splits)

lemma budget_nth: "budget ps = (\<Sum>j < length ps. budget1 (ps ! j))"
  unfolding budget_def by (simp add: sum_list_sum_nth atLeast0LessThan)

lemma retx_budget:
  assumes "length (rl_pend st) = PEND_MAX" "p \<in> set (rl_pend st)" "due (oe_uptime (re_oe re)) p"
  shows "budget (rl_pend (retx_work_fn re st)) < budget (rl_pend st)"
proof -
  note t = retx_work_ticks[OF assms(1), where re = re]
  obtain k where k: "k < PEND_MAX" "p = rl_pend st ! k" using assms(1,2) by (auto simp: in_set_conv_nth)
  show ?thesis unfolding budget_nth t(1) assms(1)
  proof (rule sum_strict_mono_ex1)
    show "\<forall>j \<in> {..<PEND_MAX}. budget1 (rl_pend (retx_work_fn re st) ! j) \<le> budget1 (rl_pend st ! j)"
      using ticked_budget[OF t(2)] by (metis le_add1 lessThan_iff)
    show "\<exists>j \<in> {..<PEND_MAX}. budget1 (rl_pend (retx_work_fn re st) ! j) < budget1 (rl_pend st ! j)"
      using ticked_budget[OF t(2)[OF k(1)]] assms(3) k by (intro bexI[of _ k]) auto
  qed simp
qed

section \<open>Finding a slot\<close>

lemma find_locked_Some:
  "find_locked pid ps = Some i \<Longrightarrow> i < length ps \<and> pe_active (ps ! i) \<and> pe_id (ps ! i) = pid"
  by (induction pid ps arbitrary: i rule: find_locked.induct) (auto split: if_splits)

lemma find_locked_None: "find_locked pid ps = None \<Longrightarrow> p \<in> set ps \<Longrightarrow> pe_active p \<Longrightarrow> pe_id p \<noteq> pid"
  by (induction pid ps rule: find_locked.induct) (auto split: if_splits)

lemma free_slot_Some: "free_slot ps = Some i \<Longrightarrow> i < length ps"
  by (induction ps arbitrary: i rule: free_slot.induct) (auto split: if_splits)

lemma oldest_loop_bound:
  "(case best of None \<Rightarrow> ps \<noteq> [] | Some (s, _) \<Rightarrow> s < i + length ps) \<Longrightarrow> oldest_loop i best ps < i + length ps"
  by (induction i best ps rule: oldest_loop.induct) (auto split: option.splits if_splits)

lemma slot_bound:
  "length ps = PEND_MAX \<Longrightarrow> (case free_slot ps of Some i \<Rightarrow> i | None \<Rightarrow> oldest_loop 0 None ps) < PEND_MAX"
  using free_slot_Some[of ps] oldest_loop_bound[where best = None and ps = ps and i = 0] by (cases ps) (auto simp: PEND_MAX_def split: option.split)

section \<open>The machine\<close>

definition ids_distinct :: "pending list \<Rightarrow> bool" where
  "ids_distinct ps \<longleftrightarrow> (\<forall>i < length ps. \<forall>j < length ps. pe_active (ps ! i) \<and> pe_active (ps ! j) \<and> pe_id (ps ! i) = pe_id (ps ! j) \<longrightarrow> i = j)"

definition rel_inv :: "reliable \<Rightarrow> bool" where
  "rel_inv st \<longleftrightarrow> length (rl_pend st) = PEND_MAX \<and> ids_distinct (rl_pend st) \<and> armed st"

datatype rl_event =
    Rl_Tx sent_packet
  | Rl_Routing u32 u32 u32 "bool option"
  | Rl_Overheard u32
  | Rl_Timer
  | Rl_Reset

text \<open>The timer fires at or after the moment it is armed for.\<close>

definition fires :: "rl_env \<Rightarrow> rl_event \<Rightarrow> reliable \<Rightarrow> bool" where
  "fires re ev st \<longleftrightarrow> ev = Rl_Timer \<and> (case rl_timer st of None \<Rightarrow> False | Some t \<Rightarrow> t \<le> oe_uptime (re_oe re))"

definition rel_step :: "rl_env \<Rightarrow> rl_event \<Rightarrow> reliable \<Rightarrow> reliable" where
  "rel_step re ev st =
     (case ev of
        Rl_Tx sp \<Rightarrow> meshtastic_reliable_on_tx re sp st
      | Rl_Routing to from_node request_id decoded \<Rightarrow> meshtastic_reliable_on_routing re to from_node request_id decoded st
      | Rl_Overheard pid \<Rightarrow> meshtastic_reliable_on_implicit_ack re pid st
      | Rl_Timer \<Rightarrow> if fires re Rl_Timer st then retx_work_fn re st else st
      | Rl_Reset \<Rightarrow> meshtastic_reliable_reset st)"

fun rel_run :: "(rl_env \<times> rl_event) list \<Rightarrow> reliable \<Rightarrow> reliable" where
  "rel_run [] st = st"
| "rel_run ((re, ev) # r) st = rel_run r (rel_step re ev st)"

text \<open>A send that starts to be tracked.\<close>

definition tracks :: "rl_env \<Rightarrow> rl_event \<Rightarrow> reliable \<Rightarrow> bool" where
  "tracks re ev st \<longleftrightarrow>
     (case ev of
        Rl_Tx sp \<Rightarrow> find_locked (sp_id sp) (rl_pend st) = None \<and> find_locked (sp_id sp) (rl_pend (rel_step re ev st)) \<noteq> None
      | _ \<Rightarrow> False)"

fun count_run :: "(rl_env \<Rightarrow> rl_event \<Rightarrow> reliable \<Rightarrow> bool) \<Rightarrow> (rl_env \<times> rl_event) list \<Rightarrow> reliable \<Rightarrow> nat" where
  "count_run f [] st = 0"
| "count_run f ((re, ev) # r) st = (if f re ev st then 1 else 0) + count_run f r (rel_step re ev st)"

lemma on_tx_cases:
  assumes "sched_ok (oe_cfg (re_oe re))" "length (rl_pend st) = PEND_MAX"
  obtains "meshtastic_reliable_on_tx re sp st = st"
  | i p where "i < PEND_MAX" "rl_pend (meshtastic_reliable_on_tx re sp st) = (rl_pend st)[i := p]" "budget1 p \<le> 11"
      "find_locked (sp_id sp) (rl_pend st) = None" "pe_active p" "pe_id p = sp_id sp" "armed (meshtastic_reliable_on_tx re sp st)"
proof (cases "meshtastic_reliable_on_tx re sp st = st")
  case True
  then show ?thesis using that(1) by blast
next
  case False
  let ?c = "oe_cfg (re_oe re)" and ?now = "oe_uptime (re_oe re)"
  let ?i = "case free_slot (rl_pend st) of Some i \<Rightarrow> i | None \<Rightarrow> oldest_loop 0 None (rl_pend st)"
  obtain ob ivl where r: "retx_interval_ms re (length (sp_wire sp)) (ucast (sc_reliable_timeout_ms ?c)) (sp_attach sp) (rl_out st) = (ob, ivl)"
    by fastforce
  have n: "find_locked (sp_id sp) (rl_pend st) = None"
    using False unfolding meshtastic_reliable_on_tx_def Let_def by (auto split: if_splits)
  have "\<exists>p. meshtastic_reliable_on_tx re sp st = reschedule_locked ?now (st\<lparr>rl_out := ob, rl_pend := (rl_pend st)[?i := p]\<rparr>)
      \<and> pe_active p \<and> pe_id p = sp_id sp \<and> pe_retries_left p \<le> unat (sc_reliable_retries ?c)"
    using False n unfolding meshtastic_reliable_on_tx_def Let_def r prod.case
    by (simp only: if_False if_True simp_thms split: if_splits) (rule exI, rule conjI, rule refl, simp)+
  then obtain p where p: "meshtastic_reliable_on_tx re sp st = reschedule_locked ?now (st\<lparr>rl_out := ob, rl_pend := (rl_pend st)[?i := p]\<rparr>)"
      "pe_active p" "pe_id p = sp_id sp" "pe_retries_left p \<le> unat (sc_reliable_retries ?c)" by blast
  have "budget1 p \<le> 11" using p(4) assms(1) unfolding budget1_def sched_ok_def by simp
  then show ?thesis
    using that(2)[of ?i p] slot_bound[OF assms(2)] p n reschedule_armed by simp
qed

text \<open>An acknowledgement, explicit or overheard, ends the tracking of its send.\<close>

definition resolved :: "reliable \<Rightarrow> reliable \<Rightarrow> bool" where
  "resolved st st' \<longleftrightarrow> st' = st
     \<or> armed st' \<and> (\<exists>i < length (rl_pend st). rl_pend st' = (rl_pend st)[i := (rl_pend st ! i)\<lparr>pe_active := False\<rparr>])"

lemma ack_resolves:
  "resolved st (meshtastic_reliable_on_routing re to f q d st)" "resolved st (meshtastic_reliable_on_implicit_ack re pid st)"
proof -
  show "resolved st (meshtastic_reliable_on_routing re to f q d st)"
    using find_locked_Some[of q "rl_pend st"] reschedule_armed
    unfolding meshtastic_reliable_on_routing_def resolve_locked_def resolved_def Let_def
    by (auto split: option.split)
  show "resolved st (meshtastic_reliable_on_implicit_ack re pid st)"
    using find_locked_Some[of pid "rl_pend st"] reschedule_armed
    unfolding meshtastic_reliable_on_implicit_ack_def resolved_def Let_def
    by (auto split: option.split)
qed

lemma ids_deactivate: "ids_distinct ps \<Longrightarrow> ids_distinct (ps[i := (ps ! i)\<lparr>pe_active := False\<rparr>])"
  unfolding ids_distinct_def by (cases "i < length ps") (simp_all add: nth_list_update)

lemma ids_insert:
  assumes "ids_distinct ps" "\<forall>q \<in> set ps. pe_active q \<longrightarrow> pe_id q \<noteq> pe_id p"
  shows "ids_distinct (ps[i := p])"
  unfolding ids_distinct_def
proof (intro allI impI)
  fix a b
  assume ab: "a < length (ps[i := p])" "b < length (ps[i := p])"
    "pe_active (ps[i := p] ! a) \<and> pe_active (ps[i := p] ! b) \<and> pe_id (ps[i := p] ! a) = pe_id (ps[i := p] ! b)"
  have o: "pe_active (ps ! k) \<Longrightarrow> pe_id (ps ! k) \<noteq> pe_id p" if "k < length ps" for k using assms(2) that by simp
  show "a = b"
    using ab assms(1) o[of a] o[of b] unfolding ids_distinct_def by (cases "a = i"; cases "b = i") simp_all
qed

lemma ids_ticked:
  assumes "ids_distinct ps" "length ps' = length ps" "\<And>j. j < length ps \<Longrightarrow> ticked now (ps ! j) (ps' ! j)"
  shows "ids_distinct ps'"
proof -
  have "pe_active (ps' ! j) \<Longrightarrow> pe_active (ps ! j)" "pe_id (ps' ! j) = pe_id (ps ! j)" if "j < length ps" for j
    using assms(3)[OF that] unfolding ticked_def by (auto split: if_splits)
  then show ?thesis using assms(1,2) unfolding ids_distinct_def by metis
qed

lemma resolved_step:
  assumes "rel_inv st" "resolved st st'"
  shows "rel_inv st' \<and> budget (rl_pend st') \<le> budget (rl_pend st)"
  using assms(2) unfolding resolved_def
proof (elim disjE conjE exE)
  fix i assume "armed st'" "i < length (rl_pend st)" "rl_pend st' = (rl_pend st)[i := (rl_pend st ! i)\<lparr>pe_active := False\<rparr>]"
  then show ?thesis
    using assms(1) budget_update[of i "rl_pend st" "(rl_pend st ! i)\<lparr>pe_active := False\<rparr>"] ids_deactivate
    unfolding rel_inv_def by (simp add: budget1_def[of "_\<lparr>pe_active := False\<rparr>"])
qed (use assms(1) in simp)

lemma timer_step:
  assumes inv: "rel_inv st" and f: "fires re Rl_Timer st"
  shows "rel_inv (retx_work_fn re st) \<and> budget (rl_pend (retx_work_fn re st)) < budget (rl_pend st)"
proof -
  have len: "length (rl_pend st) = PEND_MAX" using inv unfolding rel_inv_def by blast
  note t = retx_work_ticks[OF len, where re = re]
  obtain p where "p \<in> set (rl_pend st)" "due (oe_uptime (re_oe re)) p"
    using inv f unfolding rel_inv_def armed_def fires_def due_def by (fastforce split: option.splits)
  then have "budget (rl_pend (retx_work_fn re st)) < budget (rl_pend st)" by (rule retx_budget[OF len])
  moreover have "ids_distinct (rl_pend (retx_work_fn re st))"
    using ids_ticked[of "rl_pend st" "rl_pend (retx_work_fn re st)" "oe_uptime (re_oe re)"] inv t len unfolding rel_inv_def by simp
  ultimately show ?thesis using t(1) armed_retx unfolding rel_inv_def by blast
qed

lemma tx_step:
  assumes inv: "rel_inv st" and c: "sched_ok (oe_cfg (re_oe re))" and ne: "meshtastic_reliable_on_tx re sp st \<noteq> st"
  shows "rel_inv (meshtastic_reliable_on_tx re sp st)
    \<and> budget (rl_pend (meshtastic_reliable_on_tx re sp st)) \<le> budget (rl_pend st) + 11 \<and> tracks re (Rl_Tx sp) st"
proof -
  have len: "length (rl_pend st) = PEND_MAX" using inv unfolding rel_inv_def by blast
  from on_tx_cases[OF c len] ne obtain i p where t: "i < PEND_MAX" "rl_pend (meshtastic_reliable_on_tx re sp st) = (rl_pend st)[i := p]"
      "budget1 p \<le> 11" "find_locked (sp_id sp) (rl_pend st) = None" "pe_active p" "pe_id p = sp_id sp"
      "armed (meshtastic_reliable_on_tx re sp st)"
    by metis
  have "p \<in> set ((rl_pend st)[i := p])" using t(1) len by (simp add: set_update_memI)
  then have "find_locked (sp_id sp) ((rl_pend st)[i := p]) \<noteq> None" using find_locked_None t(5,6) by blast
  moreover have "\<forall>q \<in> set (rl_pend st). pe_active q \<longrightarrow> pe_id q \<noteq> pe_id p" using find_locked_None[OF t(4)] t(6) by simp
  ultimately show ?thesis
    using inv len t budget_update[of i "rl_pend st" p] ids_insert unfolding rel_inv_def by (simp add: tracks_def rel_step_def)
qed

lemma rel_step_budget:
  assumes inv: "rel_inv st" and c: "sched_ok (oe_cfg (re_oe re))"
  shows "rel_inv (rel_step re ev st)
    \<and> budget (rl_pend (rel_step re ev st)) + (if fires re ev st then 1 else 0) \<le> budget (rl_pend st) + 11 * (if tracks re ev st then 1 else 0)"
proof (cases ev)
  case (Rl_Tx sp)
  then show ?thesis using inv tx_step[OF inv c, of sp] by (cases "meshtastic_reliable_on_tx re sp st = st") (simp_all add: rel_step_def fires_def)
next
  case (Rl_Routing to f q d)
  then show ?thesis using resolved_step[OF inv ack_resolves(1)] by (simp add: rel_step_def tracks_def fires_def)
next
  case (Rl_Overheard pid)
  then show ?thesis using resolved_step[OF inv ack_resolves(2)] by (simp add: rel_step_def tracks_def fires_def)
next
  case Rl_Timer
  then show ?thesis using inv timer_step[OF inv, of re] by (cases "fires re Rl_Timer st") (simp_all add: rel_step_def tracks_def)
next
  case Rl_Reset
  have "budget (map (\<lambda>p. p\<lparr>pe_active := False\<rparr>) ps) = 0" for ps by (induction ps) (simp_all add: budget_def budget1_def)
  then show ?thesis
    using inv Rl_Reset
    by (auto simp: rel_step_def tracks_def fires_def meshtastic_reliable_reset_def rel_inv_def ids_distinct_def armed_def)
qed

lemma rel_run_budget:
  assumes "rel_inv st" "list_all (\<lambda>(re, ev). sched_ok (oe_cfg (re_oe re))) evs"
  shows "rel_inv (rel_run evs st) \<and> budget (rl_pend (rel_run evs st)) + count_run fires evs st \<le> budget (rl_pend st) + 11 * count_run tracks evs st"
  using assms
proof (induction evs arbitrary: st)
  case (Cons e evs)
  obtain re ev where e: "e = (re, ev)" by fastforce
  then have "sched_ok (oe_cfg (re_oe re))" using Cons.prems(2) by simp
  note s = rel_step_budget[OF Cons.prems(1) this, of ev]
  show ?case using Cons.IH[OF conjunct1[OF s]] Cons.prems(2) s by (auto simp: e)
qed simp

section \<open>Properties\<close>

text \<open>C38. Retransmission ends and never stalls.  In any run from power-up the timer fires at most eleven times
  for each send that starts to be tracked (ten retries and the report of failure); a message is tracked
  at most once; and the timer is armed exactly while something is pending, so no pending send is left
  without a wake-up.\<close>

theorem reliable_terminates:
  assumes "list_all (\<lambda>(re, ev). sched_ok (oe_cfg (re_oe re))) evs"
  shows "count_run fires evs reliable_init \<le> 11 * count_run tracks evs reliable_init
    \<and> (rl_timer (rel_run evs reliable_init) = None \<longleftrightarrow> meshtastic_reliable_pending (rel_run evs reliable_init) = 0)
    \<and> ids_distinct (rl_pend (rel_run evs reliable_init))"
proof -
  have init: "rel_inv reliable_init" "budget (rl_pend reliable_init) = 0"
    by (simp_all add: rel_inv_def reliable_init_def ids_distinct_def armed_def no_pending_def budget_def budget1_def sum_list_replicate)
  note r = rel_run_budget[OF init(1) assms]
  then have "armed (rel_run evs reliable_init)" unfolding rel_inv_def by blast
  then have "rl_timer (rel_run evs reliable_init) = None \<longleftrightarrow> meshtastic_reliable_pending (rel_run evs reliable_init) = 0"
    unfolding armed_def meshtastic_reliable_pending_def due_def by (auto split: option.splits simp: filter_empty_conv)
  then show ?thesis using r init(2) unfolding rel_inv_def by simp
qed

definition ex_rl :: "int \<Rightarrow> rl_env" where
  "ex_rl t = \<lparr>re_oe = \<lparr>oe_cfg = preset_default\<lparr>sc_reliable_retries := 1, sc_reliable_timeout_ms := 5000\<rparr>, oe_uptime = t,
       oe_mt = ex_mt, oe_node_id = 7, oe_attach_ready = (\<lambda>_. False), oe_attach_tx = Inl EIO, oe_divert = Inl ENOTCONN,
       oe_scanning = False, oe_held = False, oe_receiving = False, oe_lora_config = Inr (), oe_lora_send = Inr (),
       oe_packet_ms = (\<lambda>n. 900), oe_rand = 5\<rparr>,
     re_attach_modem = (\<lambda>_. None), re_primary_index = 0\<rparr>"

definition ex_sent :: sent_packet where
  "ex_sent = \<lparr>sp_want_ack = True, sp_from = 7, sp_to = 9, sp_portnum = 1, sp_id = 42, sp_channel = 0,
     sp_wire = replicate 20 1, sp_attach = 0\<rparr>"

definition ex_lost :: "(rl_env \<times> rl_event) list" where
  "ex_lost = [(ex_rl 0, Rl_Tx ex_sent), (ex_rl 5000, Rl_Timer), (ex_rl 10000, Rl_Timer)]"

text \<open>A send with one retry that nobody answers: tracked, retransmitted, given up.\<close>

theorem reliable_terminates_witness:
  "count_run fires ex_lost reliable_init \<le> 11 * count_run tracks ex_lost reliable_init \<and> count_run tracks ex_lost reliable_init \<le> 1
    \<and> meshtastic_reliable_pending (rel_run [(ex_rl 0, Rl_Tx ex_sent)] reliable_init) = 1"
proof -
  have "list_all (\<lambda>(re, ev). sched_ok (oe_cfg (re_oe re))) ex_lost"
    by (simp add: ex_lost_def ex_rl_def sched_ok_def preset_default_def OB_DEFAULT_def OB_MAX_def OUTBOUND_QUEUE_DEPTH_def)
  moreover have "meshtastic_reliable_pending (rel_run [(ex_rl 0, Rl_Tx ex_sent)] reliable_init) = 1"
  proof -
    have init: "rl_pend reliable_init = no_pending # replicate 7 no_pending"
      by (simp add: reliable_init_def PEND_MAX_def numeral_eq_Suc)
    have none: "find_locked 42 (replicate n no_pending) = None" "\<not> pe_active no_pending" for n
      by (induction n) (simp_all add: no_pending_def)
    have "retx_interval_ms (ex_rl 0) n 5000 0 ob = (ob, 5000)" for n ob by (simp add: retx_interval_ms_def)
    then show ?thesis
      using none(1)[of 7]
      by (simp add: rel_step_def meshtastic_reliable_on_tx_def ex_rl_def ex_sent_def MESHTASTIC_PKT_MAX_def
          MESHTASTIC_PORT_ROUTING_def MESHTASTIC_NODE_BROADCAST_def init none(2) preset_default_def
          meshtastic_reliable_pending_def)
  qed
  ultimately show ?thesis using reliable_terminates[of ex_lost] by (simp add: ex_lost_def tracks_def)
qed

end
