(* ===== verification/Ring_Log.thy ===== *)
theory Ring_Log
  imports Prelude
begin

text \<open>
  Ring buffers used as logs: an entry is written at the head, which moves on by one, and readers scan every slot.
  The duplicate cache of the router and the log of overheard relayers are both of this kind.
\<close>

text \<open>The ring holds the last \<open>cap\<close> entries of the history (the most recent first) and blank slots before that.\<close>

definition ring_index :: "nat \<Rightarrow> nat \<Rightarrow> nat \<Rightarrow> nat" where
  "ring_index cap head i = (head + cap - 1 - i) mod cap"

definition ring_holds :: "nat \<Rightarrow> 'k \<Rightarrow> 'k list \<Rightarrow> nat \<Rightarrow> 'k list \<Rightarrow> bool" where
  "ring_holds cap blank slots head hist \<longleftrightarrow> length slots = cap \<and> head < cap
     \<and> (\<forall>i < cap. slots ! ring_index cap head i = (if i < length hist then hist ! i else blank))"

lemma ring_index_less: "0 < cap \<Longrightarrow> ring_index cap head i < cap"
  unfolding ring_index_def by simp

lemma ring_index_onto:
  assumes "j < cap" "head < cap"
  obtains i where "i < cap" "ring_index cap head i = j"
proof -
  let ?i = "(head + cap - 1 - j) mod cap"
  have "?i = (if j < head then head - 1 - j else head + cap - 1 - j)" using assms by (simp add: mod_if)
  then have "ring_index cap head ?i = j" unfolding ring_index_def using assms by (cases "j < head") (simp_all add: mod_if)
  moreover have "?i < cap" using assms by simp
  ultimately show thesis using that by blast
qed

lemma ring_index_put:
  assumes "head < cap" "i < cap"
  shows "ring_index cap ((head + 1) mod cap) i = (if i = 0 then head else ring_index cap head (i - 1))"
    "0 < i \<Longrightarrow> ring_index cap head (i - 1) \<noteq> head"
proof -
  have e: "(head + 1) mod cap = (if head + 1 = cap then 0 else head + 1)" using assms by simp
  have m: "(cap + k) mod cap = k mod cap" for k by simp
  show "ring_index cap ((head + 1) mod cap) i = (if i = 0 then head else ring_index cap head (i - 1))"
    unfolding ring_index_def e using assms m[of "head - i"] by (auto simp: mod_if)
  show "ring_index cap head (i - 1) \<noteq> head" if "0 < i"
    unfolding ring_index_def using assms that by (auto simp: mod_if)
qed

lemma ring_holds_put:
  assumes "ring_holds cap blank slots head hist"
  shows "ring_holds cap blank (slots[head := k]) ((head + 1) mod cap) (k # hist)"
proof -
  have h: "length slots = cap" "head < cap" using assms unfolding ring_holds_def by auto
  have "(slots[head := k]) ! ring_index cap ((head + 1) mod cap) i = (if i < length (k # hist) then (k # hist) ! i else blank)"
    if i: "i < cap" for i
  proof (cases i)
    case 0
    then show ?thesis using ring_index_put(1)[OF h(2) i] h by simp
  next
    case (Suc n)
    then have "slots ! ring_index cap head n = (if n < length hist then hist ! n else blank)"
      using assms i unfolding ring_holds_def by simp
    then show ?thesis using ring_index_put[OF h(2) i] Suc by simp
  qed
  then show ?thesis using h unfolding ring_holds_def by simp
qed

lemma ring_holds_set:
  assumes "ring_holds cap blank slots head hist"
  shows "set (take cap hist) \<subseteq> set slots" "set slots \<subseteq> set (take cap hist) \<union> {blank}"
proof -
  have h: "length slots = cap" "head < cap" using assms unfolding ring_holds_def by auto
  have g: "slots ! ring_index cap head i = (if i < length hist then hist ! i else blank)" if "i < cap" for i
    using assms that unfolding ring_holds_def by blast
  show "set (take cap hist) \<subseteq> set slots"
  proof
    fix x assume "x \<in> set (take cap hist)"
    then obtain i where "i < cap" "i < length hist" "x = hist ! i" by (auto simp: in_set_conv_nth)
    then show "x \<in> set slots" using g[of i] ring_index_less[of cap head i] h by (metis nth_mem not_less0 gr_zeroI)
  qed
  show "set slots \<subseteq> set (take cap hist) \<union> {blank}"
  proof
    fix x assume "x \<in> set slots"
    then obtain j where "j < cap" "x = slots ! j" using h by (auto simp: in_set_conv_nth)
    moreover from this(1) obtain i where "i < cap" "ring_index cap head i = j" using ring_index_onto h(2) by blast
    ultimately have "x = (if i < length hist then hist ! i else blank)" using g by blast
    then show "x \<in> set (take cap hist) \<union> {blank}" using \<open>i < cap\<close> by (auto simp: in_set_conv_nth)
  qed
qed

text \<open>The interface: \<open>put\<close> writes the key of an entry at the head, and whatever else happens to the state keeps the
  keys and the head.\<close>

locale ring_log =
  fixes put :: "'e \<Rightarrow> 's \<Rightarrow> 's" and slots :: "'s \<Rightarrow> 'k list" and head :: "'s \<Rightarrow> nat" and key :: "'e \<Rightarrow> 'k"
    and cap :: nat and blank :: 'k
  assumes put_slots: "slots (put e s) = (slots s)[head s := key e]"
    and put_head: "head (put e s) = (head s + 1) mod cap"
begin

lemma put_holds:
  "ring_holds cap blank (slots s) (head s) hist \<Longrightarrow> ring_holds cap blank (slots (put e s)) (head (put e s)) (key e # hist)"
  unfolding put_slots put_head by (rule ring_holds_put)

lemma recent_found:
  "ring_holds cap blank (slots s) (head s) hist \<Longrightarrow> k \<in> set (take cap hist) \<Longrightarrow> k \<in> set (slots s)"
  by (rule subsetD[OF ring_holds_set(1)])

lemma found_recent:
  "ring_holds cap blank (slots s) (head s) hist \<Longrightarrow> k \<in> set (slots s) \<Longrightarrow> k \<noteq> blank \<Longrightarrow> k \<in> set (take cap hist)"
  using ring_holds_set(2)[of cap blank "slots s" "head s" hist] by auto

end

end
