(* ===== verification/Pki.thy ===== *)
theory Pki
  imports Prelude
begin

text \<open>
  Public-key encryption of direct messages, \<^verbatim>\<open>meshtastic_pki.c\<close>: the peer's key, the shared AES key, the
  nonce, and the sealed box \<open>ciphertext || tag || extra nonce\<close> of a frame.  The primitives are those of the
  PSA crypto library and are parameters; \<open>None\<close> is a status other than success.
\<close>

section \<open>The crypto library\<close>

record psa_crypto =
  psa_ctr :: "bytes \<Rightarrow> bytes \<Rightarrow> bytes \<Rightarrow> bytes option"
  psa_ecdh :: "bytes \<Rightarrow> bytes \<Rightarrow> bytes option"
  psa_sha256 :: "bytes \<Rightarrow> bytes option"
  psa_seal :: "bytes \<Rightarrow> bytes \<Rightarrow> bytes \<Rightarrow> bytes option"
  psa_open :: "bytes \<Rightarrow> bytes \<Rightarrow> bytes \<Rightarrow> bytes option"

text \<open>The laws of the primitives that the frames rely on: counter mode undoes itself and keeps the length,
  key agreement is symmetric in the two key pairs (\<open>pub\<close> is the public key of a scalar), and what CCM seals
  it opens, under the same key and nonce.\<close>

definition ctr_law :: "psa_crypto \<Rightarrow> bool" where
  "ctr_law psa \<longleftrightarrow> (\<forall>k n x y. psa_ctr psa k n x = Some y \<longrightarrow> psa_ctr psa k n y = Some x \<and> length y = length x)"

definition ecdh_law :: "psa_crypto \<Rightarrow> (bytes \<Rightarrow> bytes) \<Rightarrow> bool" where
  "ecdh_law psa pub \<longleftrightarrow> (\<forall>a b. psa_ecdh psa a (pub b) = psa_ecdh psa b (pub a))"

definition ccm_law :: "psa_crypto \<Rightarrow> bool" where
  "ccm_law psa \<longleftrightarrow> (\<forall>k n x y. psa_seal psa k n x = Some y \<longrightarrow> psa_open psa k n y = Some x)"

section \<open>Keys\<close>

definition PKI_KEY_LEN :: nat where "PKI_KEY_LEN = 32"
definition PKI_TAG_LEN :: nat where "PKI_TAG_LEN = 8"
definition PKI_EXTRA_LEN :: nat where "PKI_EXTRA_LEN = 4"
definition MESHTASTIC_PKI_OVERHEAD :: nat where "MESHTASTIC_PKI_OVERHEAD = 12"

text \<open>Our scalar, when there is one; the keys of the node database; a key awaiting manual verification.\<close>

record pki_keys =
  kx_priv :: "bytes option"
  kx_pubkey :: "u32 \<Rightarrow> bytes option"
  kx_pending :: "(u32 \<times> bytes) option"

definition meshtastic_pki_have_key :: "pki_keys \<Rightarrow> bool" where
  "meshtastic_pki_have_key kx \<longleftrightarrow> kx_priv kx \<noteq> None"

definition meshtastic_pki_set_pending_key :: "u32 \<Rightarrow> bytes \<Rightarrow> pki_keys \<Rightarrow> pki_keys" where
  "meshtastic_pki_set_pending_key node key kx = (if node = 0 then kx else kx\<lparr>kx_pending := Some (node, key)\<rparr>)"

definition meshtastic_pki_get_pending_key :: "pki_keys \<Rightarrow> u32 \<Rightarrow> bytes option" where
  "meshtastic_pki_get_pending_key kx node =
     (case kx_pending kx of None \<Rightarrow> None | Some (n, key) \<Rightarrow> if node = 0 \<or> n \<noteq> node then None else Some key)"

definition meshtastic_pki_clear_pending_key :: "pki_keys \<Rightarrow> pki_keys" where
  "meshtastic_pki_clear_pending_key kx = kx\<lparr>kx_pending := None\<rparr>"

definition pki_peer_pub :: "pki_keys \<Rightarrow> u32 \<Rightarrow> bytes result" where
  "pki_peer_pub kx node =
     (case kx_pubkey kx node of
        Some key \<Rightarrow> Inr key
      | None \<Rightarrow> (case meshtastic_pki_get_pending_key kx node of Some key \<Rightarrow> Inr key | None \<Rightarrow> Inl ENOENT))"

definition pki_shared_aes_key :: "psa_crypto \<Rightarrow> bytes \<Rightarrow> bytes \<Rightarrow> bytes result" where
  "pki_shared_aes_key psa priv peer_pub =
     (case psa_ecdh psa priv peer_pub of
        None \<Rightarrow> Inl EIO
      | Some secret \<Rightarrow> (case psa_sha256 psa secret of None \<Rightarrow> Inl EIO | Some key \<Rightarrow> Inr key))"

definition meshtastic_pki_nonce_build :: "u32 \<Rightarrow> u32 \<Rightarrow> u32 \<Rightarrow> bytes" where
  "meshtastic_pki_nonce_build pid from_node extra = le_bytes pid 4 @ le_bytes extra 4 @ le_bytes from_node 4 @ [0]"

section \<open>The node's own key pair\<close>

record security_keys =
  sk_private :: bytes
  sk_public :: bytes

text \<open>No usable key stored: mint one and keep it only when it reached the flash.\<close>

definition pki_mint ::
  "(bytes \<times> bytes) option \<Rightarrow> unit result \<Rightarrow> unit result \<Rightarrow> security_keys option
     \<Rightarrow> (bytes \<times> bytes) option \<times> security_keys option \<times> unit result" where
  "pki_mint generate set_config flush stored =
     (case generate of
        None \<Rightarrow> (None, stored, Inl EIO)
      | Some (priv, pub) \<Rightarrow>
          (case set_config of
             Inl e \<Rightarrow> (None, stored, Inl e)
           | Inr _ \<Rightarrow>
               let stored = Some \<lparr>sk_private = priv, sk_public = pub\<rparr>
               in case flush of Inl e \<Rightarrow> (None, stored, Inl e) | Inr _ \<Rightarrow> (Some (priv, pub), stored, Inr ())))"

text \<open>Start-up: \<open>derive\<close> computes the public key of a scalar and \<open>generate\<close> mints a pair (both in the crypto
  library), \<open>set_config\<close> and \<open>flush\<close> are the results of storing the section and of writing it to flash.  The
  result is the pair in use (none while there is no key), the stored section and the status.\<close>

definition meshtastic_pki_init ::
  "(bytes \<Rightarrow> bytes option) \<Rightarrow> (bytes \<times> bytes) option \<Rightarrow> unit result \<Rightarrow> unit result \<Rightarrow> security_keys option
     \<Rightarrow> (bytes \<times> bytes) option \<times> security_keys option \<times> unit result" where
  "meshtastic_pki_init derive generate set_config flush stored =
     (case stored of
        Some sk \<Rightarrow>
          if length (sk_private sk) = PKI_KEY_LEN
          then (case derive (sk_private sk) of
                  None \<Rightarrow> (None, stored, Inl EIO)
                | Some pub \<Rightarrow>
                    (Some (sk_private sk, pub),
                     if sk_public sk \<noteq> pub \<and> set_config = Inr () then Some (sk\<lparr>sk_public := pub\<rparr>) else stored,
                     Inr ()))
          else pki_mint generate set_config flush stored
      | None \<Rightarrow> pki_mint generate set_config flush stored)"

text \<open>A key that was loaded is used with the public key that belongs to it, and a key that was minted is used
  only once it is stored.\<close>

lemma pki_init_consistent:
  assumes "meshtastic_pki_init derive generate set_config flush stored = (Some (priv, pub), stored', r)"
    and "\<And>a b. generate = Some (a, b) \<Longrightarrow> derive a = Some b"
  shows "derive priv = Some pub \<and> (\<exists>sk. stored' = Some sk \<and> sk_private sk = priv)"
  using assms unfolding meshtastic_pki_init_def pki_mint_def Let_def
  by (auto split: option.splits if_splits sum.splits)

section \<open>Sealing and opening\<close>

definition meshtastic_pki_decrypt_with :: "psa_crypto \<Rightarrow> pki_keys \<Rightarrow> bytes \<Rightarrow> u32 \<Rightarrow> u32 \<Rightarrow> bytes \<Rightarrow> bytes result" where
  "meshtastic_pki_decrypt_with psa kx peer_pub from_node pid enc =
     (case kx_priv kx of
        None \<Rightarrow> Inl EINVAL
      | Some priv \<Rightarrow>
          if length enc \<le> MESHTASTIC_PKI_OVERHEAD then Inl EINVAL
          else case pki_shared_aes_key psa priv peer_pub of
                 Inl e \<Rightarrow> Inl e
               | Inr aes_key \<Rightarrow>
                   let ct_tag_len = length enc - PKI_EXTRA_LEN;
                       extra = le_word (drop ct_tag_len enc);
                       nonce = meshtastic_pki_nonce_build pid from_node extra
                   in case psa_open psa aes_key nonce (take ct_tag_len enc) of None \<Rightarrow> Inl EBADMSG | Some plain \<Rightarrow> Inr plain)"

definition meshtastic_pki_decrypt :: "psa_crypto \<Rightarrow> pki_keys \<Rightarrow> u32 \<Rightarrow> u32 \<Rightarrow> bytes \<Rightarrow> bytes result" where
  "meshtastic_pki_decrypt psa kx from_node pid enc =
     (if kx_priv kx = None \<or> length enc \<le> MESHTASTIC_PKI_OVERHEAD then Inl EINVAL
      else case pki_peer_pub kx from_node of
             Inl e \<Rightarrow> Inl e
           | Inr peer_pub \<Rightarrow> meshtastic_pki_decrypt_with psa kx peer_pub from_node pid enc)"

text \<open>\<open>random\<close> is the extra nonce drawn, \<open>None\<close> when the generator fails.\<close>

definition meshtastic_pki_encrypt ::
  "psa_crypto \<Rightarrow> pki_keys \<Rightarrow> u32 option \<Rightarrow> u32 \<Rightarrow> u32 \<Rightarrow> u32 \<Rightarrow> bytes \<Rightarrow> nat \<Rightarrow> bytes result" where
  "meshtastic_pki_encrypt psa kx random to from_node pid plain out_cap =
     (case kx_priv kx of
        None \<Rightarrow> Inl EINVAL
      | Some priv \<Rightarrow>
          if out_cap < length plain + MESHTASTIC_PKI_OVERHEAD then Inl ENOSPC
          else case pki_peer_pub kx to of
                 Inl e \<Rightarrow> Inl e
               | Inr peer_pub \<Rightarrow>
                   (case pki_shared_aes_key psa priv peer_pub of
                      Inl e \<Rightarrow> Inl e
                    | Inr aes_key \<Rightarrow>
                        (case random of
                           None \<Rightarrow> Inl EIO
                         | Some extra \<Rightarrow>
                             (case psa_seal psa aes_key (meshtastic_pki_nonce_build pid from_node extra) plain of
                                None \<Rightarrow> Inl EIO
                              | Some ct_tag \<Rightarrow>
                                  if length ct_tag \<noteq> length plain + PKI_TAG_LEN then Inl EIO
                                  else Inr (ct_tag @ le_bytes extra 4)))))"

section \<open>A sealed message opens at its peer\<close>

lemma pki_encrypt_length:
  "meshtastic_pki_encrypt psa kx random to from_node pid plain cap = Inr box \<Longrightarrow>
     length box = length plain + MESHTASTIC_PKI_OVERHEAD \<and> kx_priv kx \<noteq> None"
  unfolding meshtastic_pki_encrypt_def
  by (auto simp: PKI_TAG_LEN_def MESHTASTIC_PKI_OVERHEAD_def split: option.splits sum.splits if_splits)

lemma pki_box_opens:
  assumes law: "ecdh_law psa pub" "ccm_law psa"
    and keys: "kx_priv kx = Some a" "pki_peer_pub kx to = Inr (pub b)" "kx_priv kx' = Some b" "pki_peer_pub kx' from_node = Inr (pub a)"
    and box: "meshtastic_pki_encrypt psa kx random to from_node pid plain cap = Inr box" and plain: "plain \<noteq> []"
  shows "meshtastic_pki_decrypt psa kx' from_node pid box = Inr plain"
proof -
  obtain key extra ct where c: "pki_shared_aes_key psa a (pub b) = Inr key"
      "psa_seal psa key (meshtastic_pki_nonce_build pid from_node extra) plain = Some ct" "box = ct @ le_bytes extra 4"
    using box keys unfolding meshtastic_pki_encrypt_def by (auto split: option.splits sum.splits if_splits)
  have "pki_shared_aes_key psa b (pub a) = Inr key"
    using c(1) law(1) unfolding pki_shared_aes_key_def ecdh_law_def by metis
  moreover have "psa_open psa key (meshtastic_pki_nonce_build pid from_node extra) ct = Some plain"
    using c(2) law(2) unfolding ccm_law_def by blast
  moreover have "\<not> length box \<le> MESHTASTIC_PKI_OVERHEAD" using pki_encrypt_length[OF box] plain by simp
  ultimately show ?thesis
    using keys c(3) unfolding meshtastic_pki_decrypt_def meshtastic_pki_decrypt_with_def
    by (simp add: PKI_EXTRA_LEN_def f32.dec_enc)
qed

end
