(* ===== verification/Channels.thy ===== *)
theory Channels
  imports Config_Store
begin

text \<open>
  The channel table, \<^verbatim>\<open>meshtastic_channels.c\<close>: eight slots with their keys, names and cached one-byte
  hashes, and the index of the primary slot; and the two callers that write it from
  \<^verbatim>\<open>meshtastic_config_store.c\<close>.  The active preset is read from the radio state, since an unnamed slot is
  named after it.
\<close>

section \<open>State\<close>

definition MESHTASTIC_MAX_CHANNELS :: nat where "MESHTASTIC_MAX_CHANNELS = 8"

datatype channel_role = Role_DISABLED | Role_PRIMARY | Role_SECONDARY

text \<open>A present \<open>module_settings\<close> is its position precision and whether the channel is muted.\<close>

record channel_settings =
  chs_channel_num :: u32
  chs_psk :: bytes
  chs_name :: string
  chs_id :: u32
  chs_uplink :: bool
  chs_downlink :: bool
  chs_module :: "(u32 \<times> bool) option"

record channel =
  chn_index :: nat
  chn_has_settings :: bool
  chn_settings :: channel_settings
  chn_role :: channel_role

definition no_settings :: channel_settings where
  "no_settings = \<lparr>chs_channel_num = 0, chs_psk = [], chs_name = '''', chs_id = 0, chs_uplink = False, chs_downlink = False, chs_module = None\<rparr>"

definition zero_channel :: channel where
  "zero_channel = \<lparr>chn_index = 0, chn_has_settings = False, chn_settings = no_settings, chn_role = Role_DISABLED\<rparr>"

text \<open>The slots, their hashes and the primary index, with the copies of the primary kept in the core
  context: its key, hash and name.\<close>

record channels =
  cn_slots :: "channel list"
  cn_hashes :: bytes
  cn_primary :: nat
  cn_psk :: bytes
  cn_ch_hash :: u8
  cn_channel_name :: string

section \<open>Keys and hashes\<close>

definition xor_hash_bytes :: "bytes \<Rightarrow> u8" where
  "xor_hash_bytes data = foldl (XOR) 0 data"

definition meshtastic_default_psk :: bytes where
  "meshtastic_default_psk = [0xd4, 0xf1, 0xbb, 0x3a, 0x20, 0x29, 0x07, 0x59, 0xf0, 0xbc, 0xff, 0xab, 0xcf, 0x4e, 0x69, 0x01]"

definition expand_short_psk :: "u8 \<Rightarrow> bytes" where
  "expand_short_psk psk_index =
     (if psk_index > 1 then meshtastic_default_psk[15 := meshtastic_default_psk ! 15 + (psk_index - 1)]
      else meshtastic_default_psk)"

text \<open>The key is the first \<open>key->len\<close> bytes of the buffer.  A secondary slot without a key borrows that of
  the primary; the test on the index is what ends the recursion.\<close>

function channel_get_key :: "channel list \<Rightarrow> nat \<Rightarrow> nat \<Rightarrow> bytes result" where
  "channel_get_key slots primary index =
     (if index \<ge> MESHTASTIC_MAX_CHANNELS then Inl EINVAL
      else
        let ch = slots ! index; psk = chs_psk (chn_settings ch)
        in if \<not> chn_has_settings ch \<or> chn_role ch = Role_DISABLED then Inl ENOENT
           else if psk = [] then
             (if chn_role ch = Role_SECONDARY \<and> index \<noteq> primary then channel_get_key slots primary primary else Inr [])
           else if length psk = 1 then (if psk ! 0 = 0 then Inr [] else Inr (expand_short_psk (psk ! 0)))
           else if length psk > 32 then Inl EINVAL
           else if length psk < 16 then Inr (psk @ replicate (16 - length psk) 0)
           else if length psk \<noteq> 16 \<and> length psk < 32 then Inr (psk @ replicate (32 - length psk) 0)
           else Inr psk)"
  by pat_completeness auto
termination by (relation "measure (\<lambda>(slots, primary, index). if index = primary then 0 else 1)") auto

declare channel_get_key.simps [simp del]

definition meshtastic_channels_get_name :: "mt_state \<Rightarrow> channel list \<Rightarrow> nat \<Rightarrow> string" where
  "meshtastic_channels_get_name mt slots index =
     (if index \<ge> MESHTASTIC_MAX_CHANNELS then ''''
      else if \<not> chn_has_settings (slots ! index) \<or> chs_name (chn_settings (slots ! index)) = ''''
      then meshtastic_preset_display_name (mt_modem_preset mt) (mt_use_preset mt)
      else chs_name (chn_settings (slots ! index)))"

definition name_bytes :: "string \<Rightarrow> bytes" where
  "name_bytes name = map of_char name"

definition channel_generate_hash :: "mt_state \<Rightarrow> channel list \<Rightarrow> nat \<Rightarrow> nat \<Rightarrow> u8" where
  "channel_generate_hash mt slots primary index =
     (case channel_get_key slots primary index of
        Inl _ \<Rightarrow> 0
      | Inr key \<Rightarrow>
          let h = xor_hash_bytes (name_bytes (meshtastic_channels_get_name mt slots index))
          in if key = [] then h else h XOR xor_hash_bytes key)"

section \<open>Writing the table\<close>

definition fixup_slot :: "nat \<Rightarrow> channel \<Rightarrow> channel" where
  "fixup_slot index ch =
     (let ch = ch\<lparr>chn_index := index\<rparr>;
          ch = (if \<not> chn_has_settings ch then ch\<lparr>chn_role := Role_DISABLED, chn_settings := no_settings, chn_has_settings := True\<rparr>
                else ch)
      in if chs_name (chn_settings ch) = ''Default'' then ch\<lparr>chn_settings := (chn_settings ch)\<lparr>chs_name := ''''\<rparr>\<rparr> else ch)"

definition channel_fixup :: "mt_state \<Rightarrow> nat \<Rightarrow> channels \<Rightarrow> channels" where
  "channel_fixup mt index st =
     (let slots = (cn_slots st)[index := fixup_slot index (cn_slots st ! index)]
      in st\<lparr>cn_slots := slots, cn_hashes := (cn_hashes st)[index := channel_generate_hash mt slots (cn_primary st) index]\<rparr>)"

definition set_role :: "nat \<Rightarrow> channel_role \<Rightarrow> channels \<Rightarrow> channels" where
  "set_role i role st = st\<lparr>cn_slots := (cn_slots st)[i := (cn_slots st ! i)\<lparr>chn_role := role\<rparr>]\<rparr>"

definition demote_one :: "mt_state \<Rightarrow> nat \<Rightarrow> nat \<Rightarrow> channels \<Rightarrow> channels" where
  "demote_one mt index i st =
     (if i = index then st
      else if chn_role (cn_slots st ! i) = Role_PRIMARY then channel_fixup mt i (set_role i Role_SECONDARY st)
      else st)"

definition demote_other_primary :: "mt_state \<Rightarrow> nat \<Rightarrow> channels \<Rightarrow> channels" where
  "demote_other_primary mt index st = fold (demote_one mt index) [0..<MESHTASTIC_MAX_CHANNELS] st"

definition default_primary :: "nat \<Rightarrow> channel" where
  "default_primary index =
     \<lparr>chn_index = index, chn_has_settings = True,
      chn_settings = no_settings\<lparr>chs_psk := [1], chs_uplink := True, chs_downlink := True, chs_module := Some (13, False)\<rparr>,
      chn_role = Role_PRIMARY\<rparr>"

definition seed_default_primary :: "mt_state \<Rightarrow> nat \<Rightarrow> channels \<Rightarrow> channels" where
  "seed_default_primary mt index st = channel_fixup mt index (st\<lparr>cn_slots := (cn_slots st)[index := default_primary index]\<rparr>)"

definition find_primary :: "nat option \<Rightarrow> channel list \<Rightarrow> nat option" where
  "find_primary acc slots =
     foldl (\<lambda>p i. if chn_role (slots ! i) = Role_PRIMARY then Some i else p) acc [0..<MESHTASTIC_MAX_CHANNELS]"

definition enforce_primary_invariant :: "mt_state \<Rightarrow> channels \<Rightarrow> channels" where
  "enforce_primary_invariant mt st =
     (case find_primary None (cn_slots st) of
        Some i \<Rightarrow> st\<lparr>cn_primary := i\<rparr>
      | None \<Rightarrow>
          if chn_role (cn_slots st ! cn_primary st) = Role_SECONDARY
          then channel_fixup mt (cn_primary st) (set_role (cn_primary st) Role_PRIMARY st)
          else (seed_default_primary mt 0 st)\<lparr>cn_primary := 0\<rparr>)"

text \<open>The copies of the primary in the core context.\<close>

definition refresh_primary :: "mt_state \<Rightarrow> channels \<Rightarrow> channels" where
  "refresh_primary mt st =
     (let st = (case channel_get_key (cn_slots st) (cn_primary st) (cn_primary st) of Inl _ \<Rightarrow> st | Inr key \<Rightarrow> st\<lparr>cn_psk := key\<rparr>)
      in st\<lparr>cn_ch_hash := cn_hashes st ! cn_primary st,
            cn_channel_name := meshtastic_channels_get_name mt (cn_slots st) (cn_primary st)\<rparr>)"

definition meshtastic_channels_init_defaults :: "mt_state \<Rightarrow> channels" where
  "meshtastic_channels_init_defaults mt =
     fold (\<lambda>i st. channel_fixup mt i (st\<lparr>cn_slots := (cn_slots st)[i := zero_channel\<lparr>chn_has_settings := True\<rparr>]\<rparr>))
       [1..<MESHTASTIC_MAX_CHANNELS]
       (seed_default_primary mt 0
         \<lparr>cn_slots = replicate MESHTASTIC_MAX_CHANNELS zero_channel, cn_hashes = replicate MESHTASTIC_MAX_CHANNELS 0,
          cn_primary = 0, cn_psk = [], cn_ch_hash = 0, cn_channel_name = ''''\<rparr>)"

definition meshtastic_channels_set_slot :: "mt_state \<Rightarrow> nat \<Rightarrow> channel \<Rightarrow> channels \<Rightarrow> channels result" where
  "meshtastic_channels_set_slot mt index channel st =
     (if index \<ge> MESHTASTIC_MAX_CHANNELS then Inl EINVAL
      else
        let st = st\<lparr>cn_slots := (cn_slots st)[index := channel\<lparr>chn_index := index\<rparr>]\<rparr>;
            st = (if chn_role channel = Role_PRIMARY then demote_other_primary mt index (st\<lparr>cn_primary := index\<rparr>) else st);
            st = channel_fixup mt index st;
            st = enforce_primary_invariant mt st
        in Inr (refresh_primary mt st))"

definition meshtastic_channels_refresh_derived :: "mt_state \<Rightarrow> channels \<Rightarrow> channels" where
  "meshtastic_channels_refresh_derived mt st = refresh_primary mt (fold (channel_fixup mt) [0..<MESHTASTIC_MAX_CHANNELS] st)"

text \<open>The application's configuration, over the defaults; the well-known key stays in its one-byte form.\<close>

definition meshtastic_channels_init_from_config :: "mt_state \<Rightarrow> string option \<Rightarrow> bytes \<Rightarrow> channels" where
  "meshtastic_channels_init_from_config mt channel_name psk =
     (let st = meshtastic_channels_init_defaults mt;
          cs = chn_settings (cn_slots st ! 0);
          cs = (case channel_name of None \<Rightarrow> cs | Some name \<Rightarrow> cs\<lparr>chs_name := take 11 name\<rparr>);
          cs = (if psk \<noteq> meshtastic_default_psk then cs\<lparr>chs_psk := psk\<rparr> else cs);
          st = channel_fixup mt 0 (st\<lparr>cn_slots := (cn_slots st)[0 := (cn_slots st ! 0)\<lparr>chn_settings := cs\<rparr>]\<rparr>)
      in st\<lparr>cn_ch_hash := cn_hashes st ! cn_primary st, cn_psk := psk,
            cn_channel_name := meshtastic_channels_get_name mt (cn_slots st) (cn_primary st)\<rparr>)"

section \<open>Reading the table\<close>

definition meshtastic_channels_get_hash :: "channels \<Rightarrow> nat \<Rightarrow> u8" where
  "meshtastic_channels_get_hash st index = (if index \<ge> MESHTASTIC_MAX_CHANNELS then 0 else cn_hashes st ! index)"

definition meshtastic_channels_decrypt_for_hash :: "channels \<Rightarrow> nat \<Rightarrow> u8 \<Rightarrow> bool" where
  "meshtastic_channels_decrypt_for_hash st index wire_hash = (index < MESHTASTIC_MAX_CHANNELS \<and> cn_hashes st ! index = wire_hash)"

definition MODEM_PRESET_MAX :: u32 where "MODEM_PRESET_MAX = PRESET_MEDIUM_TURBO"

definition meshtastic_channels_hash_for_preset :: "mt_state \<Rightarrow> channels \<Rightarrow> nat \<Rightarrow> u32 \<Rightarrow> u8" where
  "meshtastic_channels_hash_for_preset mt st index preset =
     (if index \<ge> MESHTASTIC_MAX_CHANNELS then 0
      else
        let ch = cn_slots st ! index; name = chs_name (chn_settings ch)
        in if chn_has_settings ch \<and> name \<noteq> '''' \<and> name \<noteq> meshtastic_preset_display_name (mt_modem_preset mt) True
              \<or> preset > MODEM_PRESET_MAX \<or> preset = mt_modem_preset mt
           then cn_hashes st ! index
           else case channel_get_key (cn_slots st) (cn_primary st) index of
                  Inl _ \<Rightarrow> 0
                | Inr key \<Rightarrow>
                    let h = xor_hash_bytes (name_bytes (meshtastic_preset_display_name preset True))
                    in if key = [] then h else h XOR xor_hash_bytes key)"

definition meshtastic_channels_named_for_preset :: "mt_state \<Rightarrow> channels \<Rightarrow> nat \<Rightarrow> u32 \<Rightarrow> bool" where
  "meshtastic_channels_named_for_preset mt st index preset =
     (if index \<ge> MESHTASTIC_MAX_CHANNELS \<or> preset > MODEM_PRESET_MAX \<or> preset = mt_modem_preset mt then False
      else
        let ch = cn_slots st ! index
        in if chn_role ch = Role_DISABLED \<or> \<not> chn_has_settings ch \<or> chs_name (chn_settings ch) = '''' then False
           else chs_name (chn_settings ch) = meshtastic_preset_display_name preset True)"

definition presets_upto_max :: "u32 list" where
  "presets_upto_max = map of_nat [0..<Suc (unat MODEM_PRESET_MAX)]"

definition preset_named :: "string \<Rightarrow> bool" where
  "preset_named name = list_ex (\<lambda>p. name = meshtastic_preset_display_name p True) presets_upto_max"

definition meshtastic_channels_custom_named :: "channels \<Rightarrow> nat \<Rightarrow> bool" where
  "meshtastic_channels_custom_named st index =
     (if index \<ge> MESHTASTIC_MAX_CHANNELS then False
      else
        let ch = cn_slots st ! index
        in if chn_role ch = Role_DISABLED \<or> \<not> chn_has_settings ch \<or> chs_name (chn_settings ch) = '''' then False
           else \<not> preset_named (chs_name (chn_settings ch)))"

definition meshtastic_channels_decrypt_for_hash_on :: "mt_state \<Rightarrow> channels \<Rightarrow> nat \<Rightarrow> u8 \<Rightarrow> u32 \<Rightarrow> bool" where
  "meshtastic_channels_decrypt_for_hash_on mt st index wire_hash preset =
     (index < MESHTASTIC_MAX_CHANNELS \<and> meshtastic_channels_hash_for_preset mt st index preset = wire_hash)"

definition meshtastic_channels_is_default :: "mt_state \<Rightarrow> channels \<Rightarrow> nat \<Rightarrow> bool" where
  "meshtastic_channels_is_default mt st index =
     (if index \<ge> MESHTASTIC_MAX_CHANNELS \<or> chn_role (cn_slots st ! index) = Role_DISABLED then False
      else if meshtastic_channels_get_name mt (cn_slots st) index
              \<noteq> meshtastic_preset_display_name (mt_modem_preset mt) (mt_use_preset mt) then False
      else channel_get_key (cn_slots st) (cn_primary st) index = Inr meshtastic_default_psk)"

definition meshtastic_channels_is_well_known :: "mt_state \<Rightarrow> channels \<Rightarrow> nat \<Rightarrow> bool" where
  "meshtastic_channels_is_well_known mt st index =
     (if index \<ge> MESHTASTIC_MAX_CHANNELS \<or> chn_role (cn_slots st ! index) = Role_DISABLED
         \<or> \<not> chn_has_settings (cn_slots st ! index) then False
      else if length (chs_psk (chn_settings (cn_slots st ! index))) > 1
              \<and> (case channel_get_key (cn_slots st) (cn_primary st) index of
                   Inl _ \<Rightarrow> True
                 | Inr key \<Rightarrow> key \<noteq> [] \<and> (length key \<noteq> 16 \<or> take 15 key \<noteq> take 15 meshtastic_default_psk
                                          \<or> key ! 15 < 0x01 \<or> key ! 15 > 0x0A)) then False
      else preset_named (meshtastic_channels_get_name mt (cn_slots st) index))"

definition meshtastic_channels_is_public_default :: "mt_state \<Rightarrow> channels \<Rightarrow> nat \<Rightarrow> bool" where
  "meshtastic_channels_is_public_default mt st index =
     (if index \<ge> MESHTASTIC_MAX_CHANNELS \<or> chn_role (cn_slots st ! index) = Role_DISABLED then False
      else if channel_get_key (cn_slots st) (cn_primary st) index \<noteq> Inr meshtastic_default_psk then False
      else preset_named (meshtastic_channels_get_name mt (cn_slots st) index))"

text \<open>The channel a peer was last heard on comes from the node database, \<open>None\<close> when it is not known there.\<close>

definition meshtastic_channels_resolve_send_index :: "(u32 \<Rightarrow> u8 option) \<Rightarrow> channels \<Rightarrow> u32 \<Rightarrow> nat \<Rightarrow> u8 \<Rightarrow> nat" where
  "meshtastic_channels_resolve_send_index peer_channel st dest channel_index wire_hash =
     (if channel_index < MESHTASTIC_MAX_CHANNELS \<and> chn_role (cn_slots st ! channel_index) \<noteq> Role_DISABLED then channel_index
      else
        case (if wire_hash \<noteq> 0 then find (\<lambda>i. meshtastic_channels_decrypt_for_hash st i wire_hash) [0..<MESHTASTIC_MAX_CHANNELS]
              else None) of
          Some i \<Rightarrow> i
        | None \<Rightarrow>
            (case (if dest \<noteq> 0 \<and> dest \<noteq> MESHTASTIC_NODE_BROADCAST then peer_channel dest else None) of
               None \<Rightarrow> cn_primary st
             | Some c \<Rightarrow>
                 if c \<noteq> 0 \<and> unat c < MESHTASTIC_MAX_CHANNELS \<and> chn_role (cn_slots st ! unat c) \<noteq> Role_DISABLED then unat c
                 else cn_primary st))"

definition slot_enabled :: "channels \<Rightarrow> nat \<Rightarrow> bool" where
  "slot_enabled st index \<longleftrightarrow> index < MESHTASTIC_MAX_CHANNELS \<and> chn_role (cn_slots st ! index) \<noteq> Role_DISABLED
     \<and> chn_has_settings (cn_slots st ! index)"

definition meshtastic_channels_uplink_enabled :: "channels \<Rightarrow> nat \<Rightarrow> bool" where
  "meshtastic_channels_uplink_enabled st index = (slot_enabled st index \<and> chs_uplink (chn_settings (cn_slots st ! index)))"

definition meshtastic_channels_downlink_enabled :: "channels \<Rightarrow> nat \<Rightarrow> bool" where
  "meshtastic_channels_downlink_enabled st index = (slot_enabled st index \<and> chs_downlink (chn_settings (cn_slots st ! index)))"

definition meshtastic_channels_matches_mqtt_name :: "mt_state \<Rightarrow> channels \<Rightarrow> string \<Rightarrow> bool" where
  "meshtastic_channels_matches_mqtt_name mt st channel_id =
     list_ex (\<lambda>i. chn_role (cn_slots st ! i) \<noteq> Role_DISABLED \<and> channel_id = meshtastic_channels_get_name mt (cn_slots st) i)
       [0..<MESHTASTIC_MAX_CHANNELS]"

definition ROLE_CLIENT_MUTE :: u32 where "ROLE_CLIENT_MUTE = 1"
definition REBROADCAST_LOCAL_ONLY :: u32 where "REBROADCAST_LOCAL_ONLY = 2"
definition REBROADCAST_KNOWN_ONLY :: u32 where "REBROADCAST_KNOWN_ONLY = 3"
definition REBROADCAST_NONE :: u32 where "REBROADCAST_NONE = 4"
definition REBROADCAST_CORE_PORTNUMS_ONLY :: u32 where "REBROADCAST_CORE_PORTNUMS_ONLY = 5"

definition meshtastic_is_rebroadcaster :: "mt_state \<Rightarrow> bool" where
  "meshtastic_is_rebroadcaster mt \<longleftrightarrow> mt_device_role mt \<noteq> ROLE_CLIENT_MUTE \<and> mt_rebroadcast_mode mt \<noteq> REBROADCAST_NONE"

definition meshtastic_decode_known_only :: "mt_state \<Rightarrow> (u32 \<Rightarrow> bool) \<Rightarrow> u32 \<Rightarrow> bool" where
  "meshtastic_decode_known_only mt known from_node = (mt_rebroadcast_mode mt \<noteq> REBROADCAST_KNOWN_ONLY \<or> known from_node)"

section \<open>The writers of the configuration store\<close>

definition channel_is_valid :: "channel \<Rightarrow> bool" where
  "channel_is_valid ch \<longleftrightarrow> length (chs_psk (chn_settings ch)) \<in> {0, 1, 16, 32}"

text \<open>Setting one channel: the stored copy, then the live table.  What follows (the retune, the save) is
  outside.\<close>

definition meshtastic_config_store_set_channel ::
  "bool \<Rightarrow> mt_state \<Rightarrow> nat \<Rightarrow> channel \<Rightarrow> channel list \<times> channels \<Rightarrow> (channel list \<times> channels) result" where
  "meshtastic_config_store_set_channel head mt index channel = (\<lambda>(stored, st).
     if head then Inl EPERM
     else if index \<ge> MESHTASTIC_MAX_CHANNELS \<or> \<not> channel_is_valid channel then Inl EINVAL
     else case meshtastic_channels_set_slot mt index channel st of
            Inl e \<Rightarrow> Inl e
          | Inr st' \<Rightarrow> Inr (stored[index := channel\<lparr>chn_index := index\<rparr>], st'))"

text \<open>Applying the stored table, at boot and after every configuration edit: slot by slot.\<close>

definition apply_slot :: "mt_state \<Rightarrow> channel list \<Rightarrow> nat \<Rightarrow> channels \<Rightarrow> channels" where
  "apply_slot mt stored i st = (case meshtastic_channels_set_slot mt i (stored ! i) st of Inl _ \<Rightarrow> st | Inr st' \<Rightarrow> st')"

definition apply_channels :: "mt_state \<Rightarrow> channel list \<Rightarrow> channels \<Rightarrow> channels" where
  "apply_channels mt stored st = fold (apply_slot mt stored) [0..<MESHTASTIC_MAX_CHANNELS] st"

section \<open>Keys and hashes of one slot\<close>

text \<open>A slot that does not borrow has a key and a hash of its own, whatever the rest of the table.\<close>

definition own_key :: "channel \<Rightarrow> bool" where
  "own_key ch \<longleftrightarrow> chn_role ch \<noteq> Role_SECONDARY \<or> chs_psk (chn_settings ch) \<noteq> []"

definition slot_hash :: "mt_state \<Rightarrow> channel \<Rightarrow> u8" where
  "slot_hash mt ch = channel_generate_hash mt (replicate MESHTASTIC_MAX_CHANNELS ch) 0 0"

lemma max_channels [simp]: "MESHTASTIC_MAX_CHANNELS = 8" by (simp add: MESHTASTIC_MAX_CHANNELS_def)

lemma own_key_local:
  assumes "own_key ch" "slots ! i = ch" "slots' ! j = ch" "i < MESHTASTIC_MAX_CHANNELS" "j < MESHTASTIC_MAX_CHANNELS"
  shows "channel_get_key slots p i = channel_get_key slots' q j"
  using assms unfolding own_key_def by (subst (1 2) channel_get_key.simps) (auto simp: Let_def)

lemma own_hash:
  assumes "own_key (slots ! i)" "i < MESHTASTIC_MAX_CHANNELS"
  shows "channel_generate_hash mt slots p i = slot_hash mt (slots ! i)"
proof -
  have "channel_get_key slots p i = channel_get_key (replicate MESHTASTIC_MAX_CHANNELS (slots ! i)) 0 0"
    by (rule own_key_local[OF assms(1)]) (use assms(2) in simp_all)
  moreover have "meshtastic_channels_get_name mt slots i = meshtastic_channels_get_name mt (replicate MESHTASTIC_MAX_CHANNELS (slots ! i)) 0"
    using assms(2) unfolding meshtastic_channels_get_name_def by simp
  ultimately show ?thesis unfolding slot_hash_def channel_generate_hash_def by (simp only:)
qed

lemma primary_key_local: "chn_role ch = Role_PRIMARY \<Longrightarrow> own_key ch" by (simp add: own_key_def)

section \<open>The invariant of the table\<close>

text \<open>\<open>settled S F\<close>: the slots of \<open>S\<close> have settings and the cached hashes of \<open>F\<close> are current for every slot with
  a key of its own.\<close>

definition settled :: "mt_state \<Rightarrow> nat set \<Rightarrow> nat set \<Rightarrow> channels \<Rightarrow> bool" where
  "settled mt S F st \<longleftrightarrow> length (cn_slots st) = 8 \<and> length (cn_hashes st) = 8 \<and> cn_primary st < 8
     \<and> (\<forall>i \<in> S. i < 8 \<longrightarrow> chn_has_settings (cn_slots st ! i))
     \<and> (\<forall>i \<in> F. i < 8 \<and> own_key (cn_slots st ! i) \<longrightarrow> cn_hashes st ! i = slot_hash mt (cn_slots st ! i))"

abbreviation role_at :: "channels \<Rightarrow> nat \<Rightarrow> channel_role" where
  "role_at st i \<equiv> chn_role (cn_slots st ! i)"

lemma settled_write:
  "settled mt S F st \<Longrightarrow> settled mt (S - {i}) (F - {i}) (st\<lparr>cn_slots := (cn_slots st)[i := ch]\<rparr>)"
  unfolding settled_def by simp

lemma settled_mono: "settled mt S F st \<Longrightarrow> S' \<subseteq> S \<Longrightarrow> F' \<subseteq> F \<Longrightarrow> settled mt S' F' st"
  unfolding settled_def by blast

lemma fixup_role [simp]: "chn_role (fixup_slot i ch) = (if chn_has_settings ch then chn_role ch else Role_DISABLED)"
  and fixup_settings [simp]: "chn_has_settings (fixup_slot i ch)"
  unfolding fixup_slot_def by (simp_all add: Let_def)

lemma settled_fixup:
  assumes "settled mt S F st" "i < 8"
  shows "settled mt (insert i S) (insert i F) (channel_fixup mt i st)"
  using assms own_hash[where slots = "(cn_slots st)[i := fixup_slot i (cn_slots st ! i)]" and i = i]
  unfolding settled_def channel_fixup_def Let_def by (auto simp: nth_list_update)

lemma fixup_roles:
  "length (cn_slots st) = 8 \<Longrightarrow> i < 8 \<Longrightarrow> role_at (channel_fixup mt i st) j
     = (if j = i then (if chn_has_settings (cn_slots st ! i) then role_at st i else Role_DISABLED) else role_at st j)"
  "cn_primary (channel_fixup mt i st) = cn_primary st"
  unfolding channel_fixup_def Let_def by simp_all

text \<open>Writing a slot and fixing it up.\<close>

lemma settled_rewrite:
  assumes "settled mt S F st" "i < 8"
  shows "settled mt (insert i S) (insert i F) (channel_fixup mt i (st\<lparr>cn_slots := (cn_slots st)[i := ch]\<rparr>))"
  by (rule settled_mono[OF settled_fixup[OF settled_write[OF assms(1)] assms(2)]]) auto

lemma rewrite_roles:
  assumes "settled mt S F st" "i < 8"
  shows "role_at (channel_fixup mt i (st\<lparr>cn_slots := (cn_slots st)[i := ch]\<rparr>)) j
     = (if j = i then (if chn_has_settings ch then chn_role ch else Role_DISABLED) else role_at st j)"
  using assms unfolding settled_def by (subst fixup_roles) auto

definition demoted :: "mt_state \<Rightarrow> nat set \<Rightarrow> nat set \<Rightarrow> nat \<Rightarrow> nat set \<Rightarrow> channels \<Rightarrow> channels \<Rightarrow> bool" where
  "demoted mt S F index D st st' \<longleftrightarrow> settled mt S F st' \<and> cn_primary st' = cn_primary st
     \<and> cn_slots st' ! index = cn_slots st ! index
     \<and> (\<forall>j < 8. j \<noteq> index \<longrightarrow> role_at st' j = Role_PRIMARY \<longrightarrow> role_at st j = Role_PRIMARY \<and> j \<notin> D)"

lemma demote_one_step:
  assumes "demoted mt S F index D st st'" "i < 8"
  shows "demoted mt S F index (insert i D) st (demote_one mt index i st')"
proof (cases "i = index \<or> role_at st' i \<noteq> Role_PRIMARY")
  case True
  then show ?thesis using assms unfolding demoted_def demote_one_def by auto
next
  case False
  let ?ch = "(cn_slots st' ! i)\<lparr>chn_role := Role_SECONDARY\<rparr>"
  have s: "settled mt S F st'" using assms(1) unfolding demoted_def by blast
  have eq: "demote_one mt index i st' = channel_fixup mt i (st'\<lparr>cn_slots := (cn_slots st')[i := ?ch]\<rparr>)"
    using False unfolding demote_one_def set_role_def by simp
  have "settled mt S F (demote_one mt index i st')" unfolding eq by (rule settled_mono[OF settled_rewrite[OF s assms(2)]]) auto
  moreover have "cn_slots (demote_one mt index i st') ! index = cn_slots st' ! index"
    using False unfolding eq channel_fixup_def Let_def by simp
  moreover have "role_at (demote_one mt index i st') j = Role_PRIMARY \<Longrightarrow> role_at st' j = Role_PRIMARY \<and> j \<noteq> i" for j
    unfolding eq rewrite_roles[OF s assms(2)] by (auto split: if_splits)
  ultimately show ?thesis using assms(1) unfolding demoted_def eq fixup_roles(2) by auto
qed

lemma demote_fold:
  "demoted mt S F index D st st' \<Longrightarrow> \<forall>i \<in> set xs. i < 8 \<Longrightarrow> demoted mt S F index (D \<union> set xs) st (fold (demote_one mt index) xs st')"
proof (induction xs arbitrary: st' D)
  case (Cons i xs)
  then show ?case using demote_one_step[OF Cons.prems(1), of i] by simp (metis Un_insert_left Un_insert_right)
qed simp

lemma demote_other:
  assumes "settled mt S F st"
  shows "demoted mt S F index {..<8} st (demote_other_primary mt index st)"
  using demote_fold[of mt S F index "{}" st st "[0..<8]"] assms
  unfolding demote_other_primary_def demoted_def by (simp add: atLeast0LessThan)

section \<open>Exactly one primary\<close>

definition one_primary :: "channels \<Rightarrow> bool" where
  "one_primary st \<longleftrightarrow> (\<forall>i < 8. role_at st i = Role_PRIMARY \<longleftrightarrow> i = cn_primary st)"

lemma find_primary_spec:
  "case find_primary None slots of
     Some i \<Rightarrow> i < 8 \<and> chn_role (slots ! i) = Role_PRIMARY
   | None \<Rightarrow> \<forall>i < 8. chn_role (slots ! i) \<noteq> Role_PRIMARY"
  unfolding find_primary_def by (simp add: upt_rec[of _ 8] numeral_eq_Suc All_less_Suc)

lemma enforce_one_primary:
  assumes s: "settled mt UNIV F st"
    and one: "\<And>i j. i < 8 \<Longrightarrow> j < 8 \<Longrightarrow> role_at st i = Role_PRIMARY \<Longrightarrow> role_at st j = Role_PRIMARY \<Longrightarrow> i = j"
  shows "settled mt UNIV F (enforce_primary_invariant mt st) \<and> one_primary (enforce_primary_invariant mt st)"
proof (cases "find_primary None (cn_slots st)")
  case (Some i)
  then have "i < 8" "role_at st i = Role_PRIMARY" using find_primary_spec[of "cn_slots st"] by auto
  then have "\<forall>j < 8. role_at st j = Role_PRIMARY \<longleftrightarrow> j = i" using one by metis
  moreover have "enforce_primary_invariant mt st = st\<lparr>cn_primary := i\<rparr>" using Some unfolding enforce_primary_invariant_def by simp
  ultimately show ?thesis using s \<open>i < 8\<close> unfolding one_primary_def settled_def by simp
next
  case None
  then have no: "\<And>i. i < 8 \<Longrightarrow> role_at st i \<noteq> Role_PRIMARY" using find_primary_spec[of "cn_slots st"] by auto
  have p: "cn_primary st < 8" "chn_has_settings (cn_slots st ! cn_primary st)" using s unfolding settled_def by auto
  show ?thesis
  proof (cases "role_at st (cn_primary st) = Role_SECONDARY")
    case True
    let ?ch = "(cn_slots st ! cn_primary st)\<lparr>chn_role := Role_PRIMARY\<rparr>"
    have eq: "enforce_primary_invariant mt st
        = channel_fixup mt (cn_primary st) (st\<lparr>cn_slots := (cn_slots st)[cn_primary st := ?ch]\<rparr>)"
      using None True unfolding enforce_primary_invariant_def set_role_def by simp
    show ?thesis
      unfolding eq one_primary_def rewrite_roles[OF s p(1)]
      using settled_mono[OF settled_rewrite[OF s p(1), of ?ch], of UNIV F] no p(2) by (auto simp: fixup_roles)
  next
    case False
    let ?st = "channel_fixup mt 0 (st\<lparr>cn_slots := (cn_slots st)[0 := default_primary 0]\<rparr>)"
    have eq: "enforce_primary_invariant mt st = ?st\<lparr>cn_primary := 0\<rparr>"
      using None False unfolding enforce_primary_invariant_def seed_default_primary_def by simp
    have "settled mt UNIV F ?st" by (rule settled_mono[OF settled_rewrite[OF s]]) auto
    then have "settled mt UNIV F (?st\<lparr>cn_primary := 0\<rparr>)" unfolding settled_def by simp
    then show ?thesis
      unfolding eq one_primary_def using rewrite_roles[OF s, of 0 "default_primary 0"] no by (auto simp: default_primary_def)
  qed
qed

definition chan_inv :: "mt_state \<Rightarrow> nat set \<Rightarrow> channels \<Rightarrow> bool" where
  "chan_inv mt F st \<longleftrightarrow> settled mt UNIV F st \<and> one_primary st"

definition cached :: "mt_state \<Rightarrow> channels \<Rightarrow> bool" where
  "cached mt st \<longleftrightarrow> cn_ch_hash st = cn_hashes st ! cn_primary st
     \<and> cn_channel_name st = meshtastic_channels_get_name mt (cn_slots st) (cn_primary st)"

lemma refresh_primary_frame [simp]:
  "cn_slots (refresh_primary mt st) = cn_slots st" "cn_hashes (refresh_primary mt st) = cn_hashes st"
  "cn_primary (refresh_primary mt st) = cn_primary st" "cached mt (refresh_primary mt st)"
  unfolding refresh_primary_def cached_def by (simp_all split: sum.split)

lemma chan_inv_refresh [simp]: "chan_inv mt F (refresh_primary mt st) = chan_inv mt F st"
  unfolding chan_inv_def settled_def one_primary_def by simp

text \<open>The table of \<open>set_slot\<close> before the primary is re-established.\<close>

definition edited :: "mt_state \<Rightarrow> nat \<Rightarrow> channel \<Rightarrow> channels \<Rightarrow> channels" where
  "edited mt i ch st = channel_fixup mt i
     (let w = st\<lparr>cn_slots := (cn_slots st)[i := ch\<lparr>chn_index := i\<rparr>]\<rparr>
      in if chn_role ch = Role_PRIMARY then demote_other_primary mt i (w\<lparr>cn_primary := i\<rparr>) else w)"

lemma set_slot_edited:
  "i < 8 \<Longrightarrow> meshtastic_channels_set_slot mt i ch st = Inr (refresh_primary mt (enforce_primary_invariant mt (edited mt i ch st)))"
  unfolding meshtastic_channels_set_slot_def edited_def Let_def by simp

lemma edited_roles:
  assumes inv: "chan_inv mt F st" and i: "i < 8"
  shows "settled mt UNIV (insert i F) (edited mt i ch st)"
    "j < 8 \<Longrightarrow> role_at (edited mt i ch st) j = Role_PRIMARY
      \<longleftrightarrow> (if chn_role ch = Role_PRIMARY then j = i \<and> chn_has_settings ch else j \<noteq> i \<and> j = cn_primary st)"
proof -
  let ?w = "st\<lparr>cn_slots := (cn_slots st)[i := ch\<lparr>chn_index := i\<rparr>]\<rparr>"
  let ?d = "if chn_role ch = Role_PRIMARY then demote_other_primary mt i (?w\<lparr>cn_primary := i\<rparr>) else ?w"
  have w: "settled mt (UNIV - {i}) (F - {i}) ?w" using settled_write inv unfolding chan_inv_def by blast
  then have "settled mt (UNIV - {i}) (F - {i}) (?w\<lparr>cn_primary := i\<rparr>)" using i unfolding settled_def by simp
  note d = demote_other[OF this, of i]
  have sd: "settled mt (UNIV - {i}) (F - {i}) ?d" using w d unfolding demoted_def by simp
  have eq: "edited mt i ch st = channel_fixup mt i ?d" unfolding edited_def Let_def by simp
  show "settled mt UNIV (insert i F) (edited mt i ch st)"
    unfolding eq by (rule settled_mono[OF settled_fixup[OF sd i]]) auto
  have wi: "cn_slots ?w ! i = ch\<lparr>chn_index := i\<rparr>" using w i unfolding settled_def by simp
  then have di: "cn_slots ?d ! i = ch\<lparr>chn_index := i\<rparr>" using d unfolding demoted_def by simp
  have len: "length (cn_slots ?d) = 8" using sd unfolding settled_def by blast
  assume j: "j < 8"
  note f = fixup_roles(1)[OF len i, of mt j]
  show "role_at (edited mt i ch st) j = Role_PRIMARY
      \<longleftrightarrow> (if chn_role ch = Role_PRIMARY then j = i \<and> chn_has_settings ch else j \<noteq> i \<and> j = cn_primary st)"
  proof (cases "j = i")
    case True
    then show ?thesis unfolding eq f di by simp
  next
    case False
    have "role_at ?d j = Role_PRIMARY \<longleftrightarrow> chn_role ch \<noteq> Role_PRIMARY \<and> j = cn_primary st"
      using False j d inv unfolding demoted_def chan_inv_def one_primary_def by (cases "chn_role ch = Role_PRIMARY") auto
    then show ?thesis using False unfolding eq f by simp
  qed
qed

lemma set_slot_inv:
  assumes inv: "chan_inv mt F st" and i: "i < 8"
  obtains st' where "meshtastic_channels_set_slot mt i ch st = Inr st'" "chan_inv mt (insert i F) st'" "cached mt st'"
proof -
  note e = edited_roles[OF assms, where ch = ch]
  have "settled mt UNIV (insert i F) (enforce_primary_invariant mt (edited mt i ch st))
      \<and> one_primary (enforce_primary_invariant mt (edited mt i ch st))"
    by (rule enforce_one_primary[OF e(1)]) (auto simp: e(2) split: if_splits)
  then show ?thesis using that set_slot_edited[OF i] unfolding chan_inv_def[symmetric] by simp
qed

text \<open>Where the primary is after an edit.\<close>

lemma set_slot_primary:
  assumes inv: "chan_inv mt F st" and i: "i < 8" and r: "meshtastic_channels_set_slot mt i ch st = Inr st'"
    and p: "if chn_role ch = Role_PRIMARY then p = i \<and> chn_has_settings ch else p \<noteq> i \<and> p = cn_primary st"
  shows "cn_primary st' = p"
proof -
  have "p < 8" using inv i p unfolding chan_inv_def settled_def by (auto split: if_splits)
  then have q: "role_at (edited mt i ch st) j = Role_PRIMARY \<longleftrightarrow> j = p" if "j < 8" for j
    using edited_roles(2)[OF inv i that, where ch = ch] p by (auto split: if_splits)
  then have "find_primary None (cn_slots (edited mt i ch st)) = Some p"
    using find_primary_spec[of "cn_slots (edited mt i ch st)"] \<open>p < 8\<close> by (auto split: option.splits)
  then show ?thesis using r unfolding set_slot_edited[OF i] enforce_primary_invariant_def by auto
qed

lemma fixups_inv:
  "settled mt UNIV F st \<Longrightarrow> set xs \<subseteq> {..<8} \<Longrightarrow>
     settled mt UNIV (F \<union> set xs) (fold (channel_fixup mt) xs st)
       \<and> cn_primary (fold (channel_fixup mt) xs st) = cn_primary st
       \<and> (\<forall>j < 8. role_at (fold (channel_fixup mt) xs st) j = role_at st j)"
proof (induction xs arbitrary: st F)
  case (Cons i xs)
  have i: "i < 8" "length (cn_slots st) = 8" "chn_has_settings (cn_slots st ! i)" using Cons.prems unfolding settled_def by auto
  have "settled mt UNIV (insert i F) (channel_fixup mt i st)" using settled_fixup[OF Cons.prems(1) i(1)] by simp
  from Cons.IH[OF this] Cons.prems(2) show ?case using i by (simp add: fixup_roles)
qed simp

lemma settled_all: "settled mt UNIV {..<8} st \<Longrightarrow> settled mt UNIV UNIV st"
  unfolding settled_def by auto

lemma chan_inv_all: "chan_inv mt {..<8} st \<Longrightarrow> chan_inv mt UNIV st"
  unfolding chan_inv_def using settled_all by blast

lemma upto8 [simp]: "set [0..<8] = {..<8::nat}" by auto

lemma refresh_inv:
  assumes "chan_inv mt F st"
  shows "chan_inv mt' UNIV (meshtastic_channels_refresh_derived mt' st) \<and> cached mt' (meshtastic_channels_refresh_derived mt' st)"
proof -
  have "settled mt' UNIV {} st" using assms unfolding chan_inv_def settled_def by simp
  from fixups_inv[OF this, of "[0..<8]"]
  have f: "settled mt' UNIV {..<8} (fold (channel_fixup mt') [0..<8] st)"
      "cn_primary (fold (channel_fixup mt') [0..<8] st) = cn_primary st"
      "\<forall>j < 8. role_at (fold (channel_fixup mt') [0..<8] st) j = role_at st j"
    unfolding upto8 by simp_all
  then have "chan_inv mt' {..<8} (fold (channel_fixup mt') [0..<8] st)"
    using assms unfolding chan_inv_def one_primary_def by simp
  then show ?thesis unfolding meshtastic_channels_refresh_derived_def using chan_inv_all by simp
qed

lemma apply_inv:
  "chan_inv mt F st \<Longrightarrow> set xs \<subseteq> {..<8} \<Longrightarrow>
     chan_inv mt (F \<union> set xs) (fold (apply_slot mt stored) xs st) \<and> (xs = [] \<or> cached mt (fold (apply_slot mt stored) xs st))"
proof (induction xs arbitrary: st F)
  case (Cons i xs)
  obtain st' where st': "meshtastic_channels_set_slot mt i (stored ! i) st = Inr st'" "chan_inv mt (insert i F) st'" "cached mt st'"
    using set_slot_inv[OF Cons.prems(1)] Cons.prems(2) by auto
  have "fold (apply_slot mt stored) (i # xs) st = fold (apply_slot mt stored) xs st'" using st'(1) by (simp add: apply_slot_def)
  moreover have "chan_inv mt (insert i F \<union> set xs) (fold (apply_slot mt stored) xs st')" "xs = [] \<or> cached mt (fold (apply_slot mt stored) xs st')"
    using Cons.IH[OF st'(2)] Cons.prems(2) by auto
  ultimately show ?case using st'(3) by (cases "xs = []") auto
qed simp

lemma apply_channels_inv:
  assumes "chan_inv mt F st"
  shows "chan_inv mt' UNIV (apply_channels mt' stored st) \<and> cached mt' (apply_channels mt' stored st)"
proof -
  have "chan_inv mt' {} st" using assms unfolding chan_inv_def settled_def by simp
  note a = apply_inv[OF this, of "[0..<8]" stored]
  have "[0..<8::nat] \<noteq> []" by simp
  then show ?thesis using a[unfolded upto8] chan_inv_all unfolding apply_channels_def by simp
qed

text \<open>The defaults, with the application's name and key.\<close>

lemma init_defaults_inv: "chan_inv mt UNIV (meshtastic_channels_init_defaults mt)"
proof -
  let ?z = "\<lparr>cn_slots = replicate 8 zero_channel, cn_hashes = replicate 8 0, cn_primary = 0, cn_psk = [], cn_ch_hash = 0,
    cn_channel_name = ''''\<rparr> :: channels"
  let ?e = "zero_channel\<lparr>chn_has_settings := True\<rparr>"
  let ?step = "\<lambda>i st. channel_fixup mt i (st\<lparr>cn_slots := (cn_slots st)[i := ?e]\<rparr>)"
  have step: "settled mt (S \<union> set xs) (S \<union> set xs) (fold ?step xs st) \<and> cn_primary (fold ?step xs st) = cn_primary st
      \<and> (\<forall>j. role_at (fold ?step xs st) j = (if j \<in> set xs then Role_DISABLED else role_at st j))"
    if "settled mt S S st" "set xs \<subseteq> {..<8}" for S st xs
    using that
  proof (induction xs arbitrary: st S)
    case (Cons i xs)
    have i: "i < 8" using Cons.prems(2) by simp
    from Cons.IH[OF settled_rewrite[OF Cons.prems(1) i]] Cons.prems(2) show ?case
      by (simp add: rewrite_roles[OF Cons.prems(1) i] fixup_roles(2) zero_channel_def)
  qed simp
  have z: "settled mt {} {} ?z" unfolding settled_def by simp
  have s0: "settled mt {0} {0} (seed_default_primary mt 0 ?z)"
    using settled_rewrite[OF z, of 0] unfolding seed_default_primary_def by simp
  have r0: "role_at (seed_default_primary mt 0 ?z) 0 = Role_PRIMARY" "cn_primary (seed_default_primary mt 0 ?z) = 0"
    unfolding seed_default_primary_def rewrite_roles[OF z zero_less_numeral] fixup_roles(2) by (simp_all add: default_primary_def)
  have eq: "{0} \<union> set [1..<8] = {..<8::nat}" by auto
  define fin where "fin = fold ?step [1..<8] (seed_default_primary mt 0 ?z)"
  have "set [1..<8] \<subseteq> {..<8::nat}" by auto
  note f = step[OF s0 this, unfolded eq, folded fin_def]
  then have "role_at fin j = (if j = 0 then Role_PRIMARY else Role_DISABLED)" if "j < 8" for j
    using that r0(1) by (cases "j = 0") auto
  then have "one_primary fin" using f r0(2) unfolding one_primary_def by simp
  moreover have "settled mt UNIV UNIV fin" using f unfolding settled_def by simp
  moreover have "meshtastic_channels_init_defaults mt = fin" unfolding meshtastic_channels_init_defaults_def fin_def by simp
  ultimately show ?thesis unfolding chan_inv_def by simp
qed

lemma init_from_config_inv:
  "chan_inv mt UNIV (meshtastic_channels_init_from_config mt name psk) \<and> cached mt (meshtastic_channels_init_from_config mt name psk)"
proof -
  define st where "st = meshtastic_channels_init_defaults mt"
  define cs where "cs = (let cs = chn_settings (cn_slots st ! 0);
    cs = (case name of None \<Rightarrow> cs | Some name \<Rightarrow> cs\<lparr>chs_name := take 11 name\<rparr>)
    in if psk \<noteq> meshtastic_default_psk then cs\<lparr>chs_psk := psk\<rparr> else cs)"
  define st' where "st' = channel_fixup mt 0 (st\<lparr>cn_slots := (cn_slots st)[0 := (cn_slots st ! 0)\<lparr>chn_settings := cs\<rparr>]\<rparr>)"
  have inv: "settled mt UNIV UNIV st" "one_primary st" using init_defaults_inv[of mt] unfolding st_def chan_inv_def by blast+
  have "role_at st' j = role_at st j" for j
    unfolding st'_def rewrite_roles[OF inv(1) zero_less_numeral] using inv(1) unfolding settled_def by simp
  moreover have "settled mt UNIV UNIV st'" using settled_rewrite[OF inv(1), of 0] unfolding st'_def by simp
  moreover have "cn_primary st' = cn_primary st" unfolding st'_def by (simp add: fixup_roles(2))
  ultimately have "chan_inv mt UNIV st'" using inv(2) unfolding chan_inv_def one_primary_def by simp
  moreover have "meshtastic_channels_init_from_config mt name psk = st'\<lparr>cn_ch_hash := cn_hashes st' ! cn_primary st', cn_psk := psk,
      cn_channel_name := meshtastic_channels_get_name mt (cn_slots st') (cn_primary st')\<rparr>"
    unfolding meshtastic_channels_init_from_config_def st'_def cs_def st_def Let_def by simp
  ultimately show ?thesis unfolding chan_inv_def settled_def one_primary_def cached_def by simp
qed

section \<open>Runs\<close>

text \<open>A channel edit, a preset switch (which re-derives the hashes) and the application of the stored
  configuration, with the radio state each of them leaves.\<close>

datatype ch_event =
    Set_Channel nat channel
  | Switch_Preset mt_state
  | Apply_Stored mt_state

fun ch_step :: "ch_event \<Rightarrow> mt_state \<times> channel list \<times> channels \<Rightarrow> mt_state \<times> channel list \<times> channels" where
  "ch_step (Set_Channel i ch) (mt, stored, st) =
     (case meshtastic_config_store_set_channel False mt i ch (stored, st) of Inl _ \<Rightarrow> (mt, stored, st) | Inr r \<Rightarrow> (mt, r))"
| "ch_step (Switch_Preset mt') (mt, stored, st) = (mt', stored, meshtastic_channels_refresh_derived mt' st)"
| "ch_step (Apply_Stored mt') (mt, stored, st) = (mt', stored, apply_channels mt' stored st)"

lemma ch_step_inv:
  assumes "chan_inv mt UNIV st" "cached mt st" "ch_step ev (mt, stored, st) = (mt', stored', st')"
  shows "chan_inv mt' UNIV st' \<and> cached mt' st'"
proof (cases ev)
  case (Set_Channel i ch)
  show ?thesis
  proof (cases "i < 8")
    case True
    from set_slot_inv[OF assms(1) this, of ch] obtain r
      where "meshtastic_channels_set_slot mt i ch st = Inr r" "chan_inv mt (insert i UNIV) r" "cached mt r" by blast
    then show ?thesis
      using assms Set_Channel by (auto simp: meshtastic_config_store_set_channel_def split: if_splits)
  qed (use assms Set_Channel in \<open>simp add: meshtastic_config_store_set_channel_def\<close>)
next
  case (Switch_Preset m)
  then show ?thesis using assms refresh_inv[OF assms(1)] by auto
next
  case (Apply_Stored m)
  then show ?thesis using assms apply_channels_inv[OF assms(1)] by auto
qed

lemma ch_run_inv:
  "chan_inv mt UNIV st \<Longrightarrow> cached mt st \<Longrightarrow> fold ch_step evs (mt, stored, st) = (mt', stored', st')
     \<Longrightarrow> chan_inv mt' UNIV st' \<and> cached mt' st'"
proof (induction evs arbitrary: mt stored st)
  case (Cons ev evs)
  obtain m s t where e: "ch_step ev (mt, stored, st) = (m, s, t)" by (cases "ch_step ev (mt, stored, st)")
  show ?case using ch_step_inv[OF Cons.prems(1,2) e] Cons.IH[of m t s] Cons.prems(3) e by simp
qed simp

section \<open>Examples: where the stored table and the live one part\<close>

definition ex_slot :: "channel_role \<Rightarrow> bytes \<Rightarrow> string \<Rightarrow> channel" where
  "ex_slot role psk name = \<lparr>chn_index = 0, chn_has_settings = True, chn_settings = no_settings\<lparr>chs_psk := psk, chs_name := name\<rparr>,
     chn_role = role\<rparr>"

definition ex_radio :: mt_state where
  "ex_radio = \<lparr>mt_modem_preset = PRESET_LONG_FAST, mt_use_preset = True, mt_config_ok_to_mqtt = False, mt_device_role = 0,
     mt_rebroadcast_mode = 0, mt_hop_limit = 3, mt_tx_power = 14, mt_licensed = False,
     mt_modem = \<lparr>mp_bandwidth_hz = 250000, mp_spread_factor = 11, mp_coding_rate = 5\<rparr>, mt_rx_boosted_gain = True,
     mt_tx_enabled = True, mt_fem_lna = False, mt_frequency = 906875000, mt_duty_override = False,
     mt_duty_region = REGION_US, mt_duty_permille = 1000, mt_gate_generation = 1, mt_settle_until = 0\<rparr>"

text \<open>A secondary channel that borrows the primary's key keeps its cached hash when an edit changes that key,
  although the hash it should have changes with the key: its frames leave under a hash that no peer with the
  same channels computes.\<close>

lemma primary_edit_frame:
  assumes "chan_inv mt UNIV st" "chn_role ch = Role_PRIMARY" "chn_has_settings ch" "j < 8" "j \<noteq> cn_primary st"
    and r: "meshtastic_channels_set_slot mt (cn_primary st) ch st = Inr st'"
  shows "cn_hashes st' ! j = cn_hashes st ! j" "cn_slots st' ! j = cn_slots st ! j"
    "cn_slots st' ! cn_primary st = fixup_slot (cn_primary st) ch" "cn_primary st' = cn_primary st"
proof -
  let ?p = "cn_primary st"
  let ?w = "st\<lparr>cn_slots := (cn_slots st)[?p := ch\<lparr>chn_index := ?p\<rparr>]\<rparr>"
  have inv: "length (cn_slots st) = 8" "?p < 8" "\<And>i. i < 8 \<Longrightarrow> i \<noteq> ?p \<Longrightarrow> role_at st i \<noteq> Role_PRIMARY"
    using assms(1) unfolding chan_inv_def settled_def one_primary_def by auto
  have idle: "fold (demote_one mt ?p) xs ?w = ?w" if "set xs \<subseteq> {..<8}" for xs
    using that by (induction xs) (use inv(3) in \<open>auto simp: demote_one_def\<close>)
  have w: "?w\<lparr>cn_primary := ?p\<rparr> = ?w" by (cases st) simp
  have "set [0..<8] \<subseteq> {..<8::nat}" by auto
  then have e: "edited mt ?p ch st = channel_fixup mt ?p ?w"
    unfolding edited_def demote_other_primary_def max_channels Let_def w using assms(2) idle by simp
  have q: "role_at (edited mt ?p ch st) i = Role_PRIMARY \<longleftrightarrow> i = ?p" if "i < 8" for i
    using edited_roles(2)[OF assms(1) inv(2) that, where ch = ch] assms(2,3) by simp
  then have "find_primary None (cn_slots (edited mt ?p ch st)) = Some ?p"
    using find_primary_spec[of "cn_slots (edited mt ?p ch st)"] inv(2) by (auto split: option.splits)
  then have s: "st' = refresh_primary mt ((channel_fixup mt ?p ?w)\<lparr>cn_primary := ?p\<rparr>)"
    using r unfolding set_slot_edited[OF inv(2)] enforce_primary_invariant_def e by simp
  have x: "fixup_slot ?p (ch\<lparr>chn_index := ?p\<rparr>) = fixup_slot ?p ch" unfolding fixup_slot_def by simp
  show "cn_hashes st' ! j = cn_hashes st ! j" "cn_slots st' ! j = cn_slots st ! j"
    "cn_slots st' ! cn_primary st = fixup_slot (cn_primary st) ch" "cn_primary st' = cn_primary st"
    unfolding s using inv(1,2) assms(5) x by (simp_all add: channel_fixup_def Let_def)
qed

lemma borrowed_hash:
  assumes "i < 8" "p < 8" "i \<noteq> p" "chn_has_settings (slots ! i)" "\<not> own_key (slots ! i)" "channel_get_key slots p p = Inr key" "key \<noteq> []"
  shows "channel_generate_hash mt slots p i = xor_hash_bytes (name_bytes (meshtastic_channels_get_name mt slots i)) XOR xor_hash_bytes key"
proof -
  have "channel_get_key slots p i = Inr key"
    using assms by (subst channel_get_key.simps) (simp add: own_key_def Let_def)
  then show ?thesis unfolding channel_generate_hash_def using assms(7) by (simp add: Let_def)
qed

text \<open>Applying a stored table makes its last primary the live one.  An edit that moves the primary to a lower
  slot leaves the old one marked primary in the stored copy (only the live slot is demoted), so the next
  application moves the primary back.\<close>

lemma apply_takes_last_primary:
  assumes "chan_inv mt F st" "chn_role (stored ! p) = Role_PRIMARY" "chn_has_settings (stored ! p)" "p < n" "n \<le> 8"
    "\<And>i. p < i \<Longrightarrow> i < n \<Longrightarrow> chn_role (stored ! i) \<noteq> Role_PRIMARY"
  shows "cn_primary (fold (apply_slot mt stored) [0..<n] st) = p"
  using assms(4-)
proof (induction n)
  case (Suc n)
  let ?s = "fold (apply_slot mt stored) [0..<n] st"
  have "set [0..<n] \<subseteq> {..<8}" using Suc.prems(2) by auto
  note inv = conjunct1[OF apply_inv[OF assms(1) this, of stored]]
  have n: "n < 8" using Suc.prems(2) by simp
  then obtain st' where st': "meshtastic_channels_set_slot mt n (stored ! n) ?s = Inr st'" using set_slot_edited by blast
  have "cn_primary st' = p"
  proof (cases "n = p")
    case True
    then show ?thesis using set_slot_primary[OF inv n st', of p] assms(2,3) by simp
  next
    case False
    then have "cn_primary ?s = p" using Suc by simp
    then show ?thesis using set_slot_primary[OF inv n st', of p] Suc.prems False by simp
  qed
  moreover have "apply_slot mt stored n ?s = st'" unfolding apply_slot_def st' by simp
  ultimately show ?case by simp
qed simp

text \<open>A table whose slot 0 is disabled does not survive its application to a node whose primary is slot 0:
  that slot comes back with the public key, and the primary set later demotes it to a live secondary.\<close>

lemma disabled_slot_returns:
  assumes "chan_inv mt F st" "cn_primary st = 0" "chn_role ch = Role_DISABLED" "meshtastic_channels_set_slot mt 0 ch st = Inr st'"
  shows "cn_slots st' ! 0 = default_primary 0"
proof -
  have e: "role_at (edited mt 0 ch st) i \<noteq> Role_PRIMARY" if "i < 8" for i
    using edited_roles(2)[OF assms(1) zero_less_numeral that, where ch = ch] assms(2,3) by auto
  then have n: "find_primary None (cn_slots (edited mt 0 ch st)) = None"
    using find_primary_spec[of "cn_slots (edited mt 0 ch st)"] by (auto split: option.splits)
  have len: "length (cn_slots st) = 8" using assms(1) unfolding chan_inv_def settled_def by blast
  have z: "edited mt 0 ch st = channel_fixup mt 0 (st\<lparr>cn_slots := (cn_slots st)[0 := ch\<lparr>chn_index := 0\<rparr>]\<rparr>)"
    unfolding edited_def using assms(3) by simp
  then have "role_at (edited mt 0 ch st) (cn_primary (edited mt 0 ch st)) = Role_DISABLED"
    using assms(2,3) len by (simp add: fixup_roles)
  moreover have "fixup_slot 0 (default_primary 0) = default_primary 0"
    by (simp add: fixup_slot_def default_primary_def no_settings_def)
  ultimately show ?thesis
    using assms(4) n len z unfolding set_slot_edited[OF zero_less_numeral] enforce_primary_invariant_def seed_default_primary_def
    by (auto simp: channel_fixup_def Let_def)
qed

section \<open>Properties\<close>

text \<open>C18. The channel table always has exactly one primary slot.  From any application configuration and after
  any sequence of channel edits, preset switches and applications of the stored table, the primary index
  names the only slot with the primary role, the hash and name used for sending are those of that slot, and
  the cached hash of every slot that has a key of its own is the one its name, key and preset give.\<close>

theorem channels_one_primary:
  assumes "fold ch_step evs (mt, stored, meshtastic_channels_init_from_config mt name psk) = (mt', stored', st)"
  shows "cn_primary st < MESHTASTIC_MAX_CHANNELS
    \<and> (\<forall>i < MESHTASTIC_MAX_CHANNELS. chn_role (cn_slots st ! i) = Role_PRIMARY \<longleftrightarrow> i = cn_primary st)
    \<and> cn_ch_hash st = channel_generate_hash mt' (cn_slots st) (cn_primary st) (cn_primary st)
    \<and> cn_channel_name st = meshtastic_channels_get_name mt' (cn_slots st) (cn_primary st)
    \<and> (\<forall>i < MESHTASTIC_MAX_CHANNELS. own_key (cn_slots st ! i) \<longrightarrow>
         meshtastic_channels_get_hash st i = channel_generate_hash mt' (cn_slots st) (cn_primary st) i)"
proof -
  have inv: "settled mt' UNIV UNIV st" "one_primary st" "cached mt' st"
    using ch_run_inv[OF conjunct1[OF init_from_config_inv] conjunct2[OF init_from_config_inv] assms] unfolding chan_inv_def by blast+
  then have p: "cn_primary st < 8" "chn_role (cn_slots st ! cn_primary st) = Role_PRIMARY"
    unfolding settled_def one_primary_def by auto
  have h: "cn_hashes st ! i = channel_generate_hash mt' (cn_slots st) (cn_primary st) i" if "i < 8" "own_key (cn_slots st ! i)" for i
    using inv(1) own_hash[of "cn_slots st" i mt'] that unfolding settled_def by simp
  show ?thesis
    using inv p h h[OF p(1) primary_key_local[OF p(2)]]
    unfolding one_primary_def cached_def meshtastic_channels_get_hash_def by simp
qed

theorem channels_one_primary_witness:
  "\<exists>mt stored st. fold ch_step [Set_Channel 1 (ex_slot Role_PRIMARY (replicate 16 7) ''Ops''), Switch_Preset ex_radio]
      (ex_radio, [], meshtastic_channels_init_from_config ex_radio None meshtastic_default_psk) = (mt, stored, st)
    \<and> cn_primary st < 8 \<and> chn_role (cn_slots st ! cn_primary st) = Role_PRIMARY"
proof -
  let ?evs = "[Set_Channel 1 (ex_slot Role_PRIMARY (replicate 16 7) ''Ops''), Switch_Preset ex_radio]"
  let ?s = "(ex_radio, [], meshtastic_channels_init_from_config ex_radio None meshtastic_default_psk)"
  obtain mt stored st where e: "fold ch_step ?evs ?s = (mt, stored, st)" by (cases "fold ch_step ?evs ?s")
  have "cn_primary st < 8" "chn_role (cn_slots st ! cn_primary st) = Role_PRIMARY" using channels_one_primary[OF e] by auto
  then show ?thesis using e by blast
qed

end
