(* ===== verification/Packet_Types.thy ===== *)
theory Packet_Types
  imports Pki Channels Cluster_Sign Outbound
begin

text \<open>
  The data of the packet codec: the sixteen-byte wire header and its flags, the two representations of a packet
  (the flat struct and the protobuf message), and the environment the codec reads.  The protobuf codec, the
  crypto library and the signature primitive are parameters.
\<close>

section \<open>The wire header\<close>

definition MESHTASTIC_PAYLOAD_MAX :: nat where "MESHTASTIC_PAYLOAD_MAX = MESHTASTIC_PKT_MAX - MESHTASTIC_HDR_LEN"
definition MESHTASTIC_CHANNEL_INDEX_INVALID :: u8 where "MESHTASTIC_CHANNEL_INDEX_INVALID = 0xFF"
definition MESHTASTIC_PRESET_UNKNOWN :: u32 where "MESHTASTIC_PRESET_UNKNOWN = 0xFF"

record meshtastic_wire_header =
  wh_dest :: u32
  wh_src :: u32
  wh_id :: u32
  wh_flags :: u8
  wh_channel :: u8
  wh_next_hop :: u8
  wh_relay_node :: u8

text \<open>The packed little-endian layout.\<close>

definition hdr_bytes :: "meshtastic_wire_header \<Rightarrow> bytes" where
  "hdr_bytes h = le_bytes (wh_dest h) 4 @ le_bytes (wh_src h) 4 @ le_bytes (wh_id h) 4
     @ [wh_flags h, wh_channel h, wh_next_hop h, wh_relay_node h]"

definition read_hdr :: "bytes \<Rightarrow> meshtastic_wire_header" where
  "read_hdr buf = \<lparr>wh_dest = le_word (take 4 buf), wh_src = le_word (take 4 (drop 4 buf)), wh_id = le_word (take 4 (drop 8 buf)),
     wh_flags = buf ! 12, wh_channel = buf ! 13, wh_next_hop = buf ! 14, wh_relay_node = buf ! 15\<rparr>"

definition flags_hop_limit :: "u8 \<Rightarrow> u8" where "flags_hop_limit flags = flags AND 0x07"
definition flags_hop_start :: "u8 \<Rightarrow> u8" where "flags_hop_start flags = drop_bit 5 (flags AND 0xE0)"
definition flags_want_ack :: "u8 \<Rightarrow> bool" where "flags_want_ack flags \<longleftrightarrow> flags AND 0x08 \<noteq> 0"
definition flags_via_mqtt :: "u8 \<Rightarrow> bool" where "flags_via_mqtt flags \<longleftrightarrow> flags AND 0x10 \<noteq> 0"

definition make_flags :: "u8 \<Rightarrow> u8 \<Rightarrow> bool \<Rightarrow> bool \<Rightarrow> u8" where
  "make_flags hop_limit hop_start want_ack via_mqtt =
     (hop_limit AND 0x07) OR push_bit 5 (hop_start AND 0x07) OR (if want_ack then 0x08 else 0) OR (if via_mqtt then 0x10 else 0)"

section \<open>Packets\<close>

text \<open>The protobuf \<open>Data\<close> with the fields the packet signature does not cover.\<close>

record mesh_data = meshtastic_Data +
  data_dest :: u32
  data_source :: u32
  data_xeddsa_signature :: bytes

datatype mesh_payload = Decoded mesh_data | Encrypted bytes | Variant_Unset bytes

datatype transport =
  TRANSPORT_INTERNAL | TRANSPORT_LORA | TRANSPORT_LORA_ALT1 | TRANSPORT_LORA_ALT2 | TRANSPORT_LORA_ALT3 | TRANSPORT_MQTT
| TRANSPORT_MULTICAST_UDP | TRANSPORT_API | TRANSPORT_UNICAST_UDP

record meshtastic_MeshPacket =
  mpk_from :: u32
  mpk_to :: u32
  mpk_channel :: u8
  mpk_payload :: mesh_payload
  mpk_id :: u32
  mpk_rx_time :: u32
  mpk_rx_snr :: int
  mpk_rx_rssi :: int
  mpk_hop_limit :: u8
  mpk_hop_start :: u8
  mpk_want_ack :: bool
  mpk_via_mqtt :: bool
  mpk_public_key :: bytes
  mpk_pki_encrypted :: bool
  mpk_next_hop :: u8
  mpk_relay_node :: u8
  mpk_transport :: transport
  mpk_xeddsa_signed :: bool

record meshtastic_packet =
  pkt_from :: u32
  pkt_to :: u32
  pkt_id :: u32
  pkt_portnum :: u32
  pkt_payload :: bytes
  pkt_data_dest :: u32
  pkt_data_source :: u32
  pkt_request_id :: u32
  pkt_reply_id :: u32
  pkt_hop_limit :: u8
  pkt_hop_start :: u8
  pkt_rx_attach :: u8
  pkt_rx_heard_on :: u8
  pkt_tx_attach :: u8
  pkt_channel :: u8
  pkt_channel_index :: u8
  pkt_next_hop :: u8
  pkt_relay_node :: u8
  pkt_want_ack :: bool
  pkt_via_mqtt :: bool
  pkt_pki_encrypted :: bool
  pkt_want_response :: bool
  pkt_zero_hop :: bool
  pkt_no_pkc :: bool
  pkt_has_bitfield :: bool
  pkt_bitfield :: u8
  pkt_rssi :: int
  pkt_snr :: int

definition zero_data :: mesh_data where
  "zero_data = \<lparr>data_portnum = 0, data_payload = [], data_want_response = False, data_request_id = 0, data_reply_id = 0, data_emoji = 0,
     data_has_bitfield = False, data_bitfield = 0, data_dest = 0, data_source = 0, data_xeddsa_signature = []\<rparr>"

definition zero_packet :: meshtastic_packet where
  "zero_packet = \<lparr>pkt_from = 0, pkt_to = 0, pkt_id = 0, pkt_portnum = 0, pkt_payload = [], pkt_data_dest = 0, pkt_data_source = 0,
     pkt_request_id = 0, pkt_reply_id = 0, pkt_hop_limit = 0, pkt_hop_start = 0, pkt_rx_attach = 0, pkt_rx_heard_on = 0,
     pkt_tx_attach = 0, pkt_channel = 0, pkt_channel_index = 0, pkt_next_hop = 0, pkt_relay_node = 0, pkt_want_ack = False,
     pkt_via_mqtt = False, pkt_pki_encrypted = False, pkt_want_response = False, pkt_zero_hop = False, pkt_no_pkc = False,
     pkt_has_bitfield = False, pkt_bitfield = 0, pkt_rssi = 0, pkt_snr = 0\<rparr>"

text \<open>The decoded part of the payload union.\<close>

definition mpk_data :: "meshtastic_MeshPacket \<Rightarrow> mesh_data" where
  "mpk_data mesh = (case mpk_payload mesh of Decoded d \<Rightarrow> d | _ \<Rightarrow> zero_data)"

section \<open>The environment\<close>

record pk_lib =
  lib_psa :: psa_crypto
  lib_pb_encode :: "mesh_data \<Rightarrow> bytes option"
  lib_pb_decode :: "bytes \<Rightarrow> mesh_data option"
  lib_sign :: "bytes \<Rightarrow> bytes \<Rightarrow> bytes option"

text \<open>The protobuf codec reads back what it writes, and the empty message is the one with every field at its
  default.\<close>

definition pb_law :: "pk_lib \<Rightarrow> bool" where
  "pb_law lib \<longleftrightarrow> (\<forall>d b. lib_pb_encode lib d = Some b \<longrightarrow> lib_pb_decode lib b = Some d) \<and> lib_pb_decode lib [] = Some zero_data"

text \<open>What the codec reads of the rest of the node: its number, the radio state, the channel table, the licence
  flag, the keys, who is known, the channel a peer was heard on, the configured admin keys, the clocks, the
  random source, the presets of the radio heads, and whether packets are signed.\<close>

record pk_env =
  px_node_id :: u32
  px_mt :: mt_state
  px_chan :: channels
  px_licensed :: bool
  px_keys :: pki_keys
  px_known :: "u32 \<Rightarrow> bool"
  px_peer_channel :: "u32 \<Rightarrow> u8 option"
  px_admin_keys :: "bytes list"
  px_uptime :: int
  px_epoch :: u32
  px_random :: "u32 option"
  px_head_preset :: "u8 \<Rightarrow> u32 option"
  px_signing :: bool

end
