(* ===== verification/Packet.thy ===== *)
theory Packet
  imports Packet_Types
begin

text \<open>
  The packet codec, \<^verbatim>\<open>meshtastic_packet.c\<close>: the conversions between the two representations of a packet, the
  choice between public-key and channel encryption on the way out, and the trial decryption on the way in.
\<close>

section \<open>Encoding the payload\<close>

definition meshtastic_channel_nonce_build :: "u32 \<Rightarrow> u32 \<Rightarrow> bytes" where
  "meshtastic_channel_nonce_build pid from_node = le_bytes pid 4 @ [0, 0, 0, 0] @ le_bytes from_node 4 @ [0, 0, 0, 0]"

definition ctr_crypt :: "psa_crypto \<Rightarrow> bytes \<Rightarrow> bytes \<Rightarrow> bytes \<Rightarrow> bytes result" where
  "ctr_crypt psa key nonce inp = (case psa_ctr psa key nonce inp of None \<Rightarrow> Inl EIO | Some out \<Rightarrow> Inr out)"

definition MESHTASTIC_XEDDSA_SIGNATURE_LEN :: nat where "MESHTASTIC_XEDDSA_SIGNATURE_LEN = 64"
definition MESHTASTIC_XEDDSA_SIGBUF_MAX :: nat where "MESHTASTIC_XEDDSA_SIGBUF_MAX = XEDDSA_SIGBUF_HEADER_LEN + MESHTASTIC_MAX_PAYLOAD_LEN"

definition meshtastic_pki_sign_packet :: "pk_lib \<Rightarrow> pk_env \<Rightarrow> u32 \<Rightarrow> u32 \<Rightarrow> u32 \<Rightarrow> mesh_data \<Rightarrow> bytes result" where
  "meshtastic_pki_sign_packet lib px from_node packet_id to_node data =
     (let buf = meshtastic_xeddsa_build_signing_buffer MESHTASTIC_XEDDSA_SIGBUF_MAX from_node packet_id to_node (meshtastic_Data.truncate data)
      in if buf = [] then Inl EMSGSIZE
         else case kx_priv (px_keys px) of
                None \<Rightarrow> Inl EACCES
              | Some priv \<Rightarrow> (case lib_sign lib priv buf of None \<Rightarrow> Inl EIO | Some sig \<Rightarrow> Inr sig))"

text \<open>The signature is attached only when the signed form still fits.\<close>

definition sign_our_packet :: "pk_lib \<Rightarrow> pk_env \<Rightarrow> meshtastic_MeshPacket \<Rightarrow> nat \<Rightarrow> mesh_data \<Rightarrow> mesh_data" where
  "sign_our_packet lib px mesh buf_len data =
     (if mpk_to mesh \<noteq> MESHTASTIC_NODE_BROADCAST \<and> \<not> px_licensed px then data
      else
        let sized = data\<lparr>data_xeddsa_signature := replicate MESHTASTIC_XEDDSA_SIGNATURE_LEN 0\<rparr>;
            unsigned_data = data\<lparr>data_xeddsa_signature := []\<rparr>
        in case lib_pb_encode lib sized of
             None \<Rightarrow> unsigned_data
           | Some b \<Rightarrow>
               if length b > buf_len \<or> MESHTASTIC_HDR_LEN + length b > MESHTASTIC_PKT_MAX then unsigned_data
               else case meshtastic_pki_sign_packet lib px (if mpk_from mesh = 0 then px_node_id px else mpk_from mesh)
                           (mpk_id mesh) (mpk_to mesh) sized of
                      Inl _ \<Rightarrow> unsigned_data
                    | Inr sig \<Rightarrow> data\<lparr>data_xeddsa_signature := sig\<rparr>)"

text \<open>The \<open>Data\<close> that goes on the air: our own packets get the consent bits and our signature, and never the
  one the client supplied.\<close>

definition outgoing_data :: "pk_lib \<Rightarrow> pk_env \<Rightarrow> meshtastic_MeshPacket \<Rightarrow> nat \<Rightarrow> mesh_data" where
  "outgoing_data lib px mesh buf_len =
     (let data = mpk_data mesh;
          from_us = (mpk_from mesh = 0 \<or> mpk_from mesh = px_node_id px);
          data = (if from_us
                  then data\<lparr>data_has_bitfield := True,
                            data_bitfield := (if mt_config_ok_to_mqtt (px_mt px) then 1 else 0) OR (if data_want_response data then 2 else 0)\<rparr>
                  else data)
      in if from_us \<and> \<not> mpk_via_mqtt mesh
         then let data = data\<lparr>data_xeddsa_signature := []\<rparr>
              in if px_signing px then sign_our_packet lib px mesh buf_len data else data
         else data)"

definition encode_packet_data :: "pk_lib \<Rightarrow> pk_env \<Rightarrow> meshtastic_MeshPacket \<Rightarrow> nat \<Rightarrow> bytes result" where
  "encode_packet_data lib px mesh buf_len =
     (if length (data_payload (mpk_data mesh)) > MESHTASTIC_MAX_PAYLOAD_LEN then Inl EINVAL
      else case lib_pb_encode lib (outgoing_data lib px mesh buf_len) of
             None \<Rightarrow> Inl ENOMEM
           | Some b \<Rightarrow> if length b > buf_len then Inl ENOMEM else Inr b)"

text \<open>The payload of a packet of ours on its own.\<close>

definition zero_mesh :: meshtastic_MeshPacket where
  "zero_mesh = \<lparr>mpk_from = 0, mpk_to = 0, mpk_channel = 0, mpk_payload = Variant_Unset [], mpk_id = 0, mpk_rx_time = 0, mpk_rx_snr = 0,
     mpk_rx_rssi = 0, mpk_hop_limit = 0, mpk_hop_start = 0, mpk_want_ack = False, mpk_via_mqtt = False, mpk_public_key = [],
     mpk_pki_encrypted = False, mpk_next_hop = 0, mpk_relay_node = 0, mpk_transport = TRANSPORT_INTERNAL, mpk_xeddsa_signed = False\<rparr>"

definition meshtastic_encode_data :: "pk_lib \<Rightarrow> pk_env \<Rightarrow> u32 \<Rightarrow> bytes \<Rightarrow> nat \<Rightarrow> bytes result" where
  "meshtastic_encode_data lib px portnum payload buf_len =
     (if length payload > MESHTASTIC_MAX_PAYLOAD_LEN then Inl EINVAL
      else encode_packet_data lib px
             (zero_mesh\<lparr>mpk_payload := Decoded (zero_data\<lparr>data_portnum := portnum, data_payload := payload\<rparr>)\<rparr>) buf_len)"

section \<open>The flat struct and the protobuf message\<close>

definition packet_data :: "meshtastic_packet \<Rightarrow> mesh_data" where
  "packet_data p = zero_data\<lparr>data_portnum := pkt_portnum p, data_payload := pkt_payload p, data_want_response := pkt_want_response p,
     data_dest := pkt_data_dest p, data_source := pkt_data_source p, data_request_id := pkt_request_id p,
     data_reply_id := pkt_reply_id p, data_has_bitfield := pkt_has_bitfield p,
     data_bitfield := (if pkt_has_bitfield p then ucast (pkt_bitfield p) else 0)\<rparr>"

definition meshtastic_packet_to_mesh_pb :: "meshtastic_packet \<Rightarrow> meshtastic_MeshPacket result" where
  "meshtastic_packet_to_mesh_pb p =
     (if length (pkt_payload p) > MESHTASTIC_MAX_PAYLOAD_LEN then Inl EINVAL
      else Inr \<lparr>mpk_from = pkt_from p, mpk_to = pkt_to p,
        mpk_channel = (if pkt_channel_index p \<noteq> MESHTASTIC_CHANNEL_INDEX_INVALID then pkt_channel_index p else 0),
        mpk_payload = Decoded (packet_data p), mpk_id = pkt_id p, mpk_rx_time = 0, mpk_rx_snr = pkt_snr p, mpk_rx_rssi = pkt_rssi p,
        mpk_hop_limit = pkt_hop_limit p, mpk_hop_start = pkt_hop_start p, mpk_want_ack = pkt_want_ack p,
        mpk_via_mqtt = pkt_via_mqtt p, mpk_public_key = [], mpk_pki_encrypted = pkt_pki_encrypted p, mpk_next_hop = pkt_next_hop p,
        mpk_relay_node = pkt_relay_node p, mpk_transport = (if pkt_via_mqtt p then TRANSPORT_MQTT else TRANSPORT_LORA),
        mpk_xeddsa_signed = False\<rparr>)"

section \<open>Decryption\<close>

definition PORT_UNKNOWN_APP :: u32 where "PORT_UNKNOWN_APP = 0"

definition decode_plain :: "pk_lib \<Rightarrow> bytes \<Rightarrow> mesh_data result" where
  "decode_plain lib plain =
     (case lib_pb_decode lib plain of
        None \<Rightarrow> Inl EIO
      | Some data \<Rightarrow> if data_portnum data = PORT_UNKNOWN_APP then Inl EIO else Inr data)"

definition decrypt_mesh_encrypted_key :: "pk_lib \<Rightarrow> u32 \<Rightarrow> u32 \<Rightarrow> bytes \<Rightarrow> bytes \<Rightarrow> mesh_data result" where
  "decrypt_mesh_encrypted_key lib from_node pid enc key =
     (if enc = [] then Inl EINVAL
      else if length enc > MESHTASTIC_PAYLOAD_MAX then Inl EINVAL
      else if key = [] then Inl ENOTSUP
      else if length key \<noteq> 16 \<and> length key \<noteq> 32 then Inl EINVAL
      else case ctr_crypt (lib_psa lib) key (meshtastic_channel_nonce_build pid from_node) enc of
             Inl e \<Rightarrow> Inl e
           | Inr plain \<Rightarrow> decode_plain lib plain)"

text \<open>One slot of the trial: in the first pass the slots named after the preset the frame was heard on, in the
  second the others.\<close>

definition slot_opens ::
  "pk_lib \<Rightarrow> pk_env \<Rightarrow> u8 \<Rightarrow> u32 \<Rightarrow> u32 \<Rightarrow> u32 \<Rightarrow> bytes \<Rightarrow> bool \<times> nat \<Rightarrow> mesh_data option" where
  "slot_opens lib px wire_hash rx_preset from_node pid enc = (\<lambda>(first_pass, ch).
     let cn = px_chan px
     in if chn_role (cn_slots cn ! ch) = Role_DISABLED then None
        else if meshtastic_channels_named_for_preset (px_mt px) cn ch rx_preset \<noteq> first_pass then None
        else if \<not> meshtastic_channels_decrypt_for_hash_on (px_mt px) cn ch wire_hash rx_preset then None
        else case channel_get_key (cn_slots cn) (cn_primary cn) ch of
               Inl _ \<Rightarrow> None
             | Inr key \<Rightarrow> (case decrypt_mesh_encrypted_key lib from_node pid enc key of Inl _ \<Rightarrow> None | Inr data \<Rightarrow> Some data))"

definition trial_order :: "(bool \<times> nat) list" where
  "trial_order = map (Pair True) [0..<MESHTASTIC_MAX_CHANNELS] @ map (Pair False) [0..<MESHTASTIC_MAX_CHANNELS]"

fun first_opening :: "(bool \<times> nat \<Rightarrow> mesh_data option) \<Rightarrow> (bool \<times> nat) list \<Rightarrow> (mesh_data \<times> nat) result" where
  "first_opening opens [] = Inl EBADMSG"
| "first_opening opens (s # ss) = (case opens s of Some data \<Rightarrow> Inr (data, snd s) | None \<Rightarrow> first_opening opens ss)"

definition try_decrypt_wire_hash ::
  "pk_lib \<Rightarrow> pk_env \<Rightarrow> u8 \<Rightarrow> u32 \<Rightarrow> u32 \<Rightarrow> u32 \<Rightarrow> bytes \<Rightarrow> (mesh_data \<times> nat) result" where
  "try_decrypt_wire_hash lib px wire_hash rx_preset from_node pid enc =
     first_opening (slot_opens lib px wire_hash rx_preset from_node pid enc) trial_order"

subsection \<open>The admin-key fallback\<close>

definition ADMIN_KEY_FALLBACK_BURST :: u32 where "ADMIN_KEY_FALLBACK_BURST = 8"
definition ADMIN_KEY_FALLBACK_REFILL_MS :: u32 where "ADMIN_KEY_FALLBACK_REFILL_MS = 250"

record admin_fallback =
  af_tokens :: u32
  af_stamp_ms :: u32
  af_stamped :: bool

definition admin_fallback_init :: admin_fallback where
  "admin_fallback_init = \<lparr>af_tokens = ADMIN_KEY_FALLBACK_BURST, af_stamp_ms = 0, af_stamped = False\<rparr>"

definition admin_fallback_take :: "u32 \<Rightarrow> admin_fallback \<Rightarrow> admin_fallback \<times> bool" where
  "admin_fallback_take now af =
     (let af = (if \<not> af_stamped af then af\<lparr>af_stamp_ms := now, af_stamped := True\<rparr> else af);
          refill = (now - af_stamp_ms af) div ADMIN_KEY_FALLBACK_REFILL_MS;
          af = (if refill > 0
                then af\<lparr>af_stamp_ms := af_stamp_ms af + refill * ADMIN_KEY_FALLBACK_REFILL_MS,
                        af_tokens := min ADMIN_KEY_FALLBACK_BURST (af_tokens af + min refill ADMIN_KEY_FALLBACK_BURST)\<rparr>
                else af)
      in if af_tokens af = 0 then (af, False) else (af\<lparr>af_tokens := af_tokens af - 1\<rparr>, True))"

fun first_admin_key :: "psa_crypto \<Rightarrow> pki_keys \<Rightarrow> u32 \<Rightarrow> u32 \<Rightarrow> bytes \<Rightarrow> bytes list \<Rightarrow> (bytes \<times> bytes) option" where
  "first_admin_key psa kx from_node pid enc [] = None"
| "first_admin_key psa kx from_node pid enc (k # ks) =
     (if length k \<noteq> PKI_KEY_LEN then first_admin_key psa kx from_node pid enc ks
      else case meshtastic_pki_decrypt_with psa kx k from_node pid enc of
             Inr plain \<Rightarrow> Some (plain, k)
           | Inl _ \<Rightarrow> first_admin_key psa kx from_node pid enc ks)"

definition try_admin_keys ::
  "pk_lib \<Rightarrow> pk_env \<Rightarrow> u32 \<Rightarrow> u32 \<Rightarrow> bytes \<Rightarrow> admin_fallback \<Rightarrow> admin_fallback \<times> (bytes \<times> bytes) result" where
  "try_admin_keys lib px from_node pid enc af =
     (if \<not> list_ex (\<lambda>k. length k = PKI_KEY_LEN) (px_admin_keys px) then (af, Inl ENOENT)
      else case admin_fallback_take (word_of_int (px_uptime px)) af of
             (af, False) \<Rightarrow> (af, Inl EBUSY)
           | (af, True) \<Rightarrow>
               (case first_admin_key (lib_psa lib) (px_keys px) from_node pid enc (px_admin_keys px) of
                  None \<Rightarrow> (af, Inl EBADMSG)
                | Some r \<Rightarrow>
                    (if af_tokens af < ADMIN_KEY_FALLBACK_BURST then af\<lparr>af_tokens := af_tokens af + 1\<rparr> else af, Inr r)))"

text \<open>The result carries the admin key to store for the sender, when one opened the frame.\<close>

definition try_decrypt_pki ::
  "pk_lib \<Rightarrow> pk_env \<Rightarrow> u32 \<Rightarrow> u32 \<Rightarrow> bytes \<Rightarrow> admin_fallback \<Rightarrow> admin_fallback \<times> (mesh_data \<times> bytes option) result" where
  "try_decrypt_pki lib px from_node pid enc af =
     (let (af, r) = (case meshtastic_pki_decrypt (lib_psa lib) (px_keys px) from_node pid enc of
                       Inr plain \<Rightarrow> (af, Inr (plain, None))
                     | Inl e \<Rightarrow>
                         if e = EINVAL then (af, Inl e)
                         else (case try_admin_keys lib px from_node pid enc af of
                                 (af, Inr (plain, key)) \<Rightarrow> (af, Inr (plain, Some key))
                               | (af, Inl _) \<Rightarrow> (af, Inl e)))
      in case r of
           Inl e \<Rightarrow> (af, Inl e)
         | Inr (plain, key) \<Rightarrow> (case decode_plain lib plain of Inl e \<Rightarrow> (af, Inl e) | Inr data \<Rightarrow> (af, Inr (data, key))))"

section \<open>Receiving\<close>

definition fill_packet_from_header :: "meshtastic_wire_header \<Rightarrow> int \<Rightarrow> int \<Rightarrow> meshtastic_packet" where
  "fill_packet_from_header hdr rssi snr =
     zero_packet\<lparr>pkt_from := wh_src hdr, pkt_to := wh_dest hdr, pkt_id := wh_id hdr, pkt_hop_limit := flags_hop_limit (wh_flags hdr),
       pkt_hop_start := flags_hop_start (wh_flags hdr), pkt_channel := wh_channel hdr,
       pkt_channel_index := MESHTASTIC_CHANNEL_INDEX_INVALID, pkt_next_hop := wh_next_hop hdr, pkt_relay_node := wh_relay_node hdr,
       pkt_want_ack := flags_want_ack (wh_flags hdr), pkt_via_mqtt := flags_via_mqtt (wh_flags hdr), pkt_rssi := rssi, pkt_snr := snr\<rparr>"

datatype meshtastic_decode_fail = DECODE_FAIL_NONE | DECODE_FAIL_NO_CHANNEL | DECODE_FAIL_PKI_UNKNOWN_PUBKEY

text \<open>What decoding leaves: the flat packet, the decoded message if any, the reason of a failure, an admin key to
  store for the sender, and whether the sender's identity is requested.\<close>

record rx_decode =
  rd_packet :: meshtastic_packet
  rd_mesh :: "meshtastic_MeshPacket option"
  rd_fail :: meshtastic_decode_fail
  rd_commit :: "bytes option"
  rd_request :: bool

text \<open>The frame is for us under the public-key marker, and we hold a key.\<close>

definition pkc_marked :: "pk_env \<Rightarrow> u8 \<Rightarrow> u32 \<Rightarrow> bool" where
  "pkc_marked px wire_hash to \<longleftrightarrow> wire_hash = 0 \<and> to = px_node_id px \<and> to \<noteq> MESHTASTIC_NODE_BROADCAST
     \<and> meshtastic_pki_have_key (px_keys px)"

text \<open>The message handed on: the envelope of the packet with the decrypted \<open>Data\<close> as it is.\<close>

definition decoded_mesh :: "pk_env \<Rightarrow> meshtastic_packet \<Rightarrow> mesh_data \<Rightarrow> meshtastic_MeshPacket option" where
  "decoded_mesh px packet data =
     (case meshtastic_packet_to_mesh_pb packet of
        Inl _ \<Rightarrow> None
      | Inr mesh \<Rightarrow> Some (mesh\<lparr>mpk_payload := Decoded data, mpk_rx_time := px_epoch px\<rparr>))"

definition meshtastic_try_decode_wire_packet_on ::
  "pk_lib \<Rightarrow> pk_env \<Rightarrow> bytes \<Rightarrow> int \<Rightarrow> int \<Rightarrow> u32 \<Rightarrow> admin_fallback \<Rightarrow> admin_fallback \<times> rx_decode result" where
  "meshtastic_try_decode_wire_packet_on lib px buf rssi snr rx_preset af =
     (if length buf < MESHTASTIC_HDR_LEN then (af, Inl EINVAL)
      else
        let hdr = read_hdr buf;
            packet = fill_packet_from_header hdr rssi snr;
            enc = drop MESHTASTIC_HDR_LEN buf;
            fail = (\<lambda>r req. Inr \<lparr>rd_packet = packet, rd_mesh = None, rd_fail = r, rd_commit = None, rd_request = req\<rparr>)
        in if \<not> meshtastic_decode_known_only (px_mt px) (px_known px) (pkt_from packet) then (af, fail DECODE_FAIL_NONE False)
           else
             let (af, pret) = (if pkc_marked px (wh_channel hdr) (pkt_to packet)
                               then try_decrypt_pki lib px (pkt_from packet) (pkt_id packet) enc af
                               else (af, Inl EBADMSG))
             in case pret of
                  Inr (data, key) \<Rightarrow>
                    let packet = packet\<lparr>pkt_pki_encrypted := True, pkt_channel_index := 0\<rparr>
                    in (af, Inr \<lparr>rd_packet = packet, rd_mesh = decoded_mesh px packet data, rd_fail = DECODE_FAIL_NONE,
                                 rd_commit = key, rd_request = False\<rparr>)
                | Inl e \<Rightarrow>
                    (case try_decrypt_wire_hash lib px (wh_channel hdr) rx_preset (pkt_from packet) (pkt_id packet) enc of
                       Inr (data, ch) \<Rightarrow>
                         let packet = packet\<lparr>pkt_channel_index := of_nat ch\<rparr>
                         in (af, Inr \<lparr>rd_packet = packet, rd_mesh = decoded_mesh px packet data, rd_fail = DECODE_FAIL_NONE,
                                      rd_commit = None, rd_request = False\<rparr>)
                     | Inl _ \<Rightarrow>
                         (af, fail (if e = ENOENT \<and> wh_channel hdr = 0 then DECODE_FAIL_PKI_UNKNOWN_PUBKEY else DECODE_FAIL_NO_CHANNEL)
                                (e = ENOENT))))"

text \<open>Decoding into the flat struct: the same, with the payload copied to a buffer of size \<open>cap\<close>.\<close>

definition meshtastic_decode_wire_packet ::
  "pk_lib \<Rightarrow> pk_env \<Rightarrow> bytes \<Rightarrow> int \<Rightarrow> int \<Rightarrow> nat \<Rightarrow> admin_fallback \<Rightarrow> admin_fallback \<times> meshtastic_packet result" where
  "meshtastic_decode_wire_packet lib px buf rssi snr cap af =
     (case meshtastic_try_decode_wire_packet_on lib px buf rssi snr MESHTASTIC_PRESET_UNKNOWN af of
        (af, Inl e) \<Rightarrow> (af, Inl e)
      | (af, Inr rd) \<Rightarrow>
          (case rd_mesh rd of
             None \<Rightarrow> (af, Inl EBADMSG)
           | Some mesh \<Rightarrow>
               let data = mpk_data mesh
               in if length (data_payload data) > cap then (af, Inl ENOMEM)
                  else (af, Inr ((rd_packet rd)\<lparr>pkt_portnum := data_portnum data, pkt_payload := data_payload data,
                          pkt_data_dest := data_dest data, pkt_data_source := data_source data, pkt_request_id := data_request_id data,
                          pkt_reply_id := data_reply_id data, pkt_want_response := data_want_response data,
                          pkt_has_bitfield := data_has_bitfield data,
                          pkt_bitfield := (if data_has_bitfield data then ucast (data_bitfield data) else 0)\<rparr>))))"

text \<open>Decoding an injected message in place.  A key opened by public-key encryption is shown with the message.\<close>

definition meshtastic_mesh_pb_try_decode ::
  "pk_lib \<Rightarrow> pk_env \<Rightarrow> meshtastic_MeshPacket \<Rightarrow> admin_fallback \<Rightarrow> admin_fallback \<times> meshtastic_MeshPacket result" where
  "meshtastic_mesh_pb_try_decode lib px mesh af =
     (case mpk_payload mesh of
        Decoded _ \<Rightarrow> (af, Inr mesh)
      | Variant_Unset [] \<Rightarrow> (af, Inl ENOTSUP)
      | p \<Rightarrow>
          let enc = (case p of Encrypted e \<Rightarrow> e | Variant_Unset e \<Rightarrow> e | Decoded _ \<Rightarrow> [])
          in if enc = [] then (af, Inl EINVAL)
             else
               let (af, pret) = (if pkc_marked px (mpk_channel mesh) (mpk_to mesh)
                                 then try_decrypt_pki lib px (mpk_from mesh) (mpk_id mesh) enc af
                                 else (af, Inl EBADMSG))
               in case pret of
                    Inr (data, _) \<Rightarrow>
                      (af, Inr (mesh\<lparr>mpk_payload := Decoded data, mpk_channel := 0, mpk_pki_encrypted := True,
                                     mpk_public_key := (case kx_pubkey (px_keys px) (mpk_from mesh) of
                                                          Some k \<Rightarrow> if length k = PKI_KEY_LEN then k else mpk_public_key mesh
                                                        | None \<Rightarrow> mpk_public_key mesh)\<rparr>))
                  | Inl _ \<Rightarrow>
                      (case try_decrypt_wire_hash lib px (mpk_channel mesh) MESHTASTIC_PRESET_UNKNOWN (mpk_from mesh) (mpk_id mesh) enc of
                         Inl e \<Rightarrow> (af, Inl e)
                       | Inr (data, ch) \<Rightarrow> (af, Inr (mesh\<lparr>mpk_payload := Decoded data, mpk_channel := of_nat ch\<rparr>))))"

text \<open>The flat struct of a decoded message; \<open>cap\<close> is the size of the payload buffer.\<close>

definition mesh_wire_hash :: "pk_env \<Rightarrow> u8 \<Rightarrow> u8" where
  "mesh_wire_hash px channel =
     (if unat channel < MESHTASTIC_MAX_CHANNELS then meshtastic_channels_get_hash (px_chan px) (unat channel)
      else if channel \<noteq> 0 then channel else cn_ch_hash (px_chan px))"

definition mesh_pb_to_packet_decoded :: "pk_env \<Rightarrow> meshtastic_MeshPacket \<Rightarrow> nat \<Rightarrow> meshtastic_packet result" where
  "mesh_pb_to_packet_decoded px mesh cap =
     (let data = mpk_data mesh
      in if length (data_payload data) > cap then Inl ENOMEM
         else Inr (zero_packet\<lparr>pkt_from := mpk_from mesh, pkt_to := mpk_to mesh, pkt_id := mpk_id mesh, pkt_portnum := data_portnum data,
           pkt_payload := data_payload data, pkt_data_dest := data_dest data, pkt_data_source := data_source data,
           pkt_request_id := data_request_id data, pkt_reply_id := data_reply_id data, pkt_hop_limit := mpk_hop_limit mesh,
           pkt_hop_start := mpk_hop_start mesh, pkt_channel := mesh_wire_hash px (mpk_channel mesh),
           pkt_channel_index := (if unat (mpk_channel mesh) < MESHTASTIC_MAX_CHANNELS then mpk_channel mesh else MESHTASTIC_CHANNEL_INDEX_INVALID),
           pkt_next_hop := mpk_next_hop mesh, pkt_relay_node := mpk_relay_node mesh, pkt_want_ack := mpk_want_ack mesh,
           pkt_via_mqtt := mpk_via_mqtt mesh, pkt_pki_encrypted := mpk_pki_encrypted mesh,
           pkt_want_response := data_want_response data, pkt_rssi := mpk_rx_rssi mesh, pkt_snr := mpk_rx_snr mesh,
           pkt_has_bitfield := data_has_bitfield data,
           pkt_bitfield := (if data_has_bitfield data then ucast (data_bitfield data) else 0)\<rparr>))"

definition meshtastic_mesh_pb_to_packet ::
  "pk_lib \<Rightarrow> pk_env \<Rightarrow> meshtastic_MeshPacket \<Rightarrow> nat \<Rightarrow> admin_fallback \<Rightarrow> admin_fallback \<times> meshtastic_packet result" where
  "meshtastic_mesh_pb_to_packet lib px mesh cap af =
     (case mpk_payload mesh of
        Decoded _ \<Rightarrow> (af, mesh_pb_to_packet_decoded px mesh cap)
      | _ \<Rightarrow>
          (case meshtastic_mesh_pb_try_decode lib px mesh af of
             (af, Inl e) \<Rightarrow> (af, Inl e)
           | (af, Inr work) \<Rightarrow> (af, mesh_pb_to_packet_decoded px work cap)))"

section \<open>Building a frame\<close>

definition PORT_POSITION_APP :: u32 where "PORT_POSITION_APP = 3"
definition PORT_NODEINFO_APP :: u32 where "PORT_NODEINFO_APP = 4"
definition PORT_ROUTING_APP :: u32 where "PORT_ROUTING_APP = 5"
definition PORT_TRACEROUTE_APP :: u32 where "PORT_TRACEROUTE_APP = 70"

definition meshtastic_attachment_tx_hash :: "pk_env \<Rightarrow> u8 \<Rightarrow> nat \<Rightarrow> u8" where
  "meshtastic_attachment_tx_hash px attach index =
     (case px_head_preset px attach of
        None \<Rightarrow> meshtastic_channels_get_hash (px_chan px) index
      | Some preset \<Rightarrow>
          if preset = MESHTASTIC_PRESET_UNKNOWN then meshtastic_channels_get_hash (px_chan px) index
          else meshtastic_channels_hash_for_preset (px_mt px) (px_chan px) index preset)"

text \<open>A direct message that goes out under the peer's public key.\<close>

definition wants_pkc :: "pk_env \<Rightarrow> bool \<Rightarrow> meshtastic_MeshPacket \<Rightarrow> bool" where
  "wants_pkc px no_pkc mesh \<longleftrightarrow>
     mpk_to mesh \<noteq> MESHTASTIC_NODE_BROADCAST \<and> mpk_to mesh \<noteq> 0 \<and> meshtastic_pki_have_key (px_keys px) \<and> \<not> px_licensed px
     \<and> \<not> no_pkc
     \<and> (mpk_pki_encrypted mesh
        \<or> data_portnum (mpk_data mesh) \<notin> {PORT_TRACEROUTE_APP, PORT_NODEINFO_APP, PORT_ROUTING_APP, PORT_POSITION_APP})"

definition frame_header :: "meshtastic_MeshPacket \<Rightarrow> u8 \<Rightarrow> meshtastic_wire_header" where
  "frame_header mesh wire_hash =
     \<lparr>wh_dest = mpk_to mesh, wh_src = mpk_from mesh, wh_id = mpk_id mesh,
      wh_flags = make_flags (mpk_hop_limit mesh) (mpk_hop_start mesh) (mpk_want_ack mesh) (mpk_via_mqtt mesh),
      wh_channel = wire_hash, wh_next_hop = mpk_next_hop mesh, wh_relay_node = mpk_relay_node mesh\<rparr>"

definition meshtastic_build_wire_from_mesh :: "pk_lib \<Rightarrow> pk_env \<Rightarrow> bool \<Rightarrow> u8 \<Rightarrow> meshtastic_MeshPacket \<Rightarrow> bytes result" where
  "meshtastic_build_wire_from_mesh lib px no_pkc attach mesh =
     (case encode_packet_data lib px mesh MESHTASTIC_PAYLOAD_MAX of
        Inl e \<Rightarrow> Inl e
      | Inr encoded \<Rightarrow>
          (let ch_index = unat (mpk_channel mesh); cn = px_chan px
           in case channel_get_key (cn_slots cn) (cn_primary cn) ch_index of
                Inl e \<Rightarrow> Inl e
              | Inr key \<Rightarrow>
                  let wire_hash = (if attach \<noteq> 0 then meshtastic_attachment_tx_hash px attach ch_index
                                   else meshtastic_channels_get_hash cn ch_index)
                  in if wants_pkc px no_pkc mesh
                     then (if MESHTASTIC_HDR_LEN + length encoded + MESHTASTIC_PKI_OVERHEAD > MESHTASTIC_PKT_MAX then Inl EMSGSIZE
                           else case meshtastic_pki_encrypt (lib_psa lib) (px_keys px) (px_random px) (mpk_to mesh) (mpk_from mesh)
                                       (mpk_id mesh) encoded (MESHTASTIC_PAYLOAD_MAX + 16) of
                                  Inl _ \<Rightarrow> Inl EACCES
                                | Inr box \<Rightarrow> Inr (hdr_bytes (frame_header mesh 0) @ box))
                     else case ctr_crypt (lib_psa lib) key (meshtastic_channel_nonce_build (mpk_id mesh) (mpk_from mesh)) encoded of
                            Inl e \<Rightarrow> Inl e
                          | Inr enc \<Rightarrow> Inr (hdr_bytes (frame_header mesh wire_hash) @ enc)))"

definition meshtastic_build_wire_packet :: "pk_lib \<Rightarrow> pk_env \<Rightarrow> u8 \<Rightarrow> meshtastic_packet \<Rightarrow> bytes result" where
  "meshtastic_build_wire_packet lib px attach packet =
     (case meshtastic_packet_to_mesh_pb packet of
        Inl e \<Rightarrow> Inl e
      | Inr mesh \<Rightarrow>
          meshtastic_build_wire_from_mesh lib px (pkt_no_pkc packet) attach
            (mesh\<lparr>mpk_channel := of_nat (meshtastic_channels_resolve_send_index (px_peer_channel px) (px_chan px) (pkt_to packet)
                                            (unat (pkt_channel_index packet)) (pkt_channel packet))\<rparr>))"

section \<open>Layout round trips\<close>

lemma hdr_bytes_length [simp]: "length (hdr_bytes h) = MESHTASTIC_HDR_LEN"
  by (simp add: hdr_bytes_def MESHTASTIC_HDR_LEN_def)

lemma read_hdr_bytes [simp]: "read_hdr (hdr_bytes h @ body) = h"
  by (simp add: read_hdr_def hdr_bytes_def nth_append f32.dec_enc)

lemma bit_less_8: "(n::nat) < 8 \<longleftrightarrow> n = 0 \<or> n = 1 \<or> n = 2 \<or> n = 3 \<or> n = 4 \<or> n = 5 \<or> n = 6 \<or> n = 7" by auto

lemma flags_round_trip:
  "flags_hop_limit (make_flags a b w v) = a AND 0x07" "flags_hop_start (make_flags a b w v) = b AND 0x07"
  "flags_want_ack (make_flags a b w v) = w" "flags_via_mqtt (make_flags a b w v) = v"
proof -
  show "flags_hop_limit (make_flags a b w v) = a AND 0x07"
    unfolding flags_hop_limit_def make_flags_def
    by (rule bit_word_eqI) (cases w; cases v; auto simp: bit_simps bit_less_8)
  show "flags_hop_start (make_flags a b w v) = b AND 0x07"
    unfolding flags_hop_start_def make_flags_def
    by (rule bit_word_eqI) (cases w; cases v; auto simp: bit_simps bit_less_8)
  have "make_flags a b w v AND 0x08 = (if w then 0x08 else 0)" unfolding make_flags_def
    by (rule bit_word_eqI) (cases w; cases v; auto simp: bit_simps bit_less_8)
  then show "flags_want_ack (make_flags a b w v) = w" unfolding flags_want_ack_def by simp
  have "make_flags a b w v AND 0x10 = (if v then 0x10 else 0)" unfolding make_flags_def
    by (rule bit_word_eqI) (cases w; cases v; auto simp: bit_simps bit_less_8)
  then show "flags_via_mqtt (make_flags a b w v) = v" unfolding flags_via_mqtt_def by simp
qed

section \<open>What a peer makes of a frame\<close>

lemma sign_portnum [simp]: "data_portnum (sign_our_packet lib px mesh n d) = data_portnum d"
  unfolding sign_our_packet_def Let_def by (auto split: option.split sum.split)

lemma outgoing_portnum [simp]: "data_portnum (outgoing_data lib px mesh n) = data_portnum (mpk_data mesh)"
  unfolding outgoing_data_def Let_def by simp

lemma encoded_data:
  assumes "encode_packet_data lib px mesh n = Inr b" "pb_law lib" "data_portnum (mpk_data mesh) \<noteq> PORT_UNKNOWN_APP"
  shows "decode_plain lib b = Inr (outgoing_data lib px mesh n)" "b \<noteq> []" "length b \<le> n"
proof -
  have e: "lib_pb_encode lib (outgoing_data lib px mesh n) = Some b" "length b \<le> n"
    using assms(1) unfolding encode_packet_data_def by (auto split: if_splits option.splits)
  then have d: "lib_pb_decode lib b = Some (outgoing_data lib px mesh n)" using assms(2) unfolding pb_law_def by blast
  then show "decode_plain lib b = Inr (outgoing_data lib px mesh n)" unfolding decode_plain_def using assms(3) by simp
  have "data_portnum (outgoing_data lib px mesh n) = data_portnum zero_data" if "b = []"
    using d assms(2) that unfolding pb_law_def by simp
  then show "b \<noteq> []" using assms(3) by (auto simp: zero_data_def PORT_UNKNOWN_APP_def)
qed (use assms(1) in \<open>auto simp: encode_packet_data_def split: if_splits option.splits\<close>)

text \<open>The message a receiver gets from the header of a frame.\<close>

definition received :: "pk_env \<Rightarrow> meshtastic_MeshPacket \<Rightarrow> mesh_data \<Rightarrow> u8 \<Rightarrow> bool \<Rightarrow> int \<Rightarrow> int \<Rightarrow> meshtastic_MeshPacket" where
  "received px mesh data channel pki rssi snr =
     \<lparr>mpk_from = mpk_from mesh, mpk_to = mpk_to mesh, mpk_channel = channel, mpk_payload = Decoded data, mpk_id = mpk_id mesh,
      mpk_rx_time = px_epoch px, mpk_rx_snr = snr, mpk_rx_rssi = rssi, mpk_hop_limit = mpk_hop_limit mesh AND 0x07,
      mpk_hop_start = mpk_hop_start mesh AND 0x07, mpk_want_ack = mpk_want_ack mesh, mpk_via_mqtt = mpk_via_mqtt mesh,
      mpk_public_key = [], mpk_pki_encrypted = pki, mpk_next_hop = mpk_next_hop mesh, mpk_relay_node = mpk_relay_node mesh,
      mpk_transport = (if mpk_via_mqtt mesh then TRANSPORT_MQTT else TRANSPORT_LORA), mpk_xeddsa_signed = False\<rparr>"

lemma decoded_mesh_received:
  assumes "p = fill_packet_from_header (frame_header mesh h) rssi snr" "c \<noteq> MESHTASTIC_CHANNEL_INDEX_INVALID"
  shows "decoded_mesh px (p\<lparr>pkt_channel_index := c\<rparr>) data = Some (received px mesh data c False rssi snr)"
    "decoded_mesh px (p\<lparr>pkt_pki_encrypted := True, pkt_channel_index := c\<rparr>) data = Some (received px mesh data c True rssi snr)"
  using assms(2) unfolding assms(1)
  by (simp_all add: decoded_mesh_def meshtastic_packet_to_mesh_pb_def fill_packet_from_header_def zero_packet_def frame_header_def
      flags_round_trip received_def)

lemma first_opening_unique:
  assumes "x \<in> set xs" "opens x = Some d" "\<And>y. y \<in> set xs \<Longrightarrow> y \<noteq> x \<Longrightarrow> opens y = None"
  shows "first_opening opens xs = Inr (d, snd x)"
  using assms
proof (induction xs)
  case (Cons s ss)
  show ?case
  proof (cases "s = x")
    case False
    then have "opens s = None" using Cons.prems(3)[of s] by simp
    then show ?thesis using Cons False by simp
  qed (use Cons.prems(2) in simp)
qed simp

lemma channel_key_length: "channel_get_key slots p i = Inr key \<Longrightarrow> key = [] \<or> length key = 16 \<or> length key = 32"
proof (induction slots p i rule: channel_get_key.induct)
  case (1 slots p i)
  have "length meshtastic_default_psk = 16" by (simp add: meshtastic_default_psk_def)
  moreover have "length (expand_short_psk x) = 16" for x by (simp add: expand_short_psk_def meshtastic_default_psk_def)
  ultimately show ?case
    using 1 by (subst (asm) (2) channel_get_key.simps) (auto simp: Let_def split: if_splits)
qed

text \<open>A frame under the public-key marker.\<close>

lemma built_pkc:
  assumes "meshtastic_build_wire_from_mesh lib px no_pkc attach mesh = Inr wire" "wants_pkc px no_pkc mesh"
  obtains encoded box where "encode_packet_data lib px mesh MESHTASTIC_PAYLOAD_MAX = Inr encoded"
    "meshtastic_pki_encrypt (lib_psa lib) (px_keys px) (px_random px) (mpk_to mesh) (mpk_from mesh) (mpk_id mesh) encoded
       (MESHTASTIC_PAYLOAD_MAX + 16) = Inr box"
    "wire = hdr_bytes (frame_header mesh 0) @ box"
  using assms unfolding meshtastic_build_wire_from_mesh_def by (auto simp: Let_def split: sum.splits if_splits)

lemma built_channel:
  assumes "meshtastic_build_wire_from_mesh lib px no_pkc 0 mesh = Inr wire" "\<not> wants_pkc px no_pkc mesh"
  obtains encoded key enc where "encode_packet_data lib px mesh MESHTASTIC_PAYLOAD_MAX = Inr encoded"
    "channel_get_key (cn_slots (px_chan px)) (cn_primary (px_chan px)) (unat (mpk_channel mesh)) = Inr key"
    "psa_ctr (lib_psa lib) key (meshtastic_channel_nonce_build (mpk_id mesh) (mpk_from mesh)) encoded = Some enc"
    "wire = hdr_bytes (frame_header mesh (meshtastic_channels_get_hash (px_chan px) (unat (mpk_channel mesh)))) @ enc"
  using assms unfolding meshtastic_build_wire_from_mesh_def ctr_crypt_def
  by (auto simp: Let_def split: sum.splits if_splits option.splits)

lemma pki_frame_decodes:
  assumes pb: "pb_law lib" and law: "ecdh_law (lib_psa lib) pub" "ccm_law (lib_psa lib)"
    and port: "data_portnum (mpk_data mesh) \<noteq> PORT_UNKNOWN_APP"
    and keys: "kx_priv (px_keys px) = Some a" "pki_peer_pub (px_keys px) (mpk_to mesh) = Inr (pub b)"
      "kx_priv (px_keys px') = Some b" "pki_peer_pub (px_keys px') (mpk_from mesh) = Inr (pub a)"
    and peer: "px_node_id px' = mpk_to mesh" "mpk_to mesh \<noteq> MESHTASTIC_NODE_BROADCAST"
      "meshtastic_decode_known_only (px_mt px') (px_known px') (mpk_from mesh)"
    and enc: "encode_packet_data lib px mesh MESHTASTIC_PAYLOAD_MAX = Inr encoded"
      "meshtastic_pki_encrypt (lib_psa lib) (px_keys px) rnd (mpk_to mesh) (mpk_from mesh) (mpk_id mesh) encoded cap = Inr box"
  shows "\<exists>rd. meshtastic_try_decode_wire_packet_on lib px' (hdr_bytes (frame_header mesh 0) @ box) rssi snr rx_preset af = (af, Inr rd)
    \<and> rd_mesh rd = Some (received px' mesh (outgoing_data lib px mesh MESHTASTIC_PAYLOAD_MAX) 0 True rssi snr)"
proof -
  note e = encoded_data[OF enc(1) pb port]
  have "meshtastic_pki_decrypt (lib_psa lib) (px_keys px') (mpk_from mesh) (mpk_id mesh) box = Inr encoded"
    by (rule pki_box_opens[OF law keys enc(2) e(2)])
  then have d: "try_decrypt_pki lib px' (mpk_from mesh) (mpk_id mesh) box af = (af, Inr (outgoing_data lib px mesh MESHTASTIC_PAYLOAD_MAX, None))"
    unfolding try_decrypt_pki_def using e(1) by simp
  have m: "pkc_marked px' 0 (mpk_to mesh)" using peer keys(3) unfolding pkc_marked_def meshtastic_pki_have_key_def by simp
  let ?p = "fill_packet_from_header (frame_header mesh 0) rssi snr"
  have f: "pkt_from ?p = mpk_from mesh" "pkt_to ?p = mpk_to mesh" "pkt_id ?p = mpk_id mesh" "wh_channel (frame_header mesh 0) = 0"
    by (simp_all add: fill_packet_from_header_def frame_header_def)
  have l: "\<not> length (hdr_bytes (frame_header mesh 0) @ box) < MESHTASTIC_HDR_LEN"
    "drop MESHTASTIC_HDR_LEN (hdr_bytes (frame_header mesh 0) @ box) = box" by simp_all
  have c: "(0::u8) \<noteq> MESHTASTIC_CHANNEL_INDEX_INVALID" by (simp add: MESHTASTIC_CHANNEL_INDEX_INVALID_def)
  show ?thesis
    unfolding meshtastic_try_decode_wire_packet_on_def Let_def read_hdr_bytes f l(2) if_not_P[OF l(1)]
    using peer(3) m d decoded_mesh_received(2)[OF refl c] by simp
qed

text \<open>C8. A direct message is private and arrives.  A unicast that the node sends with public-key encryption leaves as
  the header with the marker 0 in the channel byte, followed by the box that the public-key routine made of the
  encoded message: it never falls back to the key of a channel, whatever channel the message names.  The node it is
  addressed to, which holds the matching private key and knows the sender's public key, decodes the frame on the first
  attempt, without touching the budget of admin keys, into the same \<open>Data\<close> (the one the sender encoded, with its
  bitfield and signature) under the sender's envelope, with the hop fields cut to their three bits and the mark that it
  came by public-key encryption.\<close>

theorem direct_message_private:
  assumes "meshtastic_build_wire_from_mesh lib px no_pkc attach mesh = Inr wire" "wants_pkc px no_pkc mesh"
    "pb_law lib" "ecdh_law (lib_psa lib) pub" "ccm_law (lib_psa lib)"
    "data_portnum (mpk_data mesh) \<noteq> PORT_UNKNOWN_APP"
    "kx_priv (px_keys px) = Some a" "pki_peer_pub (px_keys px) (mpk_to mesh) = Inr (pub b)"
    "kx_priv (px_keys px') = Some b" "pki_peer_pub (px_keys px') (mpk_from mesh) = Inr (pub a)"
    "px_node_id px' = mpk_to mesh" "meshtastic_decode_known_only (px_mt px') (px_known px') (mpk_from mesh)"
  shows "\<exists>encoded box rd. wire = hdr_bytes (frame_header mesh 0) @ box
    \<and> encode_packet_data lib px mesh MESHTASTIC_PAYLOAD_MAX = Inr encoded
    \<and> meshtastic_pki_encrypt (lib_psa lib) (px_keys px) (px_random px) (mpk_to mesh) (mpk_from mesh) (mpk_id mesh) encoded
        (MESHTASTIC_PAYLOAD_MAX + 16) = Inr box
    \<and> meshtastic_try_decode_wire_packet_on lib px' wire rssi snr rx_preset af = (af, Inr rd)
    \<and> rd_mesh rd = Some (received px' mesh (outgoing_data lib px mesh MESHTASTIC_PAYLOAD_MAX) 0 True rssi snr)"
proof -
  obtain encoded box where e: "encode_packet_data lib px mesh MESHTASTIC_PAYLOAD_MAX = Inr encoded"
    "meshtastic_pki_encrypt (lib_psa lib) (px_keys px) (px_random px) (mpk_to mesh) (mpk_from mesh) (mpk_id mesh) encoded
       (MESHTASTIC_PAYLOAD_MAX + 16) = Inr box" "wire = hdr_bytes (frame_header mesh 0) @ box"
    using built_pkc[OF assms(1,2)] by blast
  have "mpk_to mesh \<noteq> MESHTASTIC_NODE_BROADCAST" using assms(2) unfolding wants_pkc_def by simp
  from pki_frame_decodes[OF assms(3-11) this assms(12) e(1,2)] e show ?thesis by blast
qed

text \<open>A frame under a channel key opens at the one slot that holds its key and hash.\<close>

lemma channel_ciphertext_opens:
  assumes "pb_law lib" "ctr_law (lib_psa lib)" "data_portnum (mpk_data mesh) \<noteq> PORT_UNKNOWN_APP"
    "encode_packet_data lib px mesh MESHTASTIC_PAYLOAD_MAX = Inr encoded"
    "psa_ctr (lib_psa lib) key (meshtastic_channel_nonce_build (mpk_id mesh) (mpk_from mesh)) encoded = Some enc"
    "channel_get_key slots p c = Inr key" "key \<noteq> []"
  shows "decrypt_mesh_encrypted_key lib (mpk_from mesh) (mpk_id mesh) enc key
    = Inr (outgoing_data lib px mesh MESHTASTIC_PAYLOAD_MAX)"
proof -
  note e = encoded_data[OF assms(4,1,3)]
  have c: "psa_ctr (lib_psa lib) key (meshtastic_channel_nonce_build (mpk_id mesh) (mpk_from mesh)) enc = Some encoded"
    "length enc = length encoded" using assms(2,5) unfolding ctr_law_def by blast+
  then have "enc \<noteq> []" "length enc \<le> MESHTASTIC_PAYLOAD_MAX" using e(2,3) by auto
  then show ?thesis
    using c(1) e(1) assms(7) channel_key_length[OF assms(6)] unfolding decrypt_mesh_encrypted_key_def ctr_crypt_def by auto
qed

lemma hash_trial_finds:
  assumes "decrypt_mesh_encrypted_key lib from_node pid enc key = Inr data"
    "c < MESHTASTIC_MAX_CHANNELS" "role_at (px_chan px) c \<noteq> Role_DISABLED"
    "channel_get_key (cn_slots (px_chan px)) (cn_primary (px_chan px)) c = Inr key"
    "meshtastic_channels_decrypt_for_hash_on (px_mt px) (px_chan px) c h rx_preset"
    "\<And>i. i < MESHTASTIC_MAX_CHANNELS \<Longrightarrow> i \<noteq> c \<Longrightarrow> role_at (px_chan px) i \<noteq> Role_DISABLED
       \<Longrightarrow> \<not> meshtastic_channels_decrypt_for_hash_on (px_mt px) (px_chan px) i h rx_preset"
  shows "try_decrypt_wire_hash lib px h rx_preset from_node pid enc = Inr (data, c)"
proof -
  let ?n = "meshtastic_channels_named_for_preset (px_mt px) (px_chan px) c rx_preset"
  have "first_opening (slot_opens lib px h rx_preset from_node pid enc) trial_order = Inr (data, snd (?n, c))"
  proof (rule first_opening_unique)
    show "(?n, c) \<in> set trial_order" using assms(2) unfolding trial_order_def by (cases ?n) auto
    show "slot_opens lib px h rx_preset from_node pid enc (?n, c) = Some data"
      using assms(1,3-5) unfolding slot_opens_def by (simp add: Let_def)
    show "slot_opens lib px h rx_preset from_node pid enc y = None" if y: "y \<in> set trial_order" "y \<noteq> (?n, c)" for y
    proof (cases y)
      case (Pair fp i)
      then have "i < MESHTASTIC_MAX_CHANNELS" using y(1) unfolding trial_order_def by auto
      then show ?thesis using assms(6)[of i] y(2) unfolding Pair slot_opens_def by (auto simp: Let_def)
    qed
  qed
  then show ?thesis unfolding try_decrypt_wire_hash_def by simp
qed

text \<open>C11. A message sent on a channel arrives.  Whatever slots the two nodes keep the channel in: when a frame built
  under the key of a slot (not by public-key encryption) reaches a node with exactly one enabled slot of that hash on
  the preset it was heard on, holding the same non-empty key, that node decodes it at that slot into the same \<open>Data\<close>
  under the sender's envelope, and the budget of admin keys is untouched.\<close>

theorem channel_frame_roundtrip:
  assumes "meshtastic_build_wire_from_mesh lib px no_pkc 0 mesh = Inr wire" "\<not> wants_pkc px no_pkc mesh"
    "pb_law lib" "ctr_law (lib_psa lib)" "data_portnum (mpk_data mesh) \<noteq> PORT_UNKNOWN_APP"
    "h = meshtastic_channels_get_hash (px_chan px) (unat (mpk_channel mesh))"
    "c < MESHTASTIC_MAX_CHANNELS" "role_at (px_chan px') c \<noteq> Role_DISABLED"
    "channel_get_key (cn_slots (px_chan px')) (cn_primary (px_chan px')) c
       = channel_get_key (cn_slots (px_chan px)) (cn_primary (px_chan px)) (unat (mpk_channel mesh))"
    "channel_get_key (cn_slots (px_chan px)) (cn_primary (px_chan px)) (unat (mpk_channel mesh)) \<noteq> Inr []"
    "meshtastic_channels_decrypt_for_hash_on (px_mt px') (px_chan px') c h rx_preset"
    "\<And>i. i < MESHTASTIC_MAX_CHANNELS \<Longrightarrow> i \<noteq> c \<Longrightarrow> role_at (px_chan px') i \<noteq> Role_DISABLED
       \<Longrightarrow> \<not> meshtastic_channels_decrypt_for_hash_on (px_mt px') (px_chan px') i h rx_preset"
    "\<not> pkc_marked px' h (mpk_to mesh)" "meshtastic_decode_known_only (px_mt px') (px_known px') (mpk_from mesh)"
  shows "\<exists>rd. meshtastic_try_decode_wire_packet_on lib px' wire rssi snr rx_preset af = (af, Inr rd)
    \<and> rd_mesh rd = Some (received px' mesh (outgoing_data lib px mesh MESHTASTIC_PAYLOAD_MAX) (of_nat c) False rssi snr)"
proof -
  obtain encoded key enc where b: "encode_packet_data lib px mesh MESHTASTIC_PAYLOAD_MAX = Inr encoded"
    "channel_get_key (cn_slots (px_chan px)) (cn_primary (px_chan px)) (unat (mpk_channel mesh)) = Inr key"
    "psa_ctr (lib_psa lib) key (meshtastic_channel_nonce_build (mpk_id mesh) (mpk_from mesh)) encoded = Some enc"
    "wire = hdr_bytes (frame_header mesh h) @ enc"
    unfolding assms(6) using built_channel[OF assms(1,2)] by blast
  have k: "key \<noteq> []" "channel_get_key (cn_slots (px_chan px')) (cn_primary (px_chan px')) c = Inr key" using assms(9,10) b(2) by auto
  have t: "try_decrypt_wire_hash lib px' h rx_preset (mpk_from mesh) (mpk_id mesh) enc
      = Inr (outgoing_data lib px mesh MESHTASTIC_PAYLOAD_MAX, c)"
    by (rule hash_trial_finds[OF channel_ciphertext_opens[OF assms(3-5) b(1,3,2) k(1)] assms(7,8) k(2) assms(11,12)])
  let ?p = "fill_packet_from_header (frame_header mesh h) rssi snr"
  have f: "pkt_from ?p = mpk_from mesh" "pkt_to ?p = mpk_to mesh" "pkt_id ?p = mpk_id mesh" "wh_channel (frame_header mesh h) = h"
    by (simp_all add: fill_packet_from_header_def frame_header_def)
  have l: "\<not> length (hdr_bytes (frame_header mesh h) @ enc) < MESHTASTIC_HDR_LEN"
    "drop MESHTASTIC_HDR_LEN (hdr_bytes (frame_header mesh h) @ enc) = enc" by simp_all
  have c: "(of_nat c :: u8) \<noteq> MESHTASTIC_CHANNEL_INDEX_INVALID"
  proof -
    have "unat (of_nat c :: u8) = c" using assms(7) by (simp add: unat_of_nat)
    moreover have "unat MESHTASTIC_CHANNEL_INDEX_INVALID = 255" by (simp add: MESHTASTIC_CHANNEL_INDEX_INVALID_def)
    ultimately show ?thesis using assms(7) by auto
  qed
  show ?thesis
    unfolding b(4) meshtastic_try_decode_wire_packet_on_def Let_def read_hdr_bytes f l(2) if_not_P[OF l(1)]
    using assms(13,14) t decoded_mesh_received(1)[OF refl c] by simp
qed

section \<open>Examples\<close>

text \<open>A library that satisfies the laws, and two nodes that share a channel and know each other's keys.\<close>

definition ex_data :: "u32 \<Rightarrow> bytes \<Rightarrow> mesh_data" where
  "ex_data p b = zero_data\<lparr>data_portnum := p, data_payload := b, data_has_bitfield := True\<rparr>"

definition ex_lib :: pk_lib where
  "ex_lib = \<lparr>lib_psa = \<lparr>psa_ctr = (\<lambda>k n x. Some (map (\<lambda>b. b XOR 0x5A) x)), psa_ecdh = (\<lambda>a b. Some (map2 (XOR) a b)),
               psa_sha256 = Some, psa_seal = (\<lambda>k n x. Some (x @ take 8 k)), psa_open = (\<lambda>k n y. Some (take (length y - length (take 8 k)) y))\<rparr>,
     lib_pb_encode = (\<lambda>d. if d = ex_data (data_portnum d) (data_payload d) then Some (le_bytes (data_portnum d) 4 @ data_payload d) else None),
     lib_pb_decode = (\<lambda>b. if b = [] then Some zero_data else Some (ex_data (le_word (take 4 b)) (drop 4 b))),
     lib_sign = (\<lambda>k b. None)\<rparr>"

definition ex_channels :: channels where
  "ex_channels =
     (let ch = ex_slot Role_PRIMARY (replicate 16 7) ''Ops''
      in \<lparr>cn_slots = ch # replicate 7 zero_channel, cn_hashes = slot_hash ex_radio ch # replicate 7 0, cn_primary = 0,
          cn_psk = replicate 16 7, cn_ch_hash = slot_hash ex_radio ch, cn_channel_name = ''Ops''\<rparr>)"

definition ex_node :: "u32 \<Rightarrow> u8 \<Rightarrow> pk_env" where
  "ex_node n k =
     \<lparr>px_node_id = n, px_mt = ex_radio, px_chan = ex_channels, px_licensed = False,
      px_keys = \<lparr>kx_priv = Some (replicate 32 k), kx_pubkey = (\<lambda>i. if i = 1 then Some (replicate 32 11) else Some (replicate 32 22)),
                 kx_pending = None\<rparr>,
      px_known = (\<lambda>_. False), px_peer_channel = (\<lambda>_. None), px_admin_keys = [], px_uptime = 1000, px_epoch = 0,
      px_random = Some 99, px_head_preset = (\<lambda>_. None), px_signing = False\<rparr>"

definition ex_message :: "u32 \<Rightarrow> meshtastic_MeshPacket" where
  "ex_message to =
     \<lparr>mpk_from = 1, mpk_to = to, mpk_channel = 0, mpk_payload = Decoded (ex_data 1 [72, 105]), mpk_id = 77, mpk_rx_time = 0,
      mpk_rx_snr = 0, mpk_rx_rssi = 0, mpk_hop_limit = 3, mpk_hop_start = 3, mpk_want_ack = False, mpk_via_mqtt = False,
      mpk_public_key = [], mpk_pki_encrypted = False, mpk_next_hop = 0, mpk_relay_node = 1, mpk_transport = TRANSPORT_LORA,
      mpk_xeddsa_signed = False\<rparr>"

lemma ex_lib_laws: "pb_law ex_lib" "ctr_law (lib_psa ex_lib)" "ecdh_law (lib_psa ex_lib) (\<lambda>k. k)" "ccm_law (lib_psa ex_lib)"
proof -
  have "le_bytes p 4 \<noteq> []" for p :: u32 by (metis f32.enc_length list.size(3) zero_neq_numeral)
  then show "pb_law ex_lib" unfolding pb_law_def ex_lib_def by (auto simp: f32.dec_enc f32.enc_length)
  show "ctr_law (lib_psa ex_lib)" unfolding ctr_law_def ex_lib_def by (auto simp: comp_def xor.assoc)
  show "ccm_law (lib_psa ex_lib)" unfolding ccm_law_def ex_lib_def by auto
  have "map2 (XOR) a b = map2 (XOR) b a" for a b :: bytes by (subst zip_commute) (simp add: case_prod_beta comp_def xor.commute)
  then show "ecdh_law (lib_psa ex_lib) (\<lambda>k. k)" unfolding ecdh_law_def ex_lib_def by auto
qed

lemma ex_outgoing: "outgoing_data ex_lib (ex_node 1 11) (ex_message to) n = ex_data 1 [72, 105]"
  unfolding outgoing_data_def ex_node_def ex_message_def mpk_data_def ex_data_def zero_data_def
  by (simp add: Let_def ex_radio_def)

lemma ex_encoded: "encode_packet_data ex_lib (ex_node 1 11) (ex_message to) MESHTASTIC_PAYLOAD_MAX = Inr (le_bytes (1::u32) 4 @ [72, 105])"
  unfolding encode_packet_data_def ex_outgoing
  by (simp add: ex_lib_def ex_message_def mpk_data_def ex_data_def zero_data_def MESHTASTIC_MAX_PAYLOAD_LEN_def MESHTASTIC_PAYLOAD_MAX_def
      MESHTASTIC_PKT_MAX_def MESHTASTIC_HDR_LEN_def
      f32.enc_length)

lemma ex_key: "channel_get_key (cn_slots ex_channels) (cn_primary ex_channels) 0 = Inr (replicate 16 7)"
  by (subst channel_get_key.simps) (simp add: ex_channels_def ex_slot_def no_settings_def Let_def)

lemma ex_only_slot: "0 < i \<Longrightarrow> i < 8 \<Longrightarrow> role_at ex_channels i = Role_DISABLED"
  by (cases i) (simp_all add: ex_channels_def Let_def zero_channel_def nth_Cons')

theorem direct_message_private_witness:
  "\<exists>encoded box rd.
     meshtastic_build_wire_from_mesh ex_lib (ex_node 1 11) False 0 (ex_message 2) = Inr (hdr_bytes (frame_header (ex_message 2) 0) @ box)
     \<and> encode_packet_data ex_lib (ex_node 1 11) (ex_message 2) MESHTASTIC_PAYLOAD_MAX = Inr encoded
     \<and> meshtastic_try_decode_wire_packet_on ex_lib (ex_node 2 22) (hdr_bytes (frame_header (ex_message 2) 0) @ box) (-90) 20 0
         admin_fallback_init = (admin_fallback_init, Inr rd)
     \<and> rd_mesh rd = Some (received (ex_node 2 22) (ex_message 2) (ex_data 1 [72, 105]) 0 True (-90) 20)"
proof -
  let ?m = "ex_message 2" and ?px = "ex_node 1 11" and ?qx = "ex_node 2 22"
  have w: "wants_pkc ?px False ?m"
    by (simp add: wants_pkc_def ex_message_def ex_node_def mpk_data_def ex_data_def zero_data_def MESHTASTIC_NODE_BROADCAST_def
        meshtastic_pki_have_key_def PORT_TRACEROUTE_APP_def PORT_NODEINFO_APP_def PORT_ROUTING_APP_def PORT_POSITION_APP_def)
  obtain wire where b: "meshtastic_build_wire_from_mesh ex_lib ?px False 0 ?m = Inr wire"
    using w unfolding meshtastic_build_wire_from_mesh_def ex_encoded
    by (simp add: ex_node_def ex_key ex_message_def Let_def f32.enc_length MESHTASTIC_HDR_LEN_def MESHTASTIC_PKI_OVERHEAD_def
        MESHTASTIC_PKT_MAX_def meshtastic_pki_encrypt_def MESHTASTIC_PAYLOAD_MAX_def pki_peer_pub_def pki_shared_aes_key_def
        ex_lib_def PKI_TAG_LEN_def)
  have "data_portnum (mpk_data ?m) \<noteq> PORT_UNKNOWN_APP"
    by (simp add: ex_message_def mpk_data_def ex_data_def zero_data_def PORT_UNKNOWN_APP_def)
  moreover have "kx_priv (px_keys ?px) = Some (replicate 32 11)" "pki_peer_pub (px_keys ?px) (mpk_to ?m) = Inr (replicate 32 22)"
    "kx_priv (px_keys ?qx) = Some (replicate 32 22)" "pki_peer_pub (px_keys ?qx) (mpk_from ?m) = Inr (replicate 32 11)"
    "px_node_id ?qx = mpk_to ?m" "meshtastic_decode_known_only (px_mt ?qx) (px_known ?qx) (mpk_from ?m)"
    by (simp_all add: ex_node_def ex_message_def pki_peer_pub_def meshtastic_decode_known_only_def ex_radio_def REBROADCAST_KNOWN_ONLY_def)
  ultimately show ?thesis
    using direct_message_private[OF b w ex_lib_laws(1,3,4), of "replicate 32 11" "replicate 32 22" ?qx "-90" 20 0 admin_fallback_init]
      b unfolding ex_outgoing by blast
qed

theorem channel_frame_roundtrip_witness:
  "\<exists>wire rd. meshtastic_build_wire_from_mesh ex_lib (ex_node 1 11) False 0 (ex_message MESHTASTIC_NODE_BROADCAST) = Inr wire
     \<and> meshtastic_try_decode_wire_packet_on ex_lib (ex_node 2 22) wire (-90) 20 PRESET_LONG_FAST admin_fallback_init
         = (admin_fallback_init, Inr rd)
     \<and> rd_mesh rd = Some (received (ex_node 2 22) (ex_message MESHTASTIC_NODE_BROADCAST) (ex_data 1 [72, 105]) 0 False (-90) 20)"
proof -
  let ?m = "ex_message MESHTASTIC_NODE_BROADCAST" and ?px = "ex_node 1 11" and ?qx = "ex_node 2 22"
  have w: "\<not> wants_pkc ?px False ?m" by (simp add: wants_pkc_def ex_message_def)
  obtain wire where b: "meshtastic_build_wire_from_mesh ex_lib ?px False 0 ?m = Inr wire"
    using w unfolding meshtastic_build_wire_from_mesh_def ex_encoded
    by (simp add: ex_node_def ex_key ex_message_def Let_def ctr_crypt_def ex_lib_def)
  let ?h = "meshtastic_channels_get_hash (px_chan ?px) (unat (mpk_channel ?m))"
  have c: "px_chan ?px = ex_channels" "px_chan ?qx = ex_channels" "mpk_channel ?m = 0" "px_mt ?qx = ex_radio" "mpk_to ?m = MESHTASTIC_NODE_BROADCAST"
    by (simp_all add: ex_node_def ex_message_def)
  have "data_portnum (mpk_data ?m) \<noteq> PORT_UNKNOWN_APP"
    by (simp add: ex_message_def mpk_data_def ex_data_def zero_data_def PORT_UNKNOWN_APP_def)
  moreover have "role_at (px_chan ?qx) 0 \<noteq> Role_DISABLED" unfolding c by (simp add: ex_channels_def ex_slot_def Let_def)
  moreover have "meshtastic_channels_decrypt_for_hash_on (px_mt ?qx) (px_chan ?qx) 0 ?h PRESET_LONG_FAST"
    unfolding c meshtastic_channels_decrypt_for_hash_on_def meshtastic_channels_hash_for_preset_def meshtastic_channels_get_hash_def
    by (simp add: ex_radio_def)
  moreover have "\<not> pkc_marked ?qx ?h (mpk_to ?m)" unfolding c(5) by (simp add: pkc_marked_def)
  moreover have "meshtastic_decode_known_only (px_mt ?qx) (px_known ?qx) (mpk_from ?m)"
    unfolding c by (simp add: meshtastic_decode_known_only_def ex_radio_def REBROADCAST_KNOWN_ONLY_def)
  ultimately have "\<exists>rd. meshtastic_try_decode_wire_packet_on ex_lib ?qx wire (-90) 20 PRESET_LONG_FAST admin_fallback_init
         = (admin_fallback_init, Inr rd)
     \<and> rd_mesh rd = Some (received ?qx ?m (ex_data 1 [72, 105]) (of_nat 0) False (-90) 20)"
    using channel_frame_roundtrip[OF b w ex_lib_laws(1,2) _ refl, of 0 ?qx PRESET_LONG_FAST "-90" 20 admin_fallback_init]
      ex_only_slot unfolding ex_outgoing c by (simp add: ex_key)
  then show ?thesis using b by simp
qed

end
