(* ===== verification/Routes.thy ===== *)
theory Routes
  imports Ring_Log Packet
begin

text \<open>
  Routes and routing replies: \<^verbatim>\<open>meshtastic_routing.c\<close> and the routing part of the node database
  (\<^verbatim>\<open>meshtastic_nodedb.c\<close>).  A node learns the neighbour that carries its packets to a peer, keeps the route
  while it works and falls back to flooding when it does not.  The node table is read through the fields that
  routing uses.
\<close>

section \<open>The node table and the health of routes\<close>

record nodedb_entry =
  ne_used :: bool
  ne_num :: u32
  ne_next_hop :: u8
  ne_favorite :: bool
  ne_ignored :: bool
  ne_has_user :: bool
  ne_role :: u32

definition ROUTE_HEALTH_SIZE :: nat where "ROUTE_HEALTH_SIZE = 16"
definition ROUTE_HEALTH_MAX_FAIL :: u8 where "ROUTE_HEALTH_MAX_FAIL = 3"

record route_health =
  rh_dest :: u32
  rh_learned_at :: u32
  rh_fail_count :: u8

definition no_health :: route_health where
  "no_health = \<lparr>rh_dest = 0, rh_learned_at = 0, rh_fail_count = 0\<rparr>"

definition ROUTING_RELAYER_LOG_SIZE :: nat where "ROUTING_RELAYER_LOG_SIZE = 8"

record relayer_entry =
  rle_id :: u32
  rle_relayer :: u8

record routes =
  ro_nodes :: "nodedb_entry list"
  ro_health :: "route_health list"
  ro_relayers :: "relayer_entry list"
  ro_relayer_head :: nat

text \<open>The first slot of a table that satisfies a test.\<close>

definition first_slot :: "('a \<Rightarrow> bool) \<Rightarrow> 'a list \<Rightarrow> nat option" where
  "first_slot P xs = find (\<lambda>i. P (xs ! i)) [0..<length xs]"

definition find_entry_locked :: "u32 \<Rightarrow> nodedb_entry list \<Rightarrow> nat option" where
  "find_entry_locked num = first_slot (\<lambda>e. ne_used e \<and> ne_num e = num)"

definition route_health_find_locked :: "u32 \<Rightarrow> route_health list \<Rightarrow> nat option" where
  "route_health_find_locked dest = first_slot (\<lambda>r. rh_dest r = dest)"

fun health_victim :: "route_health list \<Rightarrow> nat \<Rightarrow> nat list \<Rightarrow> nat" where
  "health_victim hs b [] = b"
| "health_victim hs b (i # is) =
     (if rh_dest (hs ! i) = 0 then i
      else health_victim hs (if rh_learned_at (hs ! i) < rh_learned_at (hs ! b) then i else b) is)"

definition route_health_upsert_locked :: "u32 \<Rightarrow> u32 \<Rightarrow> route_health list \<Rightarrow> route_health list" where
  "route_health_upsert_locked now dest hs =
     (let i = (case route_health_find_locked dest hs of Some i \<Rightarrow> i | None \<Rightarrow> health_victim hs 0 [0..<length hs])
      in hs[i := \<lparr>rh_dest = dest, rh_learned_at = now, rh_fail_count = 0\<rparr>])"

definition route_health_drop_locked :: "u32 \<Rightarrow> route_health list \<Rightarrow> route_health list" where
  "route_health_drop_locked dest hs = (case route_health_find_locked dest hs of None \<Rightarrow> hs | Some i \<Rightarrow> hs[i := no_health])"

definition set_hop :: "u32 \<Rightarrow> u8 \<Rightarrow> nodedb_entry list \<Rightarrow> nodedb_entry list" where
  "set_hop dest h ns = (case find_entry_locked dest ns of None \<Rightarrow> ns | Some i \<Rightarrow> ns[i := (ns ! i)\<lparr>ne_next_hop := h\<rparr>])"

definition hop_of :: "u32 \<Rightarrow> nodedb_entry list \<Rightarrow> u8" where
  "hop_of dest ns = (case find_entry_locked dest ns of None \<Rightarrow> 0 | Some i \<Rightarrow> ne_next_hop (ns ! i))"

definition meshtastic_nodedb_note_route_failure :: "u32 \<Rightarrow> routes \<Rightarrow> routes" where
  "meshtastic_nodedb_note_route_failure dest ro =
     (let drop = (\<lambda>hs. ro\<lparr>ro_nodes := set_hop dest 0 (ro_nodes ro), ro_health := route_health_drop_locked dest hs\<rparr>)
      in case route_health_find_locked dest (ro_health ro) of
           None \<Rightarrow> drop (ro_health ro)
         | Some i \<Rightarrow>
             let r = ro_health ro ! i;
                 hs = (ro_health ro)[i := (if rh_fail_count r < 255 then r\<lparr>rh_fail_count := rh_fail_count r + 1\<rparr> else r)]
             in if rh_fail_count (hs ! i) \<ge> ROUTE_HEALTH_MAX_FAIL then drop hs else ro\<lparr>ro_health := hs\<rparr>)"

definition meshtastic_nodedb_note_route_success :: "u32 \<Rightarrow> u32 \<Rightarrow> routes \<Rightarrow> routes" where
  "meshtastic_nodedb_note_route_success now dest ro =
     (case route_health_find_locked dest (ro_health ro) of
        None \<Rightarrow> ro
      | Some i \<Rightarrow> ro\<lparr>ro_health := (ro_health ro)[i := (ro_health ro ! i)\<lparr>rh_fail_count := 0, rh_learned_at := now\<rparr>]\<rparr>)"

fun last_byte_matches :: "u32 \<Rightarrow> u8 \<Rightarrow> nodedb_entry list \<Rightarrow> u32 list" where
  "last_byte_matches local b [] = []"
| "last_byte_matches local b (e # es) =
     (if ne_used e \<and> ne_num e \<noteq> local \<and> ucast (ne_num e) = b then ne_num e # last_byte_matches local b es
      else last_byte_matches local b es)"

definition meshtastic_nodedb_resolve_unique_last_byte :: "u32 \<Rightarrow> u8 \<Rightarrow> nodedb_entry list \<Rightarrow> u32" where
  "meshtastic_nodedb_resolve_unique_last_byte local b ns =
     (case last_byte_matches local b ns of [num] \<Rightarrow> num | _ \<Rightarrow> 0)"

definition meshtastic_nodedb_get_next_hop :: "u16 \<Rightarrow> u32 \<Rightarrow> u32 \<Rightarrow> routes \<Rightarrow> routes \<times> u8" where
  "meshtastic_nodedb_get_next_hop ttl now dest ro =
     (let next_hop = hop_of dest (ro_nodes ro)
      in if next_hop = 0 then (ro, 0)
         else case route_health_find_locked dest (ro_health ro) of
                None \<Rightarrow> (ro, next_hop)
              | Some i \<Rightarrow>
                  let r = ro_health ro ! i
                  in if rh_fail_count r \<ge> ROUTE_HEALTH_MAX_FAIL \<or> ttl \<noteq> 0 \<and> now - rh_learned_at r > ucast ttl
                     then (ro\<lparr>ro_nodes := set_hop dest 0 (ro_nodes ro), ro_health := route_health_drop_locked dest (ro_health ro)\<rparr>, 0)
                     else (ro, next_hop))"

definition meshtastic_nodedb_set_next_hop :: "u32 \<Rightarrow> u32 \<Rightarrow> u8 \<Rightarrow> routes \<Rightarrow> routes \<times> unit result" where
  "meshtastic_nodedb_set_next_hop now dest next_hop ro =
     (case find_entry_locked dest (ro_nodes ro) of
        None \<Rightarrow> (ro, Inl ENOENT)
      | Some _ \<Rightarrow>
          (ro\<lparr>ro_nodes := set_hop dest next_hop (ro_nodes ro),
              ro_health := (if next_hop \<noteq> 0 then route_health_upsert_locked now dest (ro_health ro)
                            else route_health_drop_locked dest (ro_health ro))\<rparr>, Inr ()))"

definition meshtastic_nodedb_is_from_or_to_favorite :: "u32 \<Rightarrow> u32 \<Rightarrow> nodedb_entry list \<Rightarrow> bool" where
  "meshtastic_nodedb_is_from_or_to_favorite from_node to ns =
     (let fav = (\<lambda>num. case find_entry_locked num ns of None \<Rightarrow> False | Some i \<Rightarrow> ne_favorite (ns ! i))
      in fav from_node \<or> to \<noteq> MESHTASTIC_NODE_BROADCAST \<and> fav to)"

definition meshtastic_nodedb_is_ignored :: "u32 \<Rightarrow> nodedb_entry list \<Rightarrow> bool" where
  "meshtastic_nodedb_is_ignored num ns = (case find_entry_locked num ns of None \<Rightarrow> False | Some i \<Rightarrow> ne_ignored (ns ! i))"

section \<open>Routing replies\<close>

definition ROUTING_REPLY_HOP_MARGIN :: u8 where "ROUTING_REPLY_HOP_MARGIN = 2"

text \<open>The low byte of a node number, which the wire header carries.\<close>

definition self_byte :: "pk_env \<Rightarrow> u8" where "self_byte px = ucast (px_node_id px)"

definition relayer_log_put :: "relayer_entry \<Rightarrow> routes \<Rightarrow> routes" where
  "relayer_log_put e ro =
     ro\<lparr>ro_relayers := (ro_relayers ro)[ro_relayer_head ro := e],
        ro_relayer_head := (ro_relayer_head ro + 1) mod ROUTING_RELAYER_LOG_SIZE\<rparr>"

definition meshtastic_routing_note_own_echo :: "pk_env \<Rightarrow> u32 \<Rightarrow> u8 \<Rightarrow> routes \<Rightarrow> routes" where
  "meshtastic_routing_note_own_echo px pid relay_node ro =
     (if relay_node = 0 \<or> relay_node = self_byte px then ro
      else relayer_log_put \<lparr>rle_id = pid, rle_relayer = relay_node\<rparr> ro)"

definition relayer_carried_our_packet :: "routes \<Rightarrow> u32 \<Rightarrow> u8 \<Rightarrow> bool" where
  "relayer_carried_our_packet ro pid relayer = list_ex (\<lambda>e. rle_id e = pid \<and> rle_relayer e = relayer) (ro_relayers ro)"

definition routing_hop_limit_for_reply :: "u8 \<Rightarrow> u8 \<Rightarrow> u8 \<Rightarrow> u8" where
  "routing_hop_limit_for_reply own hop_start hop_limit =
     (if hop_start = 0 then 0
      else if hop_start < hop_limit then own
      else let hops_used = hop_start - hop_limit
           in if hops_used > own then hops_used
              else if hops_used + ROUTING_REPLY_HOP_MARGIN < own then hops_used + ROUTING_REPLY_HOP_MARGIN
              else own)"

text \<open>A field read from the decoded message when there is one, from the flat struct otherwise.\<close>

definition dual :: "(meshtastic_MeshPacket \<Rightarrow> 'a) \<Rightarrow> (meshtastic_packet \<Rightarrow> 'a) \<Rightarrow> meshtastic_MeshPacket option \<Rightarrow> meshtastic_packet \<Rightarrow> 'a" where
  "dual f g mesh packet = (case mesh of Some m \<Rightarrow> f m | None \<Rightarrow> g packet)"

definition PORT_TEXT_MESSAGE_APP :: u32 where "PORT_TEXT_MESSAGE_APP = 1"
definition PORT_TEXT_MESSAGE_COMPRESSED_APP :: u32 where "PORT_TEXT_MESSAGE_COMPRESSED_APP = 7"

definition routing_ack_should_request_ack :: "pk_env \<Rightarrow> meshtastic_packet \<Rightarrow> meshtastic_MeshPacket option \<Rightarrow> bool" where
  "routing_ack_should_request_ack px req mesh \<longleftrightarrow>
     dual mpk_want_ack pkt_want_ack mesh req \<and> dual mpk_to pkt_to mesh req = px_node_id px
     \<and> dual (data_portnum \<circ> mpk_data) pkt_portnum mesh req \<in> {PORT_TEXT_MESSAGE_APP, PORT_TEXT_MESSAGE_COMPRESSED_APP}"

definition MESHTASTIC_ATTACH_OWN :: u8 where "MESHTASTIC_ATTACH_OWN = 0xFE"

definition MESHTASTIC_REPLY_ATTACH :: "u8 \<Rightarrow> u8" where
  "MESHTASTIC_REPLY_ATTACH rx_attach = (if rx_attach = 0 then MESHTASTIC_ATTACH_OWN else rx_attach)"

definition Routing_NONE :: u32 where "Routing_NONE = 0"
definition Routing_NO_CHANNEL :: u32 where "Routing_NO_CHANNEL = 6"
definition Routing_PKI_UNKNOWN_PUBKEY :: u32 where "Routing_PKI_UNKNOWN_PUBKEY = 35"

text \<open>What a routing step hands on: a ROUTING payload to the reliable layer, a reply to the send path (and whether
  the caller waits for it).  The protobuf codec of the reply and the next packet id are parameters.\<close>

datatype routing_action =
    Reliable_On_Routing meshtastic_packet "meshtastic_MeshPacket option"
  | Send_Reply meshtastic_packet bool

record routing_env =
  rg_px :: pk_env
  rg_encode :: "u32 \<Rightarrow> bytes option"
  rg_new_id :: u32

definition routing_send_reply ::
  "routing_env \<Rightarrow> u32 \<Rightarrow> u32 \<Rightarrow> u8 \<Rightarrow> u32 \<Rightarrow> u8 \<Rightarrow> bool \<Rightarrow> bool \<Rightarrow> u8 \<Rightarrow> bool \<Rightarrow> routing_action list" where
  "routing_send_reply rg to request_id ch_index err hop_limit want_ack wait attach pki =
     (case rg_encode rg err of
        None \<Rightarrow> []
      | Some b \<Rightarrow>
          [Send_Reply
             (zero_packet\<lparr>pkt_from := px_node_id (rg_px rg), pkt_to := to, pkt_id := rg_new_id rg, pkt_portnum := PORT_ROUTING_APP,
                pkt_payload := b, pkt_request_id := request_id, pkt_hop_limit := hop_limit, pkt_hop_start := hop_limit,
                pkt_want_ack := want_ack, pkt_channel_index := ch_index, pkt_tx_attach := MESHTASTIC_REPLY_ATTACH attach,
                pkt_pki_encrypted := pki\<rparr>) wait])"

definition primary_index :: "pk_env \<Rightarrow> u8" where "primary_index px = of_nat (cn_primary (px_chan px))"

definition routing_send_ack :: "routing_env \<Rightarrow> meshtastic_packet \<Rightarrow> meshtastic_MeshPacket option \<Rightarrow> routing_action list" where
  "routing_send_ack rg req mesh =
     (let px = rg_px rg;
          channel_index = dual (\<lambda>m. if unat (mpk_channel m) < MESHTASTIC_MAX_CHANNELS then mpk_channel m else MESHTASTIC_CHANNEL_INDEX_INVALID)
                            pkt_channel_index mesh req;
          ch_index = (if channel_index \<noteq> MESHTASTIC_CHANNEL_INDEX_INVALID then channel_index else primary_index px)
      in if dual mpk_to pkt_to mesh req \<noteq> px_node_id px then []
         else routing_send_reply rg (dual mpk_from pkt_from mesh req) (dual mpk_id pkt_id mesh req) ch_index Routing_NONE
                (routing_hop_limit_for_reply (mt_hop_limit (px_mt px)) (pkt_hop_start req) (pkt_hop_limit req))
                (routing_ack_should_request_ack px req mesh) True (pkt_rx_attach req)
                (dual mpk_pki_encrypted pkt_pki_encrypted mesh req))"

definition meshtastic_routing_reack_duplicate ::
  "routing_env \<Rightarrow> u32 \<Rightarrow> u32 \<Rightarrow> u8 \<Rightarrow> u8 \<Rightarrow> u8 \<Rightarrow> u8 \<Rightarrow> routing_action list" where
  "meshtastic_routing_reack_duplicate rg from_node pid wire_hash hop_limit hop_start attach =
     (let px = rg_px rg;
          ch_index = meshtastic_channels_resolve_send_index (px_peer_channel px) (px_chan px) from_node
                       (unat MESHTASTIC_CHANNEL_INDEX_INVALID) wire_hash
      in routing_send_reply rg from_node pid (of_nat ch_index) Routing_NONE
           (routing_hop_limit_for_reply (mt_hop_limit (px_mt px)) hop_start hop_limit) False False attach False)"

definition meshtastic_routing_send_error :: "routing_env \<Rightarrow> meshtastic_packet \<Rightarrow> u32 \<Rightarrow> routing_action list" where
  "meshtastic_routing_send_error rg req err =
     (if pkt_from req = 0 \<or> pkt_from req = px_node_id (rg_px rg) then []
      else routing_send_reply rg (pkt_from req) (pkt_id req) (primary_index (rg_px rg)) err
             (routing_hop_limit_for_reply (mt_hop_limit (px_mt (rg_px rg))) (pkt_hop_start req) (pkt_hop_limit req)) False False
             (pkt_rx_attach req) (pkt_pki_encrypted req))"

definition meshtastic_routing_answer ::
  "routing_env \<Rightarrow> u32 \<Rightarrow> u32 \<Rightarrow> u8 \<Rightarrow> u8 \<Rightarrow> u8 \<Rightarrow> bool \<Rightarrow> u32 \<Rightarrow> u8 \<Rightarrow> bool \<Rightarrow> routing_action list result" where
  "meshtastic_routing_answer rg to request_id channel_index req_hop_limit req_hop_start want_ack err attach pki =
     (if to = 0 \<or> to = px_node_id (rg_px rg) then Inl EINVAL
      else if rg_encode rg err = None then Inl ENOMEM
      else Inr (routing_send_reply rg to request_id
                  (if unat channel_index < MESHTASTIC_MAX_CHANNELS then channel_index else primary_index (rg_px rg)) err
                  (routing_hop_limit_for_reply (mt_hop_limit (px_mt (rg_px rg))) req_hop_start req_hop_limit) want_ack False attach pki))"

definition meshtastic_routing_on_decoded :: "routing_env \<Rightarrow> meshtastic_packet \<Rightarrow> meshtastic_MeshPacket option \<Rightarrow> routing_action list" where
  "meshtastic_routing_on_decoded rg packet mesh =
     (let self = px_node_id (rg_px rg); from_node = dual mpk_from pkt_from mesh packet; to = dual mpk_to pkt_to mesh packet
      in if to \<noteq> self \<and> to \<noteq> MESHTASTIC_NODE_BROADCAST \<or> from_node = self then []
         else (if dual (data_portnum \<circ> mpk_data) pkt_portnum mesh packet = PORT_ROUTING_APP then [Reliable_On_Routing packet mesh] else [])
              @ (if dual mpk_want_ack pkt_want_ack mesh packet \<and> to = self then routing_send_ack rg packet mesh else []))"

text \<open>Learning: \<open>now\<close> is the uptime in seconds.\<close>

definition learn_source :: "meshtastic_packet \<Rightarrow> meshtastic_MeshPacket option \<Rightarrow> u32 \<times> u32 \<times> u8" where
  "learn_source packet mesh =
     (dual mpk_from pkt_from mesh packet, dual (data_request_id \<circ> mpk_data) pkt_request_id mesh packet,
      dual mpk_relay_node pkt_relay_node mesh packet)"

definition meshtastic_routing_learn_next_hop ::
  "pk_env \<Rightarrow> u32 \<Rightarrow> meshtastic_packet \<Rightarrow> meshtastic_MeshPacket option \<Rightarrow> routes \<Rightarrow> routes" where
  "meshtastic_routing_learn_next_hop px now packet mesh ro =
     (case learn_source packet mesh of
        (from_node, request_id, relay_node) \<Rightarrow>
          if dual mpk_to pkt_to mesh packet \<noteq> px_node_id px \<or> from_node = 0 \<or> from_node = px_node_id px
             \<or> dual mpk_via_mqtt pkt_via_mqtt mesh packet then ro
          else if relay_node = 0 \<or> relay_node = self_byte px then ro
          else if request_id = 0 then ro
          else if \<not> relayer_carried_our_packet ro request_id relay_node then ro
          else if meshtastic_nodedb_resolve_unique_last_byte (px_node_id px) relay_node (ro_nodes ro) = 0 then ro
          else fst (meshtastic_nodedb_set_next_hop now from_node relay_node ro))"

section \<open>Runs\<close>

text \<open>What reaches the routes: a rebroadcast of a packet of ours, a decoded packet, the reliable layer giving up on or
  confirming a destination, and the send path asking for a next hop.\<close>

datatype routes_event =
    Overheard u32 u8
  | Heard meshtastic_packet "meshtastic_MeshPacket option"
  | Gave_Up u32
  | Confirmed u32
  | Wanted u32

fun routes_step :: "pk_env \<Rightarrow> u16 \<times> u32 \<times> routes_event \<Rightarrow> routes \<Rightarrow> routes" where
  "routes_step px (ttl, now, Overheard pid b) ro = meshtastic_routing_note_own_echo px pid b ro"
| "routes_step px (ttl, now, Heard packet mesh) ro = meshtastic_routing_learn_next_hop px now packet mesh ro"
| "routes_step px (ttl, now, Gave_Up d) ro = meshtastic_nodedb_note_route_failure d ro"
| "routes_step px (ttl, now, Confirmed d) ro = meshtastic_nodedb_note_route_success now d ro"
| "routes_step px (ttl, now, Wanted d) ro = fst (meshtastic_nodedb_get_next_hop ttl now d ro)"

abbreviation routes_run :: "pk_env \<Rightarrow> (u16 \<times> u32 \<times> routes_event) list \<Rightarrow> routes \<Rightarrow> routes" where
  "routes_run px es ro \<equiv> fold (routes_step px) es ro"

definition routes_init :: "nodedb_entry list \<Rightarrow> routes" where
  "routes_init ns = \<lparr>ro_nodes = ns, ro_health = replicate ROUTE_HEALTH_SIZE no_health,
     ro_relayers = replicate ROUTING_RELAYER_LOG_SIZE \<lparr>rle_id = 0, rle_relayer = 0\<rparr>, ro_relayer_head = 0\<rparr>"

section \<open>The log of relayers\<close>

abbreviation relayer_keys :: "routes \<Rightarrow> (u32 \<times> u8) list" where
  "relayer_keys ro \<equiv> map (\<lambda>e. (rle_id e, rle_relayer e)) (ro_relayers ro)"

interpretation relayers: ring_log relayer_log_put relayer_keys ro_relayer_head "\<lambda>e. (rle_id e, rle_relayer e)"
  ROUTING_RELAYER_LOG_SIZE "(0, 0)"
  by unfold_locales (simp_all add: relayer_log_put_def map_update)

text \<open>The rebroadcasts of our packets by others that a run overheard, the latest first.\<close>

fun echoes :: "pk_env \<Rightarrow> (u16 \<times> u32 \<times> routes_event) list \<Rightarrow> (u32 \<times> u8) list \<Rightarrow> (u32 \<times> u8) list" where
  "echoes px [] acc = acc"
| "echoes px ((ttl, now, Overheard pid b) # es) acc = echoes px es (if b = 0 \<or> b = self_byte px then acc else (pid, b) # acc)"
| "echoes px (_ # es) acc = echoes px es acc"

lemma learn_relayers [simp]:
  "ro_relayers (meshtastic_routing_learn_next_hop px now packet mesh ro) = ro_relayers ro"
  "ro_relayer_head (meshtastic_routing_learn_next_hop px now packet mesh ro) = ro_relayer_head ro"
  unfolding meshtastic_routing_learn_next_hop_def meshtastic_nodedb_set_next_hop_def by (simp_all split: prod.split option.split)

lemma failure_relayers [simp]:
  "ro_relayers (meshtastic_nodedb_note_route_failure d ro) = ro_relayers ro"
  "ro_relayer_head (meshtastic_nodedb_note_route_failure d ro) = ro_relayer_head ro"
  unfolding meshtastic_nodedb_note_route_failure_def by (simp_all add: Let_def split: option.split)

lemma success_relayers [simp]:
  "ro_relayers (meshtastic_nodedb_note_route_success now d ro) = ro_relayers ro"
  "ro_relayer_head (meshtastic_nodedb_note_route_success now d ro) = ro_relayer_head ro"
  unfolding meshtastic_nodedb_note_route_success_def by (simp_all split: option.split)

lemma wanted_relayers [simp]:
  "ro_relayers (fst (meshtastic_nodedb_get_next_hop ttl now d ro)) = ro_relayers ro"
  "ro_relayer_head (fst (meshtastic_nodedb_get_next_hop ttl now d ro)) = ro_relayer_head ro"
  unfolding meshtastic_nodedb_get_next_hop_def by (simp_all add: Let_def split: option.split)

abbreviation relayers_hold :: "routes \<Rightarrow> (u32 \<times> u8) list \<Rightarrow> bool" where
  "relayers_hold ro hist \<equiv> ring_holds ROUTING_RELAYER_LOG_SIZE (0, 0) (relayer_keys ro) (ro_relayer_head ro) hist"

lemma relayers_step:
  assumes "relayers_hold ro acc"
  shows "relayers_hold (routes_step px e ro) (echoes px [e] acc)"
proof -
  obtain ttl now ev where e: "e = (ttl, now, ev)" by (metis prod_cases3)
  have "relayers_hold (relayer_log_put \<lparr>rle_id = pid, rle_relayer = b\<rparr> ro) ((pid, b) # acc)" for pid b
    using relayers.put_holds[OF assms, of "\<lparr>rle_id = pid, rle_relayer = b\<rparr>"] by simp
  then show ?thesis using assms by (cases ev) (simp_all add: e meshtastic_routing_note_own_echo_def)
qed

lemma echoes_split: "echoes px (e # es) acc = echoes px es (echoes px [e] acc)"
proof -
  obtain ttl now ev where e: "e = (ttl, now, ev)" by (metis prod_cases3)
  show ?thesis by (cases ev) (simp_all add: e)
qed

lemma relayers_run: "relayers_hold ro acc \<Longrightarrow> relayers_hold (routes_run px es ro) (echoes px es acc)"
proof (induction es arbitrary: ro acc)
  case (Cons e es)
  then show ?case using Cons.IH[OF relayers_step[OF Cons.prems]] echoes_split[of px e es acc] by simp
qed simp

lemma relayers_init: "relayers_hold (routes_init ns) []"
  unfolding ring_holds_def routes_init_def
  by (auto simp: ROUTING_RELAYER_LOG_SIZE_def ring_index_less[of 8, simplified])

section \<open>The table\<close>

lemma first_slot_Some: "first_slot P xs = Some i \<Longrightarrow> i < length xs \<and> P (xs ! i)"
  unfolding first_slot_def by (auto simp: find_Some_iff)

lemma first_slot_None: "first_slot P xs = None \<longleftrightarrow> (\<forall>i < length xs. \<not> P (xs ! i))"
  unfolding first_slot_def by (auto simp: find_None_iff)

lemma first_slot_update:
  assumes "i < length xs \<Longrightarrow> P x \<longleftrightarrow> P (xs ! i)"
  shows "first_slot P (xs[i := x]) = first_slot P xs"
proof (cases "i < length xs")
  case True
  then have "P (xs[i := x] ! j) \<longleftrightarrow> P (xs ! j)" if "j < length xs" for j using assms that by (cases "j = i") auto
  then show ?thesis unfolding first_slot_def length_list_update by (intro find_cong[OF refl]) auto
qed (simp add: list_update_beyond)

lemma find_entry_set_hop [simp]: "find_entry_locked d (set_hop e h ns) = find_entry_locked d ns"
  unfolding set_hop_def by (auto simp: find_entry_locked_def intro!: first_slot_update split: option.split)

lemma hop_of_set_hop:
  "hop_of d (set_hop e h ns) = (if d = e \<and> find_entry_locked e ns \<noteq> None then h else hop_of d ns)"
proof (cases "find_entry_locked e ns")
  case None
  then show ?thesis unfolding set_hop_def by simp
next
  case (Some i)
  then have i: "i < length ns" "ne_num (ns ! i) = e" using first_slot_Some unfolding find_entry_locked_def by fastforce+
  show ?thesis
  proof (cases "find_entry_locked d ns")
    case (Some j)
    then have "j < length ns" "ne_num (ns ! j) = d" using first_slot_Some unfolding find_entry_locked_def by fastforce+
    then show ?thesis
      using i Some \<open>find_entry_locked e ns = Some i\<close>
      unfolding hop_of_def find_entry_set_hop by (auto simp: set_hop_def nth_list_update)
  qed (use Some in \<open>auto simp: hop_of_def\<close>)
qed

lemma last_byte_filter:
  "last_byte_matches self b ns = map ne_num (filter (\<lambda>e. ne_used e \<and> ne_num e \<noteq> self \<and> ucast (ne_num e) = b) ns)"
  by (induction ns) auto

lemma resolve_unique:
  assumes "meshtastic_nodedb_resolve_unique_last_byte self b ns \<noteq> 0"
  shows "\<exists>e. filter (\<lambda>e. ne_used e \<and> ne_num e \<noteq> self \<and> ucast (ne_num e) = b) ns = [e]"
  using assms unfolding meshtastic_nodedb_resolve_unique_last_byte_def last_byte_filter
  by (auto split: list.splits)

text \<open>C16. A route is learned only through a neighbour proven both ways.  After any run from power-up, when a decoded
  packet changes the routes, it was addressed to this node by another node over the air, it answered a packet of this
  node, and the neighbour that delivered it is the only known node with that low byte and was overheard carrying that
  very packet of ours among the last eight rebroadcasts.  The route to the sender is then that neighbour, and no other
  route changes.\<close>

theorem learned_route_two_way:
  assumes "ro = routes_run px es (routes_init ns)" "ro' = routes_step px (ttl, now, Heard packet mesh) ro" "ro' \<noteq> ro"
    "learn_source packet mesh = (from_node, request_id, relay_node)"
  shows "(request_id, relay_node) \<in> set (take ROUTING_RELAYER_LOG_SIZE (echoes px es []))
    \<and> (\<exists>e. filter (\<lambda>e. ne_used e \<and> ne_num e \<noteq> px_node_id px \<and> ucast (ne_num e) = relay_node) (ro_nodes ro) = [e])
    \<and> dual mpk_to pkt_to mesh packet = px_node_id px \<and> from_node \<noteq> px_node_id px \<and> \<not> dual mpk_via_mqtt pkt_via_mqtt mesh packet
    \<and> hop_of from_node (ro_nodes ro') = relay_node \<and> (\<forall>d. d \<noteq> from_node \<longrightarrow> hop_of d (ro_nodes ro') = hop_of d (ro_nodes ro))"
proof -
  have c: "dual mpk_to pkt_to mesh packet = px_node_id px" "from_node \<noteq> px_node_id px" "\<not> dual mpk_via_mqtt pkt_via_mqtt mesh packet"
    "relay_node \<noteq> 0" "relayer_carried_our_packet ro request_id relay_node"
    "meshtastic_nodedb_resolve_unique_last_byte (px_node_id px) relay_node (ro_nodes ro) \<noteq> 0"
    "ro' = fst (meshtastic_nodedb_set_next_hop now from_node relay_node ro)"
    using assms(2-4) by (auto simp: meshtastic_routing_learn_next_hop_def split: if_splits)
  have "(request_id, relay_node) \<in> set (relayer_keys ro)"
    using c(5) unfolding relayer_carried_our_packet_def list_ex_iff by force
  then have "(request_id, relay_node) \<in> set (take ROUTING_RELAYER_LOG_SIZE (echoes px es []))"
    using relayers.found_recent[OF relayers_run[OF relayers_init]] c(4) unfolding assms(1) by auto
  moreover have "find_entry_locked from_node (ro_nodes ro) \<noteq> None"
    using assms(3) c(7) unfolding meshtastic_nodedb_set_next_hop_def by (cases "find_entry_locked from_node (ro_nodes ro)") auto
  then have "ro_nodes ro' = set_hop from_node relay_node (ro_nodes ro)" "find_entry_locked from_node (ro_nodes ro) \<noteq> None"
    unfolding c(7) meshtastic_nodedb_set_next_hop_def by auto
  ultimately show ?thesis using c resolve_unique[OF c(6)] by (simp add: hop_of_set_hop)
qed

section \<open>Decay\<close>

text \<open>A destination has at most one record.\<close>

definition health_ok :: "route_health list \<Rightarrow> bool" where
  "health_ok hs \<longleftrightarrow> hs \<noteq> [] \<and> (\<forall>i < length hs. \<forall>j < length hs. rh_dest (hs ! i) = rh_dest (hs ! j) \<and> rh_dest (hs ! i) \<noteq> 0 \<longrightarrow> i = j)"

lemma health_ok_write:
  assumes "health_ok hs" "\<And>j. j < length hs \<Longrightarrow> j \<noteq> i \<Longrightarrow> rh_dest r \<noteq> 0 \<Longrightarrow> rh_dest (hs ! j) \<noteq> rh_dest r"
  shows "health_ok (hs[i := r])"
proof (cases "i < length hs")
  case True
  have u: "a = b" if "a < length hs" "b < length hs" "rh_dest (hs[i := r] ! a) = rh_dest (hs[i := r] ! b)" "rh_dest (hs[i := r] ! a) \<noteq> 0" for a b
    using assms(1) assms(2)[of a] assms(2)[of b] that True unfolding health_ok_def by (cases "a = i"; cases "b = i") auto
  show ?thesis unfolding health_ok_def length_list_update
  proof (intro conjI allI impI)
    show "hs[i := r] \<noteq> []" using assms(1) unfolding health_ok_def by simp
    show "a = b" if "a < length hs" "b < length hs"
      "rh_dest (hs[i := r] ! a) = rh_dest (hs[i := r] ! b) \<and> rh_dest (hs[i := r] ! a) \<noteq> 0" for a b
      by (rule u[OF that(1,2) conjunct1[OF that(3)] conjunct2[OF that(3)]])
  qed
qed (use assms(1) in \<open>simp add: list_update_beyond\<close>)

lemma health_find:
  assumes "health_ok hs" "route_health_find_locked d hs = Some i"
  shows "i < length hs" "rh_dest (hs ! i) = d" "d \<noteq> 0 \<Longrightarrow> j < length hs \<Longrightarrow> rh_dest (hs ! j) = d \<Longrightarrow> j = i"
proof -
  show i: "i < length hs" "rh_dest (hs ! i) = d"
    using assms(2) first_slot_Some unfolding route_health_find_locked_def by fastforce+
  show "d \<noteq> 0 \<Longrightarrow> j < length hs \<Longrightarrow> rh_dest (hs ! j) = d \<Longrightarrow> j = i"
    using assms(1) i unfolding health_ok_def by metis
qed

lemma health_ok_same:
  assumes "health_ok hs" "route_health_find_locked d hs = Some i" "rh_dest r = d"
  shows "health_ok (hs[i := r])"
proof (rule health_ok_write[OF assms(1)])
  show "rh_dest (hs ! j) \<noteq> rh_dest r" if "j < length hs" "j \<noteq> i" "rh_dest r \<noteq> 0" for j
    using health_find(3)[OF assms(1,2), of j] assms(3) that by blast
qed

lemma health_ok_drop: "health_ok hs \<Longrightarrow> health_ok (route_health_drop_locked d hs)"
  unfolding route_health_drop_locked_def by (auto split: option.split intro!: health_ok_write simp: no_health_def)

lemma health_victim_in: "health_victim hs b is \<in> set (b # is)"
  by (induction hs b "is" rule: health_victim.induct) auto

lemma health_ok_upsert:
  assumes "health_ok hs"
  shows "health_ok (route_health_upsert_locked now d hs)"
proof (cases "route_health_find_locked d hs")
  case None
  then have "rh_dest (hs ! j) \<noteq> d" if "j < length hs" for j
    using that unfolding route_health_find_locked_def first_slot_None by blast
  then show ?thesis unfolding route_health_upsert_locked_def None Let_def by (intro health_ok_write[OF assms]) simp
next
  case (Some i)
  show ?thesis unfolding route_health_upsert_locked_def Some Let_def by (simp add: health_ok_same[OF assms Some])
qed

text \<open>\<open>struck d k\<close>: the route to \<open>d\<close> is gone, or \<open>k\<close> failures in a row, fewer than three, are on record.\<close>

definition struck :: "u32 \<Rightarrow> nat \<Rightarrow> routes \<Rightarrow> bool" where
  "struck d k ro \<longleftrightarrow> hop_of d (ro_nodes ro) = 0
     \<or> k < 3 \<and> (\<forall>i < length (ro_health ro). rh_dest (ro_health ro ! i) = d \<longrightarrow> k \<le> unat (rh_fail_count (ro_health ro ! i)))"

lemma hop_of_cleared: "hop_of d (set_hop d 0 ns) = 0"
  by (simp add: hop_of_set_hop) (simp add: hop_of_def)

lemma struck_failure:
  assumes "struck d k ro" "health_ok (ro_health ro)" "d \<noteq> 0"
  shows "struck d (Suc k) (meshtastic_nodedb_note_route_failure d ro)"
proof (cases "route_health_find_locked d (ro_health ro)")
  case None
  then show ?thesis unfolding meshtastic_nodedb_note_route_failure_def struck_def by (simp add: Let_def hop_of_cleared)
next
  case (Some i)
  note f = health_find[OF assms(2) Some]
  let ?r = "ro_health ro ! i"
  let ?r' = "if rh_fail_count ?r < 255 then ?r\<lparr>rh_fail_count := rh_fail_count ?r + 1\<rparr> else ?r"
  show ?thesis
  proof (cases "rh_fail_count ?r' \<ge> ROUTE_HEALTH_MAX_FAIL \<or> hop_of d (ro_nodes ro) = 0")
    case True
    then show ?thesis using Some f(1) unfolding meshtastic_nodedb_note_route_failure_def struck_def
      by (auto simp: Let_def hop_of_cleared)
  next
    case False
    then have b: "\<not> rh_fail_count ?r' \<ge> ROUTE_HEALTH_MAX_FAIL" by simp
    then have lt: "rh_fail_count ?r < 255" by (auto simp: ROUTE_HEALTH_MAX_FAIL_def word_le_nat_alt word_less_nat_alt split: if_splits)
    have u: "unat (rh_fail_count ?r') = Suc (unat (rh_fail_count ?r))"
      using lt by (simp add: unat_word_ariths word_less_nat_alt)
    have "k \<le> unat (rh_fail_count ?r)" using assms(1) False f(1,2) unfolding struck_def by auto
    moreover have "unat (rh_fail_count ?r') < 3" using b by (simp add: ROUTE_HEALTH_MAX_FAIL_def word_le_nat_alt not_le)
    moreover have "meshtastic_nodedb_note_route_failure d ro = ro\<lparr>ro_health := (ro_health ro)[i := ?r']\<rparr>"
      using Some b f(1) unfolding meshtastic_nodedb_note_route_failure_def by (simp add: Let_def)
    ultimately show ?thesis using u f(1) f(3)[OF assms(3)] unfolding struck_def by (auto simp: nth_list_update)
  qed
qed

text \<open>A step that writes no record of \<open>d\<close> and no route to it keeps the strikes.\<close>

lemma struck_frame:
  assumes "struck d k ro" "hop_of d (ro_nodes ro') \<in> {0, hop_of d (ro_nodes ro)}"
    "\<And>i. i < length (ro_health ro') \<Longrightarrow> rh_dest (ro_health ro' ! i) = d \<Longrightarrow> i < length (ro_health ro) \<and> ro_health ro' ! i = ro_health ro ! i"
  shows "struck d k ro'"
  using assms unfolding struck_def by fastforce

lemma health_write_frame:
  "rh_dest r \<noteq> d \<Longrightarrow> i < length (hs[j := r]) \<Longrightarrow> rh_dest ((hs[j := r]) ! i) = d \<Longrightarrow> i < length hs \<and> (hs[j := r]) ! i = hs ! i"
  by (cases "i = j") auto

lemma drop_frame:
  "d \<noteq> 0 \<Longrightarrow> i < length (route_health_drop_locked e hs) \<Longrightarrow> rh_dest (route_health_drop_locked e hs ! i) = d
     \<Longrightarrow> i < length hs \<and> route_health_drop_locked e hs ! i = hs ! i"
  unfolding route_health_drop_locked_def using health_write_frame[of no_health d i hs]
  by (auto simp: no_health_def split: option.splits)

lemma upsert_frame:
  "d \<noteq> e \<Longrightarrow> i < length (route_health_upsert_locked now e hs) \<Longrightarrow> rh_dest (route_health_upsert_locked now e hs ! i) = d
     \<Longrightarrow> i < length hs \<and> route_health_upsert_locked now e hs ! i = hs ! i"
  unfolding route_health_upsert_locked_def Let_def by (rule health_write_frame) auto

lemma health_ok_failure:
  assumes "health_ok (ro_health ro)"
  shows "health_ok (ro_health (meshtastic_nodedb_note_route_failure d ro))"
proof (cases "route_health_find_locked d (ro_health ro)")
  case (Some i)
  have "health_ok ((ro_health ro)[i := r])" if "rh_dest r = d" for r by (rule health_ok_same[OF assms Some that])
  then show ?thesis
    using Some health_find(2)[OF assms Some] health_ok_drop
    unfolding meshtastic_nodedb_note_route_failure_def by (auto simp: Let_def)
qed (simp add: meshtastic_nodedb_note_route_failure_def Let_def health_ok_drop assms)

lemma health_ok_success:
  assumes "health_ok (ro_health ro)"
  shows "health_ok (ro_health (meshtastic_nodedb_note_route_success now d ro))"
  unfolding meshtastic_nodedb_note_route_success_def
  using assms health_ok_same[OF assms] health_find(2)[OF assms] by (auto split: option.split)

lemma health_ok_learn:
  "health_ok (ro_health ro) \<Longrightarrow> health_ok (ro_health (meshtastic_routing_learn_next_hop px now packet mesh ro))"
  unfolding meshtastic_routing_learn_next_hop_def meshtastic_nodedb_set_next_hop_def
  by (auto simp: health_ok_upsert health_ok_drop split: prod.split option.split)

lemma health_ok_step: "health_ok (ro_health ro) \<Longrightarrow> health_ok (ro_health (routes_step px e ro))"
proof -
  assume a: "health_ok (ro_health ro)"
  obtain ttl now ev where e: "e = (ttl, now, ev)" by (metis prod_cases3)
  show ?thesis
    using a health_ok_failure[OF a] health_ok_success[OF a] health_ok_learn[OF a] health_ok_drop[OF a]
    by (cases ev) (auto simp: e meshtastic_routing_note_own_echo_def relayer_log_put_def meshtastic_nodedb_get_next_hop_def Let_def
        split: option.split)
qed

lemma health_ok_run: "health_ok (ro_health ro) \<Longrightarrow> health_ok (ro_health (routes_run px es ro))"
  by (induction es arbitrary: ro) (simp_all add: health_ok_step)

lemma health_ok_init: "health_ok (ro_health (routes_init ns))"
  unfolding health_ok_def routes_init_def by (simp add: no_health_def ROUTE_HEALTH_SIZE_def)

text \<open>What keeps the strikes of \<open>d\<close>: no confirmation of \<open>d\<close> and no packet from \<open>d\<close>.\<close>

fun quiet :: "u32 \<Rightarrow> routes_event \<Rightarrow> bool" where
  "quiet d (Confirmed e) = (e \<noteq> d)"
| "quiet d (Heard packet mesh) = (fst (learn_source packet mesh) \<noteq> d)"
| "quiet d _ = True"

lemma failure_health:
  assumes "route_health_find_locked e (ro_health ro) = Some j"
  shows "\<exists>r. rh_dest r = e \<and> ro_health (meshtastic_nodedb_note_route_failure e ro)
    \<in> {(ro_health ro)[j := r], route_health_drop_locked e ((ro_health ro)[j := r])}"
proof -
  let ?r = "ro_health ro ! j"
  have "rh_dest ?r = e" using assms first_slot_Some unfolding route_health_find_locked_def by fastforce
  then show ?thesis
    using assms unfolding meshtastic_nodedb_note_route_failure_def
    by (intro exI[of _ "if rh_fail_count ?r < 255 then ?r\<lparr>rh_fail_count := rh_fail_count ?r + 1\<rparr> else ?r"])
      (auto simp: Let_def)
qed

lemma struck_other_failure:
  assumes "struck d k ro" "d \<noteq> 0" "e \<noteq> d"
  shows "struck d k (meshtastic_nodedb_note_route_failure e ro)"
proof (rule struck_frame[OF assms(1)])
  show "hop_of d (ro_nodes (meshtastic_nodedb_note_route_failure e ro)) \<in> {0, hop_of d (ro_nodes ro)}"
    using assms(3) unfolding meshtastic_nodedb_note_route_failure_def
    by (auto simp: Let_def hop_of_set_hop split: option.split)
  fix i assume i: "i < length (ro_health (meshtastic_nodedb_note_route_failure e ro))"
    "rh_dest (ro_health (meshtastic_nodedb_note_route_failure e ro) ! i) = d"
  show "i < length (ro_health ro) \<and> ro_health (meshtastic_nodedb_note_route_failure e ro) ! i = ro_health ro ! i"
  proof (cases "route_health_find_locked e (ro_health ro)")
    case None
    then show ?thesis using i drop_frame[OF assms(2)] unfolding meshtastic_nodedb_note_route_failure_def by (simp add: Let_def)
  next
    case (Some j)
    from failure_health[OF this] obtain r where "rh_dest r = e"
      "ro_health (meshtastic_nodedb_note_route_failure e ro) \<in> {(ro_health ro)[j := r], route_health_drop_locked e ((ro_health ro)[j := r])}"
      by blast
    moreover have "i < length (ro_health ro) \<and> (ro_health ro)[j := r] ! i = ro_health ro ! i"
      if "i < length ((ro_health ro)[j := r])" "rh_dest ((ro_health ro)[j := r] ! i) = d"
      using health_write_frame[OF _ that] assms(3) \<open>rh_dest r = e\<close> by simp
    ultimately show ?thesis using i drop_frame[OF assms(2), of i e "(ro_health ro)[j := r]"] by auto
  qed
qed

lemma wanted_health:
  "ro_health (fst (meshtastic_nodedb_get_next_hop ttl now e ro)) \<in> {ro_health ro, route_health_drop_locked e (ro_health ro)}"
  unfolding meshtastic_nodedb_get_next_hop_def by (simp add: Let_def split: option.split)

lemma set_next_hop_health:
  "ro_health (fst (meshtastic_nodedb_set_next_hop now e b ro))
     \<in> {ro_health ro, route_health_upsert_locked now e (ro_health ro), route_health_drop_locked e (ro_health ro)}"
  unfolding meshtastic_nodedb_set_next_hop_def by (simp split: option.split)

lemma struck_wanted:
  assumes "struck d k ro" "d \<noteq> 0"
  shows "struck d k (fst (meshtastic_nodedb_get_next_hop ttl now e ro))"
proof (rule struck_frame[OF assms(1)])
  show "hop_of d (ro_nodes (fst (meshtastic_nodedb_get_next_hop ttl now e ro))) \<in> {0, hop_of d (ro_nodes ro)}"
    unfolding meshtastic_nodedb_get_next_hop_def by (auto simp: Let_def hop_of_set_hop split: option.split)
  show "i < length (ro_health ro) \<and> ro_health (fst (meshtastic_nodedb_get_next_hop ttl now e ro)) ! i = ro_health ro ! i"
    if "i < length (ro_health (fst (meshtastic_nodedb_get_next_hop ttl now e ro)))"
      "rh_dest (ro_health (fst (meshtastic_nodedb_get_next_hop ttl now e ro)) ! i) = d" for i
    using that drop_frame[OF assms(2), of i e "ro_health ro"] wanted_health[of ttl now e ro] by auto
qed

lemma struck_learn:
  assumes "struck d k ro" "d \<noteq> 0" "fst (learn_source packet mesh) \<noteq> d"
  shows "struck d k (meshtastic_routing_learn_next_hop px now packet mesh ro)"
proof -
  obtain f q b where s: "learn_source packet mesh = (f, q, b)" by (metis prod_cases3)
  have "struck d k (fst (meshtastic_nodedb_set_next_hop now f b ro))"
  proof (rule struck_frame[OF assms(1)])
    show "hop_of d (ro_nodes (fst (meshtastic_nodedb_set_next_hop now f b ro))) \<in> {0, hop_of d (ro_nodes ro)}"
      using assms(3) s unfolding meshtastic_nodedb_set_next_hop_def by (auto simp: hop_of_set_hop split: option.split)
    show "i < length (ro_health ro) \<and> ro_health (fst (meshtastic_nodedb_set_next_hop now f b ro)) ! i = ro_health ro ! i"
      if "i < length (ro_health (fst (meshtastic_nodedb_set_next_hop now f b ro)))"
        "rh_dest (ro_health (fst (meshtastic_nodedb_set_next_hop now f b ro)) ! i) = d" for i
      using that assms(3) s drop_frame[OF assms(2), of i f "ro_health ro"] upsert_frame[of d f i now "ro_health ro"]
        set_next_hop_health[of now f b ro] by auto
  qed
  then show ?thesis using assms(1) unfolding meshtastic_routing_learn_next_hop_def s by simp
qed

lemma struck_success:
  assumes "struck d k ro" "e \<noteq> d"
  shows "struck d k (meshtastic_nodedb_note_route_success now e ro)"
proof (cases "route_health_find_locked e (ro_health ro)")
  case (Some j)
  then have "rh_dest (ro_health ro ! j) = e" using first_slot_Some unfolding route_health_find_locked_def by fastforce
  then have "rh_dest ((ro_health ro ! j)\<lparr>rh_fail_count := 0, rh_learned_at := now\<rparr>) \<noteq> d" using assms(2) by simp
  from health_write_frame[OF this] show ?thesis
    using Some unfolding meshtastic_nodedb_note_route_success_def by (intro struck_frame[OF assms(1)]) auto
qed (simp add: meshtastic_nodedb_note_route_success_def assms(1))

lemma struck_step:
  assumes "struck d k ro" "health_ok (ro_health ro)" "d \<noteq> 0" "quiet d ev"
  shows "struck d (if ev = Gave_Up d then Suc k else k) (routes_step px (ttl, now, ev) ro)"
proof (cases ev)
  case (Overheard pid b)
  then show ?thesis using assms(1) by (simp add: meshtastic_routing_note_own_echo_def relayer_log_put_def struck_def)
qed (use assms struck_failure[OF assms(1-3)] struck_other_failure[OF assms(1,3)] struck_learn[OF assms(1,3)]
    struck_success[OF assms(1)] struck_wanted[OF assms(1,3)] in auto)

lemma struck_run:
  assumes "struck d k ro" "health_ok (ro_health ro)" "d \<noteq> 0" "list_all (\<lambda>(ttl, now, ev). quiet d ev) es"
  shows "struck d (k + length (filter (\<lambda>(ttl, now, ev). ev = Gave_Up d) es)) (routes_run px es ro)"
  using assms
proof (induction es arbitrary: k ro)
  case (Cons e es)
  obtain ttl now ev where e: "e = (ttl, now, ev)" by (metis prod_cases3)
  have q: "quiet d ev" "list_all (\<lambda>(ttl, now, ev). quiet d ev) es" using Cons.prems(4) e by simp_all
  note ih = Cons.IH[OF struck_step[OF Cons.prems(1-3) q(1), of px ttl now] health_ok_step[OF Cons.prems(2)] Cons.prems(3) q(2)]
  show ?case by (cases "ev = Gave_Up d") (use ih e in simp_all)
qed simp


section \<open>Examples\<close>

definition ex_neighbour :: "u32 \<Rightarrow> nodedb_entry" where
  "ex_neighbour num = \<lparr>ne_used = True, ne_num = num, ne_next_hop = 0, ne_favorite = False, ne_ignored = False, ne_has_user = True, ne_role = 0\<rparr>"

text \<open>The answer of node 0x202 to our packet 77, carried by the neighbour with low byte 3.\<close>

definition ex_answer :: meshtastic_packet where
  "ex_answer = zero_packet\<lparr>pkt_from := 0x202, pkt_to := 1, pkt_request_id := 77, pkt_relay_node := 3\<rparr>"

definition ex_learned :: routes where
  "ex_learned = routes_step (ex_node 1 11) (1800, 5, Heard ex_answer None)
     (routes_run (ex_node 1 11) [(1800, 4, Overheard 77 3)] (routes_init [ex_neighbour 0x202, ex_neighbour 0x303]))"

lemma blank_log: "replicate 8 (e::relayer_entry) = e # replicate 7 e"
  by (simp add: numeral_eq_Suc)

lemma ex_learned_hop: "hop_of 0x202 (ro_nodes ex_learned) = 3"
  by (simp add: ex_learned_def ex_answer_def zero_packet_def learn_source_def dual_def ex_node_def self_byte_def routes_init_def
      meshtastic_routing_note_own_echo_def relayer_log_put_def meshtastic_routing_learn_next_hop_def relayer_carried_our_packet_def
      ROUTING_RELAYER_LOG_SIZE_def meshtastic_nodedb_resolve_unique_last_byte_def ex_neighbour_def meshtastic_nodedb_set_next_hop_def
      find_entry_locked_def first_slot_def set_hop_def hop_of_def blank_log)

theorem learned_route_two_way_witness:
  "hop_of 0x202 (ro_nodes ex_learned) = 3 \<and> (77, 3) \<in> set (take ROUTING_RELAYER_LOG_SIZE [(77::u32, 3::u8)])"
proof -
  let ?px = "ex_node 1 11" and ?ro = "routes_run (ex_node 1 11) [(1800, 4, Overheard 77 3)] (routes_init [ex_neighbour 0x202, ex_neighbour 0x303])"
  have "hop_of 0x202 (ro_nodes ?ro) = 0"
    by (simp add: meshtastic_routing_note_own_echo_def relayer_log_put_def routes_init_def hop_of_def find_entry_locked_def first_slot_def
        ex_neighbour_def)
  then have n: "routes_step ?px (1800, 5, Heard ex_answer None) ?ro \<noteq> ?ro" using ex_learned_hop unfolding ex_learned_def by auto
  have l: "learn_source ex_answer None = (0x202, 77, 3)" by (simp add: ex_answer_def zero_packet_def learn_source_def dual_def)
  show ?thesis
    using learned_route_two_way[OF refl refl n l] ex_learned_hop
    by (simp add: ex_node_def self_byte_def del: fold.simps routes_step.simps)
qed


end
