(* ===== verification/Router_Types.thy ===== *)
theory Router_Types
  imports Routes
begin

text \<open>
  The state of the router (\<^verbatim>\<open>meshtastic_router.c\<close>), what it reads of the rest of the node, and what it hands
  on: the duplicate cache, the counters, the routes, and the list of calls into the other modules in the order they
  are made.
\<close>

section \<open>The duplicate cache\<close>

definition DUP_CACHE_SIZE :: nat where "DUP_CACHE_SIZE = 32"

record dup_entry =
  de_src :: u32
  de_id :: u32
  de_ms :: u32
  de_relayed_ms :: u32
  de_hop_limit :: u8
  de_attach :: u8
  de_relay_node :: u8
  de_relay_attach :: u8
  de_attach_rx_ms :: u32
  de_relayed :: bool

definition zero_dup :: dup_entry where
  "zero_dup = \<lparr>de_src = 0, de_id = 0, de_ms = 0, de_relayed_ms = 0, de_hop_limit = 0, de_attach = 0, de_relay_node = 0,
     de_relay_attach = 0, de_attach_rx_ms = 0, de_relayed = False\<rparr>"

datatype dup_verdict = DUP_NEW | DUP_SEEN | DUP_UPGRADE

datatype relay_dupe = RELAY_DUPE_CANCEL | RELAY_DUPE_KEEP | RELAY_DUPE_LATE

section \<open>Frames as they arrive\<close>

datatype bearer = BEARER_LORA | BEARER_BLE_PEER | BEARER_ATTACHMENT

definition meshtastic_bearer_is_rf :: "bearer \<Rightarrow> bool" where
  "meshtastic_bearer_is_rf b \<longleftrightarrow> b = BEARER_LORA \<or> b = BEARER_ATTACHMENT"

record rx_meta =
  rm_bearer :: bearer
  rm_attach :: u8
  rm_preset :: u8
  rm_rssi :: int
  rm_snr :: int
  rm_rx_ms :: u32

section \<open>Calls into other modules\<close>

text \<open>The frames of relays go to this board's radio (with a delay) or to a radio head (with the head's clock of the
  first copy, the delay and what to do about a duplicate).\<close>

datatype rt_action =
    Log_Airtime meshtastic_airtime_type u32
  | Implicit_Ack u32
  | Routing routing_action
  | Cancel_Queued u32 u32
  | Defer_Queued u32 u32 u32
  | Cancel_On_Head u8 u32 u32
  | Note_Latency u8 u32
  | Relay_Radio bytes u32
  | Relay_Head u8 bytes u32 u32 relay_dupe
  | Commit_Key u32 bytes
  | Request_Info u32
  | Deliver meshtastic_packet "meshtastic_MeshPacket option" bool
  | Admin_Request meshtastic_packet "meshtastic_MeshPacket option"
  | Mqtt_Rx meshtastic_packet "bytes option" "meshtastic_MeshPacket option"
  | Dispatch meshtastic_packet "meshtastic_MeshPacket option"
  | Cross_Relay meshtastic_packet "meshtastic_MeshPacket option" bearer
  | Ear_Rx meshtastic_packet bytes
  | Inject_Wire u32 u32 bytes
  | Inject_Mesh meshtastic_MeshPacket

text \<open>What those calls answer: whether the radio queue, a head, the send path took a frame, whether a cancellation or
  a deferral found one, the verdicts of the signature policy (\<open>None\<close> drops, \<open>Some\<close> carries the verified flag) and of
  traffic management, and the answers of the admin module.\<close>

record rt_calls =
  rc_queue :: "bytes \<Rightarrow> u32 \<Rightarrow> unit result"
  rc_head_relay :: "u8 \<Rightarrow> bytes \<Rightarrow> unit result"
  rc_head_cancel :: "u8 \<Rightarrow> u32 \<Rightarrow> u32 \<Rightarrow> bool"
  rc_cancel :: "u32 \<Rightarrow> u32 \<Rightarrow> bool"
  rc_defer :: "u32 \<Rightarrow> u32 \<Rightarrow> u32 \<Rightarrow> bool"
  rc_signature :: "meshtastic_packet \<Rightarrow> meshtastic_MeshPacket option \<Rightarrow> bool option"
  rc_traffic_drop :: "meshtastic_packet \<Rightarrow> bool \<Rightarrow> bool"
  rc_solicited :: "meshtastic_packet \<Rightarrow> bool"
  rc_admin_answered :: "meshtastic_packet \<Rightarrow> bool"
  rc_cluster_internal :: "meshtastic_packet \<Rightarrow> bool"
  rc_send_wire :: "bytes \<Rightarrow> unit result"
  rc_send_mesh :: "meshtastic_MeshPacket \<Rightarrow> unit result"

text \<open>What the router reads: the environment of the codec, the uptime in milliseconds, the policy, a random number,
  whether frames from MQTT are ignored, the time on air of a length, the modem of a head, the codec of ROUTING
  payloads and the next packet id.\<close>

record rt_env =
  rv_px :: pk_env
  rv_lib :: pk_lib
  rv_now :: int
  rv_sched :: meshtastic_sched_config
  rv_random :: u32
  rv_ignore_mqtt :: bool
  rv_airtime :: "nat \<Rightarrow> u32"
  rv_head_modem :: "u8 \<Rightarrow> (u8 \<times> u32) option"
  rv_encode_routing :: "u32 \<Rightarrow> bytes option"
  rv_new_id :: u32
  rv_calls :: rt_calls

section \<open>The state\<close>

record rx_status =
  rs_rx_packets :: u32
  rs_relayed_packets :: u32
  rs_duplicate_packets :: u32
  rs_decode_failures :: u32
  rs_self_heard :: u32
  rs_last_rx_from :: u32
  rs_last_rssi :: int
  rs_last_snr :: int

record router =
  rt_cache :: "dup_entry list"
  rt_head :: nat
  rt_status :: rx_status
  rt_stats :: meshtastic_sched_stats
  rt_routes :: routes
  rt_af :: admin_fallback
  rt_out :: "rt_action list"

end
