(* ===== verification/Spec2Isabelle.thy ===== *)
theory Spec2Isabelle
  imports Hlc Cluster_Sync Cluster_Budget Cluster_Reconcile Config_Radio Outbound_Duty Reliable Router_Types
begin

text \<open>
  A verification library for zephyrtastic, a Meshtastic mesh-radio stack for Zephyr.
\<close>

end
